(* ===== verification/Prelude.thy ===== *)
theory Prelude
  imports Main "HOL-Library.Word" "HOL-Library.Sublist"
begin

text \<open>
  Shared vocabulary of the development.

  \<^item> Rust's \<^verbatim>\<open>Result<T, E>\<close> is the sum type with \<open>Inl\<close> the error; \<open>Ok\<close> and \<open>Err\<close> abbreviate
    its constructors and \<open>res_bind\<close> is the \<^verbatim>\<open>?\<close> operator.
  \<^item> Byte buffers are lists of 8-bit words; a fixed array \<^verbatim>\<open>[u8; 32]\<close> is a 256-bit word, so that
    its length is part of its type, and \<open>be_bytes\<close> / \<open>le_bytes\<close> read its bytes.
  \<^item> A Rust \<^verbatim>\<open>String\<close> is its UTF-8 byte sequence, held as an Isabelle \<open>string\<close>.
  \<^item> The integer primitives of the standard library that the sources use: \<^verbatim>\<open>is_power_of_two\<close>,
    \<^verbatim>\<open>next_power_of_two\<close>, \<^verbatim>\<open>trailing_zeros\<close>, \<^verbatim>\<open>checked_add\<close>, \<^verbatim>\<open>saturating_add\<close>.

  The collections \<open>result_simps\<close> and \<open>pow2_simps\<close> gather the rewrite rules that the component
  theories share.
\<close>

named_theorems result_simps "error propagation"
named_theorems pow2_simps "powers of two and bit lengths"

section \<open>Results\<close>

type_synonym ('e, 'a) result = "'e + 'a"

abbreviation Ok :: "'a \<Rightarrow> ('e, 'a) result" where
  "Ok \<equiv> Inr"

abbreviation Err :: "'e \<Rightarrow> ('e, 'a) result" where
  "Err \<equiv> Inl"

definition res_bind :: "('e, 'a) result \<Rightarrow> ('a \<Rightarrow> ('e, 'b) result) \<Rightarrow> ('e, 'b) result" where
  "res_bind r f = (case r of Inl e \<Rightarrow> Inl e | Inr x \<Rightarrow> f x)"

definition map_err :: "('e \<Rightarrow> 'f) \<Rightarrow> ('e, 'a) result \<Rightarrow> ('f, 'a) result" where
  "map_err f r = (case r of Inl e \<Rightarrow> Inl (f e) | Inr x \<Rightarrow> Inr x)"

definition ok_or :: "'e \<Rightarrow> 'a option \<Rightarrow> ('e, 'a) result" where
  "ok_or e x = (case x of None \<Rightarrow> Inl e | Some y \<Rightarrow> Inr y)"

definition is_ok :: "('e, 'a) result \<Rightarrow> bool" where
  "is_ok r = (case r of Inl _ \<Rightarrow> False | Inr _ \<Rightarrow> True)"

section \<open>Bytes and strings\<close>

type_synonym u8 = "8 word"
type_synonym bytes = "u8 list"
type_synonym hash32 = "256 word"
type_synonym u64 = "64 word"

definition le_bytes :: "'a::len word \<Rightarrow> bytes" where
  "le_bytes w = map (\<lambda>i. ucast (drop_bit (8 * i) w)) [0..<LENGTH('a) div 8]"

definition be_bytes :: "'a::len word \<Rightarrow> bytes" where
  "be_bytes w = rev (le_bytes w)"

definition as_bytes :: "string \<Rightarrow> bytes" where
  "as_bytes s = map of_char s"

section \<open>Integer primitives of the standard library\<close>

fun bit_len :: "nat \<Rightarrow> nat" where
  "bit_len n = (if n = 0 then 0 else Suc (bit_len (n div 2)))"

declare bit_len.simps [simp del]

definition is_power_of_two :: "nat \<Rightarrow> bool" where
  "is_power_of_two n \<longleftrightarrow> 0 < n \<and> n = 2 ^ (bit_len n - 1)"

definition next_power_of_two :: "nat \<Rightarrow> nat" where
  "next_power_of_two n = (if n \<le> 1 then 1 else 2 ^ bit_len (n - 1))"

function trailing_zeros :: "nat \<Rightarrow> nat" where
  "trailing_zeros n =
     (if n = 0 then 64 else if odd n then 0 else Suc (trailing_zeros (n div 2)))"
  by pat_completeness auto
termination by (relation "measure id") auto

declare trailing_zeros.simps [simp del]

definition checked_add :: "nat \<Rightarrow> nat \<Rightarrow> nat option" where
  "checked_add a b = (if a + b < 2 ^ 64 then Some (a + b) else None)"

definition saturating_add :: "u64 \<Rightarrow> u64 \<Rightarrow> u64" where
  "saturating_add a b = (if unat a + unat b < 2 ^ 64 then a + b else - 1)"

section \<open>Lemmas: results\<close>

lemma res_bind_simps [simp, result_simps]:
  "res_bind (Inl e) f = Inl e"
  "res_bind (Inr x) f = f x"
  by (simp_all add: res_bind_def)

lemma map_err_simps [simp, result_simps]:
  "map_err g (Inl e) = Inl (g e)"
  "map_err g (Inr x) = Inr x"
  by (simp_all add: map_err_def)

lemma ok_or_simps [simp, result_simps]:
  "ok_or e None = Inl e"
  "ok_or e (Some x) = Inr x"
  by (simp_all add: ok_or_def)

lemma is_ok_simps [simp, result_simps]:
  "is_ok (Inl e) = False"
  "is_ok (Inr x) = True"
  by (simp_all add: is_ok_def)

lemma res_bind_Ok_iff [result_simps]:
  "res_bind r f = Inr y \<longleftrightarrow> (\<exists>x. r = Inr x \<and> f x = Inr y)"
  by (cases r) simp_all

lemma map_err_Ok_iff [result_simps]:
  "map_err g r = Inr y \<longleftrightarrow> r = Inr y"
  by (cases r) simp_all

lemma ok_or_Ok_iff [result_simps]:
  "ok_or e x = Inr y \<longleftrightarrow> x = Some y"
  by (cases x) simp_all

lemma if_Err_Ok: "(if p then Err x else r) = Ok y \<longleftrightarrow> \<not> p \<and> r = Ok y"
  by simp

lemma is_ok_iff [result_simps]: "is_ok r \<longleftrightarrow> (\<exists>x. r = Inr x)"
  by (cases r) simp_all

section \<open>Lemmas: bytes\<close>

lemma length_le_bytes [simp]: "length (le_bytes (w :: 'a::len word)) = LENGTH('a) div 8"
  by (simp add: le_bytes_def)

lemma length_be_bytes [simp]: "length (be_bytes (w :: 'a::len word)) = LENGTH('a) div 8"
  by (simp add: be_bytes_def)

lemma length_as_bytes [simp]: "length (as_bytes s) = length s"
  by (simp add: as_bytes_def)

lemma le_bytes_inj:
  fixes v w :: "'a::len word"
  assumes "LENGTH('a) mod 8 = 0" and "le_bytes v = le_bytes w"
  shows "v = w"
proof (rule bit_word_eqI)
  fix n assume n: "n < LENGTH('a)"
  then have i: "n div 8 < LENGTH('a) div 8"
    using assms(1) by (metis div_less_iff_less_mult dvd_div_mult_self mod_0_imp_dvd zero_less_numeral)
  have "le_bytes v ! (n div 8) = le_bytes w ! (n div 8)"
    using assms(2) by simp
  then have "(ucast (drop_bit (8 * (n div 8)) v) :: 8 word) = ucast (drop_bit (8 * (n div 8)) w)"
    using i by (simp add: le_bytes_def)
  then have "bit (ucast (drop_bit (8 * (n div 8)) v) :: 8 word) (n mod 8) =
    bit (ucast (drop_bit (8 * (n div 8)) w) :: 8 word) (n mod 8)"
    by simp
  then show "bit v n = bit w n"
    by (simp add: bit_unsigned_iff bit_drop_bit_eq)
qed

lemma be_bytes_inj:
  fixes v w :: "'a::len word"
  assumes "LENGTH('a) mod 8 = 0" and "be_bytes v = be_bytes w"
  shows "v = w"
  using assms by (auto simp: be_bytes_def intro: le_bytes_inj)

lemma of_char_word8_inj: "(of_char c :: 8 word) = of_char d \<longleftrightarrow> c = d"
proof
  assume "(of_char c :: 8 word) = of_char d"
  then have "unat (of_char c :: 8 word) = unat (of_char d :: 8 word)" by simp
  then have "unat (of_nat (of_char c) :: 8 word) = unat (of_nat (of_char d) :: 8 word)"
    by (simp only: of_nat_of_char)
  then have "take_bit 8 (of_char c :: nat) = take_bit 8 (of_char d :: nat)"
    by (simp only: unsigned_of_nat) simp
  then have "(of_char c :: nat) = of_char d"
    by (simp add: take_bit_eq_mod)
  then show "c = d" by simp
qed simp

lemma as_bytes_inj [simp]: "as_bytes s = as_bytes t \<longleftrightarrow> s = t"
  unfolding as_bytes_def using of_char_word8_inj by (auto simp: inj_map_eq_map inj_def)

section \<open>Lemmas: powers of two\<close>

lemma bit_len_0 [simp, pow2_simps]: "bit_len 0 = 0"
  by (simp add: bit_len.simps)

lemma bit_len_pos [pow2_simps]: "0 < n \<Longrightarrow> bit_len n = Suc (bit_len (n div 2))"
  by (simp add: bit_len.simps)

lemma bit_len_bounds: "0 < n \<Longrightarrow> 2 ^ (bit_len n - 1) \<le> n \<and> n < 2 ^ bit_len n"
proof (induction n rule: bit_len.induct)
  case (1 n)
  show ?case
  proof (cases "n = 1")
    case True then show ?thesis by (simp add: bit_len.simps)
  next
    case False
    with 1 have IH: "2 ^ (bit_len (n div 2) - 1) \<le> n div 2" "n div 2 < 2 ^ bit_len (n div 2)"
      by auto
    have pos: "0 < bit_len (n div 2)"
      using False 1(2) by (simp add: bit_len.simps)
    obtain m where m: "bit_len (n div 2) = Suc m"
      using pos by (cases "bit_len (n div 2)") auto
    have len: "bit_len n = Suc (Suc m)"
      using 1(2) m by (subst bit_len.simps) simp
    have "2 ^ m \<le> n div 2" "n div 2 < 2 * 2 ^ m" using IH m by simp_all
    then have "2 * 2 ^ m \<le> n" "n < 4 * 2 ^ m" by linarith+
    then show ?thesis unfolding len by simp
  qed
qed

lemma bit_len_unique: "2 ^ d \<le> n \<Longrightarrow> n < 2 ^ Suc d \<Longrightarrow> bit_len n = Suc d"
proof (induction d arbitrary: n)
  case 0 then have "n = 1" by simp
  then show ?case by (simp add: bit_len.simps)
next
  case (Suc d)
  then have "2 ^ d \<le> n div 2" "n div 2 < 2 ^ Suc d" by auto
  with Suc.IH have "bit_len (n div 2) = Suc d" by blast
  with Suc.prems show ?case by (simp add: bit_len_pos)
qed

lemma bit_len_power [simp, pow2_simps]: "bit_len (2 ^ d) = Suc d"
  by (rule bit_len_unique) simp_all

lemma bit_len_le: "n < 2 ^ d \<Longrightarrow> bit_len n \<le> d"
proof (cases "n = 0")
  case False
  assume "n < 2 ^ d"
  moreover have "2 ^ (bit_len n - 1) \<le> n" using bit_len_bounds False by simp
  ultimately have "(2::nat) ^ (bit_len n - 1) < 2 ^ d" by (rule le_less_trans[rotated])
  then have "bit_len n - 1 < d" by simp
  then show ?thesis by simp
qed simp

lemma le_power_bit_len: "0 < n \<Longrightarrow> n \<le> 2 ^ bit_len (n - 1)"
  using bit_len_bounds[of "n - 1"] by (cases "n = 1") auto

lemma is_power_of_two_power [simp, pow2_simps]: "is_power_of_two (2 ^ d)"
  by (simp add: is_power_of_two_def)

lemma is_power_of_two_iff: "is_power_of_two n \<longleftrightarrow> (\<exists>d. n = 2 ^ d)"
  by (auto simp: is_power_of_two_def)

lemma next_power_of_two_between:
  "2 ^ d < n \<Longrightarrow> n \<le> 2 ^ Suc d \<Longrightarrow> next_power_of_two n = 2 ^ Suc d"
proof -
  assume *: "2 ^ d < n" "n \<le> 2 ^ Suc d"
  then have "bit_len (n - 1) = Suc d"
    by (intro bit_len_unique) auto
  moreover have "\<not> n \<le> 1" using * one_le_power[of "2::nat" d] by linarith
  ultimately show ?thesis by (simp add: next_power_of_two_def)
qed

lemma trailing_zeros_odd [simp]: "odd n \<Longrightarrow> trailing_zeros n = 0"
  by (cases "n = 0") (simp_all add: trailing_zeros.simps)

lemma trailing_zeros_double [simp]: "0 < n \<Longrightarrow> trailing_zeros (2 * n) = Suc (trailing_zeros n)"
  by (subst trailing_zeros.simps) simp

lemma trailing_zeros_power [simp, pow2_simps]: "trailing_zeros (2 ^ d) = d"
  by (induction d) (simp_all del: power_Suc add: power_Suc)

end
