(* ===== verification/Merkle.thy ===== *)
theory Merkle
  imports Prelude
begin

text \<open>
  The RFC-6962 Merkle tree of \<^verbatim>\<open>src/crates/domain/src/transparency/merkle.rs\<close>: roots, inclusion
  proofs and consistency proofs over slices of leaf hashes.

  SHA-256 is a parameter \<open>sha256\<close> of every definition that hashes.  Sizes and indices are natural
  numbers standing for \<^verbatim>\<open>u64\<close> and \<^verbatim>\<open>usize\<close> values; a slice of 32-byte hashes has fewer than
  \<open>2 ^ 59\<close> elements, so the split points below never overflow, and the one sum of two caller
  supplied values is the \<^verbatim>\<open>checked_add\<close> of the code.

  The verification loops are related to the recursive builders through \<open>walk\<close>, which performs a
  fixed number of loop rounds: a round at level \<open>j\<close> only looks at the indices shifted right by
  \<open>j\<close>.  Completeness and soundness are then inductions on the height of the tree.
\<close>

section \<open>Data\<close>

record merkle_leaf =
  ml_hash :: hash32
  ml_leaf_index :: nat
  ml_occurred_at_epoch_seconds :: nat

record inclusion_proof =
  ip_leaf_hash :: hash32
  ip_leaf_index :: nat
  ip_path :: "hash32 list"
  ip_tree_size :: nat

record consistency_proof =
  cp_from_size :: nat
  cp_proof :: "hash32 list"
  cp_to_size :: nat

datatype verification_error =
    LeafIndexOutOfBounds
  | ProofPathLengthMismatch
  | RootMismatch
  | InvalidConsistencyRange
  | EmptyTree
  | SignatureInvalid

section \<open>Hashing\<close>

definition leaf_hash :: "(bytes \<Rightarrow> hash32) \<Rightarrow> bytes \<Rightarrow> hash32" where
  "leaf_hash sha256 payload = sha256 (0x00 # payload)"

definition node_preimage :: "hash32 \<Rightarrow> hash32 \<Rightarrow> bytes" where
  "node_preimage left right = 0x01 # be_bytes left @ be_bytes right"

definition node_hash :: "(bytes \<Rightarrow> hash32) \<Rightarrow> hash32 \<Rightarrow> hash32 \<Rightarrow> hash32" where
  "node_hash sha256 left right = sha256 (node_preimage left right)"

section \<open>Roots\<close>

definition largest_power_of_two_strictly_less_than :: "nat \<Rightarrow> nat" where
  "largest_power_of_two_strictly_less_than n =
     (if is_power_of_two n then n div 2 else next_power_of_two n div 2)"

lemma lp2_between:
  assumes "2 ^ d < n" "n \<le> 2 ^ Suc d"
  shows "largest_power_of_two_strictly_less_than n = 2 ^ d"
proof (cases "is_power_of_two n")
  case True
  then obtain e where "n = 2 ^ e" by (auto simp: is_power_of_two_iff)
  with assms have "d < e" "e \<le> Suc d"
    by (simp_all del: power_Suc)
  then have "e = Suc d" by simp
  with True \<open>n = 2 ^ e\<close> show ?thesis by (simp add: largest_power_of_two_strictly_less_than_def)
next
  case False
  with next_power_of_two_between[OF assms] show ?thesis
    by (simp add: largest_power_of_two_strictly_less_than_def)
qed

lemma lp2_exists:
  assumes "2 \<le> n"
  obtains d where "largest_power_of_two_strictly_less_than n = 2 ^ d" "2 ^ d < n" "n \<le> 2 ^ Suc d"
proof -
  from assms have b: "2 ^ (bit_len (n - 1) - 1) \<le> n - 1" "n - 1 < 2 ^ bit_len (n - 1)"
    using bit_len_bounds[of "n - 1"] by auto
  moreover have "0 < bit_len (n - 1)" using assms by (simp add: bit_len_pos)
  ultimately have "2 ^ (bit_len (n - 1) - 1) < n" "n \<le> 2 ^ Suc (bit_len (n - 1) - 1)"
    using assms by auto
  with lp2_between that show ?thesis by blast
qed

lemma lp2_bounds:
  assumes "2 \<le> n"
  shows "0 < largest_power_of_two_strictly_less_than n"
    and "largest_power_of_two_strictly_less_than n < n"
proof -
  obtain d where "largest_power_of_two_strictly_less_than n = 2 ^ d" "2 ^ d < n"
    using lp2_exists[OF assms] by blast
  then show "0 < largest_power_of_two_strictly_less_than n"
    and "largest_power_of_two_strictly_less_than n < n" by simp_all
qed

text \<open>
  \<open>root_of_hashes\<close> is only called on non-empty slices (its \<^verbatim>\<open>debug_assert\<close>); on the empty list the
  model's value \<open>hashes ! 0\<close> is unspecified.
\<close>

function root_of_hashes :: "(bytes \<Rightarrow> hash32) \<Rightarrow> hash32 list \<Rightarrow> hash32" where
  "root_of_hashes sha256 hashes =
     (if length hashes \<le> 1 then hashes ! 0
      else let k = largest_power_of_two_strictly_less_than (length hashes) in
        node_hash sha256 (root_of_hashes sha256 (take k hashes))
                         (root_of_hashes sha256 (drop k hashes)))"
  by pat_completeness auto
termination
  by (relation "measure (length o snd)") (auto simp: lp2_bounds not_le intro!: diff_less)

declare root_of_hashes.simps [simp del]

definition compute_root :: "(bytes \<Rightarrow> hash32) \<Rightarrow> merkle_leaf list \<Rightarrow>
    (verification_error, hash32) result" where
  "compute_root sha256 leaves =
     (if leaves = [] then Err EmptyTree else Ok (root_of_hashes sha256 (map ml_hash leaves)))"

section \<open>Inclusion proofs\<close>

function inclusion_path :: "(bytes \<Rightarrow> hash32) \<Rightarrow> hash32 list \<Rightarrow> nat \<Rightarrow> hash32 list" where
  "inclusion_path sha256 hashes index =
     (if length hashes \<le> 1 then []
      else let k = largest_power_of_two_strictly_less_than (length hashes) in
        if index < k
        then inclusion_path sha256 (take k hashes) index @ [root_of_hashes sha256 (drop k hashes)]
        else inclusion_path sha256 (drop k hashes) (index - k) @
               [root_of_hashes sha256 (take k hashes)])"
  by pat_completeness auto
termination
  by (relation "measure (\<lambda>(_, hs, _). length hs)") (auto simp: lp2_bounds not_le intro!: diff_less)

declare inclusion_path.simps [simp del]

definition build_inclusion_proof :: "(bytes \<Rightarrow> hash32) \<Rightarrow> merkle_leaf list \<Rightarrow> nat \<Rightarrow>
    (verification_error, inclusion_proof) result" where
  "build_inclusion_proof sha256 leaves leaf_index =
     (if leaves = [] then Err EmptyTree
      else if length leaves \<le> leaf_index then Err LeafIndexOutOfBounds
      else let hashes = map ml_hash leaves in
        Ok \<lparr>ip_leaf_hash = hashes ! leaf_index, ip_leaf_index = leaf_index,
            ip_path = inclusion_path sha256 hashes leaf_index,
            ip_tree_size = length leaves\<rparr>)"

function inclusion_loop :: "(bytes \<Rightarrow> hash32) \<Rightarrow> nat \<Rightarrow> nat \<Rightarrow> hash32 \<Rightarrow> hash32 list \<Rightarrow>
    (verification_error, hash32 \<times> hash32 list) result" where
  "inclusion_loop sha256 index last_node hash path =
     (if last_node = 0 then Ok (hash, path)
      else if index mod 2 = 1 then
        (case path of [] \<Rightarrow> Err ProofPathLengthMismatch
         | sibling # path' \<Rightarrow>
             inclusion_loop sha256 (index div 2) (last_node div 2) (node_hash sha256 sibling hash) path')
      else if index < last_node then
        (case path of [] \<Rightarrow> Err ProofPathLengthMismatch
         | sibling # path' \<Rightarrow>
             inclusion_loop sha256 (index div 2) (last_node div 2) (node_hash sha256 hash sibling) path')
      else inclusion_loop sha256 (index div 2) (last_node div 2) hash path)"
  by pat_completeness auto
termination
  by (relation "measure (\<lambda>(_, _, last_node, _). last_node)") auto

declare inclusion_loop.simps [simp del]

definition verify_inclusion_proof :: "(bytes \<Rightarrow> hash32) \<Rightarrow> inclusion_proof \<Rightarrow> hash32 \<Rightarrow>
    (verification_error, unit) result" where
  "verify_inclusion_proof sha256 proof expected_root =
     (if ip_tree_size proof = 0 then Err EmptyTree
      else if ip_tree_size proof \<le> ip_leaf_index proof then Err LeafIndexOutOfBounds
      else res_bind
        (inclusion_loop sha256 (ip_leaf_index proof) (ip_tree_size proof - 1)
           (ip_leaf_hash proof) (ip_path proof))
        (\<lambda>(hash, rest). if rest \<noteq> [] then Err ProofPathLengthMismatch
           else if hash \<noteq> expected_root then Err RootMismatch else Ok ()))"

section \<open>Consistency proofs\<close>

type_synonym subtree_fn = "nat \<Rightarrow> nat \<Rightarrow> (verification_error, hash32) result"

definition largest_power_of_two_strictly_less_than_u64 :: "nat \<Rightarrow> nat" where
  "largest_power_of_two_strictly_less_than_u64 n =
     (if is_power_of_two n then n div 2 else next_power_of_two n div 2)"

text \<open>
  \<open>subproof_with\<close> returns the hashes that the code pushes on \<^verbatim>\<open>out\<close>.  Its precondition \<open>m \<le> n\<close> is the
  code's \<^verbatim>\<open>debug_assert\<close>; the guard \<open>n \<le> 1\<close> only concerns calls outside it.
\<close>

function subproof_with :: "nat \<Rightarrow> nat \<Rightarrow> nat \<Rightarrow> bool \<Rightarrow> subtree_fn \<Rightarrow>
    (verification_error, hash32 list) result" where
  "subproof_with m start n start_on_path subtree_root =
     (if m = n \<or> n \<le> 1 then
        (if \<not> start_on_path then res_bind (subtree_root start n) (\<lambda>h. Ok [h]) else Ok [])
      else let k = largest_power_of_two_strictly_less_than_u64 n in
        if m \<le> k then
          res_bind (subproof_with m start k start_on_path subtree_root) (\<lambda>out.
          res_bind (subtree_root (start + k) (n - k)) (\<lambda>h. Ok (out @ [h])))
        else
          res_bind (subproof_with (m - k) (start + k) (n - k) False subtree_root) (\<lambda>out.
          res_bind (subtree_root start k) (\<lambda>h. Ok (out @ [h]))))"
  by pat_completeness auto
termination
  by (relation "measure (\<lambda>(_, _, n, _). n)")
    (auto simp: lp2_bounds not_le intro!: diff_less simp: largest_power_of_two_strictly_less_than_u64_def
      largest_power_of_two_strictly_less_than_def[symmetric])

declare subproof_with.simps [simp del]

definition build_consistency_proof_with :: "nat \<Rightarrow> nat \<Rightarrow> subtree_fn \<Rightarrow>
    (verification_error, consistency_proof) result" where
  "build_consistency_proof_with from_size to_size subtree_root =
     (if from_size = 0 \<or> to_size < from_size then Err InvalidConsistencyRange
      else res_bind (subproof_with from_size 0 to_size True subtree_root)
        (\<lambda>proof. Ok \<lparr>cp_from_size = from_size, cp_proof = proof, cp_to_size = to_size\<rparr>))"

definition slice_subtree_root :: "(bytes \<Rightarrow> hash32) \<Rightarrow> hash32 list \<Rightarrow> subtree_fn" where
  "slice_subtree_root sha256 hashes start len =
     (case checked_add start len of None \<Rightarrow> Err LeafIndexOutOfBounds
      | Some e \<Rightarrow> if e \<le> length hashes then Ok (root_of_hashes sha256 (take len (drop start hashes)))
                 else Err LeafIndexOutOfBounds)"

definition build_consistency_proof :: "(bytes \<Rightarrow> hash32) \<Rightarrow> merkle_leaf list \<Rightarrow> nat \<Rightarrow> nat \<Rightarrow>
    (verification_error, consistency_proof) result" where
  "build_consistency_proof sha256 leaves from_size to_size =
     (if from_size = 0 \<or> to_size < from_size then Err InvalidConsistencyRange
      else if length leaves < to_size then Err LeafIndexOutOfBounds
      else build_consistency_proof_with from_size to_size
             (slice_subtree_root sha256 (map ml_hash (take to_size leaves))))"

function skip_loop :: "nat \<Rightarrow> nat \<Rightarrow> nat \<times> nat" where
  "skip_loop node lastn = (if node mod 2 = 1 then skip_loop (node div 2) (lastn div 2) else (node, lastn))"
  by pat_completeness auto
termination
  by (relation "measure fst") (auto elim: oddE simp: odd_iff_mod_2_eq_one[symmetric])

declare skip_loop.simps [simp del]

function node_loop :: "(bytes \<Rightarrow> hash32) \<Rightarrow> nat \<Rightarrow> nat \<Rightarrow> hash32 \<Rightarrow> hash32 \<Rightarrow> hash32 list \<Rightarrow>
    (verification_error, nat \<times> hash32 \<times> hash32 \<times> hash32 list) result" where
  "node_loop sha256 node lastn fr tr path =
     (if node = 0 then Ok (lastn, fr, tr, path)
      else if node mod 2 = 1 then
        (case path of [] \<Rightarrow> Err ProofPathLengthMismatch
         | sibling # path' \<Rightarrow> node_loop sha256 (node div 2) (lastn div 2)
             (node_hash sha256 sibling fr) (node_hash sha256 sibling tr) path')
      else if node < lastn then
        (case path of [] \<Rightarrow> Err ProofPathLengthMismatch
         | sibling # path' \<Rightarrow> node_loop sha256 (node div 2) (lastn div 2)
             fr (node_hash sha256 tr sibling) path')
      else node_loop sha256 (node div 2) (lastn div 2) fr tr path)"
  by pat_completeness auto
termination
  by (relation "measure (\<lambda>(_, node, _). node)") auto

declare node_loop.simps [simp del]

function drain_loop :: "(bytes \<Rightarrow> hash32) \<Rightarrow> nat \<Rightarrow> hash32 \<Rightarrow> hash32 list \<Rightarrow>
    (verification_error, hash32 \<times> hash32 list) result" where
  "drain_loop sha256 lastn tr path =
     (if lastn = 0 then Ok (tr, path)
      else case path of [] \<Rightarrow> Err ProofPathLengthMismatch
         | sibling # path' \<Rightarrow> drain_loop sha256 (lastn div 2) (node_hash sha256 tr sibling) path')"
  by pat_completeness auto
termination
  by (relation "measure (\<lambda>(_, lastn, _). lastn)") auto

declare drain_loop.simps [simp del]

definition verify_consistency_proof :: "(bytes \<Rightarrow> hash32) \<Rightarrow> consistency_proof \<Rightarrow> hash32 \<Rightarrow> hash32 \<Rightarrow>
    (verification_error, unit) result" where
  "verify_consistency_proof sha256 proof from_root to_root =
     (if cp_from_size proof = 0 \<or> cp_to_size proof < cp_from_size proof
      then Err InvalidConsistencyRange
      else if cp_from_size proof = cp_to_size proof then
        (if cp_proof proof \<noteq> [] then Err ProofPathLengthMismatch
         else if from_root \<noteq> to_root then Err RootMismatch else Ok ())
      else let (node, lastn) = skip_loop (cp_from_size proof - 1) (cp_to_size proof - 1) in
        res_bind
          (if 0 < node then
             (case cp_proof proof of [] \<Rightarrow> Err ProofPathLengthMismatch
              | seed # rest \<Rightarrow> Ok (seed, seed, rest))
           else Ok (from_root, from_root, cp_proof proof)) (\<lambda>(fr, tr, path).
        res_bind (node_loop sha256 node lastn fr tr path) (\<lambda>(lastn, fr, tr, path).
        res_bind (drain_loop sha256 lastn tr path) (\<lambda>(tr, path).
          if path \<noteq> [] then Err ProofPathLengthMismatch
          else if fr \<noteq> from_root \<or> tr \<noteq> to_root then Err RootMismatch
          else Ok ()))))"

section \<open>Verification rounds\<close>

type_synonym walk_state = "hash32 \<times> hash32 \<times> hash32 list \<times> bytes list"

definition walk_step :: "(bytes \<Rightarrow> hash32) \<Rightarrow> nat \<Rightarrow> nat \<Rightarrow> walk_state \<Rightarrow> walk_state option" where
  "walk_step sha256 node lastn = (\<lambda>(fr, tr, path, log).
     if odd node then
       (case path of [] \<Rightarrow> None
        | s # path' \<Rightarrow> Some (node_hash sha256 s fr, node_hash sha256 s tr, path', log @ [node_preimage s tr]))
     else if node < lastn then
       (case path of [] \<Rightarrow> None
        | s # path' \<Rightarrow> Some (fr, node_hash sha256 tr s, path', log @ [node_preimage tr s]))
     else Some (fr, tr, path, log))"

primrec walk :: "(bytes \<Rightarrow> hash32) \<Rightarrow> nat \<Rightarrow> nat \<Rightarrow> nat \<Rightarrow> walk_state \<Rightarrow> walk_state option" where
  "walk sha256 0 node lastn st = Some st"
| "walk sha256 (Suc j) node lastn st =
     Option.bind (walk sha256 j node lastn st) (walk_step sha256 (node div 2 ^ j) (lastn div 2 ^ j))"

lemma walk_head:
  "walk sha256 (Suc j) node lastn st =
     Option.bind (walk_step sha256 node lastn st) (walk sha256 j (node div 2) (lastn div 2))"
proof (induction j)
  case 0 then show ?case by (cases "walk_step sha256 node lastn st") simp_all
next
  case (Suc j)
  have "walk sha256 (Suc (Suc j)) node lastn st =
    Option.bind (walk sha256 (Suc j) node lastn st)
      (walk_step sha256 (node div 2 ^ Suc j) (lastn div 2 ^ Suc j))"
    by simp
  also have "\<dots> = Option.bind (walk_step sha256 node lastn st) (walk sha256 (Suc j) (node div 2) (lastn div 2))"
    unfolding Suc.IH by (cases "walk_step sha256 node lastn st") (simp_all add: div_mult2_eq)
  finally show ?case .
qed

lemma walk_step_idle: "walk_step sha256 0 0 st = Some st"
  by (cases st) (simp add: walk_step_def)

lemma walk_idle: "walk sha256 j 0 0 st = Some st"
  by (induction j) (simp_all add: walk_step_idle)

lemma walk_more:
  assumes "lastn < 2 ^ d" "node \<le> lastn"
  shows "walk sha256 (d + j) node lastn st = walk sha256 d node lastn st"
proof (induction j)
  case (Suc j)
  have "2 ^ d \<le> (2::nat) ^ (d + j)" by simp
  with assms have "lastn < 2 ^ (d + j)" "node < 2 ^ (d + j)" by linarith+
  then have "node div 2 ^ (d + j) = 0" "lastn div 2 ^ (d + j) = 0" by simp_all
  with Suc show ?case by (cases "walk sha256 d node lastn st") (simp_all add: walk_step_idle)
qed simp

lemma div_shift:
  assumes "j < e"
  shows "(2 ^ e + i) div 2 ^ j = 2 ^ (e - j) + i div (2::nat) ^ j"
proof -
  have "(2::nat) ^ e = 2 ^ (e - j) * 2 ^ j"
    using assms by (simp flip: power_add)
  then show ?thesis by (simp add: div_mult_self3)
qed

lemma walk_step_shift:
  assumes "even a" shows "walk_step sha256 (a + i) (a + l) st = walk_step sha256 i l st"
  using assms by (cases st) (simp add: walk_step_def)

lemma walk_right:
  "d \<le> e \<Longrightarrow> walk sha256 d (2 ^ e + i) (2 ^ e + l) st = walk sha256 d i l st"
proof (induction d)
  case (Suc d)
  then have "even ((2::nat) ^ (e - d))" by simp
  then have "walk_step sha256 ((2 ^ e + i) div 2 ^ d) ((2 ^ e + l) div 2 ^ d) =
      walk_step sha256 (i div 2 ^ d) (l div 2 ^ d)"
    using Suc.prems by (intro ext) (simp add: div_shift walk_step_shift)
  with Suc show ?case by simp
qed simp

lemma walk_step_full:
  assumes "0 < e" "i < 2 ^ e" "2 ^ e \<le> l"
  shows "walk_step sha256 i l st = walk_step sha256 i (2 ^ e - 1) st"
proof -
  have "odd (2 ^ e - 1 :: nat)" using assms(1) by simp
  then have "even i \<Longrightarrow> i \<noteq> 2 ^ e - 1" by metis
  then have "even i \<Longrightarrow> i < 2 ^ e - 1" using assms(2) by linarith
  then show ?thesis using assms by (cases st) (auto simp: walk_step_def split: list.split)
qed

lemma pred_power_div: "j \<le> d \<Longrightarrow> (2 ^ d - 1) div (2::nat) ^ j = 2 ^ (d - j) - 1"
proof -
  assume j: "j \<le> d"
  have eq: "(2::nat) ^ d = 2 ^ (d - j) * 2 ^ j" using j by (simp flip: power_add)
  have "2 ^ d - 1 = (2 ^ (d - j) - 1) * 2 ^ j + (2 ^ j - (1::nat))"
    unfolding eq by (simp add: algebra_simps)
  moreover have "((2 ^ (d - j) - 1) * 2 ^ j + (2 ^ j - (1::nat))) div 2 ^ j = 2 ^ (d - j) - 1"
    by (subst div_mult_self3) simp_all
  ultimately show ?thesis by metis
qed

lemma walk_left:
  assumes "i < 2 ^ d" "2 ^ d \<le> l"
  shows "j \<le> d \<Longrightarrow> walk sha256 j i l st = walk sha256 j i (2 ^ d - 1) st"
proof (induction j)
  case (Suc j)
  then have j: "j < d" by simp
  have pw: "(2::nat) ^ d = 2 ^ (d - j) * 2 ^ j" using j by (simp flip: power_add)
  have "walk_step sha256 (i div 2 ^ j) (l div 2 ^ j) s =
      walk_step sha256 (i div 2 ^ j) ((2 ^ d - 1) div 2 ^ j) s" for s
  proof -
    have "i div 2 ^ j < 2 ^ (d - j)" using assms(1) pw by (simp add: less_mult_imp_div_less)
    moreover have "2 ^ (d - j) \<le> l div 2 ^ j"
      using assms(2) pw by (simp add: less_eq_div_iff_mult_less_eq)
    ultimately show ?thesis
      using j walk_step_full[of "d - j" "i div 2 ^ j" "l div 2 ^ j"] pred_power_div[of j d] by simp
  qed
  with Suc show ?case by (cases "walk sha256 j i (2 ^ d - 1) st") (simp_all)
qed simp

lemma inclusion_loop_walk:
  "lastn < 2 ^ d \<Longrightarrow> node \<le> lastn \<Longrightarrow>
   inclusion_loop sha256 node lastn h path =
     (case walk sha256 d node lastn (f, h, path, log) of
        None \<Rightarrow> Err ProofPathLengthMismatch | Some (_, h', path', _) \<Rightarrow> Ok (h', path'))"
proof (induction d arbitrary: node lastn f h path log)
  case 0 then show ?case by (simp add: inclusion_loop.simps)
next
  case (Suc d)
  show ?case
  proof (cases "lastn = 0")
    case True
    with Suc.prems have z: "node = 0" "lastn = 0" by auto
    show ?thesis unfolding z by (simp add: inclusion_loop.simps walk_idle del: walk.simps)
  next
    case False
    have b: "lastn div 2 < 2 ^ d" "node div 2 \<le> lastn div 2" using Suc.prems by auto
    note IH = Suc.IH[OF b]
    show ?thesis
      unfolding walk_head using False
      by (subst inclusion_loop.simps)
        (auto simp: walk_step_def odd_iff_mod_2_eq_one IH split: list.split)
  qed
qed

text \<open>Roots of lists whose length lies between two powers of two.\<close>

lemma root_single [simp]: "length hs = 1 \<Longrightarrow> root_of_hashes sha256 hs = hs ! 0"
  by (simp add: root_of_hashes.simps)

lemma root_split:
  "2 ^ d < length hs \<Longrightarrow> length hs \<le> 2 ^ Suc d \<Longrightarrow>
   root_of_hashes sha256 hs =
     node_hash sha256 (root_of_hashes sha256 (take (2 ^ d) hs)) (root_of_hashes sha256 (drop (2 ^ d) hs))"
  using lp2_between[of d "length hs"] one_le_power[of "2::nat" d]
  by (subst root_of_hashes.simps) (auto simp: Let_def not_le intro: le_less_trans)

lemma inclusion_path_split:
  "2 ^ d < length hs \<Longrightarrow> length hs \<le> 2 ^ Suc d \<Longrightarrow>
   inclusion_path sha256 hs i =
     (if i < 2 ^ d
      then inclusion_path sha256 (take (2 ^ d) hs) i @ [root_of_hashes sha256 (drop (2 ^ d) hs)]
      else inclusion_path sha256 (drop (2 ^ d) hs) (i - 2 ^ d) @ [root_of_hashes sha256 (take (2 ^ d) hs)])"
  using lp2_between[of d "length hs"] one_le_power[of "2::nat" d]
  by (subst inclusion_path.simps) (auto simp: Let_def not_le dest: le_less_trans)

lemma walk_inclusion:
  "i < length hs \<Longrightarrow> length hs \<le> 2 ^ d \<Longrightarrow>
   \<exists>f' log'. walk sha256 d i (length hs - 1) (f, hs ! i, inclusion_path sha256 hs i @ rest, log) =
     Some (f', root_of_hashes sha256 hs, rest, log')"
proof (induction d arbitrary: hs i rest)
  case 0
  then have "length hs = 1" by simp
  with 0 show ?case by (simp add: inclusion_path.simps)
next
  case (Suc d)
  let ?n = "length hs" and ?root = "root_of_hashes sha256"
  consider (small) "?n \<le> 2 ^ d" | (left) "2 ^ d < ?n" "i < 2 ^ d" | (right) "2 ^ d < ?n" "2 ^ d \<le> i"
    by linarith
  then show ?case
  proof cases
    case small
    with Suc.prems(1) walk_more[of "?n - 1" d i sha256 1] Suc.IH[OF Suc.prems(1) small]
    show ?thesis by (simp del: walk.simps)
  next
    case left
    let ?L = "take (2 ^ d) hs" and ?R = "drop (2 ^ d) hs"
    have len: "length ?L = 2 ^ d" using left by simp
    obtain f' log' where "walk sha256 d i (2 ^ d - 1)
        (f, ?L ! i, inclusion_path sha256 ?L i @ ?root ?R # rest, log) = Some (f', ?root ?L, ?root ?R # rest, log')"
      using Suc.IH[of i ?L "?root ?R # rest"] len left by auto
    moreover have "walk sha256 d i (?n - 1) st = walk sha256 d i (2 ^ d - 1) st" for st
      using left by (intro walk_left) auto
    moreover have "i div 2 ^ d = 0" "(?n - 1) div 2 ^ d = 1"
      using left Suc.prems(2) by (auto intro: div_nat_eqI)
    ultimately show ?thesis
      using left Suc.prems inclusion_path_split[of d hs] root_split[of d hs]
      by (simp add: walk_step_def)
  next
    case right
    let ?L = "take (2 ^ d) hs" and ?R = "drop (2 ^ d) hs"
    have len: "length ?R = ?n - 2 ^ d" by simp
    obtain f' log' where f': "walk sha256 d (i - 2 ^ d) (?n - 2 ^ d - 1)
        (f, ?R ! (i - 2 ^ d), inclusion_path sha256 ?R (i - 2 ^ d) @ ?root ?L # rest, log) =
        Some (f', ?root ?R, ?root ?L # rest, log')"
    proof -
      have "i - 2 ^ d < length ?R" "length ?R \<le> 2 ^ d" using right Suc.prems by simp_all
      from Suc.IH[OF this, of "?root ?L # rest"] that show ?thesis by auto
    qed
    have "i = 2 ^ d + (i - 2 ^ d)" "?n - 1 = 2 ^ d + (?n - 2 ^ d - 1)" using right by auto
    then have "walk sha256 d i (?n - 1) st = walk sha256 d (i - 2 ^ d) (?n - 2 ^ d - 1) st" for st
      using walk_right[of d d sha256 "i - 2 ^ d" "?n - 2 ^ d - 1" st] by simp
    moreover have "i div 2 ^ d = 1" "(?n - 1) div 2 ^ d = 1"
      using right Suc.prems by (auto intro!: div_nat_eqI)
    ultimately show ?thesis
      using f' right Suc.prems inclusion_path_split[of d hs] root_split[of d hs]
      by (simp add: walk_step_def)
  qed
qed

function tree_preimages :: "(bytes \<Rightarrow> hash32) \<Rightarrow> hash32 list \<Rightarrow> bytes list" where
  "tree_preimages sha256 hashes =
     (if length hashes \<le> 1 then []
      else let k = largest_power_of_two_strictly_less_than (length hashes) in
        node_preimage (root_of_hashes sha256 (take k hashes)) (root_of_hashes sha256 (drop k hashes)) #
        tree_preimages sha256 (take k hashes) @ tree_preimages sha256 (drop k hashes))"
  by pat_completeness auto
termination
  by (relation "measure (length o snd)") (auto simp: lp2_bounds not_le intro!: diff_less)

declare tree_preimages.simps [simp del]

lemma tree_preimages_split:
  "2 ^ d < length hs \<Longrightarrow> length hs \<le> 2 ^ Suc d \<Longrightarrow>
   tree_preimages sha256 hs =
     node_preimage (root_of_hashes sha256 (take (2 ^ d) hs)) (root_of_hashes sha256 (drop (2 ^ d) hs)) #
     tree_preimages sha256 (take (2 ^ d) hs) @ tree_preimages sha256 (drop (2 ^ d) hs)"
  using lp2_between[of d "length hs"] one_le_power[of "2::nat" d]
  by (subst tree_preimages.simps) (auto simp: Let_def not_le dest: le_less_trans)

lemma node_preimage_inj [simp]:
  "node_preimage a b = node_preimage c d \<longleftrightarrow> a = c \<and> b = d"
  by (auto simp: node_preimage_def append_eq_append_conv intro: be_bytes_inj)

lemma leaf_node_separated: "0x00 # payload \<noteq> node_preimage a b"
  by (simp add: node_preimage_def)

lemma node_hash_inj_on:
  assumes "inj_on sha256 S" "node_preimage a b \<in> S" "node_preimage c d \<in> S"
    and "node_hash sha256 a b = node_hash sha256 c d"
  shows "a = c \<and> b = d"
  using assms unfolding node_hash_def by (metis inj_onD node_preimage_inj)

lemma walk_step_log:
  "walk_step sha256 node lastn (fr, tr, path, log) = Some (fr', tr', path', log') \<Longrightarrow> set log \<subseteq> set log'"
  by (auto simp: walk_step_def split: if_splits list.splits)

lemma walk_SucE:
  assumes "walk sha256 (Suc d) node lastn st = Some (fr', tr', path', log')"
  obtains fr tr path log where "walk sha256 d node lastn st = Some (fr, tr, path, log)"
    "walk_step sha256 (node div 2 ^ d) (lastn div 2 ^ d) (fr, tr, path, log) = Some (fr', tr', path', log')"
    "set log \<subseteq> set log'"
proof -
  from assms obtain st' where st: "walk sha256 d node lastn st = Some st'"
    "walk_step sha256 (node div 2 ^ d) (lastn div 2 ^ d) st' = Some (fr', tr', path', log')"
    by (auto simp: Option.bind_eq_Some_conv)
  obtain fr tr path log where "st' = (fr, tr, path, log)" by (cases st')
  with st that walk_step_log show ?thesis by blast
qed

lemma inclusion_path_single [simp]: "length hs = 1 \<Longrightarrow> inclusion_path sha256 hs i = []"
  by (simp add: inclusion_path.simps)

lemma walk_inclusion_unique:
  "i < length hs \<Longrightarrow> length hs \<le> 2 ^ d \<Longrightarrow>
   walk sha256 d i (length hs - 1) (f, h, path, log) = Some (f', root_of_hashes sha256 hs, rest, log') \<Longrightarrow>
   inj_on sha256 (set log' \<union> set (tree_preimages sha256 hs)) \<Longrightarrow>
   h = hs ! i \<and> path = inclusion_path sha256 hs i @ rest"
proof (induction d arbitrary: hs i f' rest log')
  case 0
  then have "length hs = 1" by simp
  with 0 show ?case by simp
next
  case (Suc d)
  let ?n = "length hs" and ?root = "root_of_hashes sha256"
  let ?L = "take (2 ^ d) hs" and ?R = "drop (2 ^ d) hs"
  consider (small) "?n \<le> 2 ^ d" | (left) "2 ^ d < ?n" "i < 2 ^ d" | (right) "2 ^ d < ?n" "2 ^ d \<le> i"
    by linarith
  then show ?case
  proof cases
    case small
    with Suc.prems walk_more[of "?n - 1" d i sha256 1] Suc.IH[OF Suc.prems(1) small]
    show ?thesis by (simp del: walk.simps)
  next
    case left
    have lv: "i div 2 ^ d = 0" "(?n - 1) div 2 ^ d = 1"
      using left Suc.prems(2) by (auto intro: div_nat_eqI)
    from walk_SucE[OF Suc.prems(3)] obtain f1 t1 p1 l1 where
      w: "walk sha256 d i (?n - 1) (f, h, path, log) = Some (f1, t1, p1, l1)" and
      s: "walk_step sha256 (i div 2 ^ d) ((?n - 1) div 2 ^ d) (f1, t1, p1, l1) = Some (f', ?root hs, rest, log')"
      and l: "set l1 \<subseteq> set log'" by metis
    from s lv obtain sib where s': "p1 = sib # rest" "?root hs = node_hash sha256 t1 sib"
      "log' = l1 @ [node_preimage t1 sib]"
      by (auto simp: walk_step_def split: list.splits)
    note sp = root_split[OF left(1) Suc.prems(2)] tree_preimages_split[OF left(1) Suc.prems(2)]
    have eq: "t1 = ?root ?L \<and> sib = ?root ?R"
      using s' by (intro node_hash_inj_on[OF Suc.prems(4)]) (simp_all add: sp)
    have "walk sha256 d i (?n - 1) (f, h, path, log) = walk sha256 d i (2 ^ d - 1) (f, h, path, log)"
      using left by (intro walk_left) auto
    then have "walk sha256 d i (length ?L - 1) (f, h, path, log) = Some (f1, ?root ?L, p1, l1)"
      using w eq left by simp
    moreover have "inj_on sha256 (set l1 \<union> set (tree_preimages sha256 ?L))"
      using l by (intro inj_on_subset[OF Suc.prems(4)]) (auto simp: sp)
    ultimately have "h = ?L ! i \<and> path = inclusion_path sha256 ?L i @ p1"
      using Suc.IH[of i ?L] left by auto
    then show ?thesis using s' eq left inclusion_path_split[OF left(1) Suc.prems(2)] by simp
  next
    case right
    have lv: "i div 2 ^ d = 1" "(?n - 1) div 2 ^ d = 1"
      using right Suc.prems by (auto intro!: div_nat_eqI)
    from walk_SucE[OF Suc.prems(3)] obtain f1 t1 p1 l1 where
      w: "walk sha256 d i (?n - 1) (f, h, path, log) = Some (f1, t1, p1, l1)" and
      s: "walk_step sha256 (i div 2 ^ d) ((?n - 1) div 2 ^ d) (f1, t1, p1, l1) = Some (f', ?root hs, rest, log')"
      and l: "set l1 \<subseteq> set log'" by metis
    from s lv obtain sib where s': "p1 = sib # rest" "?root hs = node_hash sha256 sib t1"
      "log' = l1 @ [node_preimage sib t1]"
      by (auto simp: walk_step_def split: list.splits)
    note sp = root_split[OF right(1) Suc.prems(2)] tree_preimages_split[OF right(1) Suc.prems(2)]
    have eq: "sib = ?root ?L \<and> t1 = ?root ?R"
      using s' by (intro node_hash_inj_on[OF Suc.prems(4)]) (simp_all add: sp)
    have "i = 2 ^ d + (i - 2 ^ d)" "?n - 1 = 2 ^ d + (?n - 2 ^ d - 1)" using right by auto
    then have "walk sha256 d i (?n - 1) st = walk sha256 d (i - 2 ^ d) (?n - 2 ^ d - 1) st" for st
      using walk_right[of d d sha256 "i - 2 ^ d" "?n - 2 ^ d - 1" st] by simp
    then have "walk sha256 d (i - 2 ^ d) (length ?R - 1) (f, h, path, log) = Some (f1, ?root ?R, p1, l1)"
      using w eq by simp
    moreover have "inj_on sha256 (set l1 \<union> set (tree_preimages sha256 ?R))"
      using l by (intro inj_on_subset[OF Suc.prems(4)]) (auto simp: sp)
    moreover have "i - 2 ^ d < length ?R" "length ?R \<le> 2 ^ d" using right Suc.prems by simp_all
    ultimately have "h = ?R ! (i - 2 ^ d) \<and> path = inclusion_path sha256 ?R (i - 2 ^ d) @ p1"
      using Suc.IH[of "i - 2 ^ d" ?R] by auto
    then show ?thesis
      using s' eq right Suc.prems(1) inclusion_path_split[OF right(1) Suc.prems(2)] by simp
  qed
qed

section \<open>Inclusion proofs: completeness and soundness\<close>

definition inclusion_inputs :: "(bytes \<Rightarrow> hash32) \<Rightarrow> inclusion_proof \<Rightarrow> bytes list" where
  "inclusion_inputs sha256 p =
     (case walk sha256 (bit_len (ip_tree_size p - 1)) (ip_leaf_index p) (ip_tree_size p - 1)
         (ip_leaf_hash p, ip_leaf_hash p, ip_path p, []) of
        None \<Rightarrow> [] | Some (_, _, _, log) \<Rightarrow> log)"

lemma verify_inclusion_walk:
  assumes "ip_leaf_index p < ip_tree_size p" "ip_tree_size p \<le> 2 ^ d"
  shows "verify_inclusion_proof sha256 p root =
    (case walk sha256 d (ip_leaf_index p) (ip_tree_size p - 1) (f, ip_leaf_hash p, ip_path p, []) of
       None \<Rightarrow> Err ProofPathLengthMismatch
     | Some (_, h, path, _) \<Rightarrow> if path \<noteq> [] then Err ProofPathLengthMismatch
         else if h \<noteq> root then Err RootMismatch else Ok ())"
proof -
  have "inclusion_loop sha256 (ip_leaf_index p) (ip_tree_size p - 1) (ip_leaf_hash p) (ip_path p) =
    (case walk sha256 d (ip_leaf_index p) (ip_tree_size p - 1) (f, ip_leaf_hash p, ip_path p, []) of
       None \<Rightarrow> Err ProofPathLengthMismatch | Some (_, h', path', _) \<Rightarrow> Ok (h', path'))"
    using assms by (intro inclusion_loop_walk) linarith+
  then show ?thesis
    using assms by (simp add: verify_inclusion_proof_def split: option.split)
qed

text \<open>Concrete values for the examples of this and the following theories.\<close>

definition length_hash :: "bytes \<Rightarrow> hash32" where "length_hash bs = of_nat (length bs)"
definition sample_leaves :: "merkle_leaf list" where
  "sample_leaves = map (\<lambda>i. \<lparr>ml_hash = of_nat (i + 1), ml_leaf_index = i, ml_occurred_at_epoch_seconds = 0\<rparr>) [0, 1, 2]"

lemma build_verify_inclusion:
  assumes "i < length leaves"
  shows "\<exists>p root. build_inclusion_proof sha256 leaves i = Ok p \<and> compute_root sha256 leaves = Ok root \<and>
    verify_inclusion_proof sha256 p root = Ok ()"
proof -
  let ?hs = "map ml_hash leaves"
  let ?p = "\<lparr>ip_leaf_hash = ?hs ! i, ip_leaf_index = i, ip_path = inclusion_path sha256 ?hs i,
    ip_tree_size = length leaves\<rparr>"
  let ?d = "bit_len (length leaves - 1)"
  have d: "length leaves \<le> 2 ^ ?d" using le_power_bit_len[of "length leaves"] assms by linarith
  obtain f' log' where "walk sha256 ?d i (length leaves - 1) (0, ?hs ! i, inclusion_path sha256 ?hs i, []) =
      Some (f', root_of_hashes sha256 ?hs, [], log')"
    using walk_inclusion[of i ?hs ?d sha256 0 "[]" "[]"] assms d by auto
  then have "verify_inclusion_proof sha256 ?p (root_of_hashes sha256 ?hs) = Ok ()"
    using assms d by (subst verify_inclusion_walk[where d = ?d and f = 0]) auto
  moreover have "build_inclusion_proof sha256 leaves i = Ok ?p"
    using assms by (auto simp: build_inclusion_proof_def Let_def)
  ultimately show ?thesis using assms by (auto simp: compute_root_def)
qed

text \<open>C10: the inclusion proof that \<open>build_inclusion_proof\<close> returns for any leaf of a non-empty ledger is
  accepted by \<open>verify_inclusion_proof\<close> against the root that \<open>compute_root\<close> returns, for every tree
  size and every hash function.\<close>

theorem inclusion_proof_verifies:
  assumes "i < length leaves"
  shows "\<exists>p root. build_inclusion_proof sha256 leaves i = Ok p \<and> compute_root sha256 leaves = Ok root \<and>
    verify_inclusion_proof sha256 p root = Ok ()"
  using assms by (rule build_verify_inclusion)

theorem inclusion_proof_verifies_witness:
  "2 < length sample_leaves \<and>
   (\<exists>p root. build_inclusion_proof length_hash sample_leaves 2 = Ok p \<and>
     compute_root length_hash sample_leaves = Ok root \<and> verify_inclusion_proof length_hash p root = Ok ())"
  using inclusion_proof_verifies[of 2 sample_leaves length_hash] by (simp add: sample_leaves_def)

text \<open>C11: when SHA-256 has no collision among the strings hashed by the tree and by the verifier, the
  only inclusion proof that verifies against the root of a ledger is the one \<open>build_inclusion_proof\<close>
  returns for that index: in particular the proved leaf hash is the leaf of the ledger.\<close>

theorem inclusion_proof_sound:
  assumes "compute_root sha256 leaves = Ok root" "ip_tree_size p = length leaves"
    and "verify_inclusion_proof sha256 p root = Ok ()"
    and "inj_on sha256 (set (inclusion_inputs sha256 p) \<union> set (tree_preimages sha256 (map ml_hash leaves)))"
  shows "build_inclusion_proof sha256 leaves (ip_leaf_index p) = Ok p"
proof -
  let ?hs = "map ml_hash leaves" and ?i = "ip_leaf_index p" and ?d = "bit_len (length leaves - 1)"
  have i: "?i < length leaves" and ne: "leaves \<noteq> []"
    using assms(2,3) by (auto simp: verify_inclusion_proof_def split: if_splits)
  have root: "root = root_of_hashes sha256 ?hs"
    using assms(1) ne by (simp add: compute_root_def)
  have d: "length leaves \<le> 2 ^ ?d" using le_power_bit_len[of "length leaves"] i by linarith
  obtain f' log where w: "walk sha256 ?d ?i (length leaves - 1) (ip_leaf_hash p, ip_leaf_hash p, ip_path p, []) =
      Some (f', root, [], log)"
    using assms(3) verify_inclusion_walk[of p ?d sha256 root "ip_leaf_hash p"] i d assms(2)
    by (auto split: option.splits if_splits)
  then have "inclusion_inputs sha256 p = log" by (simp add: inclusion_inputs_def assms(2))
  with walk_inclusion_unique[of ?i ?hs ?d sha256 "ip_leaf_hash p" "ip_leaf_hash p" "ip_path p" "[]" f' "[]" log]
    w i d assms(4) root
  have "ip_leaf_hash p = ?hs ! ?i \<and> ip_path p = inclusion_path sha256 ?hs ?i" by simp
  with i ne assms(2) show ?thesis by (cases p) (simp add: build_inclusion_proof_def Let_def)
qed

theorem inclusion_proof_sound_witness:
  "build_inclusion_proof length_hash (take 2 sample_leaves) 1 =
     Ok \<lparr>ip_leaf_hash = 2, ip_leaf_index = 1, ip_path = [1], ip_tree_size = 2\<rparr>"
proof -
  let ?p = "\<lparr>ip_leaf_hash = 2, ip_leaf_index = 1, ip_path = [1], ip_tree_size = 2\<rparr>"
  have "inclusion_inputs length_hash ?p = [node_preimage 1 2]" 
    "tree_preimages length_hash (map ml_hash (take 2 sample_leaves)) = [node_preimage 1 2]"
    by code_simp+
  moreover have "compute_root length_hash (take 2 sample_leaves) = Ok 65"
    "verify_inclusion_proof length_hash ?p 65 = Ok ()"
    by code_simp+
  moreover have "length (take 2 sample_leaves) = 2" by code_simp
  ultimately show ?thesis
    using inclusion_proof_sound[of length_hash "take 2 sample_leaves" 65 ?p] by simp
qed

end
