(* ===== verification/Consistency.thy ===== *)
theory Consistency
  imports Merkle
begin

text \<open>
  RFC-6962 consistency proofs: the range recursion \<open>subproof_with\<close> of
  \<^verbatim>\<open>src/crates/domain/src/transparency/merkle.rs\<close> against the slice recursion of the RFC, and the
  verification loops of \<open>verify_consistency_proof\<close> against both.  The locale \<open>subtree_source\<close> is the
  contract of the callback that serves subtree roots; it is interpreted here on slices and, in the
  theory of the hash tree, on cached levels.
\<close>

section \<open>Consistency proofs: the reference recursion\<close>

function rfc_subproof :: "(bytes \<Rightarrow> hash32) \<Rightarrow> nat \<Rightarrow> hash32 list \<Rightarrow> bool \<Rightarrow> hash32 list" where
  "rfc_subproof sha256 m hs b =
     (if m = length hs \<or> length hs \<le> 1 then (if b then [] else [root_of_hashes sha256 hs])
      else let k = largest_power_of_two_strictly_less_than (length hs) in
        if m \<le> k then rfc_subproof sha256 m (take k hs) b @ [root_of_hashes sha256 (drop k hs)]
        else rfc_subproof sha256 (m - k) (drop k hs) False @ [root_of_hashes sha256 (take k hs)])"
  by pat_completeness auto
termination
  by (relation "measure (\<lambda>(_, _, hs, _). length hs)") (auto simp: lp2_bounds not_le intro!: diff_less)

declare rfc_subproof.simps [simp del]

lemma rfc_subproof_split:
  "2 ^ d < length hs \<Longrightarrow> length hs \<le> 2 ^ Suc d \<Longrightarrow> m < length hs \<Longrightarrow>
   rfc_subproof sha256 m hs b =
     (if m \<le> 2 ^ d
      then rfc_subproof sha256 m (take (2 ^ d) hs) b @ [root_of_hashes sha256 (drop (2 ^ d) hs)]
      else rfc_subproof sha256 (m - 2 ^ d) (drop (2 ^ d) hs) False @ [root_of_hashes sha256 (take (2 ^ d) hs)])"
  using lp2_between[of d "length hs"] one_le_power[of "2::nat" d]
  by (subst rfc_subproof.simps) (auto simp: Let_def not_le dest: le_less_trans)

lemma rfc_subproof_all [simp]:
  "rfc_subproof sha256 (length hs) hs b = (if b then [] else [root_of_hashes sha256 hs])"
  by (simp add: rfc_subproof.simps)

text \<open>Trailing zeros of the earlier size.\<close>

lemma trailing_zeros_le: "0 < m \<Longrightarrow> m \<le> 2 ^ d \<Longrightarrow> trailing_zeros m \<le> d"
proof (induction d arbitrary: m)
  case 0 then have "m = 1" by simp
  then show ?case by simp
next
  case (Suc d)
  show ?case
  proof (cases "odd m")
    case False
    then obtain q where "m = 2 * q" by (auto elim: evenE)
    with Suc show ?thesis by auto
  qed simp
qed

lemma trailing_zeros_less: "0 < m \<Longrightarrow> m < 2 ^ d \<Longrightarrow> trailing_zeros m < d"
proof (induction d arbitrary: m)
  case (Suc d)
  show ?case
  proof (cases "odd m")
    case False
    then obtain q where "m = 2 * q" by (auto elim: evenE)
    with Suc show ?thesis by auto
  qed simp
qed simp

lemma trailing_zeros_shift:
  "0 < m \<Longrightarrow> m < 2 ^ d \<Longrightarrow> trailing_zeros (2 ^ d + m) = trailing_zeros m"
proof (induction d arbitrary: m)
  case (Suc d)
  show ?case
  proof (cases "odd m")
    case False
    then obtain q where q: "m = 2 * q" by (auto elim: evenE)
    then have "2 ^ Suc d + m = 2 * (2 ^ d + q)" by simp
    then have "trailing_zeros (2 ^ Suc d + m) = Suc (trailing_zeros (2 ^ d + q))"
      using trailing_zeros_double[of "2 ^ d + q"] by simp
    moreover have "trailing_zeros (2 ^ d + q) = trailing_zeros q" using Suc q by simp
    ultimately show ?thesis using q Suc.prems by simp
  qed simp
qed simp

lemma skip_loop_eq:
  "0 < m \<Longrightarrow> skip_loop (m - 1) lastn = ((m - 1) div 2 ^ trailing_zeros m, lastn div 2 ^ trailing_zeros m)"
proof (induction m arbitrary: lastn rule: trailing_zeros.induct)
  case (1 m)
  show ?case
  proof (cases "odd m")
    case True
    then show ?thesis by (subst skip_loop.simps) (auto elim: oddE)
  next
    case False
    then obtain q where q: "m = 2 * q" by (auto elim: evenE)
    have "skip_loop (m - 1) lastn = skip_loop (q - 1) (lastn div 2)"
    proof -
      have "(m - 1) mod 2 = 1" "(m - 1) div 2 = q - 1" using q 1(2) by presburger+
      then show ?thesis by (subst skip_loop.simps) simp
    qed
    also have "\<dots> = ((q - 1) div 2 ^ trailing_zeros q, lastn div 2 div 2 ^ trailing_zeros q)"
      using 1 False q by simp
    moreover have "(m - 1) div 2 = q - 1" using q 1(2) by presburger
    ultimately show ?thesis using q 1(2) by (simp add: div_mult2_eq)
  qed
qed

lemma node_index_zero_iff:
  "0 < m \<Longrightarrow> (m - 1) div 2 ^ trailing_zeros m = 0 \<longleftrightarrow> is_power_of_two m"
proof (induction m rule: trailing_zeros.induct)
  case (1 m)
  show ?case
  proof (cases "odd m")
    case True
    then have "is_power_of_two m \<longleftrightarrow> m = 1"
      by (auto simp: is_power_of_two_iff intro: exI[of _ 0])
    with True 1(2) show ?thesis by auto
  next
    case False
    then obtain q where q: "m = 2 * q" by (auto elim: evenE)
    have "(m - 1) div 2 = q - 1" using q 1(2) by presburger
    moreover have "is_power_of_two m \<longleftrightarrow> is_power_of_two q"
    proof
      assume "is_power_of_two m"
      then obtain d where d: "m = 2 ^ d" by (auto simp: is_power_of_two_iff)
      with False have "d \<noteq> 0" by (cases d) auto
      with d q show "is_power_of_two q" by (cases d) (auto simp: is_power_of_two_iff)
    next
      assume "is_power_of_two q"
      then obtain d where "q = 2 ^ d" by (auto simp: is_power_of_two_iff)
      then have "m = 2 ^ Suc d" using q by simp
      then show "is_power_of_two m" by (simp only: is_power_of_two_power)
    qed
    ultimately show ?thesis using 1 False q by (simp add: div_mult2_eq)
  qed
qed

text \<open>The two remaining loops of the verifier are one walk.\<close>

lemma drain_loop_walk:
  "lastn < 2 ^ d \<Longrightarrow>
   drain_loop sha256 lastn tr path =
     (case walk sha256 d 0 lastn (fr, tr, path, log) of
        None \<Rightarrow> Err ProofPathLengthMismatch | Some (_, tr', path', _) \<Rightarrow> Ok (tr', path'))"
  and walk_drain_fr:
  "lastn < 2 ^ d \<Longrightarrow> walk sha256 d 0 lastn (fr, tr, path, log) = Some (fr', tr', path', log') \<Longrightarrow> fr' = fr"
proof (induction d arbitrary: lastn tr path log)
  case 0
  { case 1 then show ?case by (simp add: drain_loop.simps) }
  { case 2 then show ?case by simp }
next
  case (Suc d)
  { case 1
    then show ?case
    proof (cases "lastn = 0")
      case False
      with 1 show ?thesis unfolding walk_head
        by (subst drain_loop.simps) (auto simp: walk_step_def Suc.IH(1) split: list.split)
    qed (simp add: drain_loop.simps walk_idle del: walk.simps) }
  { case 2
    then show ?case
    proof (cases "lastn = 0")
      case False
      have "lastn div 2 < 2 ^ d" using 2(1) by simp
      with 2 False Suc.IH(2)[OF this] show ?thesis unfolding walk_head
        by (auto simp: walk_step_def split: list.splits)
    qed (simp add: walk_idle del: walk.simps) }
qed

lemma loops_walk:
  "lastn < 2 ^ d \<Longrightarrow> node \<le> lastn \<Longrightarrow>
   res_bind (node_loop sha256 node lastn fr tr path) (\<lambda>(lastn, fr, tr, path).
     res_bind (drain_loop sha256 lastn tr path) (\<lambda>(tr, path). f fr tr path)) =
   (case walk sha256 d node lastn (fr, tr, path, log) of
      None \<Rightarrow> Err ProofPathLengthMismatch | Some (fr', tr', path', _) \<Rightarrow> f fr' tr' path')"
proof (induction d arbitrary: node lastn fr tr path log)
  case 0 then show ?case by (simp add: node_loop.simps drain_loop.simps)
next
  case (Suc d)
  show ?case
  proof (cases "node = 0")
    case True
    show ?thesis
    proof (cases "walk sha256 (Suc d) 0 lastn (fr, tr, path, log)")
      case None
      with True drain_loop_walk[OF Suc.prems(1), of sha256 tr path fr log] show ?thesis
        by (simp add: node_loop.simps del: walk.simps)
    next
      case (Some st)
      moreover obtain fr' tr' path' log' where "st = (fr', tr', path', log')" by (cases st)
      ultimately show ?thesis
        using True drain_loop_walk[OF Suc.prems(1), of sha256 tr path fr log]
          walk_drain_fr[OF Suc.prems(1), of sha256 fr tr path log fr' tr' path' log']
        by (simp add: node_loop.simps del: walk.simps)
    qed
  next
    case False
    have b: "lastn div 2 < 2 ^ d" "node div 2 \<le> lastn div 2" using Suc.prems by auto
    note IH = Suc.IH[OF b]
    show ?thesis
      unfolding walk_head using False
      by (subst node_loop.simps)
        (auto simp: walk_step_def odd_iff_mod_2_eq_one IH split: list.split)
  qed
qed

text \<open>
  The walk of a consistency check starts at level \<open>trailing_zeros m\<close>.  A range \<open>(m, n)\<close> is regular
  when \<open>m < n\<close>, or when \<open>m = n\<close> is a complete subtree; every range the recursion reaches from a
  proper extension is regular.
\<close>

definition regular_range :: "nat \<Rightarrow> nat \<Rightarrow> bool" where
  "regular_range m n \<longleftrightarrow> 0 < m \<and> m \<le> n \<and> (m = n \<longrightarrow> is_power_of_two n)"

abbreviation (input) cwalk where
  "cwalk sha256 d m n st \<equiv> walk sha256 (d - trailing_zeros m)
     ((m - 1) div 2 ^ trailing_zeros m) ((n - 1) div 2 ^ trailing_zeros m) st"

lemma cwalk_complete:
  assumes "m = 2 ^ e"
  shows "cwalk sha256 d m m st = Some st"
  using assms pred_power_div[of e e] by (simp add: walk_idle)

lemma cwalk_small:
  assumes "0 < m" "m \<le> n" "n \<le> 2 ^ d"
  shows "cwalk sha256 (Suc d) m n st = cwalk sha256 d m n st"
proof -
  let ?s = "trailing_zeros m"
  have s: "?s \<le> d" using trailing_zeros_le[of m d] assms by simp
  have "(n - 1) div 2 ^ ?s < 2 ^ (d - ?s)"
  proof (rule less_mult_imp_div_less)
    have "n - 1 < 2 ^ d" using assms by linarith
    also have "(2::nat) ^ d = 2 ^ (d - ?s) * 2 ^ ?s" using s by (simp flip: power_add)
    finally show "n - 1 < 2 ^ (d - ?s) * 2 ^ ?s" .
  qed
  moreover have "(m - 1) div 2 ^ ?s \<le> (n - 1) div 2 ^ ?s" using assms by (intro div_le_mono) simp
  ultimately show ?thesis
    using walk_more[of "(n - 1) div 2 ^ ?s" "d - ?s" "(m - 1) div 2 ^ ?s" sha256 1 st] s
    by (simp add: Suc_diff_le del: walk.simps)
qed

lemma cwalk_left:
  assumes "0 < m" "m \<le> 2 ^ d" "2 ^ d < n" "n \<le> 2 ^ Suc d"
  shows "cwalk sha256 (Suc d) m n st =
    Option.bind (cwalk sha256 d m (2 ^ d) st) (walk_step sha256 0 1)"
proof -
  let ?s = "trailing_zeros m"
  have s: "?s \<le> d" using trailing_zeros_le assms by simp
  have pw: "(2::nat) ^ d = 2 ^ (d - ?s) * 2 ^ ?s" using s by (simp flip: power_add)
  have a: "(m - 1) div 2 ^ ?s < 2 ^ (d - ?s)"
    using assms pw by (intro less_mult_imp_div_less) simp
  have b: "2 ^ (d - ?s) \<le> (n - 1) div 2 ^ ?s"
    using assms pw by (simp add: less_eq_div_iff_mult_less_eq)
  have "walk sha256 (d - ?s) ((m - 1) div 2 ^ ?s) ((n - 1) div 2 ^ ?s) st =
    walk sha256 (d - ?s) ((m - 1) div 2 ^ ?s) ((2 ^ d - 1) div 2 ^ ?s) st"
    using walk_left[OF a b] pred_power_div[OF s] by simp
  moreover have "(m - 1) div 2 ^ ?s div 2 ^ (d - ?s) = 0" using a by simp
  moreover have "(n - 1) div 2 ^ ?s div 2 ^ (d - ?s) = 1"
  proof -
    have "(n - 1) div 2 ^ ?s div 2 ^ (d - ?s) = (n - 1) div 2 ^ d"
      using pw by (simp add: div_mult2_eq mult.commute)
    also have "\<dots> = 1" using assms by (auto intro: div_nat_eqI)
    finally show ?thesis .
  qed
  ultimately show ?thesis using s by (simp add: Suc_diff_le)
qed

lemma cwalk_right:
  assumes "2 ^ d < m" "m < n" "n \<le> 2 ^ Suc d"
  shows "cwalk sha256 (Suc d) m n st =
    Option.bind (cwalk sha256 d (m - 2 ^ d) (n - 2 ^ d) st) (walk_step sha256 1 1)"
proof -
  let ?m = "m - 2 ^ d" and ?n = "n - 2 ^ d"
  have m: "0 < ?m" "?m < 2 ^ d" using assms by auto
  have eq: "trailing_zeros m = trailing_zeros ?m"
    using trailing_zeros_shift[OF m] assms by simp
  let ?s = "trailing_zeros ?m"
  have s: "?s < d" using trailing_zeros_less[OF m] .
  have "m - 1 = 2 ^ d + (?m - 1)" "n - 1 = 2 ^ d + (?n - 1)" using assms by auto
  then have dv: "(m - 1) div 2 ^ ?s = 2 ^ (d - ?s) + (?m - 1) div 2 ^ ?s"
    "(n - 1) div 2 ^ ?s = 2 ^ (d - ?s) + (?n - 1) div 2 ^ ?s"
    using div_shift[OF s] by metis+
  have "walk sha256 (d - ?s) ((m - 1) div 2 ^ ?s) ((n - 1) div 2 ^ ?s) st =
    walk sha256 (d - ?s) ((?m - 1) div 2 ^ ?s) ((?n - 1) div 2 ^ ?s) st"
    unfolding dv by (rule walk_right) simp
  moreover have "(x - 1) div 2 ^ ?s div 2 ^ (d - ?s) = 1" if "2 ^ d < x" "x \<le> 2 ^ Suc d" for x :: nat
  proof -
    have "(2::nat) ^ d = 2 ^ ?s * 2 ^ (d - ?s)" using s by (simp flip: power_add)
    then have "(x - 1) div 2 ^ ?s div 2 ^ (d - ?s) = (x - 1) div 2 ^ d"
      by (metis div_mult2_eq)
    also have "\<dots> = 1" using that by (auto intro: div_nat_eqI)
    finally show ?thesis .
  qed
  ultimately show ?thesis using s assms unfolding eq by (simp add: Suc_diff_le)
qed

lemma regular_range_left: "0 < m \<Longrightarrow> m \<le> 2 ^ d \<Longrightarrow> regular_range m (2 ^ d)"
  by (simp add: regular_range_def)

lemma regular_range_right: "2 ^ d < m \<Longrightarrow> m < n \<Longrightarrow> regular_range (m - 2 ^ d) (n - 2 ^ d)"
  by (auto simp: regular_range_def)

lemma walk_consistency:
  "regular_range m (length hs) \<Longrightarrow> length hs \<le> 2 ^ d \<Longrightarrow>
   \<exists>seed P log'. rfc_subproof sha256 m hs False = seed # P \<and>
     cwalk sha256 d m (length hs) (seed, seed, P @ rest, log) =
       Some (root_of_hashes sha256 (take m hs), root_of_hashes sha256 hs, rest, log')"
proof (induction d arbitrary: hs m rest)
  case 0
  then have "length hs = 1" "m = 1" by (auto simp: regular_range_def)
  then show ?case using rfc_subproof_all[of sha256 hs False] by simp
next
  case (Suc d)
  let ?n = "length hs" and ?root = "root_of_hashes sha256"
  let ?L = "take (2 ^ d) hs" and ?R = "drop (2 ^ d) hs"
  have m: "0 < m" "m \<le> ?n" using Suc.prems by (auto simp: regular_range_def)
  consider (all) "m = ?n" | (small) "?n \<le> 2 ^ d" | (left) "2 ^ d < ?n" "m \<le> 2 ^ d"
    | (right) "2 ^ d < m" "m < ?n"
    using m by linarith
  then show ?case
  proof cases
    case all
    then obtain e where e: "m = 2 ^ e" using Suc.prems by (auto simp: regular_range_def is_power_of_two_iff)
    then show ?thesis using cwalk_complete[OF e, of sha256 "Suc d"] all
        rfc_subproof_all[of sha256 hs False] by auto
  next
    case small
    then show ?thesis using Suc.IH[OF Suc.prems(1) small] cwalk_small[OF m small] by auto
  next
    case left
    have len: "length ?L = 2 ^ d" using left by simp
    obtain seed P log' where IH: "rfc_subproof sha256 m ?L False = seed # P"
      "cwalk sha256 d m (2 ^ d) (seed, seed, P @ ?root ?R # rest, log) =
        Some (?root (take m ?L), ?root ?L, ?root ?R # rest, log')"
      using Suc.IH[of m ?L "?root ?R # rest"] regular_range_left[OF m(1) left(2)] len by auto
    show ?thesis
      using IH cwalk_left[OF m(1) left(2,1) Suc.prems(2), of sha256] left
        rfc_subproof_split[OF left(1) Suc.prems(2), of m] root_split[OF left(1) Suc.prems(2), of sha256]
      by (auto simp: walk_step_def min_def)
  next
    case right
    have n: "2 ^ d < ?n" using right by linarith
    obtain seed P log' where IH: "rfc_subproof sha256 (m - 2 ^ d) ?R False = seed # P"
      "cwalk sha256 d (m - 2 ^ d) (?n - 2 ^ d) (seed, seed, P @ ?root ?L # rest, log) =
        Some (?root (take (m - 2 ^ d) ?R), ?root ?R, ?root ?L # rest, log')"
    proof -
      have "length ?R \<le> 2 ^ d" using Suc.prems(2) by simp
      with Suc.IH[of "m - 2 ^ d" ?R "?root ?L # rest"] regular_range_right[OF right] that
      show ?thesis by auto
    qed
    have "?root (take m hs) = node_hash sha256 (?root ?L) (?root (take (m - 2 ^ d) ?R))"
      using root_split[of d "take m hs" sha256] right Suc.prems(2) by (simp add: drop_take min_def)
    then show ?thesis
      using IH cwalk_right[OF right Suc.prems(2), of sha256] right
        rfc_subproof_split[OF n Suc.prems(2), of m] root_split[OF n Suc.prems(2), of sha256]
      by (auto simp: walk_step_def)
  qed
qed

lemma walk_consistency_unique:
  "regular_range m (length hs) \<Longrightarrow> length hs \<le> 2 ^ d \<Longrightarrow>
   cwalk sha256 d m (length hs) (seed, seed, path, log) = Some (fr, root_of_hashes sha256 hs, rest, log') \<Longrightarrow>
   inj_on sha256 (set log' \<union> set (tree_preimages sha256 hs)) \<Longrightarrow>
   fr = root_of_hashes sha256 (take m hs) \<and> rfc_subproof sha256 m hs False @ rest = seed # path"
proof (induction d arbitrary: hs m fr rest log')
  case 0
  then have "length hs = 1" "m = 1" by (auto simp: regular_range_def)
  with 0 show ?case using rfc_subproof_all[of sha256 hs False] by auto
next
  case (Suc d)
  let ?n = "length hs" and ?root = "root_of_hashes sha256"
  let ?L = "take (2 ^ d) hs" and ?R = "drop (2 ^ d) hs"
  have m: "0 < m" "m \<le> ?n" using Suc.prems by (auto simp: regular_range_def)
  consider (all) "m = ?n" | (small) "?n \<le> 2 ^ d" | (left) "2 ^ d < ?n" "m \<le> 2 ^ d"
    | (right) "2 ^ d < m" "m < ?n"
    using m by linarith
  then show ?case
  proof cases
    case all
    then obtain e where e: "m = 2 ^ e" using Suc.prems by (auto simp: regular_range_def is_power_of_two_iff)
    then show ?thesis using cwalk_complete[OF e, of sha256 "Suc d"] all Suc.prems(3)
        rfc_subproof_all[of sha256 hs False] by auto
  next
    case small
    then show ?thesis
      using Suc.IH[OF Suc.prems(1) small] cwalk_small[OF m small] Suc.prems(3,4) by auto
  next
    case left
    note sp = root_split[OF left(1) Suc.prems(2)] tree_preimages_split[OF left(1) Suc.prems(2)]
    from Suc.prems(3) obtain fr1 tr1 p1 l1 where
      w: "cwalk sha256 d m (2 ^ d) (seed, seed, path, log) = Some (fr1, tr1, p1, l1)" and
      s: "walk_step sha256 0 1 (fr1, tr1, p1, l1) = Some (fr, ?root hs, rest, log')"
      unfolding cwalk_left[OF m(1) left(2,1) Suc.prems(2)] by (auto simp: Option.bind_eq_Some_conv)
    from s obtain sib where s': "p1 = sib # rest" "?root hs = node_hash sha256 tr1 sib" "fr = fr1"
      "log' = l1 @ [node_preimage tr1 sib]"
      by (auto simp: walk_step_def split: list.splits)
    have eq: "tr1 = ?root ?L \<and> sib = ?root ?R"
      using s' by (intro node_hash_inj_on[OF Suc.prems(4)]) (simp_all add: sp)
    have "inj_on sha256 (set l1 \<union> set (tree_preimages sha256 ?L))"
      using s' by (intro inj_on_subset[OF Suc.prems(4)]) (auto simp: sp)
    with w eq left regular_range_left[OF m(1) left(2)]
    have "fr1 = ?root (take m ?L) \<and> rfc_subproof sha256 m ?L False @ p1 = seed # path"
      by (intro Suc.IH) (auto simp: min_def)
    then show ?thesis
      using s' eq left rfc_subproof_split[OF left(1) Suc.prems(2), of m] by (simp add: min_def)
  next
    case right
    have n: "2 ^ d < ?n" using right by linarith
    note sp = root_split[OF n Suc.prems(2)] tree_preimages_split[OF n Suc.prems(2)]
    from Suc.prems(3) obtain fr1 tr1 p1 l1 where
      w: "cwalk sha256 d (m - 2 ^ d) (?n - 2 ^ d) (seed, seed, path, log) = Some (fr1, tr1, p1, l1)" and
      s: "walk_step sha256 1 1 (fr1, tr1, p1, l1) = Some (fr, ?root hs, rest, log')"
      unfolding cwalk_right[OF right Suc.prems(2)] by (auto simp: Option.bind_eq_Some_conv)
    from s obtain sib where s': "p1 = sib # rest" "?root hs = node_hash sha256 sib tr1"
      "fr = node_hash sha256 sib fr1" "log' = l1 @ [node_preimage sib tr1]"
      by (auto simp: walk_step_def split: list.splits)
    have eq: "sib = ?root ?L \<and> tr1 = ?root ?R"
      using s' by (intro node_hash_inj_on[OF Suc.prems(4)]) (simp_all add: sp)
    have "inj_on sha256 (set l1 \<union> set (tree_preimages sha256 ?R))"
      using s' by (intro inj_on_subset[OF Suc.prems(4)]) (auto simp: sp)
    with w eq Suc.prems(2) regular_range_right[OF right]
    have IH: "fr1 = ?root (take (m - 2 ^ d) ?R) \<and> rfc_subproof sha256 (m - 2 ^ d) ?R False @ p1 = seed # path"
      by (intro Suc.IH) auto
    have "?root (take m hs) = node_hash sha256 (?root ?L) (?root (take (m - 2 ^ d) ?R))"
      using root_split[of d "take m hs" sha256] right Suc.prems(2) by (simp add: drop_take min_def)
    with IH show ?thesis
      using s' eq right rfc_subproof_split[OF n Suc.prems(2), of m] by simp
  qed
qed

lemma rfc_subproof_True:
  "regular_range m (length hs) \<Longrightarrow> length hs \<le> 2 ^ d \<Longrightarrow>
   rfc_subproof sha256 m hs True =
     (if is_power_of_two m then tl (rfc_subproof sha256 m hs False) else rfc_subproof sha256 m hs False)"
proof (induction d arbitrary: hs)
  case 0
  then have "length hs = 1" "m = 1" by (auto simp: regular_range_def)
  then show ?case using rfc_subproof_all[of sha256 hs] is_power_of_two_power[of 0] by simp
next
  case (Suc d)
  let ?n = "length hs"
  have m: "0 < m" "m \<le> ?n" using Suc.prems by (auto simp: regular_range_def)
  consider (all) "m = ?n" | (small) "?n \<le> 2 ^ d" | (left) "2 ^ d < ?n" "m \<le> 2 ^ d" "m < ?n"
    | (right) "2 ^ d < m" "m < ?n" "2 ^ d < ?n"
    using m by linarith
  then show ?case
  proof cases
    case all
    with Suc.prems show ?thesis by (simp add: regular_range_def)
  next
    case small with Suc show ?thesis by blast
  next
    case left
    have "length (take (2 ^ d) hs) = 2 ^ d" using left by simp
    then have "rfc_subproof sha256 m (take (2 ^ d) hs) True =
       (if is_power_of_two m then tl (rfc_subproof sha256 m (take (2 ^ d) hs) False)
        else rfc_subproof sha256 m (take (2 ^ d) hs) False)"
      and "rfc_subproof sha256 m (take (2 ^ d) hs) False \<noteq> []"
      using Suc.IH[of "take (2 ^ d) hs"] regular_range_left[OF m(1) left(2)]
        walk_consistency[of m "take (2 ^ d) hs" d sha256 "[]" "[]"] by auto
    then show ?thesis
      using rfc_subproof_split[OF left(1) Suc.prems(2) left(3)] left by simp
  next
    case right
    have "\<not> is_power_of_two m"
    proof
      assume "is_power_of_two m"
      then obtain e where "m = 2 ^ e" by (auto simp: is_power_of_two_iff)
      with right Suc.prems(2) have "d < e" "e < Suc d"
        by (simp, metis le_less_trans less_le_trans nat_power_less_imp_less zero_less_numeral)
      then show False by simp
    qed
    then show ?thesis using rfc_subproof_split[OF right(3) Suc.prems(2) right(2)] right by simp
  qed
qed

section \<open>The verifier as a walk\<close>

definition consistency_seed :: "consistency_proof \<Rightarrow> hash32 \<Rightarrow> (hash32 \<times> hash32 list) option" where
  "consistency_seed p from_root =
     (if is_power_of_two (cp_from_size p) then Some (from_root, cp_proof p)
      else case cp_proof p of [] \<Rightarrow> None | s # rest \<Rightarrow> Some (s, rest))"

lemma verify_consistency_walk:
  assumes "0 < cp_from_size p" "cp_from_size p < cp_to_size p" "cp_to_size p \<le> 2 ^ d"
  shows "verify_consistency_proof sha256 p from_root to_root =
    (case consistency_seed p from_root of None \<Rightarrow> Err ProofPathLengthMismatch
     | Some (seed, rest) \<Rightarrow>
        (case cwalk sha256 d (cp_from_size p) (cp_to_size p) (seed, seed, rest, []) of
           None \<Rightarrow> Err ProofPathLengthMismatch
         | Some (fr, tr, path, _) \<Rightarrow>
             if path \<noteq> [] then Err ProofPathLengthMismatch
             else if fr \<noteq> from_root \<or> tr \<noteq> to_root then Err RootMismatch else Ok ()))"
proof -
  let ?m = "cp_from_size p" and ?n = "cp_to_size p" and ?s = "trailing_zeros (cp_from_size p)"
  have s: "?s \<le> d" using trailing_zeros_le[of ?m d] assms by simp
  have "(?n - 1) div 2 ^ ?s < 2 ^ (d - ?s)"
  proof (rule less_mult_imp_div_less)
    have "?n - 1 < 2 ^ d" using assms by linarith
    also have "(2::nat) ^ d = 2 ^ (d - ?s) * 2 ^ ?s" using s by (simp flip: power_add)
    finally show "?n - 1 < 2 ^ (d - ?s) * 2 ^ ?s" .
  qed
  moreover have "(?m - 1) div 2 ^ ?s \<le> (?n - 1) div 2 ^ ?s" using assms by (intro div_le_mono) simp
  ultimately have loops: "res_bind (node_loop sha256 ((?m - 1) div 2 ^ ?s) ((?n - 1) div 2 ^ ?s) fr tr path)
      (\<lambda>(lastn, fr, tr, path). res_bind (drain_loop sha256 lastn tr path) (\<lambda>(tr, path). f fr tr path)) =
    (case cwalk sha256 d ?m ?n (fr, tr, path, []) of
       None \<Rightarrow> Err ProofPathLengthMismatch | Some (fr', tr', path', _) \<Rightarrow> f fr' tr' path')" for fr tr path f
    by (rule loops_walk)
  have zero: "(?m - 1) div 2 ^ ?s = 0 \<longleftrightarrow> is_power_of_two ?m"
    using node_index_zero_iff assms(1) by blast
  show ?thesis
    unfolding verify_consistency_proof_def skip_loop_eq[OF assms(1)] prod.case Let_def
    using assms(1,2) zero loops
    by (auto simp: consistency_seed_def split: list.split)
qed

definition consistency_inputs :: "(bytes \<Rightarrow> hash32) \<Rightarrow> consistency_proof \<Rightarrow> hash32 \<Rightarrow> bytes list" where
  "consistency_inputs sha256 p from_root =
     (let m = cp_from_size p; n = cp_to_size p; s = trailing_zeros m in
      case consistency_seed p from_root of None \<Rightarrow> []
      | Some (seed, rest) \<Rightarrow>
         (case walk sha256 (bit_len (n - 1) - s) ((m - 1) div 2 ^ s) ((n - 1) div 2 ^ s)
             (seed, seed, rest, []) of
            None \<Rightarrow> [] | Some (_, _, _, log) \<Rightarrow> log))"

lemma regular_range_less: "0 < m \<Longrightarrow> m < n \<Longrightarrow> regular_range m n"
  by (simp add: regular_range_def)

lemma verify_rfc_subproof:
  assumes "0 < m" "m \<le> length hs"
  shows "verify_consistency_proof sha256
      \<lparr>cp_from_size = m, cp_proof = rfc_subproof sha256 m hs True, cp_to_size = length hs\<rparr>
      (root_of_hashes sha256 (take m hs)) (root_of_hashes sha256 hs) = Ok ()"
proof (cases "m = length hs")
  case True
  then show ?thesis using assms by (simp add: verify_consistency_proof_def)
next
  case False
  with assms have less: "m < length hs" by simp
  let ?d = "bit_len (length hs - 1)"
  have d: "length hs \<le> 2 ^ ?d" using le_power_bit_len[of "length hs"] assms by linarith
  note reg = regular_range_less[OF assms(1) less]
  obtain seed P log' where w: "rfc_subproof sha256 m hs False = seed # P"
    "cwalk sha256 ?d m (length hs) (seed, seed, P, []) =
       Some (root_of_hashes sha256 (take m hs), root_of_hashes sha256 hs, [], log')"
    using walk_consistency[OF reg d, of sha256 "[]" "[]"] by auto
  have "is_power_of_two m \<Longrightarrow> seed = root_of_hashes sha256 (take m hs)"
  proof -
    assume p2: "is_power_of_two m"
    let ?s = "trailing_zeros m"
    have "?s \<le> ?d" using trailing_zeros_le[of m ?d] assms d by simp
    then have pw: "(2::nat) ^ ?d = 2 ^ (?d - ?s) * 2 ^ ?s" by (simp flip: power_add)
    have "length hs - 1 < 2 ^ ?d" using d less by linarith
    then have "(length hs - 1) div 2 ^ ?s < 2 ^ (?d - ?s)"
      using pw by (intro less_mult_imp_div_less) simp
    from walk_drain_fr[OF this] w(2) show ?thesis
      using p2 node_index_zero_iff[OF assms(1)] by metis
  qed
  then show ?thesis
    using w less assms d rfc_subproof_True[OF reg d, of sha256]
    by (subst verify_consistency_walk[where d = ?d]) (auto simp: consistency_seed_def)
qed

lemma verify_consistency_rfc_subproof:
  assumes "verify_consistency_proof sha256 p from_root (root_of_hashes sha256 hs) = Ok ()"
    and "cp_to_size p = length hs"
    and "inj_on sha256 (set (consistency_inputs sha256 p from_root) \<union> set (tree_preimages sha256 hs))"
  shows "from_root = root_of_hashes sha256 (take (cp_from_size p) hs) \<and>
    cp_proof p = rfc_subproof sha256 (cp_from_size p) hs True"
proof -
  let ?m = "cp_from_size p" and ?root = "root_of_hashes sha256"
  from assms(1,2) have m: "0 < ?m" "?m \<le> length hs"
    by (auto simp: verify_consistency_proof_def split: if_splits)
  show ?thesis
  proof (cases "?m = length hs")
    case True
    with assms(1,2) m show ?thesis
      by (auto simp: verify_consistency_proof_def split: if_splits)
  next
    case False
    with m have less: "?m < length hs" by simp
    let ?d = "bit_len (length hs - 1)"
    have d: "length hs \<le> 2 ^ ?d" using le_power_bit_len[of "length hs"] m by linarith
    note reg = regular_range_less[OF m(1) less]
    have "cp_from_size p < cp_to_size p" "cp_to_size p \<le> 2 ^ ?d" using less d assms(2) by simp_all
    note v = verify_consistency_walk[OF m(1) this, of sha256 from_root "?root hs", unfolded assms(2)]
    from assms(1) obtain seed rest where sd: "consistency_seed p from_root = Some (seed, rest)"
      by (cases "consistency_seed p from_root") (auto simp: v)
    from assms(1) obtain log where
      w: "cwalk sha256 ?d ?m (length hs) (seed, seed, rest, []) = Some (from_root, ?root hs, [], log)"
      unfolding v sd by (auto split: option.splits if_splits)
    have "consistency_inputs sha256 p from_root = log"
      using sd w by (simp add: consistency_inputs_def assms(2) Let_def)
    with walk_consistency_unique[OF reg d w] assms(3)
    have u: "from_root = ?root (take ?m hs)" "rfc_subproof sha256 ?m hs False = seed # rest" by auto
    show ?thesis
      using u sd rfc_subproof_True[OF reg d, of sha256]
      by (auto simp: consistency_seed_def split: if_splits list.splits)
  qed
qed

section \<open>Sources of subtree roots\<close>

text \<open>
  The contract of the callback of \<^verbatim>\<open>build_consistency_proof_with\<close>: \<open>subtree_root start len\<close> is the
  RFC-6962 root of the leaves \<open>start..start + len\<close>.  Any provider of it yields the reference proof.
\<close>

locale subtree_source =
  fixes sha256 :: "bytes \<Rightarrow> hash32" and hs :: "hash32 list" and subtree_root :: subtree_fn
  assumes subtree: "1 \<le> len \<Longrightarrow> start + len \<le> length hs \<Longrightarrow> length hs < 2 ^ 64 \<Longrightarrow>
    subtree_root start len = Ok (root_of_hashes sha256 (take len (drop start hs)))"
begin

lemma subproof_with_rfc:
  assumes "length hs < 2 ^ 64"
  shows "start + n \<le> length hs \<Longrightarrow> 0 < m \<Longrightarrow> m \<le> n \<Longrightarrow>
    subproof_with m start n b subtree_root = Ok (rfc_subproof sha256 m (take n (drop start hs)) b)"
proof (induction n arbitrary: m start b rule: less_induct)
  case (less n)
  show ?case
  proof (cases "m = n \<or> n \<le> 1")
    case True
    with less.prems have mn: "m = n" "length (take n (drop start hs)) = n" by auto
    with rfc_subproof_all[of sha256 "take n (drop start hs)" b] show ?thesis
      using less.prems assms subtree[of n start] by (subst subproof_with.simps) simp
  next
    case False
    let ?k = "largest_power_of_two_strictly_less_than n" and ?hs = "take n (drop start hs)"
    have len: "length ?hs = n" using less.prems by simp
    have k: "0 < ?k" "?k < n" using lp2_bounds[of n] False by auto
    have u64: "largest_power_of_two_strictly_less_than_u64 n = ?k"
      by (simp add: largest_power_of_two_strictly_less_than_u64_def largest_power_of_two_strictly_less_than_def)
    have sub: "take ?k ?hs = take ?k (drop start hs)" "drop ?k ?hs = take (n - ?k) (drop (start + ?k) hs)"
      using k by (simp_all add: drop_take add.commute)
    have R: "subtree_root (start + ?k) (n - ?k) = Ok (root_of_hashes sha256 (drop ?k ?hs))"
      "subtree_root start ?k = Ok (root_of_hashes sha256 (take ?k ?hs))"
      using subtree[of "n - ?k" "start + ?k"] subtree[of ?k start] k less.prems assms unfolding sub by simp_all
    have IH: "m \<le> ?k \<Longrightarrow> subproof_with m start ?k b subtree_root = Ok (rfc_subproof sha256 m (take ?k ?hs) b)"
      "?k < m \<Longrightarrow> subproof_with (m - ?k) (start + ?k) (n - ?k) False subtree_root =
         Ok (rfc_subproof sha256 (m - ?k) (drop ?k ?hs) False)"
      using less.IH[of ?k start m b] less.IH[of "n - ?k" "start + ?k" "m - ?k" False] k less.prems
      unfolding sub by simp_all
    show ?thesis
      using False IH R len
      by (subst subproof_with.simps, subst rfc_subproof.simps) (simp add: u64 Let_def)
  qed
qed

lemma build_with_rfc:
  assumes "length hs < 2 ^ 64" "0 < m" "m \<le> n" "n \<le> length hs"
  shows "build_consistency_proof_with m n subtree_root =
    Ok \<lparr>cp_from_size = m, cp_proof = rfc_subproof sha256 m (take n hs) True, cp_to_size = n\<rparr>"
  using assms subproof_with_rfc[of 0 n m True]
  by (simp add: build_consistency_proof_with_def)

lemma build_with_verifies:
  assumes "length hs < 2 ^ 64" "0 < m" "m \<le> n" "n \<le> length hs"
  shows "\<exists>p. build_consistency_proof_with m n subtree_root = Ok p \<and>
    verify_consistency_proof sha256 p (root_of_hashes sha256 (take m hs)) (root_of_hashes sha256 (take n hs)) = Ok ()"
proof -
  have "length (take n hs) = n" "take m (take n hs) = take m hs" using assms by simp_all
  with verify_rfc_subproof[of m "take n hs" sha256] assms show ?thesis
    by (simp add: build_with_rfc)
qed

end

interpretation slice_source: subtree_source sha256 hs "slice_subtree_root sha256 hs" for sha256 hs
  by unfold_locales (simp add: slice_subtree_root_def checked_add_def)

section \<open>Consistency proofs: completeness and soundness\<close>

lemma build_verify_consistency:
  assumes "0 < m" "m \<le> n" "n \<le> length leaves" "length leaves < 2 ^ 64"
  shows "\<exists>p old_root new_root. build_consistency_proof sha256 leaves m n = Ok p \<and>
    compute_root sha256 (take m leaves) = Ok old_root \<and> compute_root sha256 (take n leaves) = Ok new_root \<and>
    verify_consistency_proof sha256 p old_root new_root = Ok ()"
  using slice_source.build_with_verifies[of "map ml_hash (take n leaves)" m n sha256] assms
  by (auto simp: build_consistency_proof_def compute_root_def take_map min_def)

text \<open>C12: for all sizes \<open>0 < m \<le> n\<close> within the ledger, \<open>build_consistency_proof\<close> returns a proof that
  \<open>verify_consistency_proof\<close> accepts between the roots of the first \<open>m\<close> and the first \<open>n\<close> leaves.\<close>

theorem consistency_proof_verifies:
  assumes "0 < m" "m \<le> n" "n \<le> length leaves" "length leaves < 2 ^ 64"
  shows "\<exists>p old_root new_root. build_consistency_proof sha256 leaves m n = Ok p \<and>
    compute_root sha256 (take m leaves) = Ok old_root \<and> compute_root sha256 (take n leaves) = Ok new_root \<and>
    verify_consistency_proof sha256 p old_root new_root = Ok ()"
  using assms by (rule build_verify_consistency)

theorem consistency_proof_verifies_witness:
  "\<exists>p old_root new_root. build_consistency_proof length_hash sample_leaves 2 3 = Ok p \<and>
    compute_root length_hash (take 2 sample_leaves) = Ok old_root \<and>
    compute_root length_hash (take 3 sample_leaves) = Ok new_root \<and>
    verify_consistency_proof length_hash p old_root new_root = Ok ()"
  using consistency_proof_verifies[of 2 3 sample_leaves length_hash] by (simp add: sample_leaves_def)

text \<open>C13: when SHA-256 has no collision among the strings hashed by the tree and by the verifier, a
  consistency proof that verifies against the current root proves that the earlier root is the root
  of a prefix of the ledger: no leaf of the earlier tree was deleted, changed or reordered.  The
  accepted proof is moreover the one \<open>build_consistency_proof\<close> returns.\<close>

theorem consistency_proof_sound:
  assumes "cp_to_size p = length leaves" "length leaves < 2 ^ 64"
    and "compute_root sha256 leaves = Ok new_root"
    and "verify_consistency_proof sha256 p old_root new_root = Ok ()"
    and "inj_on sha256 (set (consistency_inputs sha256 p old_root) \<union>
           set (tree_preimages sha256 (map ml_hash leaves)))"
  shows "compute_root sha256 (take (cp_from_size p) leaves) = Ok old_root \<and>
    build_consistency_proof sha256 leaves (cp_from_size p) (cp_to_size p) = Ok p"
proof -
  let ?hs = "map ml_hash leaves" and ?m = "cp_from_size p"
  have m: "0 < ?m" "?m \<le> length leaves"
    using assms(1,4) by (auto simp: verify_consistency_proof_def split: if_splits)
  then have ne: "leaves \<noteq> []" by auto
  have root: "new_root = root_of_hashes sha256 ?hs"
    using assms(3) ne by (simp add: compute_root_def)
  have "old_root = root_of_hashes sha256 (take ?m ?hs) \<and> cp_proof p = rfc_subproof sha256 ?m ?hs True"
    using assms by (intro verify_consistency_rfc_subproof) (auto simp: root)
  moreover have "build_consistency_proof_with ?m (length leaves) (slice_subtree_root sha256 ?hs) =
      Ok \<lparr>cp_from_size = ?m, cp_proof = rfc_subproof sha256 ?m ?hs True, cp_to_size = length leaves\<rparr>"
    using slice_source.build_with_rfc[of ?hs ?m "length leaves" sha256] m assms(2) by simp
  ultimately show ?thesis
    using m ne assms(1) by (cases p) (auto simp: build_consistency_proof_def compute_root_def take_map)
qed
theorem consistency_proof_sound_witness:
  "compute_root length_hash (take 1 (take 2 sample_leaves)) = Ok 1 \<and>
   build_consistency_proof length_hash (take 2 sample_leaves) 1 2 =
     Ok \<lparr>cp_from_size = 1, cp_proof = [2], cp_to_size = 2\<rparr>"
proof -
  let ?p = "\<lparr>cp_from_size = 1, cp_proof = [2], cp_to_size = 2\<rparr>"
  have "consistency_inputs length_hash ?p 1 = [node_preimage 1 2]"
    "tree_preimages length_hash (map ml_hash (take 2 sample_leaves)) = [node_preimage 1 2]"
    by code_simp+
  moreover have "compute_root length_hash (take 2 sample_leaves) = Ok 65"
    "verify_consistency_proof length_hash ?p 1 65 = Ok ()"
    by code_simp+
  moreover have "length (take 2 sample_leaves) = 2" by code_simp
  ultimately show ?thesis
    using consistency_proof_sound[of ?p "take 2 sample_leaves" length_hash 65 1] by simp
qed

end
