(* ===== verification/HashTree.thy ===== *)
theory HashTree
  imports Consistency
begin

text \<open>
  The incremental hash tree of \<^verbatim>\<open>merkle.rs\<close> (\<^verbatim>\<open>struct HashTree\<close>): every complete internal node is kept
  in \<open>levels\<close>, so that aligned subtree roots are lookups.  The theory shows that the levels are the
  iterated pairings of the leaf hashes, and that the tree therefore answers exactly like the slice
  functions of the Merkle theory, errors included.
\<close>

record hash_tree =
  levels :: "hash32 list list"

definition ht_new :: hash_tree where
  "ht_new = \<lparr>levels = []\<rparr>"

definition ht_len :: "hash_tree \<Rightarrow> nat" where
  "ht_len t = (case levels t of [] \<Rightarrow> 0 | l # _ \<Rightarrow> length l)"

definition ht_is_empty :: "hash_tree \<Rightarrow> bool" where
  "ht_is_empty t \<longleftrightarrow> ht_len t = 0"

text \<open>
  The loop of \<^verbatim>\<open>push\<close> walks up from level 0: \<open>push_levels\<close> is one round on the levels from the current
  one upwards, a missing level being created empty.
\<close>

fun push_levels :: "(bytes \<Rightarrow> hash32) \<Rightarrow> hash32 \<Rightarrow> hash32 list list \<Rightarrow> hash32 list list" where
  "push_levels sha256 hash [] = [[hash]]"
| "push_levels sha256 hash (l # ls) =
     (let l' = l @ [hash]; len = length l' in
      if len mod 2 \<noteq> 0 then l' # ls
      else l' # push_levels sha256 (node_hash sha256 (l' ! (len - 2)) (l' ! (len - 1))) ls)"

definition ht_push :: "(bytes \<Rightarrow> hash32) \<Rightarrow> hash_tree \<Rightarrow> hash32 \<Rightarrow> hash_tree" where
  "ht_push sha256 t hash = t\<lparr>levels := push_levels sha256 hash (levels t)\<rparr>"

definition ht_push_leaf :: "(bytes \<Rightarrow> hash32) \<Rightarrow> hash_tree \<Rightarrow> merkle_leaf \<Rightarrow> hash_tree" where
  "ht_push_leaf sha256 t leaf = ht_push sha256 t (ml_hash leaf)"

function ht_subtree_root :: "(bytes \<Rightarrow> hash32) \<Rightarrow> hash_tree \<Rightarrow> subtree_fn" where
  "ht_subtree_root sha256 t start len =
     (if len = 0 then Err EmptyTree
      else case checked_add start len of None \<Rightarrow> Err LeafIndexOutOfBounds
      | Some e \<Rightarrow>
          if \<not> e \<le> ht_len t then Err LeafIndexOutOfBounds
          else if is_power_of_two len \<and> start mod len = 0 then
            (let level = trailing_zeros len; idx = start div len in
             if level < length (levels t) \<and> idx < length (levels t ! level)
             then Ok (levels t ! level ! idx) else Err LeafIndexOutOfBounds)
          else let k = largest_power_of_two_strictly_less_than_u64 len in
            res_bind (ht_subtree_root sha256 t start k) (\<lambda>left.
            res_bind (ht_subtree_root sha256 t (start + k) (len - k)) (\<lambda>right.
              Ok (node_hash sha256 left right))))"
  by pat_completeness auto

lemma lp2_u64: "largest_power_of_two_strictly_less_than_u64 = largest_power_of_two_strictly_less_than"
  by (rule ext) (simp add: largest_power_of_two_strictly_less_than_u64_def largest_power_of_two_strictly_less_than_def)

lemma unaligned_at_least_two: "0 < len \<Longrightarrow> \<not> (is_power_of_two len \<and> start mod len = 0) \<Longrightarrow> 2 \<le> len"
  using is_power_of_two_power[of 0] by (cases "len = 1") auto

termination ht_subtree_root
proof (relation "measure (\<lambda>(_, _, _, len). len)", goal_cases)
  case (2 sha256 t start len e k)
  then have "2 \<le> len" using unaligned_at_least_two[of len start] by blast
  with 2 lp2_bounds[of len] show ?case by (simp add: lp2_u64)
next
  case (3 sha256 t start len e k left)
  then have "2 \<le> len" using unaligned_at_least_two[of len start] by blast
  with 3 lp2_bounds[of len] show ?case by (simp add: lp2_u64)
qed simp

declare ht_subtree_root.simps [simp del]

definition ht_root_at :: "(bytes \<Rightarrow> hash32) \<Rightarrow> hash_tree \<Rightarrow> nat \<Rightarrow> (verification_error, hash32) result" where
  "ht_root_at sha256 t sz = ht_subtree_root sha256 t 0 sz"

definition ht_consistency_proof :: "(bytes \<Rightarrow> hash32) \<Rightarrow> hash_tree \<Rightarrow> nat \<Rightarrow> nat \<Rightarrow>
    (verification_error, consistency_proof) result" where
  "ht_consistency_proof sha256 t from_size to_size =
     (if from_size = 0 \<or> to_size < from_size then Err InvalidConsistencyRange
      else if ht_len t < to_size then Err LeafIndexOutOfBounds
      else build_consistency_proof_with from_size to_size (ht_subtree_root sha256 t))"

section \<open>The levels are iterated pairings\<close>

fun pair_up :: "(bytes \<Rightarrow> hash32) \<Rightarrow> hash32 list \<Rightarrow> hash32 list" where
  "pair_up sha256 (a # b # hs) = node_hash sha256 a b # pair_up sha256 hs"
| "pair_up sha256 _ = []"

lemma length_pair_up [simp]: "length (pair_up sha256 hs) = length hs div 2"
  by (induction sha256 hs rule: pair_up.induct) simp_all

lemma nth_pair_up:
  "j < length hs div 2 \<Longrightarrow> pair_up sha256 hs ! j = node_hash sha256 (hs ! (2 * j)) (hs ! (2 * j + 1))"
  by (induction sha256 hs arbitrary: j rule: pair_up.induct)
    (auto simp: nth_Cons split: nat.splits)

lemma pair_up_snoc_even: "even (length hs) \<Longrightarrow> pair_up sha256 (hs @ [h]) = pair_up sha256 hs"
  by (induction sha256 hs rule: pair_up.induct) auto

lemma pair_up_snoc_odd:
  "odd (length hs) \<Longrightarrow> pair_up sha256 (hs @ [h]) = pair_up sha256 hs @ [node_hash sha256 (last hs) h]"
  by (induction sha256 hs rule: pair_up.induct) auto

function levels_of :: "(bytes \<Rightarrow> hash32) \<Rightarrow> hash32 list \<Rightarrow> hash32 list list" where
  "levels_of sha256 hs = (if hs = [] then [] else hs # levels_of sha256 (pair_up sha256 hs))"
  by pat_completeness auto
termination
  by (relation "measure (length o snd)") auto

declare levels_of.simps [simp del]

lemma levels_of_Nil [simp]: "levels_of sha256 [] = []"
  by (simp add: levels_of.simps)

lemma levels_of_ne: "hs \<noteq> [] \<Longrightarrow> levels_of sha256 hs = hs # levels_of sha256 (pair_up sha256 hs)"
  by (subst levels_of.simps) simp

lemma push_levels_of: "push_levels sha256 h (levels_of sha256 hs) = levels_of sha256 (hs @ [h])"
proof (induction "length hs" arbitrary: hs h rule: less_induct)
  case less
  show ?case
  proof (cases "hs = []")
    case True then show ?thesis by (simp add: levels_of_ne)
  next
    case False
    have IH: "push_levels sha256 g (levels_of sha256 (pair_up sha256 hs)) =
        levels_of sha256 (pair_up sha256 hs @ [g])" for g
      using False by (intro less) simp
    show ?thesis
    proof (cases "even (length hs)")
      case True
      then have "Suc (length hs) mod 2 = 1" by presburger
      with True show ?thesis using False pair_up_snoc_even[OF True, of sha256 h]
        by (simp add: levels_of_ne Let_def)
    next
      case odd: False
      then have "(hs @ [h]) ! (length hs - 1) = last hs"
        using False by (simp add: nth_append last_conv_nth)
      with odd False IH show ?thesis
        using pair_up_snoc_odd[of hs sha256 h] by (simp add: levels_of_ne Let_def)
    qed
  qed
qed

abbreviation hash_tree_of :: "(bytes \<Rightarrow> hash32) \<Rightarrow> merkle_leaf list \<Rightarrow> hash_tree" where
  "hash_tree_of sha256 leaves \<equiv> foldl (ht_push_leaf sha256) ht_new leaves"

lemma levels_hash_tree_of: "levels (hash_tree_of sha256 leaves) = levels_of sha256 (map ml_hash leaves)"
  by (induction leaves rule: rev_induct)
    (simp_all add: ht_new_def ht_push_leaf_def ht_push_def push_levels_of)

lemma ht_len_levels_of: "levels t = levels_of sha256 hs \<Longrightarrow> ht_len t = length hs"
  by (cases "hs = []") (simp_all add: ht_len_def levels_of_ne)

lemma nth_levels_of:
  "2 ^ i \<le> length hs \<Longrightarrow> i < length (levels_of sha256 hs) \<and> length (levels_of sha256 hs ! i) = length hs div 2 ^ i"
proof (induction i arbitrary: hs)
  case 0 then show ?case by (cases "hs = []") (simp_all add: levels_of_ne)
next
  case (Suc i)
  then have "hs \<noteq> []" by auto
  moreover have "2 ^ i \<le> length (pair_up sha256 hs)" using Suc.prems by simp
  ultimately show ?case
    using Suc.IH[of "pair_up sha256 hs"] by (simp add: levels_of_ne div_mult2_eq)
qed

lemma root_double:
  "length hs = 2 ^ Suc i \<Longrightarrow> root_of_hashes sha256 hs =
     node_hash sha256 (root_of_hashes sha256 (take (2 ^ i) hs)) (root_of_hashes sha256 (drop (2 ^ i) hs))"
  by (rule root_split) simp_all

lemma root_pair_up:
  "length hs = 2 ^ Suc i \<Longrightarrow> root_of_hashes sha256 (pair_up sha256 hs) = root_of_hashes sha256 hs"
proof (induction i arbitrary: hs)
  case 0
  then obtain a b where "hs = [a, b]" by (auto simp: length_Suc_conv numeral_2_eq_2)
  then show ?case using root_double[of hs 0 sha256] by simp
next
  case (Suc i)
  have tk: "take (2 ^ i) (pair_up sha256 hs) = pair_up sha256 (take (2 ^ Suc i) hs)"
    "drop (2 ^ i) (pair_up sha256 hs) = pair_up sha256 (drop (2 ^ Suc i) hs)"
    using Suc.prems by (auto intro!: nth_equalityI simp: nth_pair_up)
  show ?case
    using Suc.prems root_double[of "pair_up sha256 hs" i sha256] root_double[of hs "Suc i" sha256]
      Suc.IH[of "take (2 ^ Suc i) hs"] Suc.IH[of "drop (2 ^ Suc i) hs"]
    by (simp add: tk)
qed

lemma levels_of_root:
  "(j + 1) * 2 ^ i \<le> length hs \<Longrightarrow>
   levels_of sha256 hs ! i ! j = root_of_hashes sha256 (take (2 ^ i) (drop (j * 2 ^ i) hs))"
proof (induction i arbitrary: hs)
  case 0 then show ?case by (cases "hs = []") (simp_all add: levels_of_ne take_Suc hd_drop_conv_nth)
next
  case (Suc i)
  let ?seg = "take (2 ^ Suc i) (drop (j * 2 ^ Suc i) hs)"
  have ne: "hs \<noteq> []" using Suc.prems by auto
  have len: "(j + 1) * 2 ^ i \<le> length (pair_up sha256 hs)" using Suc.prems by simp
  have "take (2 ^ i) (drop (j * 2 ^ i) (pair_up sha256 hs)) = pair_up sha256 ?seg"
    using Suc.prems by (auto intro!: nth_equalityI simp: nth_pair_up algebra_simps)
  then show ?case
    using Suc.IH[OF len] ne root_pair_up[of ?seg i sha256] Suc.prems by (simp add: levels_of_ne)
qed

lemma ht_subtree_root_slice:
  assumes "levels t = levels_of sha256 hs" "length hs < 2 ^ 64"
  shows "0 < len \<Longrightarrow> start + len \<le> length hs \<Longrightarrow>
    ht_subtree_root sha256 t start len = Ok (root_of_hashes sha256 (take len (drop start hs)))"
proof (induction len arbitrary: start rule: less_induct)
  case (less len)
  have ca: "checked_add start len = Some (start + len)" and hl: "ht_len t = length hs"
    using less.prems assms ht_len_levels_of by (auto simp: checked_add_def)
  show ?case
  proof (cases "is_power_of_two len \<and> start mod len = 0")
    case True
    then obtain i where i: "len = 2 ^ i" by (auto simp: is_power_of_two_iff)
    obtain j where j: "start = j * len" using True by (metis dvd_div_mult_self mod_0_imp_dvd)
    have b: "(j + 1) * 2 ^ i \<le> length hs" using less.prems i j by (simp add: algebra_simps)
    then have "2 ^ i \<le> length hs" by simp
    note n = nth_levels_of[OF this, of sha256]
    have "j < length hs div 2 ^ i" using b by (simp add: less_eq_div_iff_mult_less_eq Suc_le_eq[symmetric])
    then show ?thesis
      using less.prems True ca hl n levels_of_root[OF b, of sha256] assms(1) i j
      by (subst ht_subtree_root.simps) simp
  next
    case False
    let ?k = "largest_power_of_two_strictly_less_than len" and ?hs = "take len (drop start hs)"
    have two: "2 \<le> len" using unaligned_at_least_two[OF less.prems(1) False] .
    have k: "0 < ?k" "?k < len" using lp2_bounds[OF two] by auto
    have sub: "take ?k ?hs = take ?k (drop start hs)" "drop ?k ?hs = take (len - ?k) (drop (start + ?k) hs)"
      using k by (simp_all add: drop_take add.commute)
    have "root_of_hashes sha256 ?hs = node_hash sha256 (root_of_hashes sha256 (take ?k ?hs)) (root_of_hashes sha256 (drop ?k ?hs))"
      using two less.prems by (subst root_of_hashes.simps) (simp add: Let_def)
    moreover have "ht_subtree_root sha256 t start ?k = Ok (root_of_hashes sha256 (take ?k ?hs))"
      "ht_subtree_root sha256 t (start + ?k) (len - ?k) = Ok (root_of_hashes sha256 (drop ?k ?hs))"
      using less.IH[of ?k start] less.IH[of "len - ?k" "start + ?k"] k less.prems unfolding sub by simp_all
    ultimately show ?thesis
      using less.prems False ca hl by (subst ht_subtree_root.simps) (auto simp: lp2_u64 Let_def)
  qed
qed

interpretation ht_source: subtree_source sha256 "map ml_hash leaves" "ht_subtree_root sha256 (hash_tree_of sha256 leaves)"
  for sha256 leaves
  by unfold_locales (simp add: ht_subtree_root_slice levels_hash_tree_of)

lemma ht_consistency_slice:
  assumes "length leaves < 2 ^ 64"
  shows "ht_consistency_proof sha256 (hash_tree_of sha256 leaves) m n = build_consistency_proof sha256 leaves m n"
proof -
  have len: "ht_len (hash_tree_of sha256 leaves) = length leaves"
    using ht_len_levels_of[OF levels_hash_tree_of[of sha256 leaves]] by simp
  show ?thesis
    using assms ht_source.build_with_rfc[of leaves m n sha256]
      slice_source.build_with_rfc[of "map ml_hash (take n leaves)" m n sha256]
    by (auto simp: ht_consistency_proof_def build_consistency_proof_def len take_map)
qed

text \<open>The consistency proof served from the incremental hash tree equals the one computed over the
  slice of leaves, for all arguments and with the same errors.\<close>

theorem hash_tree_consistency_equiv:
  assumes "length leaves < 2 ^ 64"
  shows "ht_consistency_proof sha256 (hash_tree_of sha256 leaves) m n = build_consistency_proof sha256 leaves m n"
  using assms by (rule ht_consistency_slice)

theorem hash_tree_consistency_equiv_witness:
  "ht_consistency_proof length_hash (hash_tree_of length_hash sample_leaves) 2 3 =
   build_consistency_proof length_hash sample_leaves 2 3"
  using hash_tree_consistency_equiv[of sample_leaves length_hash 2 3] by (simp add: sample_leaves_def)

text \<open>The root the hash tree serves for any size is the RFC-6962 root of that prefix of the leaves.\<close>

theorem hash_tree_root_equiv:
  assumes "length leaves < 2 ^ 64"
  shows "ht_root_at sha256 (hash_tree_of sha256 leaves) sz =
    (if length leaves < sz then Err LeafIndexOutOfBounds else compute_root sha256 (take sz leaves))"
proof -
  have len: "ht_len (hash_tree_of sha256 leaves) = length leaves"
    using ht_len_levels_of[OF levels_hash_tree_of[of sha256 leaves]] by simp
  consider "sz = 0" | "length leaves < sz" | "0 < sz" "sz \<le> length leaves" by linarith
  then show ?thesis
  proof cases
    case 1 then show ?thesis by (simp add: ht_root_at_def ht_subtree_root.simps compute_root_def)
  next
    case 2 then show ?thesis using len assms
      by (simp add: ht_root_at_def ht_subtree_root.simps checked_add_def)
  next
    case 3 then show ?thesis using assms
        ht_subtree_root_slice[OF levels_hash_tree_of[of sha256 leaves], of sz 0]
      by (auto simp: ht_root_at_def compute_root_def take_map)
  qed
qed

theorem hash_tree_root_equiv_witness:
  "ht_root_at length_hash (hash_tree_of length_hash sample_leaves) 3 = compute_root length_hash sample_leaves"
  using hash_tree_root_equiv[of sample_leaves length_hash 3] by (simp add: sample_leaves_def)

end
