(* ===== verification/ProofLoops.thy ===== *)
theory ProofLoops
  imports Merkle
begin

text \<open>
  The loops of the proof checkers of \<^verbatim>\<open>src/crates/domain/src/transparency/merkle.rs\<close> as they are written: a
  \<open>while\<close> over machine words whose body may return early.  \<open>while_fuel\<close> runs at most a given number of
  rounds and says \<open>None\<close> when the loop is not finished by then.  The lemmas show that 64 rounds finish
  each loop, and that what they compute is what the recursive functions of \<^verbatim>\<open>Merkle\<close> compute.
\<close>

section \<open>Bounded loops\<close>

fun while_fuel :: "nat \<Rightarrow> ('s \<Rightarrow> bool) \<Rightarrow> ('s \<Rightarrow> ('e, 's) result) \<Rightarrow> 's \<Rightarrow> ('e, 's) result option" where
  "while_fuel 0 cond body s = (if cond s then None else Some (Ok s))"
| "while_fuel (Suc n) cond body s =
     (if cond s then (case body s of Inl e \<Rightarrow> Some (Err e) | Inr s' \<Rightarrow> while_fuel n cond body s') else Some (Ok s))"

definition next_sibling :: "hash32 list \<Rightarrow> (verification_error, hash32 \<times> hash32 list) result" where
  "next_sibling path = (case path of [] \<Rightarrow> Err ProofPathLengthMismatch | sibling # rest \<Rightarrow> Ok (sibling, rest))"

section \<open>Inclusion\<close>

definition inclusion_body :: "(bytes \<Rightarrow> hash32) \<Rightarrow> u64 \<times> u64 \<times> hash32 \<times> hash32 list \<Rightarrow>
    (verification_error, u64 \<times> u64 \<times> hash32 \<times> hash32 list) result" where
  "inclusion_body sha256 = (\<lambda>(index, last_node, hash, path_iter).
     res_bind
       (if index mod 2 = 1 then
          res_bind (next_sibling path_iter) (\<lambda>(sibling, path_iter). Ok (node_hash sha256 sibling hash, path_iter))
        else if index < last_node then
          res_bind (next_sibling path_iter) (\<lambda>(sibling, path_iter). Ok (node_hash sha256 hash sibling, path_iter))
        else Ok (hash, path_iter))
       (\<lambda>(hash, path_iter). Ok (index div 2, last_node div 2, hash, path_iter)))"

definition inclusion_more :: "u64 \<times> u64 \<times> hash32 \<times> hash32 list \<Rightarrow> bool" where
  "inclusion_more = (\<lambda>(index, last_node, hash, path_iter). last_node > 0)"

definition verify_inclusion_rounds :: "nat \<Rightarrow> (bytes \<Rightarrow> hash32) \<Rightarrow> inclusion_proof \<Rightarrow> hash32 \<Rightarrow>
    (verification_error, unit) result option" where
  "verify_inclusion_rounds rounds sha256 proof expected_root =
     (if ip_tree_size proof = 0 then Some (Err EmptyTree)
      else if ip_tree_size proof \<le> ip_leaf_index proof then Some (Err LeafIndexOutOfBounds)
      else
        map_option (\<lambda>out. res_bind out (\<lambda>(index, last_node, hash, path_iter).
            if path_iter \<noteq> [] then Err ProofPathLengthMismatch
            else if hash \<noteq> expected_root then Err RootMismatch else Ok ()))
          (while_fuel rounds inclusion_more (inclusion_body sha256)
            (of_nat (ip_leaf_index proof), of_nat (ip_tree_size proof) - 1, ip_leaf_hash proof, ip_path proof)))"

section \<open>Consistency\<close>

definition skip_body :: "u64 \<times> u64 \<Rightarrow> (verification_error, u64 \<times> u64) result" where
  "skip_body = (\<lambda>(node, last_node). Ok (node div 2, last_node div 2))"

definition node_body :: "(bytes \<Rightarrow> hash32) \<Rightarrow> u64 \<times> u64 \<times> hash32 \<times> hash32 \<times> hash32 list \<Rightarrow>
    (verification_error, u64 \<times> u64 \<times> hash32 \<times> hash32 \<times> hash32 list) result" where
  "node_body sha256 = (\<lambda>(node, last_node, fr, tr, proof_iter).
     res_bind
       (if node mod 2 = 1 then
          res_bind (next_sibling proof_iter) (\<lambda>(sibling, proof_iter).
            Ok (node_hash sha256 sibling fr, node_hash sha256 sibling tr, proof_iter))
        else if node < last_node then
          res_bind (next_sibling proof_iter) (\<lambda>(sibling, proof_iter). Ok (fr, node_hash sha256 tr sibling, proof_iter))
        else Ok (fr, tr, proof_iter))
       (\<lambda>(fr, tr, proof_iter). Ok (node div 2, last_node div 2, fr, tr, proof_iter)))"

definition drain_body :: "(bytes \<Rightarrow> hash32) \<Rightarrow> u64 \<times> hash32 \<times> hash32 list \<Rightarrow>
    (verification_error, u64 \<times> hash32 \<times> hash32 list) result" where
  "drain_body sha256 = (\<lambda>(last_node, tr, proof_iter).
     res_bind (next_sibling proof_iter) (\<lambda>(sibling, proof_iter). Ok (last_node div 2, node_hash sha256 tr sibling, proof_iter)))"

definition skip_more :: "u64 \<times> u64 \<Rightarrow> bool" where
  "skip_more = (\<lambda>(node, last_node). node mod 2 = 1)"

definition node_more :: "u64 \<times> u64 \<times> hash32 \<times> hash32 \<times> hash32 list \<Rightarrow> bool" where
  "node_more = (\<lambda>(node, last_node, fr, tr, proof_iter). node > 0)"

definition drain_more :: "u64 \<times> hash32 \<times> hash32 list \<Rightarrow> bool" where
  "drain_more = (\<lambda>(last_node, tr, proof_iter). last_node > 0)"

text \<open>One loop after the other, each with its own bound; \<open>and_then\<close> stops at an early return.\<close>

definition and_then :: "('e, 'a) result option \<Rightarrow> ('a \<Rightarrow> ('e, 'b) result option) \<Rightarrow> ('e, 'b) result option" where
  "and_then out f = (case out of None \<Rightarrow> None | Some (Inl e) \<Rightarrow> Some (Err e) | Some (Inr x) \<Rightarrow> f x)"

definition verify_consistency_rounds :: "nat \<Rightarrow> (bytes \<Rightarrow> hash32) \<Rightarrow> consistency_proof \<Rightarrow> hash32 \<Rightarrow> hash32 \<Rightarrow>
    (verification_error, unit) result option" where
  "verify_consistency_rounds rounds sha256 proof from_root to_root =
     (if cp_from_size proof = 0 \<or> cp_to_size proof < cp_from_size proof then Some (Err InvalidConsistencyRange)
      else if cp_from_size proof = cp_to_size proof then
        Some (if cp_proof proof \<noteq> [] then Err ProofPathLengthMismatch else if from_root \<noteq> to_root then Err RootMismatch else Ok ())
      else
        and_then (while_fuel rounds skip_more skip_body
            (of_nat (cp_from_size proof) - 1, of_nat (cp_to_size proof) - 1)) (\<lambda>(node, last_node).
        and_then
          (Some (if node > 0 then res_bind (next_sibling (cp_proof proof)) (\<lambda>(seed, proof_iter). Ok (seed, seed, proof_iter))
            else Ok (from_root, from_root, cp_proof proof))) (\<lambda>(fr, tr, proof_iter).
        and_then (while_fuel rounds node_more (node_body sha256)
            (node, last_node, fr, tr, proof_iter)) (\<lambda>(node, last_node, fr, tr, proof_iter).
        and_then (while_fuel rounds drain_more (drain_body sha256)
            (last_node, tr, proof_iter)) (\<lambda>(last_node, tr, proof_iter).
        Some (if proof_iter \<noteq> [] then Err ProofPathLengthMismatch
          else if fr \<noteq> from_root \<or> tr \<noteq> to_root then Err RootMismatch else Ok ()))))))"

section \<open>The loops compute the recursive functions\<close>

lemma word_half [simp]: "unat (x div 2 :: u64) = unat x div 2"
  by (simp add: unat_div)

lemma word_odd: "x mod 2 = (1 :: u64) \<longleftrightarrow> unat x mod 2 = 1"
  using word_unat_eq_iff[of "x mod 2" 1] by (simp add: unat_mod)

lemma word_pos: "0 < (x :: u64) \<longleftrightarrow> unat x \<noteq> 0"
  by (simp add: unat_gt_0 word_neq_0_conv unat_eq_zero)

lemma inclusion_body_eq:
  "inclusion_body sha256 (index, lastn, hash, path) =
     (if unat index mod 2 = 1 then
        (case path of [] \<Rightarrow> Err ProofPathLengthMismatch
         | sibling # rest \<Rightarrow> Ok (index div 2, lastn div 2, node_hash sha256 sibling hash, rest))
      else if unat index < unat lastn then
        (case path of [] \<Rightarrow> Err ProofPathLengthMismatch
         | sibling # rest \<Rightarrow> Ok (index div 2, lastn div 2, node_hash sha256 hash sibling, rest))
      else Ok (index div 2, lastn div 2, hash, path))"
  by (simp add: inclusion_body_def next_sibling_def word_odd word_less_nat_alt split: list.split)

lemma node_body_eq:
  "node_body sha256 (node, lastn, fr, tr, path) =
     (if unat node mod 2 = 1 then
        (case path of [] \<Rightarrow> Err ProofPathLengthMismatch
         | sibling # rest \<Rightarrow> Ok (node div 2, lastn div 2, node_hash sha256 sibling fr, node_hash sha256 sibling tr, rest))
      else if unat node < unat lastn then
        (case path of [] \<Rightarrow> Err ProofPathLengthMismatch
         | sibling # rest \<Rightarrow> Ok (node div 2, lastn div 2, fr, node_hash sha256 tr sibling, rest))
      else Ok (node div 2, lastn div 2, fr, tr, path))"
  by (simp add: node_body_def next_sibling_def word_odd word_less_nat_alt split: list.split)

lemma drain_body_eq:
  "drain_body sha256 (lastn, tr, path) =
     (case path of [] \<Rightarrow> Err ProofPathLengthMismatch | sibling # rest \<Rightarrow> Ok (lastn div 2, node_hash sha256 tr sibling, rest))"
  by (simp add: drain_body_def next_sibling_def split: list.split)

lemma more_eq:
  "inclusion_more (index, lastn, hash, path) \<longleftrightarrow> unat lastn \<noteq> 0" "node_more (node, lastn, fr, tr, path) \<longleftrightarrow> unat node \<noteq> 0"
  "drain_more (lastn, tr, path) \<longleftrightarrow> unat lastn \<noteq> 0" "skip_more (node, lastn) \<longleftrightarrow> unat node mod 2 = 1"
  by (simp_all add: inclusion_more_def node_more_def drain_more_def skip_more_def word_pos word_odd)

lemma half_bound: "(n :: nat) < 2 ^ Suc k \<Longrightarrow> n div 2 < 2 ^ k"
  by simp

lemma inclusion_rounds:
  assumes "unat lastn < 2 ^ k"
  shows "map_option (\<lambda>out. res_bind out (\<lambda>s. Ok (snd (snd s))))
    (while_fuel k inclusion_more (inclusion_body sha256) (index, lastn, hash, path)) =
    Some (inclusion_loop sha256 (unat index) (unat lastn) hash path)"
  using assms
proof (induction k arbitrary: index lastn hash path)
  case 0
  then show ?case by (simp add: inclusion_loop.simps more_eq)
next
  case (Suc k)
  note ih = Suc.IH[OF half_bound[OF Suc.prems, folded word_half], of "index div 2"]
  show ?case
    by (subst inclusion_loop.simps) (use ih in \<open>auto simp: inclusion_body_eq more_eq split: list.split\<close>)
qed

lemma skip_rounds:
  assumes "unat node < 2 ^ k"
  shows "\<exists>n l. while_fuel k skip_more skip_body (node, lastn) = Some (Ok (n, l)) \<and>
    skip_loop (unat node) (unat lastn) = (unat n, unat l) \<and> unat n \<le> unat node \<and> unat l \<le> unat lastn"
  using assms
proof (induction k arbitrary: node lastn)
  case 0
  then show ?case by (simp add: skip_loop.simps more_eq)
next
  case (Suc k)
  from Suc.IH[OF half_bound[OF Suc.prems, folded word_half], of "lastn div 2"] obtain n l where
    "while_fuel k skip_more skip_body (node div 2, lastn div 2) = Some (Ok (n, l))"
    "skip_loop (unat node div 2) (unat lastn div 2) = (unat n, unat l)" "unat n \<le> unat node div 2" "unat l \<le> unat lastn div 2" by auto
  then show ?case by (subst skip_loop.simps) (auto simp: skip_body_def more_eq intro: order_trans[OF _ div_le_dividend])
qed

lemma node_rounds:
  assumes "unat node < 2 ^ k"
  shows "\<exists>out. while_fuel k node_more (node_body sha256) (node, lastn, fr, tr, path) = Some out \<and>
    node_loop sha256 (unat node) (unat lastn) fr tr path =
      res_bind out (\<lambda>s. Ok (unat (fst (snd s)), snd (snd s)))"
  using assms
proof (induction k arbitrary: node lastn fr tr path)
  case 0
  then show ?case by (simp add: node_loop.simps more_eq)
next
  case (Suc k)
  note ih = Suc.IH[OF half_bound[OF Suc.prems, folded word_half], of "lastn div 2"]
  show ?case
    by (subst node_loop.simps) (use ih in \<open>auto simp: node_body_eq more_eq split: list.split\<close>)
qed

lemma drain_rounds:
  assumes "unat lastn < 2 ^ k"
  shows "\<exists>out. while_fuel k drain_more (drain_body sha256) (lastn, tr, path) = Some out \<and>
    drain_loop sha256 (unat lastn) tr path = res_bind out (\<lambda>s. Ok (snd s))"
  using assms
proof (induction k arbitrary: lastn tr path)
  case 0
  then show ?case by (simp add: drain_loop.simps more_eq)
next
  case (Suc k)
  note ih = Suc.IH[OF half_bound[OF Suc.prems, folded word_half]]
  show ?case
    by (subst drain_loop.simps) (use ih in \<open>auto simp: drain_body_eq more_eq split: list.split\<close>)
qed

lemma word_pred: "0 < n \<Longrightarrow> n < 2 ^ 64 \<Longrightarrow> unat (of_nat n - 1 :: u64) = n - 1"
  by (subst unat_sub) (simp_all add: word_le_nat_alt unat_of_nat)

lemma inclusion_check_rounds:
  assumes "ip_tree_size proof < 2 ^ 64"
  shows "verify_inclusion_rounds 64 sha256 proof expected_root = Some (verify_inclusion_proof sha256 proof expected_root)"
proof -
  consider "ip_tree_size proof = 0 \<or> ip_tree_size proof \<le> ip_leaf_index proof" | "ip_leaf_index proof < ip_tree_size proof" by linarith
  then show ?thesis
  proof cases
    case 2
    let ?w = "while_fuel 64 inclusion_more (inclusion_body sha256)
      (of_nat (ip_leaf_index proof), of_nat (ip_tree_size proof) - 1, ip_leaf_hash proof, ip_path proof)"
    have u: "unat (of_nat (ip_tree_size proof) - 1 :: u64) = ip_tree_size proof - 1" "unat (of_nat (ip_leaf_index proof) :: u64) = ip_leaf_index proof"
      using 2 assms by (simp_all add: word_pred unat_of_nat)
    have "unat (of_nat (ip_tree_size proof) - 1 :: u64) < 2 ^ 64" using u(1) assms by linarith
    from inclusion_rounds[OF this, of sha256 "of_nat (ip_leaf_index proof)" "ip_leaf_hash proof" "ip_path proof"] obtain out where
      "?w = Some out" "inclusion_loop sha256 (ip_leaf_index proof) (ip_tree_size proof - 1) (ip_leaf_hash proof) (ip_path proof) =
        res_bind out (\<lambda>s. Ok (snd (snd s)))" unfolding u by auto
    then show ?thesis using 2 by (cases out) (auto simp: verify_inclusion_rounds_def verify_inclusion_proof_def)
  qed (auto simp: verify_inclusion_rounds_def verify_inclusion_proof_def)
qed

lemma and_then_Ok: "and_then (Some (Ok x)) f = f x" and and_then_Err: "and_then (Some (Err e)) f = Some (Err e)"
  by (simp_all add: and_then_def)

lemma both_rounds:
  "and_then (while_fuel 64 node_more (node_body sha256) (n, l, fr, tr, path)) (\<lambda>(node, last_node, fr, tr, proof_iter).
     and_then (while_fuel 64 drain_more (drain_body sha256) (last_node, tr, proof_iter)) (\<lambda>(last_node, tr, proof_iter). Some (f fr tr proof_iter))) =
   Some (res_bind (node_loop sha256 (unat n) (unat l) fr tr path) (\<lambda>(lastn, fr, tr, path).
     res_bind (drain_loop sha256 lastn tr path) (\<lambda>(tr, path). f fr tr path)))"
proof -
  have lt: "unat w < 2 ^ 64" for w :: u64 using unsigned_less[of w] by simp
  from node_rounds[OF lt, of sha256 n l fr tr path] obtain out where out:
    "while_fuel 64 node_more (node_body sha256) (n, l, fr, tr, path) = Some out"
    "node_loop sha256 (unat n) (unat l) fr tr path = res_bind out (\<lambda>s. Ok (unat (fst (snd s)), snd (snd s)))" by blast
  show ?thesis
  proof (cases out)
    case (Inr s)
    obtain n' l' fr' tr' path' where s: "s = (n', l', fr', tr', path')" by (cases s) auto
    from drain_rounds[OF lt, of sha256 l' tr' path'] obtain out' where
      "while_fuel 64 drain_more (drain_body sha256) (l', tr', path') = Some out'"
      "drain_loop sha256 (unat l') tr' path' = res_bind out' (\<lambda>s. Ok (snd s))" by blast
    then show ?thesis using out Inr s by (cases out') (auto simp: and_then_Ok and_then_Err)
  qed (use out in \<open>simp add: and_then_Err\<close>)
qed

lemma consistency_check_rounds:
  assumes "cp_to_size proof < 2 ^ 64"
  shows "verify_consistency_rounds 64 sha256 proof from_root to_root = Some (verify_consistency_proof sha256 proof from_root to_root)"
proof (cases "0 < cp_from_size proof \<and> cp_from_size proof < cp_to_size proof")
  case True
  let ?m = "of_nat (cp_from_size proof) - 1 :: u64" and ?n = "of_nat (cp_to_size proof) - 1 :: u64"
  have u: "unat ?m = cp_from_size proof - 1" "unat ?n = cp_to_size proof - 1" using True assms by (simp_all add: word_pred)
  have "unat ?m < 2 ^ 64" using u(1) True assms by linarith
  from skip_rounds[OF this, of ?n] obtain n l where
    skip: "while_fuel 64 skip_more skip_body (?m, ?n) = Some (Ok (n, l))" "skip_loop (cp_from_size proof - 1) (cp_to_size proof - 1) = (unat n, unat l)"
    unfolding u by auto
  show ?thesis using True
    by (auto simp: verify_consistency_rounds_def verify_consistency_proof_def skip and_then_Ok and_then_Err both_rounds word_pos next_sibling_def simp del: One_nat_def
        split: list.split)
qed (auto simp: verify_consistency_rounds_def verify_consistency_proof_def)

text \<open>C34: checking a proof always ends.  For every inclusion and every consistency proof with 64-bit
  sizes, well-formed or not, each loop of the checker is finished after at most 64 rounds, and the
  checker then returns exactly what the recursive definitions of the model return.\<close>

theorem proof_checks_terminate:
  assumes "ip_tree_size ip < 2 ^ 64" "cp_to_size cp < 2 ^ 64"
  shows "verify_inclusion_rounds 64 sha256 ip expected_root = Some (verify_inclusion_proof sha256 ip expected_root) \<and>
    verify_consistency_rounds 64 sha256 cp from_root to_root = Some (verify_consistency_proof sha256 cp from_root to_root)"
  using inclusion_check_rounds[OF assms(1)] consistency_check_rounds[OF assms(2)] by blast

theorem proof_checks_terminate_witness:
  "verify_consistency_rounds 64 (\<lambda>bs. of_nat (length bs)) \<lparr>cp_from_size = 2 ^ 63 - 1, cp_proof = [5], cp_to_size = 2 ^ 64 - 1\<rparr> 1 2 =
     Some (Err ProofPathLengthMismatch) \<and>
   verify_inclusion_rounds 64 (\<lambda>bs. of_nat (length bs)) \<lparr>ip_leaf_hash = 7, ip_leaf_index = 0, ip_path = [], ip_tree_size = 1\<rparr> 7 = Some (Ok ())"
  using proof_checks_terminate[of "\<lparr>ip_leaf_hash = 7, ip_leaf_index = 0, ip_path = [], ip_tree_size = 1\<rparr>"
      "\<lparr>cp_from_size = 2 ^ 63 - 1, cp_proof = [5], cp_to_size = 2 ^ 64 - 1\<rparr>" "\<lambda>bs. of_nat (length bs)" 7 1 2]
  by (simp add: verify_consistency_proof_def verify_inclusion_proof_def skip_loop.simps node_loop.simps inclusion_loop.simps)

end
