(* ===== verification/F64.thy ===== *)
theory F64
  imports Complex_Main Prelude
begin

text \<open>
  The \<^verbatim>\<open>f64\<close> arithmetic the sources use for wall-clock instants and durations.

  A finite value is the rational it denotes; the two zeros are identified, which no operation used
  by the sources can observe.  Each operation rounds the exact result to the nearest
  double-precision number, ties to even, with gradual underflow and overflow to infinity.
  Comparisons are exact and false on NaN.  The lemmas give the facts the components use: rounding
  is monotone, it is exact on integers up to \<open>2 ^ 53\<close>, and its error is at most one half below that.
\<close>

datatype f64 = NaN | Infinity bool | Finite rat

definition floor_log2 :: "rat \<Rightarrow> int" where
  "floor_log2 q =
     (let (a, b) = quotient_of q; d = int (bit_len (nat a)) - int (bit_len (nat b)) in
      if 2 powi d \<le> q then d else d - 1)"

definition f64_exp :: "rat \<Rightarrow> int" where
  "f64_exp q = max (- 1074) (floor_log2 \<bar>q\<bar> - 52)"

definition round_half_even :: "rat \<Rightarrow> int" where
  "round_half_even x =
     (let f = \<lfloor>x\<rfloor>; r = x - of_int f in
      if r < 1 / 2 then f else if 1 / 2 < r then f + 1 else if even f then f else f + 1)"

definition round_f64 :: "rat \<Rightarrow> rat" where
  "round_f64 q =
     (if q = 0 then 0
      else of_int (round_half_even (q / 2 powi f64_exp q)) * 2 powi f64_exp q)"

definition f64_of_rat :: "rat \<Rightarrow> f64" where
  "f64_of_rat q =
     (let r = round_f64 q in
      if 2 ^ 1024 \<le> r then Infinity False else if r \<le> - (2 ^ 1024) then Infinity True else Finite r)"

definition f64_of_nat :: "nat \<Rightarrow> f64" where
  "f64_of_nat n = f64_of_rat (of_nat n)"

definition f64_of_int :: "int \<Rightarrow> f64" where
  "f64_of_int n = f64_of_rat (of_int n)"

fun f64_is_finite :: "f64 \<Rightarrow> bool" where
  "f64_is_finite (Finite _) = True"
| "f64_is_finite _ = False"

fun f64_neg :: "f64 \<Rightarrow> f64" where
  "f64_neg NaN = NaN"
| "f64_neg (Infinity s) = Infinity (\<not> s)"
| "f64_neg (Finite q) = Finite (- q)"

fun f64_add :: "f64 \<Rightarrow> f64 \<Rightarrow> f64" where
  "f64_add NaN _ = NaN"
| "f64_add _ NaN = NaN"
| "f64_add (Infinity s) (Infinity t) = (if s = t then Infinity s else NaN)"
| "f64_add (Infinity s) (Finite _) = Infinity s"
| "f64_add (Finite _) (Infinity t) = Infinity t"
| "f64_add (Finite p) (Finite q) = f64_of_rat (p + q)"

definition f64_sub :: "f64 \<Rightarrow> f64 \<Rightarrow> f64" where
  "f64_sub x y = f64_add x (f64_neg y)"

fun f64_lt :: "f64 \<Rightarrow> f64 \<Rightarrow> bool" where
  "f64_lt NaN _ = False"
| "f64_lt _ NaN = False"
| "f64_lt (Infinity s) (Infinity t) = (s \<and> \<not> t)"
| "f64_lt (Infinity s) (Finite _) = s"
| "f64_lt (Finite _) (Infinity t) = (\<not> t)"
| "f64_lt (Finite p) (Finite q) = (p < q)"

fun f64_le :: "f64 \<Rightarrow> f64 \<Rightarrow> bool" where
  "f64_le NaN _ = False"
| "f64_le _ NaN = False"
| "f64_le (Infinity s) (Infinity t) = (s \<or> \<not> t)"
| "f64_le (Infinity s) (Finite _) = s"
| "f64_le (Finite _) (Infinity t) = (\<not> t)"
| "f64_le (Finite p) (Finite q) = (p \<le> q)"

text \<open>\<^verbatim>\<open>f64::max\<close>: the other argument when one is NaN.\<close>

definition f64_max :: "f64 \<Rightarrow> f64 \<Rightarrow> f64" where
  "f64_max x y = (if x = NaN then y else if y = NaN then x else if f64_lt x y then y else x)"

text \<open>The saturating cast \<^verbatim>\<open>as u64\<close>.\<close>

fun f64_as_u64 :: "f64 \<Rightarrow> nat" where
  "f64_as_u64 NaN = 0"
| "f64_as_u64 (Infinity s) = (if s then 0 else 2 ^ 64 - 1)"
| "f64_as_u64 (Finite q) = (if q \<le> 0 then 0 else min (nat \<lfloor>q\<rfloor>) (2 ^ 64 - 1))"

section \<open>Binary magnitude\<close>

lemma bit_len_rat_bounds:
  assumes "0 < a"
  shows "(2::rat) powi (int (bit_len (nat a)) - 1) \<le> of_int a \<and> of_int a < (2::rat) powi int (bit_len (nat a))"
proof -
  have n: "0 < nat a" using assms by simp
  note b = bit_len_bounds[OF n]
  have pos: "0 < bit_len (nat a)" using n by (simp add: bit_len_pos)
  have r: "(of_int a :: rat) = of_nat (nat a)" using assms by simp
  have e: "int (bit_len (nat a)) - 1 = int (bit_len (nat a) - 1)" using pos by simp
  have "(of_nat (2 ^ (bit_len (nat a) - 1)) :: rat) \<le> of_nat (nat a)"
    "(of_nat (nat a) :: rat) < of_nat (2 ^ bit_len (nat a))"
    using b by (simp_all only: of_nat_le_iff of_nat_less_iff)
  then show ?thesis unfolding r e power_int_of_nat by simp
qed

lemma floor_log2_bounds:
  assumes "0 < q"
  shows "2 powi floor_log2 q \<le> q \<and> q < 2 powi (floor_log2 q + 1)"
proof -
  obtain a b where ab: "quotient_of q = (a, b)" by (cases "quotient_of q")
  then have b: "0 < b" and q: "q = of_int a / of_int b"
    using quotient_of_denom_pos quotient_of_div by blast+
  with assms have a: "0 < a" by (simp add: zero_less_divide_iff)
  let ?la = "bit_len (nat a)" and ?lb = "bit_len (nat b)"
  have la: "(2::rat) powi (int ?la - 1) \<le> of_int a" "of_int a < (2::rat) powi int ?la"
    and lb: "(2::rat) powi (int ?lb - 1) \<le> of_int b" "of_int b < (2::rat) powi int ?lb"
    using bit_len_rat_bounds a b by auto
  have up: "q < 2 powi (int ?la - int ?lb + 1)"
  proof -
    have "q < 2 powi int ?la / 2 powi (int ?lb - 1)"
      unfolding q using la lb a b by (intro frac_less) auto
    also have "\<dots> = 2 powi (int ?la - (int ?lb - 1))"
      by (subst power_int_diff) simp_all
    also have "int ?la - (int ?lb - 1) = int ?la - int ?lb + 1" by simp
    finally show ?thesis .
  qed
  have lo: "2 powi (int ?la - int ?lb - 1) < q"
  proof -
    have "int ?la - int ?lb - 1 = (int ?la - 1) - int ?lb" by simp
    then have "2 powi (int ?la - int ?lb - 1) = (2::rat) powi (int ?la - 1) / 2 powi int ?lb"
      by (metis power_int_diff zero_neq_numeral)
    also have "\<dots> < q" unfolding q using la lb a b by (intro frac_less2) auto
    finally show ?thesis .
  qed
  show ?thesis using up lo ab by (auto simp: floor_log2_def Let_def)
qed


lemma powi_less_imp_less: "(2::rat) powi a < 2 powi b \<Longrightarrow> a < b"
  using power_int_increasing[of b a "2::rat"] by (cases "a < b") auto

lemma floor_log2_mono:
  assumes "0 < p" "p \<le> q" shows "floor_log2 p \<le> floor_log2 q"
proof -
  have "2 powi floor_log2 p \<le> p" "q < 2 powi (floor_log2 q + 1)"
    using floor_log2_bounds assms by auto
  with assms have "(2::rat) powi floor_log2 p < 2 powi (floor_log2 q + 1)" by linarith
  then have "floor_log2 p < floor_log2 q + 1"
    by (rule powi_less_imp_less)
  then show ?thesis by simp
qed

lemma floor_log2_le: "0 < q \<Longrightarrow> q < 2 powi (e + 1) \<Longrightarrow> floor_log2 q \<le> e"
proof -
  assume "0 < q" "q < 2 powi (e + 1)"
  with floor_log2_bounds[of q] have "(2::rat) powi floor_log2 q < 2 powi (e + 1)" by linarith
  then have "floor_log2 q < e + 1" by (rule powi_less_imp_less)
  then show ?thesis by simp
qed

section \<open>Rounding\<close>

lemma round_half_even_int [simp]: "round_half_even (of_int n) = n"
  by (simp add: round_half_even_def)

lemma round_half_even_error: "\<bar>of_int (round_half_even x) - x\<bar> \<le> 1 / 2"
proof -
  have "of_int \<lfloor>x\<rfloor> \<le> x" "x < of_int \<lfloor>x\<rfloor> + 1" by linarith+
  then show ?thesis unfolding round_half_even_def Let_def by (auto simp: abs_le_iff)
qed

lemma round_half_even_mono: assumes "x \<le> y" shows "round_half_even x \<le> round_half_even y"
proof (cases "\<lfloor>x\<rfloor> = \<lfloor>y\<rfloor>")
  case True then show ?thesis using assms by (auto simp: round_half_even_def Let_def)
next
  case False
  with assms have "\<lfloor>x\<rfloor> + 1 \<le> \<lfloor>y\<rfloor>" using floor_mono[OF assms] by linarith
  moreover have "round_half_even x \<le> \<lfloor>x\<rfloor> + 1" "\<lfloor>y\<rfloor> \<le> round_half_even y"
    by (auto simp: round_half_even_def Let_def)
  ultimately show ?thesis by linarith
qed

lemma round_half_even_minus: "round_half_even (- x) = - round_half_even x"
proof (cases "x \<in> \<int>")
  case True
  then obtain n where "x = of_int n" by (auto elim: Ints_cases)
  then show ?thesis using round_half_even_int[of "- n"] by simp
next
  case False
  have f: "\<lfloor>- x\<rfloor> = - \<lfloor>x\<rfloor> - 1"
  proof -
    have "x \<noteq> of_int \<lfloor>x\<rfloor>" using False by (metis Ints_of_int)
    then have "of_int \<lfloor>x\<rfloor> < x" "x < of_int \<lfloor>x\<rfloor> + 1" by linarith+
    then show ?thesis by (intro floor_unique) auto
  qed
  show ?thesis unfolding round_half_even_def Let_def f by (auto simp: algebra_simps)
qed

lemma f64_exp_minus [simp]: "f64_exp (- q) = f64_exp q"
  by (simp add: f64_exp_def)

lemma round_f64_0 [simp]: "round_f64 0 = 0"
  by (simp add: round_f64_def)

lemma round_f64_minus: "round_f64 (- q) = - round_f64 q"
  using round_half_even_minus[of "q / 2 powi f64_exp q"] by (simp add: round_f64_def)

lemma round_f64_nonneg: "0 \<le> q \<Longrightarrow> 0 \<le> round_f64 q"
  using round_half_even_mono[of 0 "q / 2 powi f64_exp q"] round_half_even_int[of 0]
  by (auto simp: round_f64_def)

lemma powi_quotient_int:
  "j \<le> k \<Longrightarrow> \<exists>n. (2::rat) powi k / 2 powi j = of_int n"
proof -
  assume "j \<le> k"
  then have "(2::rat) powi (k - j) = of_int (2 ^ nat (k - j))"
    by (simp add: power_int_def)
  then have "(2::rat) powi k / 2 powi j = of_int (2 ^ nat (k - j))"
    by (subst (asm) power_int_diff) simp_all
  then show ?thesis by blast
qed

lemma round_half_even_le_int: "x \<le> of_int n \<Longrightarrow> round_half_even x \<le> n"
  using round_half_even_mono[of x "of_int n"] by simp

lemma round_half_even_ge_int: "of_int n \<le> x \<Longrightarrow> n \<le> round_half_even x"
  using round_half_even_mono[of "of_int n" x] by simp

lemma round_f64_mono_pos:
  assumes "0 < p" "p \<le> q" shows "round_f64 p \<le> round_f64 q"
proof (cases "f64_exp p = f64_exp q")
  case True
  have "round_half_even (p / 2 powi f64_exp q) \<le> round_half_even (q / 2 powi f64_exp q)"
    using assms by (intro round_half_even_mono divide_right_mono) auto
  with True assms show ?thesis by (simp add: round_f64_def mult_right_mono)
next
  case False
  have q: "0 < q" using assms by simp
  have "f64_exp p \<le> f64_exp q"
    using floor_log2_mono[OF assms] assms by (simp add: f64_exp_def)
  with False have lt: "f64_exp p < f64_exp q" by simp
  then have eq: "f64_exp q = floor_log2 q - 52" and fl: "floor_log2 p < floor_log2 q"
    using assms by (auto simp: f64_exp_def)
  let ?P = "(2::rat) powi floor_log2 q"
  have "p < 2 powi (floor_log2 p + 1)" using floor_log2_bounds assms by blast
  also have "\<dots> \<le> ?P" using fl by (intro power_int_increasing) auto
  finally have pP: "p \<le> ?P" by simp
  have Pq: "?P \<le> q" using floor_log2_bounds q by blast
  obtain m n where m: "?P / 2 powi f64_exp p = of_int m" and n: "?P / 2 powi f64_exp q = of_int n"
    using powi_quotient_int[of "f64_exp p" "floor_log2 q"] powi_quotient_int[of "f64_exp q" "floor_log2 q"]
      lt eq by auto
  have "round_half_even (p / 2 powi f64_exp p) \<le> m"
    using pP by (intro round_half_even_le_int) (simp flip: m add: divide_right_mono)
  then have "round_f64 p \<le> of_int m * 2 powi f64_exp p"
    using assms by (simp add: round_f64_def mult_right_mono)
  also have "\<dots> = ?P" using m by (simp add: field_simps)
  also have "?P = of_int n * 2 powi f64_exp q" using n by (simp add: field_simps)
  also have "\<dots> \<le> round_f64 q"
  proof -
    have "n \<le> round_half_even (q / 2 powi f64_exp q)"
      using Pq by (intro round_half_even_ge_int) (simp flip: n add: divide_right_mono)
    then show ?thesis using q by (simp add: round_f64_def mult_right_mono)
  qed
  finally show ?thesis .
qed

lemma round_f64_mono: assumes "p \<le> q" shows "round_f64 p \<le> round_f64 q"
proof -
  consider "0 < p" | "q < 0" | "p \<le> 0" "0 \<le> q" using assms by linarith
  then show ?thesis
  proof cases
    case 1 then show ?thesis using assms by (rule round_f64_mono_pos)
  next
    case 2
    then show ?thesis
      using round_f64_mono_pos[of "- q" "- p"] assms by (simp add: round_f64_minus)
  next
    case 3
    then show ?thesis
      using round_f64_nonneg[of q] round_f64_nonneg[of "- p"] by (simp add: round_f64_minus)
  qed
qed

lemma round_f64_error: "\<bar>round_f64 q - q\<bar> \<le> 2 powi f64_exp q / 2"
proof (cases "q = 0")
  case False
  let ?u = "(2::rat) powi f64_exp q" and ?r = "of_int (round_half_even (q / 2 powi f64_exp q)) :: rat"
  have "round_f64 q - q = (?r - q / ?u) * ?u"
    using False by (simp add: round_f64_def field_simps)
  then have "\<bar>round_f64 q - q\<bar> = \<bar>?r - q / ?u\<bar> * ?u" by (simp add: abs_mult)
  also have "\<dots> \<le> 1 / 2 * ?u" using round_half_even_error by (intro mult_right_mono) auto
  finally show ?thesis by simp
qed simp

lemma f64_exp_small: "q \<noteq> 0 \<Longrightarrow> \<bar>q\<bar> < 2 ^ 53 \<Longrightarrow> f64_exp q \<le> 0"
  using floor_log2_le[of "\<bar>q\<bar>" 52] by (simp add: f64_exp_def power_int_def)

lemma round_f64_error_small: "\<bar>q\<bar> < 2 ^ 53 \<Longrightarrow> \<bar>round_f64 q - q\<bar> \<le> 1 / 2"
proof (cases "q = 0")
  case False
  assume "\<bar>q\<bar> < 2 ^ 53"
  with False have "(2::rat) powi f64_exp q \<le> 2 powi 0"
    by (intro power_int_increasing f64_exp_small) auto
  then show ?thesis using round_f64_error[of q] by simp
qed simp

lemma round_f64_int: "\<bar>n\<bar> < 2 ^ 53 \<Longrightarrow> round_f64 (of_int n) = of_int n"
proof (cases "n = 0")
  case False
  assume n: "\<bar>n\<bar> < 2 ^ 53"
  have "\<bar>of_int n :: rat\<bar> < 2 ^ 53" using n by (metis of_int_abs of_int_less_iff of_int_numeral of_int_power)
  then have e: "f64_exp (of_int n) \<le> 0" using False by (intro f64_exp_small) auto
  obtain k where k: "(2::rat) powi 0 / 2 powi f64_exp (of_int n) = of_int k"
    using powi_quotient_int[OF e] by blast
  let ?u = "(2::rat) powi f64_exp (of_int n)"
  have k': "of_int k * ?u = 1" using k by (simp add: field_simps)
  then have "(of_int n :: rat) / ?u = of_int (n * k)" by (simp add: field_simps)
  then have "round_half_even (of_int n / ?u) = n * k" by (simp only: round_half_even_int)
  then show ?thesis using False k' by (simp add: round_f64_def mult.assoc)
qed simp

section \<open>Comparisons and sums\<close>

lemma f64_le_refl [simp]: "f64_le x x \<longleftrightarrow> x \<noteq> NaN"
  by (cases x) simp_all

lemma f64_le_trans: "f64_le x y \<Longrightarrow> f64_le y z \<Longrightarrow> f64_le x z"
  by (cases x; cases y; cases z) auto

lemma f64_lt_le_trans: "f64_lt x y \<Longrightarrow> f64_le y z \<Longrightarrow> f64_lt x z"
  by (cases x; cases y; cases z) auto

lemma f64_le_lt_trans: "f64_le x y \<Longrightarrow> f64_lt y z \<Longrightarrow> f64_lt x z"
  by (cases x; cases y; cases z) auto

lemma f64_not_lt: "x \<noteq> NaN \<Longrightarrow> y \<noteq> NaN \<Longrightarrow> \<not> f64_lt x y \<longleftrightarrow> f64_le y x"
  by (cases x; cases y) auto

lemma f64_not_le: "x \<noteq> NaN \<Longrightarrow> y \<noteq> NaN \<Longrightarrow> \<not> f64_le x y \<longleftrightarrow> f64_lt y x"
  by (cases x; cases y) auto

lemma f64_lt_irrefl [simp]: "\<not> f64_lt x x"
  by (cases x) simp_all

lemma f64_lt_imp_le: "f64_lt x y \<Longrightarrow> f64_le x y"
  by (cases x; cases y) auto

lemma f64_of_rat_not_NaN [simp]: "f64_of_rat q \<noteq> NaN"
  by (simp add: f64_of_rat_def Let_def)

lemma f64_of_rat_mono: "p \<le> q \<Longrightarrow> f64_le (f64_of_rat p) (f64_of_rat q)"
  using round_f64_mono[of p q] by (auto simp: f64_of_rat_def Let_def)

lemma f64_le_Infinity [simp]:
  "f64_le (Infinity True) x \<longleftrightarrow> x \<noteq> NaN" "f64_le x (Infinity False) \<longleftrightarrow> x \<noteq> NaN"
  by (cases x; simp)+

lemma f64_of_rat_0 [simp]: "f64_of_rat 0 = Finite 0"
  by (simp add: f64_of_rat_def)

lemma f64_add_mono:
  "f64_le x y \<Longrightarrow> f64_is_finite z \<Longrightarrow> f64_le (f64_add x z) (f64_add y z)"
  by (cases x; cases y; cases z) (auto simp: f64_of_rat_mono)

lemma f64_sub_mono:
  "f64_le x y \<Longrightarrow> f64_is_finite z \<Longrightarrow> f64_le (f64_sub x z) (f64_sub y z)"
  unfolding f64_sub_def by (rule f64_add_mono) (assumption, cases z, simp_all)

lemma f64_add_not_NaN:
  "x \<noteq> NaN \<Longrightarrow> f64_is_finite z \<Longrightarrow> f64_add x z \<noteq> NaN"
  by (cases x; cases z) simp_all

lemma f64_of_rat_int: "\<bar>n\<bar> < 2 ^ 53 \<Longrightarrow> f64_of_rat (of_int n) = Finite (of_int n)"
proof -
  assume n: "\<bar>n\<bar> < 2 ^ 53"
  then have "\<bar>of_int n :: rat\<bar> < 2 ^ 53" by (metis of_int_abs of_int_less_iff of_int_numeral of_int_power)
  also have "(2::rat) ^ 53 < 2 ^ 1024" by (intro power_strict_increasing) simp_all
  finally have "\<bar>of_int n :: rat\<bar> < 2 ^ 1024" .
  then show ?thesis using round_f64_int[OF n] by (simp add: f64_of_rat_def Let_def abs_less_iff)
qed

lemma f64_of_nat_exact: "n < 2 ^ 53 \<Longrightarrow> f64_of_nat n = Finite (of_nat n)"
  using f64_of_rat_int[of "int n"] by (simp add: f64_of_nat_def)

lemma f64_add_int:
  "\<bar>m + n\<bar> < 2 ^ 53 \<Longrightarrow> f64_add (Finite (of_int m)) (Finite (of_int n)) = Finite (of_int (m + n))"
  using f64_of_rat_int[of "m + n"] by simp

lemma f64_add_progress:
  assumes "0 \<le> q" "q < 2 ^ 52" "1 \<le> t"
  shows "f64_lt (Finite q) (f64_add (Finite q) (Finite t))"
proof -
  have "\<bar>q + 1\<bar> < 2 ^ 53" using assms by simp
  from round_f64_error_small[OF this] have "q < round_f64 (q + 1)" by linarith
  also have "round_f64 (q + 1) \<le> round_f64 (q + t)" using assms by (intro round_f64_mono) simp
  finally have r: "q < round_f64 (q + t)" .
  have "- ((2::rat) ^ 1024) < 0" by (simp only: neg_less_0_iff_less) (rule zero_less_power, simp)
  with r assms(1) have "\<not> round_f64 (q + t) \<le> - (2 ^ 1024)" by linarith
  with r show ?thesis by (simp add: f64_of_rat_def Let_def)
qed

end
