(* ===== verification/Json.thy ===== *)
theory Json
  imports F64 "HOL-Library.List_Lexorder" "HOL-Library.Char_ord" "HOL-Library.Multiset"
begin

text \<open>
  JSON values, ordered maps and strings as the sources use them, and the canonicalisation of
  \<^verbatim>\<open>src/crates/domain/src/safety/token/canonical.rs\<close>.

  \<^item> A \<^verbatim>\<open>BTreeMap<String, V>\<close> is an association list sorted by key; keys are compared bytewise.
    \<^verbatim>\<open>serde_json::Map\<close> is the same structure, since the workspace does not enable \<^verbatim>\<open>preserve_order\<close>.
  \<^item> \<open>libs\<close> collects the third-party functions the sources call: SHA-256, hex and base64url codecs,
    the JSON printer and parser, and Ed25519.  Every definition that calls one takes it as argument.
  \<^item> \<open>str_trim\<close> is \<^verbatim>\<open>str::trim\<close> on UTF-8 bytes, \<open>split_on\<close> is \<^verbatim>\<open>str::split\<close> on a character.
\<close>

section \<open>Ordered maps\<close>

type_synonym 'v btree = "(string \<times> 'v) list"

fun bt_insert :: "string \<Rightarrow> 'v \<Rightarrow> 'v btree \<Rightarrow> 'v btree" where
  "bt_insert k v [] = [(k, v)]"
| "bt_insert k v ((k', v') # m) =
     (if k < k' then (k, v) # (k', v') # m
      else if k = k' then (k, v) # m
      else (k', v') # bt_insert k v m)"

definition bt_get :: "'v btree \<Rightarrow> string \<Rightarrow> 'v option" where
  "bt_get m k = map_of m k"

definition bt_contains_key :: "'v btree \<Rightarrow> string \<Rightarrow> bool" where
  "bt_contains_key m k \<longleftrightarrow> bt_get m k \<noteq> None"

definition bt_of_list :: "(string \<times> 'v) list \<Rightarrow> 'v btree" where
  "bt_of_list kvs = foldl (\<lambda>m (k, v). bt_insert k v m) [] kvs"

definition bt_sorted :: "'v btree \<Rightarrow> bool" where
  "bt_sorted m \<longleftrightarrow> sorted_wrt (<) (map fst m)"

section \<open>JSON values\<close>

datatype jnum = PosInt nat | NegInt int | Float f64

datatype json = JNull | JBool bool | JNumber jnum | JString string
  | JArray "json list" | JObject "(string \<times> json) list"

fun json_as_str :: "json \<Rightarrow> string option" where
  "json_as_str (JString s) = Some s"
| "json_as_str _ = None"

fun json_as_f64 :: "json \<Rightarrow> f64 option" where
  "json_as_f64 (JNumber (PosInt n)) = Some (f64_of_nat n)"
| "json_as_f64 (JNumber (NegInt i)) = Some (f64_of_int i)"
| "json_as_f64 (JNumber (Float x)) = Some x"
| "json_as_f64 _ = None"

fun json_as_u64 :: "json \<Rightarrow> nat option" where
  "json_as_u64 (JNumber (PosInt n)) = Some n"
| "json_as_u64 _ = None"

definition json_from_f64 :: "f64 \<Rightarrow> json" where
  "json_from_f64 x = (if f64_is_finite x then JNumber (Float x) else JNull)"

definition json_from_opt_str :: "string option \<Rightarrow> json" where
  "json_from_opt_str s = (case s of None \<Rightarrow> JNull | Some t \<Rightarrow> JString t)"

text \<open>The invariant of \<^verbatim>\<open>Value\<close>: every object is an ordered map.\<close>

fun json_wf :: "json \<Rightarrow> bool" where
  "json_wf (JArray vs) = (\<forall>v\<in>set vs. json_wf v)"
| "json_wf (JObject m) = (bt_sorted m \<and> (\<forall>kv\<in>set m. json_wf (snd kv)))"
| "json_wf _ = True"

section \<open>Third-party functions\<close>

record libs =
  sha256 :: "bytes \<Rightarrow> hash32"
  hex_encode :: "bytes \<Rightarrow> string"
  hex_decode :: "string \<Rightarrow> (string, bytes) result"
  b64url_encode :: "bytes \<Rightarrow> string"
  b64url_decode :: "string \<Rightarrow> (string, bytes) result"
  json_to_string :: "json \<Rightarrow> string"
  json_from_slice :: "bytes \<Rightarrow> (string, json) result"
  verifying_key :: "256 word \<Rightarrow> 256 word"
  ed25519_sign :: "256 word \<Rightarrow> bytes \<Rightarrow> bytes"
  ed25519_verify :: "256 word \<Rightarrow> bytes \<Rightarrow> bytes \<Rightarrow> (string, unit) result"

section \<open>Canonical JSON\<close>

lemma size_member: "(k, v) \<in> set m \<Longrightarrow> size v \<le> size_list (size_prod (\<lambda>_. 0) size) (m :: (string \<times> json) list)"
  by (induction m) auto

lemma size_element: "v \<in> set vs \<Longrightarrow> size v \<le> size_list size (vs :: json list)"
  by (induction vs) auto

function sort_value :: "json \<Rightarrow> json" where
  "sort_value (JObject m) = JObject (bt_of_list (bt_of_list (map (\<lambda>kv. (fst kv, sort_value (snd kv))) m)))"
| "sort_value (JArray items) = JArray (map sort_value items)"
| "sort_value JNull = JNull"
| "sort_value (JBool b) = JBool b"
| "sort_value (JNumber n) = JNumber n"
| "sort_value (JString s) = JString s"
  by pat_completeness auto
termination
  by (relation "measure size") (auto simp: less_Suc_eq_le dest: size_member size_element)

definition stable_json :: "libs \<Rightarrow> json btree \<Rightarrow> string" where
  "stable_json L m = json_to_string L (JObject (bt_of_list (map (\<lambda>kv. (fst kv, sort_value (snd kv))) m)))"

definition sha256_hex :: "libs \<Rightarrow> bytes \<Rightarrow> string" where
  "sha256_hex L data = hex_encode L (be_bytes (sha256 L data))"

definition token_sha256 :: "libs \<Rightarrow> string \<Rightarrow> string" where
  "token_sha256 L token = sha256_hex L (as_bytes token)"

definition params_fingerprint :: "libs \<Rightarrow> json \<Rightarrow> string" where
  "params_fingerprint L params = sha256_hex L (as_bytes (json_to_string L (sort_value params)))"

section \<open>Strings\<close>

definition ws_codes :: "string list" where
  "ws_codes =
     [[CHR 0x09], [CHR 0x0A], [CHR 0x0B], [CHR 0x0C], [CHR 0x0D], [CHR 0x20],
      [CHR 0xC2, CHR 0x85], [CHR 0xC2, CHR 0xA0], [CHR 0xE1, CHR 0x9A, CHR 0x80],
      [CHR 0xE2, CHR 0x80, CHR 0x80], [CHR 0xE2, CHR 0x80, CHR 0x81], [CHR 0xE2, CHR 0x80, CHR 0x82],
      [CHR 0xE2, CHR 0x80, CHR 0x83], [CHR 0xE2, CHR 0x80, CHR 0x84], [CHR 0xE2, CHR 0x80, CHR 0x85],
      [CHR 0xE2, CHR 0x80, CHR 0x86], [CHR 0xE2, CHR 0x80, CHR 0x87], [CHR 0xE2, CHR 0x80, CHR 0x88],
      [CHR 0xE2, CHR 0x80, CHR 0x89], [CHR 0xE2, CHR 0x80, CHR 0x8A], [CHR 0xE2, CHR 0x80, CHR 0xA8],
      [CHR 0xE2, CHR 0x80, CHR 0xA9], [CHR 0xE2, CHR 0x80, CHR 0xAF], [CHR 0xE2, CHR 0x81, CHR 0x9F],
      [CHR 0xE3, CHR 0x80, CHR 0x80]]"

lemma ws_codes_ne: "find P ws_codes = Some w \<Longrightarrow> w \<noteq> []"
proof -
  assume "find P ws_codes = Some w"
  then have "w \<in> set ws_codes" by (auto simp: find_Some_iff)
  moreover have "[] \<notin> set ws_codes" by (simp add: ws_codes_def)
  ultimately show "w \<noteq> []" by blast
qed

function trim_start :: "string \<Rightarrow> string" where
  "trim_start s = (case find (\<lambda>w. prefix w s) ws_codes of
     None \<Rightarrow> s | Some w \<Rightarrow> trim_start (drop (length w) s))"
  by pat_completeness auto
termination
proof (relation "measure length", goal_cases)
  case (2 s w)
  then have "w \<noteq> []" "prefix w s" by (auto simp: ws_codes_ne find_Some_iff)
  then show ?case by (auto simp: prefix_def)
qed simp

declare trim_start.simps [simp del]

function trim_end :: "string \<Rightarrow> string" where
  "trim_end s = (case find (\<lambda>w. suffix w s) ws_codes of
     None \<Rightarrow> s | Some w \<Rightarrow> trim_end (take (length s - length w) s))"
  by pat_completeness auto
termination
proof (relation "measure length", goal_cases)
  case (2 s w)
  then have "w \<noteq> []" "suffix w s" by (auto simp: ws_codes_ne find_Some_iff)
  then show ?case by (auto simp: suffix_def)
qed simp

declare trim_end.simps [simp del]

definition str_trim :: "string \<Rightarrow> string" where
  "str_trim s = trim_end (trim_start s)"

fun split_on :: "char \<Rightarrow> string \<Rightarrow> string list" where
  "split_on c [] = [[]]"
| "split_on c (x # xs) =
     (if x = c then [] # split_on c xs
      else case split_on c xs of [] \<Rightarrow> [[x]] | p # ps \<Rightarrow> (x # p) # ps)"

text \<open>\<^verbatim>\<open>splitn(2, c)\<close>: the text before the first separator, and the rest when there is one.\<close>

fun splitn2 :: "char \<Rightarrow> string \<Rightarrow> string \<times> string option" where
  "splitn2 c [] = ([], None)"
| "splitn2 c (x # xs) = (if x = c then ([], Some xs) else (let (a, b) = splitn2 c xs in (x # a, b)))"

section \<open>Lemmas: ordered maps\<close>

lemma bt_get_insert [simp]: "bt_get (bt_insert k v m) x = (if x = k then Some v else bt_get m x)"
  by (induction k v m rule: bt_insert.induct) (auto simp: bt_get_def)

lemma bt_get_Nil [simp]: "bt_get [] x = None"
  by (simp add: bt_get_def)

lemma keys_bt_insert: "fst ` set (bt_insert k v m) = insert k (fst ` set m)"
  by (induction k v m rule: bt_insert.induct) auto

lemma bt_sorted_Nil [simp]: "bt_sorted []"
  by (simp add: bt_sorted_def)

lemma bt_sorted_Cons: "bt_sorted ((k, v) # m) \<longleftrightarrow> (\<forall>x\<in>fst ` set m. k < x) \<and> bt_sorted m"
  by (simp add: bt_sorted_def)

lemma bt_sorted_insert [simp]: "bt_sorted m \<Longrightarrow> bt_sorted (bt_insert k v m)"
  by (induction k v m rule: bt_insert.induct)
    (auto simp: bt_sorted_Cons keys_bt_insert simp del: image_insert)

lemma set_bt_insert: "set (bt_insert k v m) \<subseteq> insert (k, v) (set m)"
  by (induction k v m rule: bt_insert.induct) auto

lemma bt_sorted_distinct: "bt_sorted m \<Longrightarrow> distinct (map fst m)"
  unfolding bt_sorted_def using strict_sorted_iff by auto

lemma bt_sorted_ext:
  "bt_sorted m \<Longrightarrow> bt_sorted m' \<Longrightarrow> (\<And>k. bt_get m k = bt_get m' k) \<Longrightarrow> m = m'"
proof -
  assume s: "bt_sorted m" "bt_sorted m'" and eq: "\<And>k. bt_get m k = bt_get m' k"
  then have "map_of m = map_of m'" by (auto simp: bt_get_def)
  then have st: "set m = set m'"
    using s bt_sorted_distinct by (metis map_of_eqI map_of_inject_set)
  then have "set (map fst m) = set (map fst m')" by simp
  with s have keys: "map fst m = map fst m'"
    unfolding bt_sorted_def by (simp add: strict_sorted_equal)
  show "m = m'"
  proof (rule nth_equalityI)
    show "length m = length m'" using keys map_eq_imp_length_eq by blast
    fix i assume i: "i < length m"
    then have i': "i < length m'" using \<open>length m = length m'\<close> by simp
    have "m ! i \<in> set m'" "m' ! i \<in> set m'" using i i' st by (metis nth_mem)+
    moreover have "fst (m ! i) = fst (m' ! i)" using keys i i' by (metis nth_map)
    ultimately show "m ! i = m' ! i"
      using bt_sorted_distinct[OF s(2)] by (metis eq_key_imp_eq_value prod.collapse)
  qed
qed

lemma bt_of_list_snoc: "bt_of_list (kvs @ [(k, v)]) = bt_insert k v (bt_of_list kvs)"
  by (simp add: bt_of_list_def)

lemma bt_of_list_Nil [simp]: "bt_of_list [] = []"
  by (simp add: bt_of_list_def)

lemma bt_sorted_of_list [simp]: "bt_sorted (bt_of_list kvs)"
  by (induction kvs rule: rev_induct) (auto simp: bt_of_list_snoc)

lemma bt_get_of_list: "bt_get (bt_of_list kvs) k = map_of (rev kvs) k"
  by (induction kvs rule: rev_induct) (auto simp: bt_of_list_snoc)

lemma set_bt_of_list: "set (bt_of_list kvs) \<subseteq> set kvs"
proof (induction kvs rule: rev_induct)
  case (snoc kv kvs)
  then show ?case using set_bt_insert by (cases kv) (fastforce simp: bt_of_list_snoc)
qed simp

lemma map_of_rev_distinct: "distinct (map fst m) \<Longrightarrow> map_of (rev m) = map_of m"
  by (subst map_of_inject_set) (simp_all add: rev_map[symmetric])

lemma bt_of_list_sorted [simp]: "bt_sorted m \<Longrightarrow> bt_of_list m = m"
proof (rule bt_sorted_ext)
  fix k assume "bt_sorted m"
  then have "distinct (map fst m)" by (rule bt_sorted_distinct)
  then show "bt_get (bt_of_list m) k = bt_get m k"
    by (simp only: bt_get_of_list map_of_rev_distinct) (simp add: bt_get_def)
qed simp_all

lemma bt_of_list_perm:
  "mset kvs = mset kvs' \<Longrightarrow> distinct (map fst kvs) \<Longrightarrow> bt_of_list kvs = bt_of_list kvs'"
proof (rule bt_sorted_ext)
  fix k assume p: "mset kvs = mset kvs'" and d: "distinct (map fst kvs)"
  then have d': "distinct (map fst kvs')" by (metis mset_eq_imp_distinct_iff mset_map)
  have "map_of kvs = map_of kvs'"
    using p d d' by (intro map_of_inject_set[THEN iffD2]) (auto dest: mset_eq_setD)
  then show "bt_get (bt_of_list kvs) k = bt_get (bt_of_list kvs') k"
    using d d' by (simp add: bt_get_of_list map_of_rev_distinct)
qed simp_all

section \<open>Lemmas: canonical form\<close>

lemma json_wf_sort_value: "json_wf (sort_value v)"
proof (induction v rule: sort_value.induct)
  case (1 m)
  then show ?case using set_bt_of_list[of "bt_of_list (map (\<lambda>kv. (fst kv, sort_value (snd kv))) m)"]
      set_bt_of_list[of "map (\<lambda>kv. (fst kv, sort_value (snd kv))) m"] by fastforce
qed auto

lemma json_wf_bt_of_list: "(\<And>k v. (k, v) \<in> set kvs \<Longrightarrow> json_wf v) \<Longrightarrow> json_wf (JObject (bt_of_list kvs))"
  using set_bt_of_list[of kvs] by fastforce

lemma sort_value_wf: "json_wf v \<Longrightarrow> sort_value v = v"
proof (induction v rule: sort_value.induct)
  case (1 m)
  then have "map (\<lambda>kv. (fst kv, sort_value (snd kv))) m = m"
    by (intro map_idI) auto
  with 1 show ?case by simp
qed (auto intro: map_idI)

lemma stable_json_wf: "json_wf (JObject m) \<Longrightarrow> stable_json L m = json_to_string L (JObject m)"
proof -
  assume wf: "json_wf (JObject m)"
  then have "map (\<lambda>kv. (fst kv, sort_value (snd kv))) m = m"
    by (intro map_idI) (auto simp: sort_value_wf)
  with wf show ?thesis by (simp add: stable_json_def)
qed

text \<open>Two values that differ only in the order of the members of their objects.\<close>

inductive json_perm :: "json \<Rightarrow> json \<Rightarrow> bool" where
  null: "json_perm JNull JNull"
| bool: "json_perm (JBool b) (JBool b)"
| number: "json_perm (JNumber n) (JNumber n)"
| string: "json_perm (JString s) (JString s)"
| array: "list_all2 json_perm vs ws \<Longrightarrow> json_perm (JArray vs) (JArray ws)"
| object: "list_all2 (\<lambda>kv kw. fst kv = fst kw \<and> json_perm (snd kv) (snd kw)) m m' \<Longrightarrow>
    mset m' = mset m'' \<Longrightarrow> distinct (map fst m) \<Longrightarrow> json_perm (JObject m) (JObject m'')"

inductive_simps json_perm_simps [simp]:
  "json_perm (JArray vs) w"
  "json_perm (JObject m) w"

lemma json_perm_sort_value: "json_perm v w \<Longrightarrow> sort_value v = sort_value w"
proof (induction rule: json_perm.induct)
  case (array vs ws)
  then have "map sort_value vs = map sort_value ws"
    by (auto simp: list_all2_conv_all_nth intro: nth_equalityI)
  then show ?case by simp
next
  case (object m m' m'')
  let ?f = "\<lambda>kv. (fst kv, sort_value (snd kv))"
  have "map ?f m = map ?f m'"
    using object(1) by (auto simp: list_all2_conv_all_nth intro: nth_equalityI)
  moreover have "map fst m = map fst m'"
    using object(1) by (auto simp: list_all2_conv_all_nth intro: nth_equalityI)
  then have "distinct (map fst (map ?f m'))" using object(3) by (simp add: comp_def)
  then have "bt_of_list (map ?f m') = bt_of_list (map ?f m'')"
    using object(2) by (intro bt_of_list_perm) simp_all
  ultimately show ?case by simp
qed simp_all

section \<open>Lemmas: strings\<close>

definition graphic :: "char \<Rightarrow> bool" where
  "graphic c \<longleftrightarrow> (of_char c :: nat) \<in> {0x21..0x7E}"

lemma ws_not_graphic: "w \<in> set ws_codes \<Longrightarrow> \<exists>c\<in>set w. \<not> graphic c \<and> w \<noteq> []"
  by (auto simp: ws_codes_def graphic_def)

lemma trim_start_graphic: "list_all graphic s \<Longrightarrow> trim_start s = s"
proof -
  assume g: "list_all graphic s"
  have "find (\<lambda>w. prefix w s) ws_codes = None"
  proof (rule ccontr)
    assume "find (\<lambda>w. prefix w s) ws_codes \<noteq> None"
    then obtain w where "w \<in> set ws_codes" "prefix w s" by (auto simp: find_None_iff)
    with ws_not_graphic[of w] g show False by (auto simp: list_all_iff dest: set_mono_prefix)
  qed
  then show ?thesis by (subst trim_start.simps) simp
qed

lemma trim_end_graphic: "list_all graphic s \<Longrightarrow> trim_end s = s"
proof -
  assume g: "list_all graphic s"
  have "find (\<lambda>w. suffix w s) ws_codes = None"
  proof (rule ccontr)
    assume "find (\<lambda>w. suffix w s) ws_codes \<noteq> None"
    then obtain w where "w \<in> set ws_codes" "suffix w s" by (auto simp: find_None_iff)
    with ws_not_graphic[of w] g show False by (auto simp: list_all_iff dest: set_mono_suffix)
  qed
  then show ?thesis by (subst trim_end.simps) simp
qed

lemma str_trim_graphic: "list_all graphic s \<Longrightarrow> str_trim s = s"
  by (simp add: str_trim_def trim_start_graphic trim_end_graphic)

lemma split_on_ne [simp]: "split_on c s \<noteq> []"
  by (induction s) (auto split: list.split)

lemma split_on_none: "c \<notin> set s \<Longrightarrow> split_on c s = [s]"
  by (induction s) auto

lemma split_on_append: "c \<notin> set s \<Longrightarrow> split_on c (s @ c # t) = s # split_on c t"
  by (induction s) auto

section \<open>Sample third-party functions\<close>

text \<open>
  Concrete functions that satisfy the contracts assumed of the libraries, for the examples: a
  hexadecimal codec in the place of base64url, a signature that repeats the key, and a printer and
  parser for one given value.
\<close>

definition hex_digit :: "nat \<Rightarrow> char" where
  "hex_digit n = ''0123456789abcdef'' ! n"

definition hex_value :: "char \<Rightarrow> nat" where
  "hex_value c = (let n = of_char c in if n < 0x3A then n - 0x30 else n - 0x57)"

definition base16_encode :: "bytes \<Rightarrow> string" where
  "base16_encode bs = concat (map (\<lambda>b. [hex_digit (unat b div 16), hex_digit (unat b mod 16)]) bs)"

fun base16_decode :: "string \<Rightarrow> (string, bytes) result" where
  "base16_decode [] = Ok []"
| "base16_decode [c] = Err ''length''"
| "base16_decode (c # d # s) =
     res_bind (base16_decode s) (\<lambda>bs. Ok (of_nat (16 * hex_value c + hex_value d) # bs))"

definition sample_libs :: "json \<Rightarrow> libs" where
  "sample_libs v =
     \<lparr>sha256 = (\<lambda>bs. of_nat (length bs)), hex_encode = base16_encode, hex_decode = base16_decode,
      b64url_encode = base16_encode,
      b64url_decode = base16_decode, json_to_string = (\<lambda>_. ''{}''), json_from_slice = (\<lambda>_. Ok v),
      verifying_key = (\<lambda>sk. sk), ed25519_sign = (\<lambda>sk _. be_bytes sk @ be_bytes sk),
      ed25519_verify = (\<lambda>pk _ s. if s = be_bytes pk @ be_bytes pk then Ok () else Err ''mismatch'')\<rparr>"

lemma hex_digit_facts:
  assumes "n < 16"
  shows "hex_value (hex_digit n) = n" "graphic (hex_digit n)" "hex_digit n \<notin> {CHR ''.'', CHR ''=''}"
proof -
  have "\<forall>n\<in>set [0..<16]. hex_value (hex_digit n) = n \<and> graphic (hex_digit n) \<and> hex_digit n \<notin> {CHR ''.'', CHR ''=''}"
    by code_simp
  with assms show "hex_value (hex_digit n) = n" "graphic (hex_digit n)" "hex_digit n \<notin> {CHR ''.'', CHR ''=''}"
    by auto
qed

lemma base16_roundtrip: "base16_decode (base16_encode bs) = Ok bs"
proof (induction bs)
  case (Cons b bs)
  have "unat b < 256" using unsigned_less[of b] by simp
  then have "unat b div 16 < 16" "unat b mod 16 < 16" by auto
  moreover have "of_nat (16 * (unat b div 16) + unat b mod 16) = b" by simp
  ultimately show ?case using Cons by (simp add: base16_encode_def hex_digit_facts(1) del: of_nat_add of_nat_mult)
qed (simp add: base16_encode_def)

lemma length_base16_encode: "length (base16_encode bs) = 2 * length bs"
  by (induction bs) (simp_all add: base16_encode_def)

lemma base16_chars: "c \<in> set (base16_encode bs) \<Longrightarrow> graphic c \<and> c \<noteq> CHR ''.'' \<and> c \<noteq> CHR ''=''"
proof -
  have lt: "unat b div 16 < 16" "unat b mod 16 < 16" for b :: u8
    using unsigned_less[of b] by (auto intro: less_mult_imp_div_less)
  assume "c \<in> set (base16_encode bs)"
  then show ?thesis
    using hex_digit_facts(2,3) lt by (auto simp: base16_encode_def)
qed

section \<open>Fingerprints\<close>

text \<open>The fingerprint of a parameter object does not depend on the order in which the members of
  its objects are listed, at any nesting depth.\<close>

theorem params_fingerprint_order_independent:
  "json_perm v w \<Longrightarrow> params_fingerprint L v = params_fingerprint L w"
  by (simp add: params_fingerprint_def json_perm_sort_value)

theorem params_fingerprint_order_independent_witness:
  "params_fingerprint (sample_libs JNull) (JObject [(''b'', JNull), (''a'', JObject [(''d'', JNull), (''c'', JBool True)])]) =
   params_fingerprint (sample_libs JNull) (JObject [(''a'', JObject [(''c'', JBool True), (''d'', JNull)]), (''b'', JNull)])"
proof -
  have "json_perm (JObject [(''d'', JNull), (''c'', JBool True)]) (JObject [(''c'', JBool True), (''d'', JNull)])"
    by (rule json_perm.object[where m' = "[(''d'', JNull), (''c'', JBool True)]"]) (auto intro: json_perm.intros)
  then show ?thesis
    by (intro params_fingerprint_order_independent json_perm.object[where m' = "[(''b'', JNull), (''a'', JObject [(''c'', JBool True), (''d'', JNull)])]"])
      (auto intro: json_perm.intros simp del: json_perm_simps)
qed

end
