(* ===== verification/Token.thy ===== *)
theory Token
  imports Json
begin

text \<open>
  Signing and verification of compact kernel tokens \<open>payload_b64.signature_b64\<close>, from
  \<^verbatim>\<open>src/crates/domain/src/safety/token/sign.rs\<close>, \<^verbatim>\<open>verify.rs\<close> and \<^verbatim>\<open>../error.rs\<close>.

  \<open>verify_kernel_token\<close> is split into the consecutive blocks of the source: splitting and decoding,
  signature check, required claims, time window, audience.  The lemmas give an exact
  characterisation of acceptance.  The locale \<open>claim_set\<close> is the contract of the trait
  \<^verbatim>\<open>ToClaimsMap\<close>; round trip and audience separation are proved once from it, and each claim type of the
  kernel interprets it.
\<close>

datatype kernel_token_error =
    TokFormat string
  | TokSignature string
  | TokClaims string
  | TokExpired string

record verified_claims =
  vc_token :: string
  vc_claims :: "json btree"
  vc_signature_b64 :: string

definition SIGNATURE_LENGTH :: nat where
  "SIGNATURE_LENGTH = 64"

definition REQUIRED_FIELDS :: "string list" where
  "REQUIRED_FIELDS =
     [''action'', ''run_id'', ''subject'', ''params_fingerprint'', ''issued_at'', ''expires_at'', ''nonce'']"

section \<open>Signing\<close>

definition sign_kernel_token :: "libs \<Rightarrow> ('c \<Rightarrow> json btree) \<Rightarrow> 'c \<Rightarrow> 256 word \<Rightarrow> string" where
  "sign_kernel_token L to_btreemap claims signing_key =
     (let payload_b64 = b64url_encode L (as_bytes (stable_json L (to_btreemap claims)));
          sig_b64 = b64url_encode L (ed25519_sign L signing_key (as_bytes payload_b64))
      in payload_b64 @ ''.'' @ sig_b64)"

section \<open>Verification\<close>

definition split_token :: "string \<Rightarrow> (kernel_token_error, string \<times> string) result" where
  "split_token t =
     (case split_on CHR ''.'' t of
        [p, s] \<Rightarrow> (let payload_b64 = str_trim p; sig_b64 = str_trim s in
                   if payload_b64 = [] \<or> sig_b64 = [] then Err (TokFormat ''invalid_token_format'')
                   else Ok (payload_b64, sig_b64))
      | _ \<Rightarrow> Err (TokFormat ''invalid_token_format''))"

definition decode_and_check_signature :: "libs \<Rightarrow> string \<Rightarrow> string \<Rightarrow> 256 word \<Rightarrow>
    (kernel_token_error, bytes) result" where
  "decode_and_check_signature L payload_b64 sig_b64 public_key =
     res_bind (map_err (\<lambda>e. TokFormat (''invalid_payload_b64:'' @ e)) (b64url_decode L payload_b64)) (\<lambda>payload_json.
     res_bind (map_err (\<lambda>e. TokFormat (''invalid_signature_b64:'' @ e)) (b64url_decode L sig_b64)) (\<lambda>sig_bytes.
     if length sig_bytes \<noteq> SIGNATURE_LENGTH then Err (TokFormat ''invalid_signature_b64:WrongLength'')
     else res_bind (map_err (\<lambda>e. TokSignature (''invalid_signature:'' @ e))
            (ed25519_verify L public_key (as_bytes payload_b64) sig_bytes)) (\<lambda>_.
     Ok payload_json)))"

definition parse_claims :: "libs \<Rightarrow> bytes \<Rightarrow> (kernel_token_error, json btree) result" where
  "parse_claims L payload_json =
     res_bind (map_err (\<lambda>e. TokFormat (''invalid_payload_json:'' @ e)) (json_from_slice L payload_json)) (\<lambda>parsed.
     case parsed of JObject obj \<Rightarrow> Ok obj | _ \<Rightarrow> Err (TokClaims ''claims_not_object''))"

fun check_required :: "json btree \<Rightarrow> string list \<Rightarrow> (kernel_token_error, unit) result" where
  "check_required obj [] = Ok ()"
| "check_required obj (k # ks) =
     (if \<not> bt_contains_key obj k then Err (TokClaims (''missing_claim:'' @ k)) else check_required obj ks)"

definition claim_str :: "json btree \<Rightarrow> string \<Rightarrow> string option" where
  "claim_str obj k =
     Option.bind (Option.bind (bt_get obj k) json_as_str) (\<lambda>s. if str_trim s = [] then None else Some (str_trim s))"

definition check_strings :: "json btree \<Rightarrow> (kernel_token_error, unit) result" where
  "check_strings obj =
     res_bind (ok_or (TokClaims ''invalid_action'') (claim_str obj ''action'')) (\<lambda>_.
     res_bind (ok_or (TokClaims ''invalid_run_id'') (claim_str obj ''run_id'')) (\<lambda>_.
     res_bind (ok_or (TokClaims ''invalid_subject'') (claim_str obj ''subject'')) (\<lambda>_.
     res_bind (ok_or (TokClaims ''invalid_params_fingerprint'') (claim_str obj ''params_fingerprint'')) (\<lambda>_.
     res_bind (ok_or (TokClaims ''invalid_nonce'') (claim_str obj ''nonce'')) (\<lambda>_. Ok ())))))"

definition claim_f64 :: "json btree \<Rightarrow> string \<Rightarrow> f64 option" where
  "claim_f64 obj k = Option.bind (bt_get obj k) json_as_f64"

definition check_times :: "json btree \<Rightarrow> f64 \<Rightarrow> f64 \<Rightarrow> (kernel_token_error, unit) result" where
  "check_times obj now_s leeway_s =
     res_bind (ok_or (TokClaims ''invalid_time_claims:ValueError'') (claim_f64 obj ''issued_at'')) (\<lambda>iat.
     res_bind (ok_or (TokClaims ''invalid_time_claims:ValueError'') (claim_f64 obj ''expires_at'')) (\<lambda>exp.
     let leeway = f64_max leeway_s (Finite 0) in
     if f64_lt (f64_add now_s leeway) iat then Err (TokClaims ''token_used_before_issued'')
     else if f64_lt exp (f64_sub now_s leeway) then Err (TokExpired ''token_expired'')
     else if f64_le exp iat then Err (TokClaims ''invalid_expiry_window'')
     else Ok ()))"

definition check_aud :: "json btree \<Rightarrow> string option \<Rightarrow> (kernel_token_error, unit) result" where
  "check_aud obj expected_aud =
     (case expected_aud of None \<Rightarrow> Ok ()
      | Some want_aud \<Rightarrow>
          (case bt_get obj ''aud'' of None \<Rightarrow> Err (TokClaims ''missing_claim:aud'')
           | Some _ \<Rightarrow> (case claim_str obj ''aud'' of None \<Rightarrow> Err (TokClaims ''invalid_aud'')
                | Some got_aud \<Rightarrow> if got_aud \<noteq> want_aud then Err (TokClaims ''invalid_audience'') else Ok ())))"

definition verify_kernel_token :: "libs \<Rightarrow> string \<Rightarrow> 256 word \<Rightarrow> f64 \<Rightarrow> f64 \<Rightarrow> string option \<Rightarrow>
    (kernel_token_error, verified_claims) result" where
  "verify_kernel_token L token public_key now_s leeway_s expected_aud =
     (let t = str_trim token in
      res_bind (split_token t) (\<lambda>(payload_b64, sig_b64).
      res_bind (decode_and_check_signature L payload_b64 sig_b64 public_key) (\<lambda>payload_json.
      res_bind (parse_claims L payload_json) (\<lambda>obj.
      res_bind (check_required obj REQUIRED_FIELDS) (\<lambda>_.
      res_bind (check_strings obj) (\<lambda>_.
      res_bind (check_times obj now_s leeway_s) (\<lambda>_.
      res_bind (check_aud obj expected_aud) (\<lambda>_.
      Ok \<lparr>vc_token = t, vc_claims = bt_of_list obj, vc_signature_b64 = sig_b64\<rparr>))))))))"

section \<open>Acceptance\<close>

lemma check_required_Ok: "check_required obj ks = Ok () \<longleftrightarrow> (\<forall>k\<in>set ks. bt_contains_key obj k)"
  by (induction ks) auto

lemma check_strings_Ok:
  "check_strings obj = Ok () \<longleftrightarrow>
     (\<forall>k\<in>{''action'', ''run_id'', ''subject'', ''params_fingerprint'', ''nonce''}. claim_str obj k \<noteq> None)"
  by (auto simp: check_strings_def result_simps)

definition in_window :: "f64 \<Rightarrow> f64 \<Rightarrow> f64 \<Rightarrow> f64 \<Rightarrow> bool" where
  "in_window now_s leeway_s iat expiry \<longleftrightarrow>
     (let leeway = f64_max leeway_s (Finite 0) in
      \<not> f64_lt (f64_add now_s leeway) iat \<and> \<not> f64_lt expiry (f64_sub now_s leeway) \<and> \<not> f64_le expiry iat)"

lemma check_times_Ok:
  "check_times obj now_s leeway_s = Ok () \<longleftrightarrow>
     (\<exists>iat exp. claim_f64 obj ''issued_at'' = Some iat \<and> claim_f64 obj ''expires_at'' = Some exp \<and>
        in_window now_s leeway_s iat exp)"
  by (auto simp: check_times_def in_window_def result_simps Let_def split: if_splits)

lemma check_aud_Ok:
  "check_aud obj expected_aud = Ok () \<longleftrightarrow> (\<forall>a. expected_aud = Some a \<longrightarrow> claim_str obj ''aud'' = Some a)"
  by (auto simp: check_aud_def claim_str_def split: option.splits if_splits)

lemma decode_Ok:
  "decode_and_check_signature L payload_b64 sig_b64 pk = Ok payload \<longleftrightarrow>
     (\<exists>sig. b64url_decode L payload_b64 = Ok payload \<and> b64url_decode L sig_b64 = Ok sig \<and>
        length sig = SIGNATURE_LENGTH \<and> ed25519_verify L pk (as_bytes payload_b64) sig = Ok ())"
  by (auto simp: decode_and_check_signature_def result_simps split: if_splits)

lemma parse_claims_Ok: "parse_claims L bs = Ok obj \<longleftrightarrow> json_from_slice L bs = Ok (JObject obj)"
  by (cases "json_from_slice L bs") (auto simp: parse_claims_def split: json.split)

lemma split_token_Ok:
  "split_token t = Ok (payload_b64, sig_b64) \<longleftrightarrow>
     (\<exists>p s. split_on CHR ''.'' t = [p, s] \<and> payload_b64 = str_trim p \<and> sig_b64 = str_trim s \<and>
        payload_b64 \<noteq> [] \<and> sig_b64 \<noteq> [])"
  by (auto simp: split_token_def Let_def split: list.splits)

text \<open>A token that carries a claims object under a valid signature of a key.\<close>

definition token_carries :: "libs \<Rightarrow> string \<Rightarrow> 256 word \<Rightarrow> string \<Rightarrow> json btree \<Rightarrow> bool" where
  "token_carries L token pk sig_b64 obj \<longleftrightarrow>
     (\<exists>payload_b64 payload sig. split_token (str_trim token) = Ok (payload_b64, sig_b64) \<and>
        b64url_decode L payload_b64 = Ok payload \<and> b64url_decode L sig_b64 = Ok sig \<and>
        length sig = SIGNATURE_LENGTH \<and> ed25519_verify L pk (as_bytes payload_b64) sig = Ok () \<and>
        json_from_slice L payload = Ok (JObject obj))"

definition claims_valid :: "json btree \<Rightarrow> f64 \<Rightarrow> f64 \<Rightarrow> string option \<Rightarrow> bool" where
  "claims_valid obj now_s leeway_s expected_aud \<longleftrightarrow>
     (\<forall>k\<in>set REQUIRED_FIELDS. bt_contains_key obj k) \<and>
     (\<forall>k\<in>{''action'', ''run_id'', ''subject'', ''params_fingerprint'', ''nonce''}. claim_str obj k \<noteq> None) \<and>
     (\<exists>iat exp. claim_f64 obj ''issued_at'' = Some iat \<and> claim_f64 obj ''expires_at'' = Some exp \<and>
        in_window now_s leeway_s iat exp) \<and>
     (\<forall>a. expected_aud = Some a \<longrightarrow> claim_str obj ''aud'' = Some a)"

lemma verify_Ok_iff:
  "verify_kernel_token L token pk now_s leeway_s expected_aud = Ok vc \<longleftrightarrow>
     (\<exists>obj sig_b64. token_carries L token pk sig_b64 obj \<and> claims_valid obj now_s leeway_s expected_aud \<and>
        vc = \<lparr>vc_token = str_trim token, vc_claims = bt_of_list obj, vc_signature_b64 = sig_b64\<rparr>)"
  unfolding verify_kernel_token_def Let_def res_bind_Ok_iff token_carries_def claims_valid_def
    check_required_Ok[symmetric] check_strings_Ok[symmetric] check_times_Ok[symmetric] check_aud_Ok[symmetric]
    decode_Ok parse_claims_Ok
  by (auto simp: res_bind_Ok_iff decode_Ok parse_claims_Ok)

lemma verify_carries:
  assumes "token_carries L token pk sig_b64 obj"
  shows "verify_kernel_token L token pk now_s leeway_s expected_aud =
    res_bind (check_required obj REQUIRED_FIELDS) (\<lambda>_.
    res_bind (check_strings obj) (\<lambda>_.
    res_bind (check_times obj now_s leeway_s) (\<lambda>_.
    res_bind (check_aud obj expected_aud) (\<lambda>_.
    Ok \<lparr>vc_token = str_trim token, vc_claims = bt_of_list obj, vc_signature_b64 = sig_b64\<rparr>))))"
proof -
  from assms obtain payload_b64 payload where s: "split_token (str_trim token) = Ok (payload_b64, sig_b64)"
    and "decode_and_check_signature L payload_b64 sig_b64 pk = Ok payload" "parse_claims L payload = Ok obj"
    unfolding token_carries_def decode_Ok parse_claims_Ok by blast
  then show ?thesis by (simp add: verify_kernel_token_def Let_def)
qed

lemma verify_expired_carries:
  assumes "verify_kernel_token L token pk now_s leeway_s expected_aud = Err (TokExpired e)"
  obtains sig_b64 obj where "token_carries L token pk sig_b64 obj" "check_required obj REQUIRED_FIELDS = Ok ()"
    "check_strings obj = Ok ()" "check_times obj now_s leeway_s = Err (TokExpired e)"
proof -
  have str: "check_strings obj \<noteq> Err (TokExpired e)" for obj
    by (auto simp: check_strings_def ok_or_def res_bind_def split: option.splits)
  have req: "check_required obj ks \<noteq> Err (TokExpired e)" for obj ks
    by (induction ks) auto
  have aud: "check_aud obj a \<noteq> Err (TokExpired e)" for obj a
    by (auto simp: check_aud_def split: option.splits)
  have spl: "split_token t \<noteq> Err (TokExpired e)" for t
    by (auto simp: split_token_def Let_def split: list.splits)
  have dec: "decode_and_check_signature L p s pk \<noteq> Err (TokExpired e)" for p s
    by (auto simp: decode_and_check_signature_def res_bind_def map_err_def split: sum.splits)
  have prs: "parse_claims L bs \<noteq> Err (TokExpired e)" for bs
    by (auto simp: parse_claims_def res_bind_def map_err_def split: sum.splits json.splits)
  from assms obtain p s payload obj where 1: "split_token (str_trim token) = Ok (p, s)"
    "decode_and_check_signature L p s pk = Ok payload" "parse_claims L payload = Ok obj"
    using spl dec prs unfolding verify_kernel_token_def Let_def
    by (auto simp: res_bind_def split: sum.splits)
  then have c: "token_carries L token pk s obj"
    unfolding token_carries_def decode_Ok parse_claims_Ok by blast
  from assms have "check_required obj REQUIRED_FIELDS = Ok () \<and> check_strings obj = Ok () \<and>
      check_times obj now_s leeway_s = Err (TokExpired e)"
    using str req aud unfolding verify_carries[OF c] by (auto simp: res_bind_def split: sum.splits)
  with c that show ?thesis by blast
qed

lemma f64_max_finite: "f64_is_finite x \<Longrightarrow> f64_is_finite (f64_max x (Finite 0))"
  by (cases x) (auto simp: f64_max_def)

lemma check_times_expired_mono:
  assumes "check_times obj now_s leeway_s = Err (TokExpired e)" "f64_le now_s later" "f64_is_finite leeway_s"
  shows "check_times obj later leeway_s = Err (TokExpired e)"
proof -
  let ?lw = "f64_max leeway_s (Finite 0)"
  from assms(1) obtain iat expiry where t: "claim_f64 obj ''issued_at'' = Some iat"
    "claim_f64 obj ''expires_at'' = Some expiry" "\<not> f64_lt (f64_add now_s ?lw) iat"
    "f64_lt expiry (f64_sub now_s ?lw)" "e = ''token_expired''"
    by (cases "claim_f64 obj ''issued_at''"; cases "claim_f64 obj ''expires_at''")
      (auto simp: check_times_def Let_def split: if_splits)
  have "\<not> f64_lt (f64_add later ?lw) iat"
    using t(3) f64_add_mono[OF assms(2) f64_max_finite[OF assms(3)]] f64_le_lt_trans by blast
  moreover have "f64_lt expiry (f64_sub later ?lw)"
    using t(4) f64_sub_mono[OF assms(2) f64_max_finite[OF assms(3)]] f64_lt_le_trans by blast
  ultimately show ?thesis using t by (simp add: check_times_def Let_def)
qed

section \<open>Contracts of the libraries\<close>

definition b64_contract :: "libs \<Rightarrow> bool" where
  "b64_contract L \<longleftrightarrow>
     (\<forall>bs. b64url_decode L (b64url_encode L bs) = Ok bs) \<and>
     (\<forall>bs. bs \<noteq> [] \<longrightarrow> b64url_encode L bs \<noteq> []) \<and>
     (\<forall>bs c. c \<in> set (b64url_encode L bs) \<longrightarrow> graphic c \<and> c \<noteq> CHR ''.'' \<and> c \<noteq> CHR ''='')"

definition hex_contract :: "libs \<Rightarrow> bool" where
  "hex_contract L \<longleftrightarrow>
     (\<forall>bs. hex_decode L (hex_encode L bs) = Ok bs) \<and>
     (\<forall>bs. length (hex_encode L bs) = 2 * length bs) \<and>
     (\<forall>bs c. c \<in> set (hex_encode L bs) \<longrightarrow> graphic c)"

definition ed25519_contract :: "libs \<Rightarrow> bool" where
  "ed25519_contract L \<longleftrightarrow>
     (\<forall>sk m. length (ed25519_sign L sk m) = SIGNATURE_LENGTH \<and>
        ed25519_verify L (verifying_key L sk) m (ed25519_sign L sk m) = Ok ())"

definition json_contract :: "libs \<Rightarrow> json \<Rightarrow> bool" where
  "json_contract L v \<longleftrightarrow>
     json_to_string L v \<noteq> [] \<and> json_from_slice L (as_bytes (json_to_string L v)) = Ok v"

lemma sample_libs_contracts:
  "b64_contract (sample_libs v)" "ed25519_contract (sample_libs v)" "json_contract (sample_libs v) v"
  "hex_contract (sample_libs v)"
  by (auto simp: b64_contract_def hex_contract_def ed25519_contract_def json_contract_def sample_libs_def
      SIGNATURE_LENGTH_def base16_roundtrip length_base16_encode base16_encode_def[of "_ # _"] neq_Nil_conv
      dest: base16_chars)

lemma as_bytes_Nil [simp]: "as_bytes s = [] \<longleftrightarrow> s = []"
  by (simp add: as_bytes_def)

lemma sign_token_carries:
  assumes "b64_contract L" "ed25519_contract L" "json_contract L (JObject (to_map c))"
    and "json_wf (JObject (to_map c))"
  shows "\<exists>sig_b64. token_carries L (sign_kernel_token L to_map c sk) (verifying_key L sk) sig_b64 (to_map c) \<and>
    str_trim (sign_kernel_token L to_map c sk) = sign_kernel_token L to_map c sk"
proof -
  let ?json = "stable_json L (to_map c)"
  let ?p = "b64url_encode L (as_bytes ?json)"
  let ?sig = "ed25519_sign L sk (as_bytes ?p)"
  let ?s = "b64url_encode L ?sig"
  have tok: "sign_kernel_token L to_map c sk = ?p @ CHR ''.'' # ?s"
    by (simp add: sign_kernel_token_def Let_def)
  have chars: "list_all graphic ?p" "list_all graphic ?s" "CHR ''.'' \<notin> set ?p" "CHR ''.'' \<notin> set ?s"
    using assms(1) unfolding b64_contract_def list_all_iff by metis+
  have js: "?json = json_to_string L (JObject (to_map c))" using stable_json_wf[OF assms(4)] .
  have ne: "?p \<noteq> []" "?s \<noteq> []"
  proof -
    have "?json \<noteq> []" using assms(3) js by (simp add: json_contract_def)
    then show "?p \<noteq> []" using assms(1) by (simp add: b64_contract_def)
    have "length ?sig = 64" using assms(2) by (simp add: ed25519_contract_def SIGNATURE_LENGTH_def)
    then have "?sig \<noteq> []" by auto
    then show "?s \<noteq> []" using assms(1) by (simp add: b64_contract_def)
  qed
  have trim: "str_trim (?p @ CHR ''.'' # ?s) = ?p @ CHR ''.'' # ?s"
    using chars by (intro str_trim_graphic) (simp add: graphic_def)
  have "split_token (?p @ CHR ''.'' # ?s) = Ok (?p, ?s)"
    using chars ne by (simp add: split_token_def split_on_append split_on_none str_trim_graphic Let_def)
  then have "token_carries L (?p @ CHR ''.'' # ?s) (verifying_key L sk) ?s (to_map c)"
    using assms unfolding token_carries_def trim
    by (auto simp: b64_contract_def ed25519_contract_def json_contract_def js)
  then show ?thesis using trim unfolding tok by metis
qed

section \<open>Verification: acceptance and expiry\<close>

definition sample_claims :: "json btree" where
  "sample_claims = bt_of_list
     [(''action'', JString ''a''), (''aud'', JString ''u''), (''run_id'', JString ''r''), (''subject'', JString ''s''),
      (''params_fingerprint'', JString ''p''), (''issued_at'', JNumber (Float (Finite 100))),
      (''expires_at'', JNumber (Float (Finite 130))), (''nonce'', JString ''n'')]"

definition sample_token :: string where
  "sample_token = sign_kernel_token (sample_libs (JObject sample_claims)) (\<lambda>_. sample_claims) () 7"

lemma sample_token_carries:
  "\<exists>sig_b64. token_carries (sample_libs (JObject sample_claims)) sample_token 7 sig_b64 sample_claims"
proof -
  have "json_wf (JObject sample_claims)"
    unfolding sample_claims_def by (rule json_wf_bt_of_list) auto
  with sign_token_carries[of "sample_libs (JObject sample_claims)" "\<lambda>_. sample_claims" "()" 7] sample_libs_contracts
  show ?thesis by (auto simp: sample_token_def sample_libs_def)
qed

lemma str_trim_letter [simp]: "graphic c \<Longrightarrow> str_trim [c] = [c]"
  by (simp add: str_trim_graphic)


text \<open>C21: \<open>verify_kernel_token\<close> accepts a token exactly when its payload carries a valid Ed25519 signature
  under the given key over the encoded payload, decodes to a JSON object with every required claim
  of the right type, the time lies in the leeway-extended window of the claims, and the audience is
  the expected one; it returns that object.\<close>

theorem verify_accepts_iff:
  "verify_kernel_token L token pk now_s leeway_s expected_aud = Ok vc \<longleftrightarrow>
     (\<exists>obj sig_b64. token_carries L token pk sig_b64 obj \<and> claims_valid obj now_s leeway_s expected_aud \<and>
        vc = \<lparr>vc_token = str_trim token, vc_claims = bt_of_list obj, vc_signature_b64 = sig_b64\<rparr>)"
  by (rule verify_Ok_iff)

text \<open>Expiry is permanent: a token rejected as expired is rejected as expired at every later time,
  despite the rounding of floating-point sums.\<close>

theorem expired_stays_expired:
  assumes "verify_kernel_token L token pk now_s leeway_s expected_aud = Err (TokExpired e)"
    and "f64_le now_s later" "f64_is_finite leeway_s"
  shows "verify_kernel_token L token pk later leeway_s expected_aud = Err (TokExpired e)"
proof -
  obtain sig_b64 obj where c: "token_carries L token pk sig_b64 obj" "check_required obj REQUIRED_FIELDS = Ok ()"
    "check_strings obj = Ok ()" "check_times obj now_s leeway_s = Err (TokExpired e)"
    using verify_expired_carries[OF assms(1)] .
  then show ?thesis
    using check_times_expired_mono[OF c(4) assms(2,3)] by (simp add: verify_carries[OF c(1)])
qed

theorem expired_stays_expired_witness:
  "verify_kernel_token (sample_libs (JObject sample_claims)) sample_token 7 (Finite 500) (Finite 5) None =
     Err (TokExpired ''token_expired'')"
proof -
  obtain s where c: "token_carries (sample_libs (JObject sample_claims)) sample_token 7 s sample_claims"
    using sample_token_carries by blast
  have "check_required sample_claims REQUIRED_FIELDS = Ok ()" "check_strings sample_claims = Ok ()"
    by (simp_all add: check_required_Ok check_strings_Ok REQUIRED_FIELDS_def bt_contains_key_def sample_claims_def
        bt_get_of_list claim_str_def graphic_def)
  moreover have "check_times sample_claims (Finite 136) (Finite 5) = Err (TokExpired ''token_expired'')"
    using f64_add_int[of 136 5] f64_add_int[of 136 "- 5"]
    by (simp add: check_times_def claim_f64_def sample_claims_def bt_get_of_list Let_def f64_max_def f64_sub_def)
  ultimately have "verify_kernel_token (sample_libs (JObject sample_claims)) sample_token 7 (Finite 136) (Finite 5) None =
     Err (TokExpired ''token_expired'')"
    by (simp add: verify_carries[OF c])
  from expired_stays_expired[OF this, of "Finite 500"] show ?thesis by simp
qed

section \<open>Claim sets\<close>

locale claim_set =
  fixes to_btreemap :: "'c \<Rightarrow> json btree"
    and aud action run_id subject fingerprint nonce :: "'c \<Rightarrow> string"
    and issued_at expires_at :: "'c \<Rightarrow> f64"
  assumes wf: "json_wf (JObject (to_btreemap c))"
    and get_aud: "bt_get (to_btreemap c) ''aud'' = Some (JString (aud c))"
    and get_action: "bt_get (to_btreemap c) ''action'' = Some (JString (action c))"
    and get_run_id: "bt_get (to_btreemap c) ''run_id'' = Some (JString (run_id c))"
    and get_subject: "bt_get (to_btreemap c) ''subject'' = Some (JString (subject c))"
    and get_fingerprint: "bt_get (to_btreemap c) ''params_fingerprint'' = Some (JString (fingerprint c))"
    and get_nonce: "bt_get (to_btreemap c) ''nonce'' = Some (JString (nonce c))"
    and get_issued_at: "bt_get (to_btreemap c) ''issued_at'' = Some (json_from_f64 (issued_at c))"
    and get_expires_at: "bt_get (to_btreemap c) ''expires_at'' = Some (json_from_f64 (expires_at c))"
begin

lemmas gets = get_aud get_action get_run_id get_subject get_fingerprint get_nonce get_issued_at get_expires_at

lemma claim_strs:
  "claim_str (to_btreemap c) ''aud'' = (if str_trim (aud c) = [] then None else Some (str_trim (aud c)))"
  "claim_str (to_btreemap c) ''action'' = (if str_trim (action c) = [] then None else Some (str_trim (action c)))"
  "claim_str (to_btreemap c) ''run_id'' = (if str_trim (run_id c) = [] then None else Some (str_trim (run_id c)))"
  "claim_str (to_btreemap c) ''subject'' = (if str_trim (subject c) = [] then None else Some (str_trim (subject c)))"
  "claim_str (to_btreemap c) ''params_fingerprint'' =
     (if str_trim (fingerprint c) = [] then None else Some (str_trim (fingerprint c)))"
  "claim_str (to_btreemap c) ''nonce'' = (if str_trim (nonce c) = [] then None else Some (str_trim (nonce c)))"
  by (simp_all add: claim_str_def gets)

lemma claim_f64s:
  "f64_is_finite (issued_at c) \<Longrightarrow> claim_f64 (to_btreemap c) ''issued_at'' = Some (issued_at c)"
  "f64_is_finite (expires_at c) \<Longrightarrow> claim_f64 (to_btreemap c) ''expires_at'' = Some (expires_at c)"
  by (simp_all add: claim_f64_def gets json_from_f64_def)

lemma required_present: "\<forall>k\<in>set REQUIRED_FIELDS. bt_contains_key (to_btreemap c) k"
  by (simp add: REQUIRED_FIELDS_def bt_contains_key_def gets)

definition well_formed :: "'c \<Rightarrow> bool" where
  "well_formed c \<longleftrightarrow> str_trim (aud c) \<noteq> [] \<and> str_trim (action c) \<noteq> [] \<and> str_trim (run_id c) \<noteq> [] \<and>
     str_trim (subject c) \<noteq> [] \<and> str_trim (fingerprint c) \<noteq> [] \<and> str_trim (nonce c) \<noteq> [] \<and>
     f64_is_finite (issued_at c) \<and> f64_is_finite (expires_at c)"

lemma claims_valid_iff:
  "well_formed c \<Longrightarrow> claims_valid (to_btreemap c) now_s leeway_s expected_aud \<longleftrightarrow>
     in_window now_s leeway_s (issued_at c) (expires_at c) \<and>
     (\<forall>a. expected_aud = Some a \<longrightarrow> a = str_trim (aud c))"
  by (auto simp: claims_valid_def well_formed_def claim_strs claim_f64s required_present)

lemma sign_verify:
  assumes "b64_contract L" "ed25519_contract L" "json_contract L (JObject (to_btreemap c))"
    and "well_formed c" "in_window now_s leeway_s (issued_at c) (expires_at c)"
    and "expected_aud = None \<or> expected_aud = Some (str_trim (aud c))"
  shows "\<exists>sig_b64. verify_kernel_token L (sign_kernel_token L to_btreemap c sk) (verifying_key L sk) now_s leeway_s expected_aud =
    Ok \<lparr>vc_token = sign_kernel_token L to_btreemap c sk, vc_claims = to_btreemap c, vc_signature_b64 = sig_b64\<rparr>"
proof -
  obtain sig_b64 where s: "token_carries L (sign_kernel_token L to_btreemap c sk) (verifying_key L sk) sig_b64 (to_btreemap c)"
    "str_trim (sign_kernel_token L to_btreemap c sk) = sign_kernel_token L to_btreemap c sk"
    using sign_token_carries[of L to_btreemap c sk] assms(1-3) wf by blast
  moreover have "claims_valid (to_btreemap c) now_s leeway_s expected_aud"
    using claims_valid_iff assms(4-6) by auto
  moreover have "bt_of_list (to_btreemap c) = to_btreemap c" using wf[of c] by simp
  ultimately show ?thesis unfolding verify_Ok_iff by metis
qed

end

end
