(* ===== verification/Ledger.thy ===== *)
theory Ledger
  imports HashTree Token
begin

text \<open>
  Signed tree heads (\<^verbatim>\<open>src/crates/domain/src/transparency/sth.rs\<close>) and the transparency store: the
  \<^verbatim>\<open>TransparencyStore\<close> contract of \<^verbatim>\<open>adapters/transparency_store/src/lib.rs\<close> as the locale
  \<open>transparency_store\<close>, and its in-memory implementation (\<^verbatim>\<open>memory.rs\<close>), which interprets it.

  Each method of the store takes the lock for its whole body, so a method is one function on the
  state.  Leaf indices and sizes are natural numbers; the conversions between \<^verbatim>\<open>usize\<close> and \<^verbatim>\<open>u64\<close> cannot fail on
  the 64-bit targets.  Indexing a vector out of range panics in Rust: the value \<open>StorePanic\<close> stands
  for that, and the lemmas show that it does not occur in a reachable state.
\<close>

section \<open>Signed tree heads\<close>

record signed_tree_head =
  sth_root_hash :: hash32
  sth_signature :: bytes
  sth_timestamp_epoch_seconds :: u64
  sth_tree_size :: u64

definition canonical_payload :: "hash32 \<Rightarrow> u64 \<Rightarrow> u64 \<Rightarrow> bytes" where
  "canonical_payload root_hash tree_size timestamp_epoch_seconds =
     be_bytes root_hash @ be_bytes tree_size @ be_bytes timestamp_epoch_seconds"

definition mint_sth :: "libs \<Rightarrow> hash32 \<Rightarrow> u64 \<Rightarrow> u64 \<Rightarrow> 256 word \<Rightarrow> signed_tree_head" where
  "mint_sth L root_hash tree_size timestamp_epoch_seconds signing_key =
     (let payload = canonical_payload root_hash tree_size timestamp_epoch_seconds;
          signature = ed25519_sign L signing_key payload in
      \<lparr>sth_root_hash = root_hash, sth_signature = signature,
       sth_timestamp_epoch_seconds = timestamp_epoch_seconds, sth_tree_size = tree_size\<rparr>)"

definition verify_sth :: "libs \<Rightarrow> signed_tree_head \<Rightarrow> 256 word \<Rightarrow> (verification_error, unit) result" where
  "verify_sth L sth vk =
     (let payload = canonical_payload (sth_root_hash sth) (sth_tree_size sth) (sth_timestamp_epoch_seconds sth) in
      map_err (\<lambda>_. SignatureInvalid) (ed25519_verify L vk payload (sth_signature sth)))"

section \<open>Store types\<close>

record append_input =
  ai_idempotency_key :: hash32
  ai_payload :: bytes
  ai_occurred_at_epoch_seconds :: nat

record append_outcome =
  ao_leaf_index :: nat
  ao_leaf_hash :: hash32
  ao_created :: bool

record leaf_payload_record =
  lp_leaf_index :: nat
  lp_leaf_hash :: hash32
  lp_payload :: bytes

datatype store_error =
    StoreConflict
  | StoreBackend string
  | StoreVerification verification_error
  | StorePanic

section \<open>The in-memory store\<close>

record mem_store =
  ms_leaves :: "merkle_leaf list"
  ms_payloads :: "bytes list"
  ms_idempotency :: "hash32 \<Rightarrow> nat option"

definition mem_store_new :: mem_store where
  "mem_store_new = \<lparr>ms_leaves = [], ms_payloads = [], ms_idempotency = Map.empty\<rparr>"

definition vec_index :: "'a list \<Rightarrow> nat \<Rightarrow> (store_error, 'a) result" where
  "vec_index xs i = (if i < length xs then Ok (xs ! i) else Err StorePanic)"

definition store_append :: "(bytes \<Rightarrow> hash32) \<Rightarrow> mem_store \<Rightarrow> append_input \<Rightarrow>
    (store_error, append_outcome) result \<times> mem_store" where
  "store_append H inner payload =
     (case ms_idempotency inner (ai_idempotency_key payload) of
        Some existing_idx \<Rightarrow>
          (res_bind (vec_index (ms_payloads inner) existing_idx) (\<lambda>existing_payload.
             if existing_payload \<noteq> ai_payload payload then Err StoreConflict
             else res_bind (vec_index (ms_leaves inner) existing_idx) (\<lambda>existing_leaf.
               Ok \<lparr>ao_leaf_index = existing_idx, ao_leaf_hash = ml_hash existing_leaf, ao_created = False\<rparr>)),
           inner)
      | None \<Rightarrow>
          let leaf_index = length (ms_leaves inner);
              hash = leaf_hash H (ai_payload payload);
              new_leaf = \<lparr>ml_hash = hash, ml_leaf_index = leaf_index,
                ml_occurred_at_epoch_seconds = ai_occurred_at_epoch_seconds payload\<rparr> in
          (Ok \<lparr>ao_leaf_index = leaf_index, ao_leaf_hash = hash, ao_created = True\<rparr>,
           inner\<lparr>ms_leaves := ms_leaves inner @ [new_leaf],
                 ms_payloads := ms_payloads inner @ [ai_payload payload],
                 ms_idempotency := (ms_idempotency inner)(ai_idempotency_key payload \<mapsto> leaf_index)\<rparr>))"

definition get_leaf :: "mem_store \<Rightarrow> nat \<Rightarrow> merkle_leaf option" where
  "get_leaf inner leaf_index =
     (if leaf_index < length (ms_leaves inner) then Some (ms_leaves inner ! leaf_index) else None)"

definition current_size :: "mem_store \<Rightarrow> nat" where
  "current_size inner = length (ms_leaves inner)"

definition current_root :: "(bytes \<Rightarrow> hash32) \<Rightarrow> mem_store \<Rightarrow> (store_error, hash32) result" where
  "current_root H inner =
     (if ms_leaves inner = [] then Ok 0
      else map_err StoreVerification (compute_root H (ms_leaves inner)))"

definition store_build_inclusion_proof :: "(bytes \<Rightarrow> hash32) \<Rightarrow> mem_store \<Rightarrow> nat \<Rightarrow>
    (store_error, inclusion_proof) result" where
  "store_build_inclusion_proof H inner leaf_index =
     (if ms_leaves inner = [] then Err (StoreVerification EmptyTree)
      else if length (ms_leaves inner) \<le> leaf_index then Err (StoreVerification LeafIndexOutOfBounds)
      else map_err StoreVerification (build_inclusion_proof H (ms_leaves inner) leaf_index))"

definition load_all_payloads :: "mem_store \<Rightarrow> leaf_payload_record list" where
  "load_all_payloads inner =
     map (\<lambda>(leaf, payload). \<lparr>lp_leaf_index = ml_leaf_index leaf, lp_leaf_hash = ml_hash leaf, lp_payload = payload\<rparr>)
       (zip (ms_leaves inner) (ms_payloads inner))"

section \<open>The store contract\<close>

text \<open>
  What the trait documents: \<open>append\<close> is idempotent on the key, a key reused with other bytes is a
  conflict, and the ledger only grows.  The client lemmas below use nothing else.
\<close>

locale transparency_store =
  fixes append :: "'s \<Rightarrow> append_input \<Rightarrow> (store_error, append_outcome) result \<times> 's"
    and inv :: "'s \<Rightarrow> bool"
    and ledger :: "'s \<Rightarrow> bytes list"
    and leaves :: "'s \<Rightarrow> merkle_leaf list"
    and index_of :: "'s \<Rightarrow> hash32 \<Rightarrow> nat option"
    and H :: "bytes \<Rightarrow> hash32"
  assumes leaves_ledger: "inv s \<Longrightarrow> map ml_hash (leaves s) = map (leaf_hash H) (ledger s)"
    and index_range: "inv s \<Longrightarrow> index_of s k = Some i \<Longrightarrow> i < length (ledger s)"
    and append_inv: "inv s \<Longrightarrow> inv (snd (append s x))"
    and append_fresh: "inv s \<Longrightarrow> index_of s (ai_idempotency_key x) = None \<Longrightarrow>
      fst (append s x) = Ok \<lparr>ao_leaf_index = length (ledger s), ao_leaf_hash = leaf_hash H (ai_payload x), ao_created = True\<rparr> \<and>
      ledger (snd (append s x)) = ledger s @ [ai_payload x] \<and>
      leaves (snd (append s x)) = leaves s @ [\<lparr>ml_hash = leaf_hash H (ai_payload x), ml_leaf_index = length (ledger s),
        ml_occurred_at_epoch_seconds = ai_occurred_at_epoch_seconds x\<rparr>] \<and>
      index_of (snd (append s x)) = (index_of s)(ai_idempotency_key x \<mapsto> length (ledger s))"
    and append_seen: "inv s \<Longrightarrow> index_of s (ai_idempotency_key x) = Some i \<Longrightarrow>
      append s x =
        (if ledger s ! i = ai_payload x
         then Ok \<lparr>ao_leaf_index = i, ao_leaf_hash = leaf_hash H (ai_payload x), ao_created = False\<rparr>
         else Err StoreConflict, s)"
begin

definition appends :: "'s \<Rightarrow> append_input list \<Rightarrow> 's" where
  "appends s xs = foldl (\<lambda>s x. snd (append s x)) s xs"

lemma appends_simps [simp]: "appends s [] = s" "appends s (x # xs) = appends (snd (append s x)) xs"
  by (simp_all add: appends_def)

lemma append_cases:
  assumes "inv s"
  obtains (fresh) "index_of s (ai_idempotency_key x) = None"
      "fst (append s x) = Ok \<lparr>ao_leaf_index = length (ledger s), ao_leaf_hash = leaf_hash H (ai_payload x), ao_created = True\<rparr>"
      "ledger (snd (append s x)) = ledger s @ [ai_payload x]"
      "prefix (leaves s) (leaves (snd (append s x)))"
      "index_of (snd (append s x)) = (index_of s)(ai_idempotency_key x \<mapsto> length (ledger s))"
    | (replay) i where "index_of s (ai_idempotency_key x) = Some i" "ledger s ! i = ai_payload x"
      "append s x = (Ok \<lparr>ao_leaf_index = i, ao_leaf_hash = leaf_hash H (ai_payload x), ao_created = False\<rparr>, s)"
    | (conflict) i where "index_of s (ai_idempotency_key x) = Some i" "ledger s ! i \<noteq> ai_payload x"
      "append s x = (Err StoreConflict, s)"
  using append_fresh[OF assms, of x] append_seen[OF assms, of x]
  by (cases "index_of s (ai_idempotency_key x)") (auto split: if_splits)

lemma append_monotone:
  assumes "inv s"
  shows "prefix (ledger s) (ledger (snd (append s x))) \<and> prefix (leaves s) (leaves (snd (append s x))) \<and>
    index_of s \<subseteq>\<^sub>m index_of (snd (append s x))"
  using assms by (cases rule: append_cases[of s x]) (auto simp: map_le_def)

lemma appends_monotone:
  "inv s \<Longrightarrow> inv (appends s xs) \<and> prefix (ledger s) (ledger (appends s xs)) \<and>
    prefix (leaves s) (leaves (appends s xs)) \<and> index_of s \<subseteq>\<^sub>m index_of (appends s xs)"
proof (induction xs arbitrary: s)
  case (Cons x xs)
  show ?case
    using append_monotone[OF Cons.prems, of x] Cons.IH[OF append_inv[OF Cons.prems, of x]]
    by (auto intro: prefix_order.trans map_le_trans)
qed simp

lemma append_recorded:
  assumes "inv s" "fst (append s x) = Ok out"
  shows "index_of (snd (append s x)) (ai_idempotency_key x) = Some (ao_leaf_index out) \<and>
    ao_leaf_index out < length (ledger (snd (append s x))) \<and>
    ledger (snd (append s x)) ! ao_leaf_index out = ai_payload x \<and> ao_leaf_hash out = leaf_hash H (ai_payload x)"
  using assms(1)
proof (cases rule: append_cases[of s x])
  case fresh then show ?thesis using assms(2) by auto
next
  case (replay i) then show ?thesis using assms index_range[OF assms(1)] by auto
next
  case (conflict i) then show ?thesis using assms(2) by simp
qed

lemma append_then_retry:
  assumes "inv s" "fst (append s x) = Ok out" "ai_idempotency_key y = ai_idempotency_key x"
  shows "append (appends (snd (append s x)) xs) y =
    (if ai_payload y = ai_payload x then Ok (out\<lparr>ao_created := False\<rparr>) else Err StoreConflict,
     appends (snd (append s x)) xs)"
proof -
  let ?s = "snd (append s x)"
  let ?t = "appends ?s xs"
  note rec = append_recorded[OF assms(1,2)]
  note mono = appends_monotone[OF append_inv[OF assms(1), of x], of xs]
  have "index_of ?t (ai_idempotency_key y) = Some (ao_leaf_index out)"
    using rec mono assms(3) by (auto simp: map_le_def dom_def)
  moreover have "ledger ?t ! ao_leaf_index out = ai_payload x"
    using rec mono by (metis nth_append prefixE)
  ultimately show ?thesis
    using append_seen[of ?t y "ao_leaf_index out"] mono rec by (cases out) auto
qed

end

section \<open>The in-memory store meets the contract\<close>

definition mem_inv :: "(bytes \<Rightarrow> hash32) \<Rightarrow> mem_store \<Rightarrow> bool" where
  "mem_inv H s \<longleftrightarrow>
     map ml_hash (ms_leaves s) = map (leaf_hash H) (ms_payloads s) \<and>
     map ml_leaf_index (ms_leaves s) = [0..<length (ms_leaves s)] \<and>
     (\<forall>i\<in>ran (ms_idempotency s). i < length (ms_payloads s))"

lemma mem_inv_new [simp]: "mem_inv H mem_store_new"
  by (simp add: mem_inv_def mem_store_new_def)

lemma mem_inv_length: "mem_inv H s \<Longrightarrow> length (ms_payloads s) = length (ms_leaves s)"
  unfolding mem_inv_def by (metis length_map)

lemma mem_inv_hash:
  "mem_inv H s \<Longrightarrow> i < length (ms_leaves s) \<Longrightarrow> ml_hash (ms_leaves s ! i) = leaf_hash H (ms_payloads s ! i)"
  using mem_inv_length[of H s] unfolding mem_inv_def by (metis nth_map)

lemma mem_inv_range: "mem_inv H s \<Longrightarrow> ms_idempotency s k = Some i \<Longrightarrow> i < length (ms_payloads s)"
  by (auto simp: mem_inv_def ran_def)

lemma store_append_seen:
  assumes "mem_inv H s" "ms_idempotency s (ai_idempotency_key x) = Some i"
  shows "store_append H s x =
    (if ms_payloads s ! i = ai_payload x
     then Ok \<lparr>ao_leaf_index = i, ao_leaf_hash = leaf_hash H (ai_payload x), ao_created = False\<rparr>
     else Err StoreConflict, s)"
  using assms mem_inv_range[OF assms] mem_inv_length[OF assms(1)] mem_inv_hash[OF assms(1), of i]
  by (simp add: store_append_def vec_index_def)

lemma mem_inv_append: "mem_inv H s \<Longrightarrow> mem_inv H (snd (store_append H s x))"
proof (cases "ms_idempotency s (ai_idempotency_key x)")
  case None
  assume inv: "mem_inv H s"
  then show ?thesis using None mem_inv_length[OF inv]
    by (force simp: store_append_def mem_inv_def Let_def ran_def)
next
  case (Some i)
  assume "mem_inv H s"
  with store_append_seen[OF this Some] show ?thesis by simp
qed

interpretation mem_ledger: transparency_store "store_append H" "mem_inv H" ms_payloads ms_leaves ms_idempotency H
  for H
proof
  fix s k i x
  assume inv: "mem_inv H s"
  then show "map ml_hash (ms_leaves s) = map (leaf_hash H) (ms_payloads s)" by (simp add: mem_inv_def)
  show "ms_idempotency s k = Some i \<Longrightarrow> i < length (ms_payloads s)" by (rule mem_inv_range[OF inv])
  show "mem_inv H (snd (store_append H s x))" by (rule mem_inv_append[OF inv])
  show "ms_idempotency s (ai_idempotency_key x) = Some i \<Longrightarrow> store_append H s x =
    (if ms_payloads s ! i = ai_payload x
     then Ok \<lparr>ao_leaf_index = i, ao_leaf_hash = leaf_hash H (ai_payload x), ao_created = False\<rparr>
     else Err StoreConflict, s)" by (rule store_append_seen[OF inv])
  show "ms_idempotency s (ai_idempotency_key x) = None \<Longrightarrow>
      fst (store_append H s x) = Ok \<lparr>ao_leaf_index = length (ms_payloads s), ao_leaf_hash = leaf_hash H (ai_payload x), ao_created = True\<rparr> \<and>
      ms_payloads (snd (store_append H s x)) = ms_payloads s @ [ai_payload x] \<and>
      ms_leaves (snd (store_append H s x)) = ms_leaves s @ [\<lparr>ml_hash = leaf_hash H (ai_payload x), ml_leaf_index = length (ms_payloads s),
        ml_occurred_at_epoch_seconds = ai_occurred_at_epoch_seconds x\<rparr>] \<and>
      ms_idempotency (snd (store_append H s x)) = (ms_idempotency s)(ai_idempotency_key x \<mapsto> length (ms_payloads s))"
    by (simp add: store_append_def mem_inv_length[OF inv] Let_def)
qed

lemma mem_ledger_appends: "mem_ledger.appends H s xs = foldl (\<lambda>s x. snd (store_append H s x)) s xs"
  by (simp add: mem_ledger.appends_def)

lemma vec_index_safe:
  "mem_inv H s \<Longrightarrow> fst (store_append H s x) \<noteq> Err StorePanic"
  by (cases rule: mem_ledger.append_cases[of H s x]) auto

section \<open>Properties\<close>

text \<open>Once an append has succeeded, every later append with the same idempotency key leaves the
  ledger alone whatever was appended in between: with the same bytes it returns the original leaf,
  flagged as not created, and with other bytes it is a conflict.\<close>

theorem append_retry_returns_same_leaf:
  assumes "mem_inv H s" "fst (store_append H s x) = Ok out" "ai_idempotency_key y = ai_idempotency_key x"
    and "t = foldl (\<lambda>s x. snd (store_append H s x)) (snd (store_append H s x)) xs"
  shows "store_append H t y =
    (if ai_payload y = ai_payload x then Ok (out\<lparr>ao_created := False\<rparr>) else Err StoreConflict, t)"
  using mem_ledger.append_then_retry[OF assms(1-3), of xs] unfolding assms(4) mem_ledger_appends .

definition sample_append :: "hash32 \<Rightarrow> bytes \<Rightarrow> append_input" where
  "sample_append k p = \<lparr>ai_idempotency_key = k, ai_payload = p, ai_occurred_at_epoch_seconds = 100\<rparr>"

theorem append_retry_returns_same_leaf_witness:
  "fst (store_append length_hash (snd (store_append length_hash (snd (store_append length_hash mem_store_new
     (sample_append 1 [5]))) (sample_append 2 [6]))) (sample_append 1 [5])) =
   Ok \<lparr>ao_leaf_index = 0, ao_leaf_hash = 2, ao_created = False\<rparr>"
  using append_retry_returns_same_leaf[of length_hash mem_store_new "sample_append 1 [5]"
      "\<lparr>ao_leaf_index = 0, ao_leaf_hash = 2, ao_created = True\<rparr>" "sample_append 1 [5]" _ "[sample_append 2 [6]]"]
  by (simp add: sample_append_def store_append_def[of _ mem_store_new] mem_store_new_def[THEN arg_cong[of _ _ ms_leaves]]
      mem_store_new_def[THEN arg_cong[of _ _ ms_idempotency]] Let_def leaf_hash_def length_hash_def)

lemma canonical_payload_inj:
  assumes "canonical_payload r n t = canonical_payload r' n' t'"
  shows "r = r' \<and> n = n' \<and> t = t'"
proof -
  have "be_bytes r = be_bytes r'" "be_bytes n = be_bytes n'" "be_bytes t = be_bytes t'"
    using assms by (simp_all add: canonical_payload_def)
  then show ?thesis by (auto intro!: be_bytes_inj)
qed

text \<open>A minted tree head verifies under the matching public key, and the signed bytes determine
  the root, the size and the timestamp, so a signature for one tree head is a signature for no
  other.\<close>

theorem sth_roundtrip_binds:
  assumes "ed25519_contract L"
  shows "verify_sth L (mint_sth L r n t sk) (verifying_key L sk) = Ok () \<and>
    (canonical_payload r n t = canonical_payload r' n' t' \<longrightarrow> r = r' \<and> n = n' \<and> t = t')"
  using assms canonical_payload_inj by (auto simp: verify_sth_def mint_sth_def ed25519_contract_def)

theorem sth_roundtrip_binds_witness:
  "verify_sth (sample_libs JNull) (mint_sth (sample_libs JNull) 5 3 100 7) (verifying_key (sample_libs JNull) 7) = Ok ()"
  using sth_roundtrip_binds[OF sample_libs_contracts(2)[of JNull], of 5 3 100 7] by blast

end
