(* ===== verification/TLog.thy ===== *)
theory TLog
  imports Ledger
begin

text \<open>
  The transparency-log service, \<^verbatim>\<open>src/crates/services/transparency-log/src\<close>: the \<^verbatim>\<open>x-api-key\<close> layer
  (\<^verbatim>\<open>auth.rs\<close>), the error envelope (\<^verbatim>\<open>error.rs\<close>) and the ledger routes \<^verbatim>\<open>append\<close>, \<^verbatim>\<open>verify\<close>, \<^verbatim>\<open>sth\<close>, \<^verbatim>\<open>consistency\<close>
  and \<^verbatim>\<open>health\<close> (\<^verbatim>\<open>routes/\<close>).

  A route makes several calls to the store, and each call takes the store's lock on its own, so
  another request's append may come between two of them.  The routes therefore take one store
  state per call; the quiescent case is the same state everywhere.
\<close>

section \<open>Text and bytes\<close>

definition to_ascii_lowercase :: "string \<Rightarrow> string" where
  "to_ascii_lowercase = map (\<lambda>c. let n = of_char c :: nat in if 65 \<le> n \<and> n \<le> 90 then char_of (n + 32) else c)"

definition trim_end_matches :: "char \<Rightarrow> string \<Rightarrow> string" where
  "trim_end_matches c s = rev (dropWhile (\<lambda>x. x = c) (rev s))"

fun of_le_bytes :: "bytes \<Rightarrow> 'a::len word" where
  "of_le_bytes [] = 0"
| "of_le_bytes (b # bs) = or (ucast b) (push_bit 8 (of_le_bytes bs))"

definition of_be_bytes :: "bytes \<Rightarrow> 'a::len word" where
  "of_be_bytes bs = of_le_bytes (rev bs)"

fun dec_string :: "nat \<Rightarrow> string" where
  "dec_string n = (if n < 10 then [char_of (48 + n)] else dec_string (n div 10) @ [char_of (48 + n mod 10)])"

declare dec_string.simps [simp del]

definition is_digit :: "char \<Rightarrow> bool" where
  "is_digit c \<longleftrightarrow> (let n = of_char c :: nat in 48 \<le> n \<and> n \<le> 57)"

definition dec_value :: "string \<Rightarrow> nat" where
  "dec_value s = foldl (\<lambda>acc c. 10 * acc + (of_char c - 48)) 0 s"

definition parse_u64 :: "string \<Rightarrow> nat option" where
  "parse_u64 s =
     (let digits = (case s of c # cs \<Rightarrow> if c = CHR ''+'' then cs else s | [] \<Rightarrow> []) in
      if digits = [] \<or> \<not> list_all is_digit digits \<or> 2 ^ 64 \<le> dec_value digits then None
      else Some (dec_value digits))"

fun verification_error_to_string :: "verification_error \<Rightarrow> string" where
  "verification_error_to_string LeafIndexOutOfBounds = ''leaf index out of bounds''"
| "verification_error_to_string ProofPathLengthMismatch = ''proof path length mismatch''"
| "verification_error_to_string RootMismatch = ''root mismatch''"
| "verification_error_to_string InvalidConsistencyRange = ''invalid consistency range''"
| "verification_error_to_string EmptyTree = ''empty tree''"
| "verification_error_to_string SignatureInvalid = ''signature invalid''"

section \<open>Errors\<close>

record tlog_error_response =
  te_error :: string
  te_ok :: bool
  te_reason :: "string option"

definition te_with_reason :: "string \<Rightarrow> string \<Rightarrow> tlog_error_response" where
  "te_with_reason error reason = \<lparr>te_error = error, te_ok = False, te_reason = Some reason\<rparr>"

definition te_simple :: "string \<Rightarrow> tlog_error_response" where
  "te_simple error = \<lparr>te_error = error, te_ok = False, te_reason = None\<rparr>"

datatype service_error =
    BadRequest string
  | KernelFingerprintMismatch
  | IdempotencyPayloadMismatch
  | NotFound
  | EntryUnreadable
  | InvalidQuery string
  | Verification verification_error
  | SvcBackend string
  | KernelHmacMismatch
  | StageWrittenByMismatch
  | Ed25519NotConfigured
  | Ed25519KeyFingerprintMismatch
  | Ed25519SignatureMismatch
  | Ed25519MissingFields
  | StageKeyMismatch
  | SvcPanic

fun service_error_from :: "store_error \<Rightarrow> service_error" where
  "service_error_from StoreConflict = IdempotencyPayloadMismatch"
| "service_error_from (StoreBackend s) = SvcBackend s"
| "service_error_from (StoreVerification v) = Verification v"
| "service_error_from StorePanic = SvcPanic"

text \<open>A response is a status code and a body; a panic drops the connection without a response.\<close>

datatype 'a http_reply = Reply nat "tlog_error_response + 'a" | NoReply

fun service_error_response :: "service_error \<Rightarrow> 'a http_reply" where
  "service_error_response (BadRequest msg) = Reply 400 (Inl (te_with_reason ''invalid_request'' msg))"
| "service_error_response (InvalidQuery msg) = Reply 400 (Inl (te_with_reason ''invalid_request'' msg))"
| "service_error_response KernelFingerprintMismatch = Reply 403 (Inl (te_with_reason ''forbidden'' ''kernel_fingerprint_mismatch''))"
| "service_error_response IdempotencyPayloadMismatch = Reply 409 (Inl (te_with_reason ''conflict'' ''idempotency_payload_mismatch''))"
| "service_error_response NotFound = Reply 404 (Inl (te_with_reason ''not_found'' ''entry_not_found''))"
| "service_error_response EntryUnreadable = Reply 422 (Inl (te_with_reason ''entry_unreadable'' ''entry_unreadable''))"
| "service_error_response (Verification v) =
     Reply 400 (Inl (te_with_reason ''verification_error'' (verification_error_to_string v)))"
| "service_error_response KernelHmacMismatch = Reply 403 (Inl (te_with_reason ''forbidden'' ''kernel_hmac_mismatch''))"
| "service_error_response StageWrittenByMismatch = Reply 400 (Inl (te_with_reason ''invalid_request'' ''stage_written_by_mismatch''))"
| "service_error_response Ed25519NotConfigured = Reply 503 (Inl (te_with_reason ''service_unavailable'' ''ed25519_not_configured''))"
| "service_error_response Ed25519KeyFingerprintMismatch = Reply 403 (Inl (te_with_reason ''forbidden'' ''ed25519_key_fingerprint_mismatch''))"
| "service_error_response Ed25519SignatureMismatch = Reply 403 (Inl (te_with_reason ''forbidden'' ''ed25519_signature_mismatch''))"
| "service_error_response Ed25519MissingFields = Reply 400 (Inl (te_with_reason ''invalid_request'' ''ed25519_missing_fields''))"
| "service_error_response StageKeyMismatch = Reply 403 (Inl (te_with_reason ''forbidden'' ''stage_key_mismatch''))"
| "service_error_response (SvcBackend msg) = Reply 500 (Inl (te_simple ''server_error''))"
| "service_error_response SvcPanic = NoReply"

section \<open>Authentication\<close>

definition constant_time_eq :: "bytes \<Rightarrow> bytes \<Rightarrow> bool" where
  "constant_time_eq a b \<longleftrightarrow>
     (if length a \<noteq> length b then False
      else foldl (\<lambda>diff (x, y). or diff (xor x y)) (0 :: u8) (zip a b) = 0)"

definition tlog_is_public_path :: "string \<Rightarrow> bool" where
  "tlog_is_public_path path \<longleftrightarrow> path = ''/health'' \<or> path = ''/v1/keys/transparency''"

definition tlog_auth_layer :: "string \<Rightarrow> string \<Rightarrow> string option \<Rightarrow> 's \<Rightarrow> ('s \<Rightarrow> 'a http_reply \<times> 's) \<Rightarrow>
    'a http_reply \<times> 's" where
  "tlog_auth_layer configured path api_key_header st nxt =
     (if tlog_is_public_path path then nxt st
      else if configured = [] then (Reply 503 (Inl (te_simple ''auth_misconfigured'')), st)
      else let supplied = (case api_key_header of None \<Rightarrow> [] | Some v \<Rightarrow> v) in
        if supplied = [] then (Reply 401 (Inl (te_simple ''unauthorized'')), st)
        else if \<not> constant_time_eq (as_bytes supplied) (as_bytes configured)
        then (Reply 401 (Inl (te_simple ''unauthorized'')), st)
        else nxt st)"

section \<open>Append\<close>

record append_request =
  aq_idempotency_key_hex :: string
  aq_kernel_key_fingerprint_sha256 :: string
  aq_occurred_at_epoch_seconds :: nat
  aq_token_b64 :: string

record append_response =
  as_entry_id :: string
  as_idempotent_replay :: bool
  as_leaf_hash_hex :: string
  as_leaf_index :: nat
  as_ok :: bool

definition tlog_b64url_decode :: "libs \<Rightarrow> string \<Rightarrow> (service_error, bytes) result" where
  "tlog_b64url_decode L s =
     map_err (\<lambda>e. BadRequest (''base64url decode failed: '' @ e))
       (b64url_decode L (trim_end_matches (CHR ''='') (str_trim s)))"

definition hex_to_32 :: "libs \<Rightarrow> string \<Rightarrow> (service_error, hash32) result" where
  "hex_to_32 L s =
     res_bind (map_err (\<lambda>e. BadRequest (''hex decode failed: '' @ e)) (hex_decode L (str_trim s))) (\<lambda>raw.
       if length raw \<noteq> 32
       then Err (BadRequest (''expected 32-byte hex value, got '' @ dec_string (length raw)))
       else Ok (of_be_bytes raw))"

definition append_checks :: "libs \<Rightarrow> string \<Rightarrow> append_request \<Rightarrow> (service_error, append_input) result" where
  "append_checks L kernel_key_fingerprint_hex body =
     (let supplied_fpr = to_ascii_lowercase (str_trim (aq_kernel_key_fingerprint_sha256 body));
          expected_fpr = to_ascii_lowercase kernel_key_fingerprint_hex in
      if supplied_fpr \<noteq> expected_fpr then Err KernelFingerprintMismatch
      else res_bind (tlog_b64url_decode L (aq_token_b64 body)) (\<lambda>payload.
        if payload = [] then Err (BadRequest ''token_b64 is empty'')
        else res_bind (hex_to_32 L (aq_idempotency_key_hex body)) (\<lambda>idempotency_key.
          Ok \<lparr>ai_idempotency_key = idempotency_key, ai_payload = payload,
              ai_occurred_at_epoch_seconds = aq_occurred_at_epoch_seconds body\<rparr>)))"

definition append_route :: "libs \<Rightarrow> string \<Rightarrow> append_request \<Rightarrow> mem_store \<Rightarrow>
    append_response http_reply \<times> mem_store" where
  "append_route L kernel_key_fingerprint_hex body store =
     (case append_checks L kernel_key_fingerprint_hex body of
        Inl e \<Rightarrow> (service_error_response e, store)
      | Inr payload \<Rightarrow>
          (case store_append (sha256 L) store payload of
             (Inl e, store') \<Rightarrow> (service_error_response (service_error_from e), store')
           | (Inr outcome, store') \<Rightarrow>
               let idempotent_replay = \<not> ao_created outcome;
                   status = (if idempotent_replay then 200 else 201) in
               (Reply status (Inr \<lparr>as_entry_id = dec_string (ao_leaf_index outcome),
                  as_idempotent_replay = idempotent_replay,
                  as_leaf_hash_hex = hex_encode L (be_bytes (ao_leaf_hash outcome)),
                  as_leaf_index = ao_leaf_index outcome, as_ok = True\<rparr>), store')))"

section \<open>Verify, tree head, consistency, health\<close>

record verify_response =
  vr_current_root_hash :: string
  vr_current_tree_size :: nat
  vr_entry :: merkle_leaf
  vr_inclusion_proof :: inclusion_proof

definition verify_route :: "libs \<Rightarrow> string \<Rightarrow> mem_store \<Rightarrow> mem_store \<Rightarrow> mem_store \<Rightarrow> mem_store \<Rightarrow>
    (service_error, verify_response) result" where
  "verify_route L entry_id st_leaf st_proof st_size st_root =
     res_bind (ok_or (InvalidQuery (''entry_id not a u64: '' @ entry_id)) (parse_u64 entry_id)) (\<lambda>leaf_index.
     res_bind (ok_or NotFound (get_leaf st_leaf leaf_index)) (\<lambda>leaf.
     res_bind (map_err service_error_from (store_build_inclusion_proof (sha256 L) st_proof leaf_index)) (\<lambda>proof.
     let size_now = current_size st_size in
     res_bind (map_err service_error_from (current_root (sha256 L) st_root)) (\<lambda>root_now.
     res_bind (map_err (\<lambda>e. SvcBackend (''internal proof verification failed: '' @ verification_error_to_string e))
       (verify_inclusion_proof (sha256 L) proof root_now)) (\<lambda>_.
     Ok \<lparr>vr_current_root_hash = hex_encode L (be_bytes root_now), vr_current_tree_size = size_now,
         vr_entry = leaf, vr_inclusion_proof = proof\<rparr>)))))"

record signed_tree_head_response =
  hr_ok :: bool
  hr_signing_key_fingerprint_sha256 :: string
  hr_sth :: signed_tree_head

definition sth_route :: "libs \<Rightarrow> 256 word \<Rightarrow> string \<Rightarrow> f64 \<Rightarrow> mem_store \<Rightarrow> mem_store \<Rightarrow>
    (service_error, signed_tree_head_response) result" where
  "sth_route L signing_key key_fingerprint_hex now_f st_size st_root =
     (let tree_size = current_size st_size in
      res_bind (map_err service_error_from (current_root (sha256 L) st_root)) (\<lambda>root_hash.
        let now_u = (if f64_is_finite now_f \<and> f64_le (Finite 0) now_f then f64_as_u64 now_f else 0) in
        Ok \<lparr>hr_ok = True, hr_signing_key_fingerprint_sha256 = key_fingerprint_hex,
            hr_sth = mint_sth L root_hash (of_nat tree_size) (of_nat now_u) signing_key\<rparr>))"

fun extend_tree :: "(bytes \<Rightarrow> hash32) \<Rightarrow> (nat \<Rightarrow> mem_store) \<Rightarrow> nat list \<Rightarrow> hash_tree \<Rightarrow>
    (service_error, unit) result \<times> hash_tree" where
  "extend_tree H reads [] tree = (Ok (), tree)"
| "extend_tree H reads (idx # rest) tree =
     (case get_leaf (reads idx) idx of
        None \<Rightarrow> (Err (SvcBackend (''gap at leaf_index '' @ dec_string idx)), tree)
      | Some leaf \<Rightarrow> extend_tree H reads rest (ht_push_leaf H tree leaf))"

definition consistency_route :: "(bytes \<Rightarrow> hash32) \<Rightarrow> nat \<Rightarrow> nat \<Rightarrow> mem_store \<Rightarrow> (nat \<Rightarrow> mem_store) \<Rightarrow> hash_tree \<Rightarrow>
    (service_error, consistency_proof) result \<times> hash_tree" where
  "consistency_route H first second st_size reads tree =
     (if first = 0 then (Err (Verification InvalidConsistencyRange), tree)
      else if second < first then (Err (Verification InvalidConsistencyRange), tree)
      else if current_size st_size < second then (Err (Verification LeafIndexOutOfBounds), tree)
      else case extend_tree H reads [ht_len tree..<second] tree of
          (Inl e, tree') \<Rightarrow> (Err e, tree')
        | (Inr _, tree') \<Rightarrow> (map_err Verification (ht_consistency_proof H tree' first second), tree'))"

definition health_route :: "mem_store \<Rightarrow> bool \<times> nat" where
  "health_route store = (True, current_size store)"

section \<open>Lemmas: text and bytes\<close>

lemma xor_eq_0_word: "xor x y = 0 \<longleftrightarrow> x = (y :: 'a::len word)"
  by (auto simp: bit_eq_iff bit_xor_iff)

lemma constant_time_eq_iff: "constant_time_eq a b \<longleftrightarrow> a = b"
proof -
  have "foldl (\<lambda>diff (x, y). or diff (xor x y)) d (zip a b) = 0 \<longleftrightarrow> d = 0 \<and> a = b"
    if "length a = length b" for d :: u8
    using that by (induction a b arbitrary: d rule: list_induct2) (auto simp: or_eq_0_iff xor_eq_0_word)
  then show ?thesis by (auto simp: constant_time_eq_def)
qed

lemma bit_of_le_bytes:
  "bit (of_le_bytes bs :: 'a::len word) n \<longleftrightarrow>
     n < LENGTH('a) \<and> n div 8 < length bs \<and> bit (bs ! (n div 8)) (n mod 8)"
proof (induction bs arbitrary: n)
  case (Cons b bs)
  show ?case
  proof (cases "n < 8")
    case True
    then show ?thesis by (auto simp: bit_or_iff bit_unsigned_iff bit_push_bit_iff)
  next
    case False
    then obtain m where n: "n = m + 8" by (metis add.commute le_Suc_ex not_less)
    have "\<not> bit (ucast b :: 'a word) n"
      using False by (auto simp: bit_unsigned_iff dest: bit_imp_le_length)
    then show ?thesis
      by (auto simp: n bit_or_iff bit_push_bit_iff Cons.IH)
  qed
qed simp

lemma of_be_bytes_be_bytes [simp]: "LENGTH('a) mod 8 = 0 \<Longrightarrow> of_be_bytes (be_bytes (w :: 'a::len word)) = w"
proof (rule bit_word_eqI)
  fix n assume *: "LENGTH('a) mod 8 = 0" "n < LENGTH('a)"
  then have i: "n div 8 < LENGTH('a) div 8"
    by (metis div_less_iff_less_mult dvd_div_mult_self mod_0_imp_dvd zero_less_numeral)
  show "bit (of_be_bytes (be_bytes w) :: 'a word) n = bit w n"
    using * i by (auto simp: of_be_bytes_def be_bytes_def bit_of_le_bytes le_bytes_def bit_unsigned_iff bit_drop_bit_eq)
qed

lemma is_digit_char: "n < 10 \<Longrightarrow> is_digit (char_of (48 + n)) \<and> (of_char (char_of (48 + n) :: char) :: nat) = 48 + n"
  by (simp add: is_digit_def of_char_of)

lemma dec_value_snoc: "dec_value (s @ [c]) = 10 * dec_value s + (of_char c - 48)"
  by (simp add: dec_value_def)

lemma dec_string_digits: "dec_string n \<noteq> [] \<and> list_all is_digit (dec_string n) \<and> dec_value (dec_string n) = n"
proof (induction n rule: dec_string.induct)
  case (1 n)
  show ?case
  proof (cases "n < 10")
    case True then show ?thesis
      using is_digit_char[of n] by (simp add: dec_string.simps dec_value_def)
  next
    case False then show ?thesis
      using 1 is_digit_char[of "n mod 10"] by (subst (1 2 3) dec_string.simps) (simp add: dec_value_snoc)
  qed
qed

lemma parse_u64_dec_string: "n < 2 ^ 64 \<Longrightarrow> parse_u64 (dec_string n) = Some n"
proof -
  assume "n < 2 ^ 64"
  moreover have "\<not> is_digit (CHR ''+'')" by (simp add: is_digit_def)
  then have "(case dec_string n of c # cs \<Rightarrow> if c = CHR ''+'' then cs else dec_string n | [] \<Rightarrow> []) = dec_string n"
    using dec_string_digits[of n] by (auto split: list.split)
  ultimately show ?thesis using dec_string_digits[of n] by (simp add: parse_u64_def Let_def)
qed

section \<open>Lemmas: routes\<close>

lemma verify_route_quiescent:
  assumes "mem_inv (sha256 L) s" "i < length (ms_payloads s)" "length (ms_payloads s) \<le> 2 ^ 64"
  shows "\<exists>r root. verify_route L (dec_string i) s s s s = Ok r \<and> vr_current_tree_size r = length (ms_payloads s) \<and>
    ml_hash (vr_entry r) = leaf_hash (sha256 L) (ms_payloads s ! i) \<and>
    ip_leaf_hash (vr_inclusion_proof r) = leaf_hash (sha256 L) (ms_payloads s ! i) \<and>
    compute_root (sha256 L) (ms_leaves s) = Ok root \<and> vr_current_root_hash r = hex_encode L (be_bytes root) \<and>
    verify_inclusion_proof (sha256 L) (vr_inclusion_proof r) root = Ok ()"
proof -
  have i: "i < length (ms_leaves s)" and ne: "ms_leaves s \<noteq> []"
    using assms mem_inv_length[OF assms(1)] by auto
  have p: "parse_u64 (dec_string i) = Some i" using assms by (intro parse_u64_dec_string) simp
  obtain pf root where b: "build_inclusion_proof (sha256 L) (ms_leaves s) i = Ok pf"
    "compute_root (sha256 L) (ms_leaves s) = Ok root" "verify_inclusion_proof (sha256 L) pf root = Ok ()"
    using build_verify_inclusion[OF i, of "sha256 L"] by blast
  have "ip_leaf_hash pf = leaf_hash (sha256 L) (ms_payloads s ! i)"
    using b(1) i ne mem_inv_hash[OF assms(1) i] by (auto simp: build_inclusion_proof_def Let_def split: if_splits)
  then show ?thesis
    using b i ne p mem_inv_hash[OF assms(1) i] mem_inv_length[OF assms(1)]
    by (simp add: verify_route_def get_leaf_def store_build_inclusion_proof_def current_root_def current_size_def)
qed

lemma append_route_reply:
  assumes "append_route L fpr body s = (Reply n (Inr r), s')"
  obtains x out where "append_checks L fpr body = Ok x" "fst (store_append (sha256 L) s x) = Ok out"
    "s' = snd (store_append (sha256 L) s x)" "as_leaf_index r = ao_leaf_index out"
    "as_entry_id r = dec_string (ao_leaf_index out)" "n = (if ao_created out then 201 else 200)"
proof -
  have nr: "service_error_response e \<noteq> Reply n (Inr (r :: append_response))" for e
    by (cases e) auto
  obtain x where x: "append_checks L fpr body = Ok x"
    using assms nr by (auto simp: append_route_def split: sum.splits prod.splits)
  obtain out where "fst (store_append (sha256 L) s x) = Ok out" "s' = snd (store_append (sha256 L) s x)"
    "as_leaf_index r = ao_leaf_index out" "as_entry_id r = dec_string (ao_leaf_index out)"
    "n = (if ao_created out then 201 else 200)"
    using assms nr x
    by (auto simp: append_route_def Let_def split: sum.splits prod.splits)
  with that x show ?thesis by blast
qed

lemma extend_tree_reads:
  assumes "\<And>i. i < n \<Longrightarrow> get_leaf (reads i) i = Some (leaves ! i)" "n \<le> length leaves" "k \<le> n"
  shows "extend_tree H reads [k..<n] (hash_tree_of H (take k leaves)) = (Ok (), hash_tree_of H (take n leaves))"
  using assms(3)
proof (induction "n - k" arbitrary: k)
  case (Suc d)
  then have k: "k < n" "[k..<n] = k # [Suc k..<n]" by (simp_all add: upt_conv_Cons)
  have "ht_push_leaf H (hash_tree_of H (take k leaves)) (leaves ! k) = hash_tree_of H (take (Suc k) leaves)"
    using k(1) assms(2) by (simp add: take_Suc_conv_app_nth)
  then show ?case using Suc k assms(1)[of k] by simp
qed simp

lemma get_leaf_prefix:
  "prefix (ms_leaves s) (ms_leaves t) \<Longrightarrow> i < length (ms_leaves s) \<Longrightarrow> get_leaf t i = Some (ms_leaves s ! i)"
  by (auto simp: get_leaf_def prefix_def nth_append)

lemma tlog_auth_layer_passes:
  "\<not> tlog_is_public_path path \<Longrightarrow>
    tlog_auth_layer configured path header st nxt =
      (if configured \<noteq> [] \<and> header = Some configured then nxt st
       else (Reply (if configured = [] then 503 else 401)
         (Inl (te_simple (if configured = [] then ''auth_misconfigured'' else ''unauthorized''))), st))"
  by (auto simp: tlog_auth_layer_def constant_time_eq_iff Let_def split: option.splits)

lemma verify_rejects_other_root:
  "verify_inclusion_proof H p r1 = Ok () \<Longrightarrow> r2 \<noteq> r1 \<Longrightarrow> verify_inclusion_proof H p r2 = Err RootMismatch"
  by (auto simp: verify_inclusion_proof_def res_bind_def split: if_splits sum.splits)

text \<open>An append between the proof and the root of one \<^verbatim>\<open>verify\<close> request makes it answer 500 for an entry
  whose proof is good.\<close>

lemma verify_race_rejects_valid_entry:
  assumes "mem_inv (sha256 L) s" "i < length (ms_payloads s)" "length (ms_payloads s) \<le> 2 ^ 64"
    and "current_root (sha256 L) t = Ok root'" "compute_root (sha256 L) (ms_leaves s) \<noteq> Ok root'"
  shows "verify_route L (dec_string i) s s s t = Err (SvcBackend ''internal proof verification failed: root mismatch'')"
proof -
  obtain r root where r: "verify_route L (dec_string i) s s s s = Ok r" "compute_root (sha256 L) (ms_leaves s) = Ok root"
    "verify_inclusion_proof (sha256 L) (vr_inclusion_proof r) root = Ok ()"
    using verify_route_quiescent[OF assms(1-3)] by blast
  have "verify_inclusion_proof (sha256 L) (vr_inclusion_proof r) root' = Err RootMismatch"
    using verify_rejects_other_root[OF r(3)] r(2) assms(5) by auto
  then show ?thesis using r(1) assms(4)
    by (auto simp: verify_route_def Let_def result_simps)
qed

section \<open>Properties\<close>

text \<open>C23: when the append endpoint answers with an entry, the submitted payload is in the ledger and
  stays there: after any further appends, the verify endpoint answers the entry id it handed out
  with that payload's leaf and an inclusion proof that verifies against the current root.\<close>

theorem appended_entry_stays_verifiable:
  assumes "mem_inv (sha256 L) s"
    and "tlog_auth_layer configured ''/v1/append'' header s (append_route L fpr body) = (Reply n (Inr r), s1)"
    and "t = foldl (\<lambda>s x. snd (store_append (sha256 L) s x)) s1 xs" "length (ms_payloads t) \<le> 2 ^ 64"
  shows "\<exists>x v root. append_checks L fpr body = Ok x \<and> ms_payloads t ! as_leaf_index r = ai_payload x \<and>
    verify_route L (as_entry_id r) t t t t = Ok v \<and>
    ip_leaf_hash (vr_inclusion_proof v) = leaf_hash (sha256 L) (ai_payload x) \<and>
    compute_root (sha256 L) (ms_leaves t) = Ok root \<and>
    verify_inclusion_proof (sha256 L) (vr_inclusion_proof v) root = Ok ()"
proof -
  have "append_route L fpr body s = (Reply n (Inr r), s1)"
    using assms(2) by (auto simp: tlog_auth_layer_passes tlog_is_public_path_def split: if_splits)
  then obtain x out where x: "append_checks L fpr body = Ok x" "fst (store_append (sha256 L) s x) = Ok out"
    "s1 = snd (store_append (sha256 L) s x)" "as_leaf_index r = ao_leaf_index out"
    "as_entry_id r = dec_string (ao_leaf_index out)"
    by (rule append_route_reply)
  note rec = mem_ledger.append_recorded[OF assms(1) x(2)]
  note mono = mem_ledger.appends_monotone[OF mem_ledger.append_inv[OF assms(1), of x], of xs]
  have inv: "mem_inv (sha256 L) t" and pre: "prefix (ms_payloads s1) (ms_payloads t)"
    using mono by (simp_all add: assms(3) x(3) mem_ledger_appends)
  then have p: "ao_leaf_index out < length (ms_payloads t)" "ms_payloads t ! ao_leaf_index out = ai_payload x"
    using rec x(3) by (auto simp: prefix_def nth_append)
  from verify_route_quiescent[OF inv p(1) assms(4)] show ?thesis
    unfolding x(4,5) using x(1) p(2) by metis
qed

definition sample_append_request :: append_request where
  "sample_append_request = \<lparr>aq_idempotency_key_hex = replicate 64 (CHR ''0''), aq_kernel_key_fingerprint_sha256 = ''AB'',
     aq_occurred_at_epoch_seconds = 100, aq_token_b64 = ''0f=''\<rparr>"

theorem appended_entry_stays_verifiable_witness:
  "let L = sample_libs JNull; t = snd (tlog_auth_layer ''k'' ''/v1/append'' (Some ''k'') mem_store_new (append_route L ''ab'' sample_append_request)) in
   \<exists>v root. verify_route L ''0'' t t t t = Ok v \<and> compute_root (sha256 L) (ms_leaves t) = Ok root \<and>
     verify_inclusion_proof (sha256 L) (vr_inclusion_proof v) root = Ok ()"
proof -
  let ?L = "sample_libs JNull" and ?r = "sample_append_request"
  let ?e = "\<lparr>as_entry_id = ''0'', as_idempotent_replay = False, as_leaf_hash_hex = replicate 63 (CHR ''0'') @ ''2'',
    as_leaf_index = 0, as_ok = True\<rparr>"
  let ?a = "tlog_auth_layer ''k'' ''/v1/append'' (Some ''k'') mem_store_new (append_route ?L ''ab'' ?r)"
  have au: "?a = append_route ?L ''ab'' ?r mem_store_new"
    by (simp add: tlog_auth_layer_passes tlog_is_public_path_def)
  have reply: "map_prod id (\<lambda>s. length (ms_payloads s)) (append_route ?L ''ab'' ?r mem_store_new) = (Reply 201 (Inr ?e), 1)"
    by code_simp
  then have "?a = (Reply 201 (Inr ?e), snd ?a)" "length (ms_payloads (snd ?a)) \<le> 2 ^ 64"
    unfolding au by (auto simp: map_prod_def split: prod.splits)
  from appended_entry_stays_verifiable[OF mem_inv_new this(1), of "snd ?a" "[]"] this(2) show ?thesis
    by (auto simp: Let_def)
qed

text \<open>C24: every consistency request within the current size is served with a proof that the domain
  verifier accepts between the roots of the two prefixes, whatever part of the ledger the cached
  tree already holds and however appends interleave with the reads; the cache stays the hash tree
  of a prefix of the ledger.\<close>

theorem consistency_request_served:
  assumes "0 < m" "m \<le> n" "n \<le> length (ms_leaves s)" "length (ms_leaves s) < 2 ^ 64"
    and "k \<le> length (ms_leaves s)" "\<And>i. prefix (ms_leaves s) (ms_leaves (reads i))"
  shows "\<exists>p old_root new_root.
    consistency_route H m n s reads (hash_tree_of H (take k (ms_leaves s))) = (Ok p, hash_tree_of H (take (max k n) (ms_leaves s))) \<and>
    compute_root H (take m (ms_leaves s)) = Ok old_root \<and> compute_root H (take n (ms_leaves s)) = Ok new_root \<and>
    verify_consistency_proof H p old_root new_root = Ok ()"
proof -
  let ?l = "ms_leaves s"
  let ?u = "take (max k n) ?l"
  have len: "ht_len (hash_tree_of H (take k ?l)) = k"
    using ht_len_levels_of[OF levels_hash_tree_of[of H "take k ?l"]] assms(5) by simp
  have ext: "extend_tree H reads [k..<n] (hash_tree_of H (take k ?l)) = (Ok (), hash_tree_of H ?u)"
  proof (cases "k \<le> n")
    case True
    then show ?thesis
      using extend_tree_reads[of n reads ?l k H] get_leaf_prefix[OF assms(6)] assms(3) by (simp add: max_absorb2)
  qed (simp add: max_absorb1)
  obtain p r1 r2 where "build_consistency_proof H ?u m n = Ok p" "compute_root H (take m ?u) = Ok r1"
    "compute_root H (take n ?u) = Ok r2" "verify_consistency_proof H p r1 r2 = Ok ()"
    using build_verify_consistency[of m n ?u H] assms by auto
  moreover have "take m ?u = take m ?l" "take n ?u = take n ?l" using assms(2) by (simp_all add: min_def max_def)
  moreover have "ht_consistency_proof H (hash_tree_of H ?u) m n = build_consistency_proof H ?u m n"
    using assms by (intro ht_consistency_slice) auto
  ultimately show ?thesis
    using assms(1-3) len ext by (simp add: consistency_route_def current_size_def)
qed

theorem consistency_request_served_witness:
  "\<exists>p. fst (consistency_route length_hash 2 3 (mem_store_new\<lparr>ms_leaves := sample_leaves\<rparr>)
     (\<lambda>_. mem_store_new\<lparr>ms_leaves := sample_leaves\<rparr>) (hash_tree_of length_hash (take 1 sample_leaves))) = Ok p"
  using consistency_request_served[of 2 3 "mem_store_new\<lparr>ms_leaves := sample_leaves\<rparr>" 1
      "\<lambda>_. mem_store_new\<lparr>ms_leaves := sample_leaves\<rparr>" length_hash]
  by (auto simp: sample_leaves_def)

text \<open>C25: the tree-head endpoint reads the size and the root under separate locks.  With no append in
  between it signs the size and the root of the ledger; with one append in between it signs, and
  every verifier accepts, the old size paired with the root of the longer ledger.\<close>

theorem sth_race_signs_wrong_root:
  assumes "ed25519_contract L" "mem_inv (sha256 L) s" "ms_idempotency s (ai_idempotency_key x) = None"
    and "t = s \<or> t = snd (store_append (sha256 L) s x)" "ms_payloads s \<noteq> []"
  shows "\<exists>r. sth_route L sk fp now s t = Ok r \<and>
    verify_sth L (hr_sth r) (verifying_key L sk) = Ok () \<and>
    sth_tree_size (hr_sth r) = of_nat (length (ms_payloads s)) \<and>
    sth_root_hash (hr_sth r) = root_of_hashes (sha256 L)
      (map (leaf_hash (sha256 L)) (ms_payloads s @ (if t = s then [] else [ai_payload x])))"
proof -
  have inv: "mem_inv (sha256 L) t" using assms(2,4) mem_inv_append by auto
  have pt: "ms_payloads t = ms_payloads s @ (if t = s then [] else [ai_payload x])"
    using assms(4) mem_ledger.append_fresh[OF assms(2,3)] by auto
  have ne: "ms_leaves t \<noteq> []" using pt assms(5) mem_inv_length[OF inv] by auto
  have "map ml_hash (ms_leaves t) = map (leaf_hash (sha256 L)) (ms_payloads t)"
    using inv by (simp add: mem_inv_def)
  then have "current_root (sha256 L) t = Ok (root_of_hashes (sha256 L) (map (leaf_hash (sha256 L)) (ms_payloads t)))"
    using ne by (simp add: current_root_def compute_root_def)
  then show ?thesis
    using assms(1) mem_inv_length[OF assms(2)] unfolding pt
    by (simp add: sth_route_def mint_sth_def verify_sth_def current_size_def ed25519_contract_def Let_def)
qed

theorem sth_race_signs_wrong_root_witness:
  "let L = sample_libs JNull; s = snd (store_append (sha256 L) mem_store_new (sample_append 1 [5])) in
   \<exists>r. sth_route L 7 ''k'' (Finite 100) s (snd (store_append (sha256 L) s (sample_append 2 [6]))) = Ok r \<and>
     verify_sth L (hr_sth r) (verifying_key L 7) = Ok () \<and> sth_tree_size (hr_sth r) = 1"
proof -
  let ?L = "sample_libs JNull"
  let ?s = "snd (store_append (sha256 ?L) mem_store_new (sample_append 1 [5]))"
  have s: "ms_payloads ?s = [[5]]" "ms_idempotency ?s 2 = None"
    by (simp_all add: store_append_def mem_store_new_def sample_append_def Let_def)
  show ?thesis
    using sth_race_signs_wrong_root[OF sample_libs_contracts(2)[of JNull] mem_inv_append[OF mem_inv_new],
        of "sample_append 1 [5]" "sample_append 2 [6]" "snd (store_append (sha256 ?L) ?s (sample_append 2 [6]))" 7 "''k''" "Finite 100"] s
    by (auto simp: Let_def sample_append_def)
qed

end
