(* ===== verification/Claims.thy ===== *)
theory Claims
  imports Token
begin

text \<open>
  The signed claim sets of the kernel and their maps (\<^verbatim>\<open>ToClaimsMap::to_btreemap\<close>):
  \<^verbatim>\<open>src/crates/domain/src/safety/claims.rs\<close>, \<^verbatim>\<open>policy/claims.rs\<close> and \<^verbatim>\<open>revoke.rs\<close>, with the audiences and
  action constants and the fingerprint recipes of revocations and restores.  Each claim type
  interprets \<open>claim_set\<close>, which gives its signing round trip.  The core constraints of \<^verbatim>\<open>claims.rs\<close>
  are at the end.
\<close>

section \<open>Audiences and actions\<close>

definition KERNEL_AUTHORIZE_AUD :: string where "KERNEL_AUTHORIZE_AUD = ''kernel/authorize''"
definition APPROVAL_AUD :: string where "APPROVAL_AUD = ''kernel/approvals/decision''"
definition POLICY_AUTHORIZE_ACTION :: string where "POLICY_AUTHORIZE_ACTION = ''policy_module_authorize''"
definition POLICY_REGISTER_ACTION :: string where "POLICY_REGISTER_ACTION = ''policy_module_register''"
definition POLICY_AUTHORIZE_AUD :: string where "POLICY_AUTHORIZE_AUD = ''policy/module/authorize''"
definition POLICY_REGISTER_AUD :: string where "POLICY_REGISTER_AUD = ''policy/module/register''"
definition REVOKE_COMPUTE_AUD :: string where "REVOKE_COMPUTE_AUD = ''kernel/revoke/compute''"
definition REVOKE_COMPUTE_ACTION :: string where "REVOKE_COMPUTE_ACTION = ''revoke_compute''"
definition REVOKE_RESTORE_AUD :: string where "REVOKE_RESTORE_AUD = ''kernel/revoke/restore''"
definition REVOKE_RESTORE_ACTION :: string where "REVOKE_RESTORE_ACTION = ''revoke_restore''"

lemmas aud_defs = KERNEL_AUTHORIZE_AUD_def APPROVAL_AUD_def POLICY_AUTHORIZE_AUD_def
  POLICY_REGISTER_AUD_def REVOKE_COMPUTE_AUD_def REVOKE_RESTORE_AUD_def

lemmas action_defs = POLICY_AUTHORIZE_ACTION_def POLICY_REGISTER_ACTION_def
  REVOKE_COMPUTE_ACTION_def REVOKE_RESTORE_ACTION_def

section \<open>Authorize and approval claims\<close>

record authorize_claims =
  ac_action :: string
  ac_aud :: string
  ac_run_id :: string
  ac_subject :: string
  ac_params_fingerprint :: string
  ac_issued_at :: f64
  ac_expires_at :: f64
  ac_nonce :: string

definition authorize_claims_map :: "authorize_claims \<Rightarrow> json btree" where
  "authorize_claims_map c = bt_of_list
     [(''action'', JString (ac_action c)),
      (''aud'', JString (ac_aud c)),
      (''run_id'', JString (ac_run_id c)),
      (''subject'', JString (ac_subject c)),
      (''params_fingerprint'', JString (ac_params_fingerprint c)),
      (''issued_at'', json_from_f64 (ac_issued_at c)),
      (''expires_at'', json_from_f64 (ac_expires_at c)),
      (''nonce'', JString (ac_nonce c))]"

record approval_claims =
  ap_action :: string
  ap_aud :: string
  ap_run_id :: string
  ap_subject :: string
  ap_params_fingerprint :: string
  ap_issued_at :: f64
  ap_expires_at :: f64
  ap_nonce :: string
  ap_decision :: string
  ap_reason :: "string option"
  ap_approver :: string
  ap_proposal_fingerprint :: string

definition approval_claims_map :: "approval_claims \<Rightarrow> json btree" where
  "approval_claims_map c = bt_of_list
     [(''action'', JString (ap_action c)),
      (''aud'', JString (ap_aud c)),
      (''approver'', JString (ap_approver c)),
      (''decision'', JString (ap_decision c)),
      (''expires_at'', json_from_f64 (ap_expires_at c)),
      (''issued_at'', json_from_f64 (ap_issued_at c)),
      (''nonce'', JString (ap_nonce c)),
      (''params_fingerprint'', JString (ap_params_fingerprint c)),
      (''proposal_fingerprint'', JString (ap_proposal_fingerprint c)),
      (''reason'', json_from_opt_str (ap_reason c)),
      (''run_id'', JString (ap_run_id c)),
      (''subject'', JString (ap_subject c))]"

section \<open>Policy claims\<close>

datatype module_event_kind = EvImport | EvExec | EvCompile

datatype module_authorize_decision = DecAllow | DecDeny | DecKernelUnavailable

record module_authorize_claims =
  ma_aud :: string
  ma_iss :: string
  ma_iat :: f64
  ma_exp :: f64
  ma_subject :: string
  ma_run_id :: string
  ma_event_kind :: module_event_kind
  ma_module_path :: string
  ma_event_fingerprint :: string
  ma_decision :: module_authorize_decision
  ma_reason :: "string option"
  ma_nonce :: string

definition module_authorize_claims_map :: "module_authorize_claims \<Rightarrow> json btree" where
  "module_authorize_claims_map c = bt_of_list
     [(''action'', JString POLICY_AUTHORIZE_ACTION),
      (''aud'', JString (ma_aud c)),
      (''run_id'', JString (ma_run_id c)),
      (''subject'', JString (ma_subject c)),
      (''params_fingerprint'', JString (ma_event_fingerprint c)),
      (''issued_at'', json_from_f64 (ma_iat c)),
      (''expires_at'', json_from_f64 (ma_exp c)),
      (''nonce'', JString (ma_nonce c)),
      (''decision'', JString (case ma_decision c of DecAllow \<Rightarrow> ''allow'' | DecDeny \<Rightarrow> ''deny''
                               | DecKernelUnavailable \<Rightarrow> ''kernel_unavailable'')),
      (''event_fingerprint'', JString (ma_event_fingerprint c)),
      (''event_kind'', JString (case ma_event_kind c of EvImport \<Rightarrow> ''import'' | EvExec \<Rightarrow> ''exec''
                                 | EvCompile \<Rightarrow> ''compile'')),
      (''iss'', JString (ma_iss c)),
      (''module_path'', JString (ma_module_path c)),
      (''reason'', json_from_opt_str (ma_reason c))]"

record module_register_claims =
  mr_aud :: string
  mr_iss :: string
  mr_iat :: f64
  mr_exp :: f64
  mr_subject :: string
  mr_run_id :: string
  mr_module_path :: string
  mr_required_patterns_regex_set_fingerprint :: string
  mr_registered_at_unix_ms :: int
  mr_params_fingerprint :: string
  mr_nonce :: string

definition json_from_i64 :: "int \<Rightarrow> json" where
  "json_from_i64 i = JNumber (if 0 \<le> i then PosInt (nat i) else NegInt i)"

definition module_register_claims_map :: "module_register_claims \<Rightarrow> json btree" where
  "module_register_claims_map c = bt_of_list
     [(''action'', JString POLICY_REGISTER_ACTION),
      (''aud'', JString (mr_aud c)),
      (''expires_at'', json_from_f64 (mr_exp c)),
      (''issued_at'', json_from_f64 (mr_iat c)),
      (''iss'', JString (mr_iss c)),
      (''module_path'', JString (mr_module_path c)),
      (''nonce'', JString (mr_nonce c)),
      (''params_fingerprint'', JString (mr_params_fingerprint c)),
      (''registered_at_unix_ms'', json_from_i64 (mr_registered_at_unix_ms c)),
      (''required_patterns_regex_set_fingerprint'', JString (mr_required_patterns_regex_set_fingerprint c)),
      (''run_id'', JString (mr_run_id c)),
      (''subject'', JString (mr_subject c))]"

section \<open>Revocation and restore claims\<close>

datatype revocation_tier = Sigterm | Sigkill | CgroupKill | VmStop

datatype revoke_trigger = OperatorEmergencyStop | RogueDetermination

record instance_target =
  it_project :: string
  it_zone :: string
  it_instance :: string

fun tier_to_value :: "revocation_tier \<Rightarrow> json" where
  "tier_to_value Sigterm = JString ''sigterm''"
| "tier_to_value Sigkill = JString ''sigkill''"
| "tier_to_value CgroupKill = JString ''cgroup_kill''"
| "tier_to_value VmStop = JString ''vm_stop''"

fun trigger_to_value :: "revoke_trigger \<Rightarrow> json" where
  "trigger_to_value OperatorEmergencyStop = JString ''operator_emergency_stop''"
| "trigger_to_value RogueDetermination = JString ''rogue_determination''"

definition target_to_value :: "instance_target \<Rightarrow> json" where
  "target_to_value t = JObject (bt_of_list
     [(''project'', JString (it_project t)), (''zone'', JString (it_zone t)), (''instance'', JString (it_instance t))])"

definition json_from_u64 :: "u64 \<Rightarrow> json" where
  "json_from_u64 n = JNumber (PosInt (unat n))"

definition revoke_params_fingerprint :: "libs \<Rightarrow> string \<Rightarrow> instance_target \<Rightarrow> u64 \<Rightarrow> revocation_tier \<Rightarrow>
    revoke_trigger \<Rightarrow> string option \<Rightarrow> string" where
  "revoke_params_fingerprint L run_id target target_generation tier trigger reason =
     params_fingerprint L (JObject (bt_of_list
       [(''run_id'', JString run_id),
        (''target'', target_to_value target),
        (''target_generation'', json_from_u64 target_generation),
        (''tier'', tier_to_value tier),
        (''trigger'', trigger_to_value trigger),
        (''reason'', json_from_opt_str reason)]))"

definition restore_params_fingerprint :: "libs \<Rightarrow> string \<Rightarrow> instance_target \<Rightarrow> string option \<Rightarrow> string" where
  "restore_params_fingerprint L run_id target reason =
     params_fingerprint L (JObject (bt_of_list
       [(''run_id'', JString run_id),
        (''target'', target_to_value target),
        (''reason'', json_from_opt_str reason)]))"

record revoke_compute_claims =
  rc_aud :: string
  rc_run_id :: string
  rc_subject :: string
  rc_params_fingerprint :: string
  rc_issued_at :: f64
  rc_expires_at :: f64
  rc_nonce :: string
  rc_target :: instance_target
  rc_target_generation :: u64
  rc_tier :: revocation_tier
  rc_trigger :: revoke_trigger
  rc_reason :: "string option"

definition revoke_compute_claims_map :: "revoke_compute_claims \<Rightarrow> json btree" where
  "revoke_compute_claims_map c = bt_of_list
     [(''action'', JString REVOKE_COMPUTE_ACTION),
      (''aud'', JString (rc_aud c)),
      (''expires_at'', json_from_f64 (rc_expires_at c)),
      (''issued_at'', json_from_f64 (rc_issued_at c)),
      (''nonce'', JString (rc_nonce c)),
      (''params_fingerprint'', JString (rc_params_fingerprint c)),
      (''reason'', json_from_opt_str (rc_reason c)),
      (''run_id'', JString (rc_run_id c)),
      (''subject'', JString (rc_subject c)),
      (''target'', target_to_value (rc_target c)),
      (''target_generation'', json_from_u64 (rc_target_generation c)),
      (''tier'', tier_to_value (rc_tier c)),
      (''trigger'', trigger_to_value (rc_trigger c))]"

record restore_claims =
  rs_aud :: string
  rs_run_id :: string
  rs_subject :: string
  rs_params_fingerprint :: string
  rs_issued_at :: f64
  rs_expires_at :: f64
  rs_nonce :: string
  rs_target :: instance_target
  rs_reason :: "string option"

definition restore_claims_map :: "restore_claims \<Rightarrow> json btree" where
  "restore_claims_map c = bt_of_list
     [(''action'', JString REVOKE_RESTORE_ACTION),
      (''aud'', JString (rs_aud c)),
      (''expires_at'', json_from_f64 (rs_expires_at c)),
      (''issued_at'', json_from_f64 (rs_issued_at c)),
      (''nonce'', JString (rs_nonce c)),
      (''params_fingerprint'', JString (rs_params_fingerprint c)),
      (''reason'', json_from_opt_str (rs_reason c)),
      (''run_id'', JString (rs_run_id c)),
      (''subject'', JString (rs_subject c)),
      (''target'', target_to_value (rs_target c))]"

section \<open>Core constraints\<close>

datatype constraint_kind = ComplianceRule | BrandRule | PrivacyRule | ScopeRule | CustomRule string

record core_constraint =
  cc_id :: string
  cc_tenant_id :: string
  cc_kind :: constraint_kind
  cc_rule_text :: string
  cc_priority :: u8
  cc_valid_from :: string
  cc_valid_to :: "string option"
  cc_provenance :: string
  cc_version :: "32 word"

record core_constraint_set =
  ccs_tenant_id :: string
  ccs_constraints :: "core_constraint list"

definition hard_constraints :: "core_constraint_set \<Rightarrow> core_constraint list" where
  "hard_constraints s = filter (\<lambda>c. cc_priority c = 0) (ccs_constraints s)"

definition active_at :: "core_constraint_set \<Rightarrow> string \<Rightarrow> core_constraint list" where
  "active_at s ts = filter (\<lambda>c. cc_valid_from c \<le> ts \<and>
     (case cc_valid_to c of None \<Rightarrow> True | Some v \<Rightarrow> ts < v)) (ccs_constraints s)"

section \<open>The claim types satisfy the contract\<close>

lemma json_wf_scalars [simp]:
  "json_wf (json_from_f64 x)" "json_wf (json_from_opt_str s)" "json_wf (json_from_i64 i)" "json_wf (json_from_u64 n)"
  by (auto simp: json_from_f64_def json_from_opt_str_def json_from_i64_def json_from_u64_def split: option.split)

lemma json_wf_tier [simp]: "json_wf (tier_to_value t)"
  by (cases t) simp_all

lemma json_wf_trigger [simp]: "json_wf (trigger_to_value g)"
  by (cases g) simp_all

lemma json_wf_target [simp]: "json_wf (target_to_value t)"
  unfolding target_to_value_def by (rule json_wf_bt_of_list) auto

interpretation authorize_set: claim_set authorize_claims_map ac_aud ac_action ac_run_id ac_subject
  ac_params_fingerprint ac_nonce ac_issued_at ac_expires_at
proof (unfold_locales, goal_cases)
  case (1 c) show ?case unfolding authorize_claims_map_def by (rule json_wf_bt_of_list) auto
qed (simp_all add: authorize_claims_map_def bt_get_of_list)

interpretation approval_set: claim_set approval_claims_map ap_aud ap_action ap_run_id ap_subject
  ap_params_fingerprint ap_nonce ap_issued_at ap_expires_at
proof (unfold_locales, goal_cases)
  case (1 c) show ?case unfolding approval_claims_map_def by (rule json_wf_bt_of_list) auto
qed (simp_all add: approval_claims_map_def bt_get_of_list)

interpretation module_authorize_set: claim_set module_authorize_claims_map ma_aud "\<lambda>_. POLICY_AUTHORIZE_ACTION"
  ma_run_id ma_subject ma_event_fingerprint ma_nonce ma_iat ma_exp
proof (unfold_locales, goal_cases)
  case (1 c) show ?case unfolding module_authorize_claims_map_def by (rule json_wf_bt_of_list) auto
qed (simp_all add: module_authorize_claims_map_def bt_get_of_list)

interpretation module_register_set: claim_set module_register_claims_map mr_aud "\<lambda>_. POLICY_REGISTER_ACTION"
  mr_run_id mr_subject mr_params_fingerprint mr_nonce mr_iat mr_exp
proof (unfold_locales, goal_cases)
  case (1 c) show ?case unfolding module_register_claims_map_def by (rule json_wf_bt_of_list) auto
qed (simp_all add: module_register_claims_map_def bt_get_of_list)

interpretation revoke_set: claim_set revoke_compute_claims_map rc_aud "\<lambda>_. REVOKE_COMPUTE_ACTION"
  rc_run_id rc_subject rc_params_fingerprint rc_nonce rc_issued_at rc_expires_at
proof (unfold_locales, goal_cases)
  case (1 c) show ?case unfolding revoke_compute_claims_map_def by (rule json_wf_bt_of_list) auto
qed (simp_all add: revoke_compute_claims_map_def bt_get_of_list)

interpretation restore_set: claim_set restore_claims_map rs_aud "\<lambda>_. REVOKE_RESTORE_ACTION"
  rs_run_id rs_subject rs_params_fingerprint rs_nonce rs_issued_at rs_expires_at
proof (unfold_locales, goal_cases)
  case (1 c) show ?case unfolding restore_claims_map_def by (rule json_wf_bt_of_list) auto
qed (simp_all add: restore_claims_map_def bt_get_of_list)

section \<open>Round trip and audience separation\<close>

lemma token_carries_unique:
  "token_carries L token pk sig obj \<Longrightarrow> token_carries L token pk sig' obj' \<Longrightarrow> obj = obj' \<and> sig = sig'"
  by (auto simp: token_carries_def)

lemma auds_distinct:
  "distinct [KERNEL_AUTHORIZE_AUD, APPROVAL_AUD, POLICY_AUTHORIZE_AUD, POLICY_REGISTER_AUD,
     REVOKE_COMPUTE_AUD, REVOKE_RESTORE_AUD]"
  by (simp add: aud_defs)

lemma auds_graphic [simp]:
  "str_trim KERNEL_AUTHORIZE_AUD = KERNEL_AUTHORIZE_AUD" "str_trim APPROVAL_AUD = APPROVAL_AUD"
  "str_trim POLICY_AUTHORIZE_AUD = POLICY_AUTHORIZE_AUD" "str_trim POLICY_REGISTER_AUD = POLICY_REGISTER_AUD"
  "str_trim REVOKE_COMPUTE_AUD = REVOKE_COMPUTE_AUD" "str_trim REVOKE_RESTORE_AUD = REVOKE_RESTORE_AUD"
  by (simp_all add: aud_defs graphic_def str_trim_graphic)

lemma auds_not_empty [simp]:
  "KERNEL_AUTHORIZE_AUD \<noteq> []" "APPROVAL_AUD \<noteq> []" "POLICY_AUTHORIZE_AUD \<noteq> []" "POLICY_REGISTER_AUD \<noteq> []"
  "REVOKE_COMPUTE_AUD \<noteq> []" "REVOKE_RESTORE_AUD \<noteq> []"
  by (simp_all add: aud_defs)

lemma actions_not_empty [simp]:
  "POLICY_AUTHORIZE_ACTION \<noteq> []" "POLICY_REGISTER_ACTION \<noteq> []"
  "REVOKE_COMPUTE_ACTION \<noteq> []" "REVOKE_RESTORE_ACTION \<noteq> []"
  by (simp_all add: action_defs)

lemma actions_graphic [simp]:
  "str_trim POLICY_AUTHORIZE_ACTION = POLICY_AUTHORIZE_ACTION" "str_trim POLICY_REGISTER_ACTION = POLICY_REGISTER_ACTION"
  "str_trim REVOKE_COMPUTE_ACTION = REVOKE_COMPUTE_ACTION" "str_trim REVOKE_RESTORE_ACTION = REVOKE_RESTORE_ACTION"
  by (simp_all add: action_defs graphic_def str_trim_graphic)

text \<open>One token is accepted under at most one expected audience, whatever the times, so a token
  minted for one endpoint is never accepted by the verifier of another.\<close>

theorem audience_exclusive:
  assumes "verify_kernel_token L token pk now_s leeway_s (Some a) = Ok vc"
    and "verify_kernel_token L token pk now_s' leeway_s' (Some b) = Ok vc'"
  shows "a = b"
  using assms unfolding verify_Ok_iff claims_valid_def
  by (metis token_carries_unique option.inject)

text \<open>An authorize token signed by the kernel key is accepted by the verifier that expects the
  authorize audience, at every time inside its window, and the claims come back unchanged.\<close>

theorem authorize_token_roundtrip:
  assumes "b64_contract L" "ed25519_contract L" "json_contract L (JObject (authorize_claims_map c))"
    and "ac_aud c = KERNEL_AUTHORIZE_AUD"
    and "str_trim (ac_action c) \<noteq> []" "str_trim (ac_run_id c) \<noteq> []" "str_trim (ac_subject c) \<noteq> []"
    and "str_trim (ac_params_fingerprint c) \<noteq> []" "str_trim (ac_nonce c) \<noteq> []"
    and "f64_is_finite (ac_issued_at c)" "f64_is_finite (ac_expires_at c)"
    and "in_window now_s leeway_s (ac_issued_at c) (ac_expires_at c)"
  shows "\<exists>sig_b64. verify_kernel_token L (sign_kernel_token L authorize_claims_map c sk) (verifying_key L sk)
      now_s leeway_s (Some KERNEL_AUTHORIZE_AUD) =
    Ok \<lparr>vc_token = sign_kernel_token L authorize_claims_map c sk, vc_claims = authorize_claims_map c,
        vc_signature_b64 = sig_b64\<rparr>"
  using assms by (intro authorize_set.sign_verify) (auto simp: authorize_set.well_formed_def)

definition sample_authorize_claims :: authorize_claims where
  "sample_authorize_claims =
     \<lparr>ac_action = ''deploy'', ac_aud = KERNEL_AUTHORIZE_AUD, ac_run_id = ''run-1'', ac_subject = ''worker'',
      ac_params_fingerprint = ''f00d'', ac_issued_at = Finite 100, ac_expires_at = Finite 130, ac_nonce = ''n1''\<rparr>"

lemma in_window_sample: "in_window (Finite 120) (Finite 5) (Finite 100) (Finite 130)"
  using f64_add_int[of 120 5] f64_add_int[of 120 "- 5"]
  by (simp add: in_window_def Let_def f64_max_def f64_sub_def)

theorem authorize_token_roundtrip_witness:
  "\<exists>sig_b64. verify_kernel_token (sample_libs (JObject (authorize_claims_map sample_authorize_claims)))
      (sign_kernel_token (sample_libs (JObject (authorize_claims_map sample_authorize_claims)))
         authorize_claims_map sample_authorize_claims 7)
      (verifying_key (sample_libs (JObject (authorize_claims_map sample_authorize_claims))) 7)
      (Finite 120) (Finite 5) (Some KERNEL_AUTHORIZE_AUD) =
    Ok \<lparr>vc_token = sign_kernel_token (sample_libs (JObject (authorize_claims_map sample_authorize_claims)))
           authorize_claims_map sample_authorize_claims 7,
        vc_claims = authorize_claims_map sample_authorize_claims, vc_signature_b64 = sig_b64\<rparr>"
  by (rule authorize_token_roundtrip)
    (simp_all add: sample_libs_contracts sample_authorize_claims_def graphic_def str_trim_graphic in_window_sample)

theorem audience_exclusive_witness:
  "\<exists>vc. verify_kernel_token (sample_libs (JObject (authorize_claims_map sample_authorize_claims)))
      (sign_kernel_token (sample_libs (JObject (authorize_claims_map sample_authorize_claims)))
         authorize_claims_map sample_authorize_claims 7) 7 (Finite 120) (Finite 5) (Some KERNEL_AUTHORIZE_AUD) = Ok vc \<and>
    \<not> is_ok (verify_kernel_token (sample_libs (JObject (authorize_claims_map sample_authorize_claims)))
      (sign_kernel_token (sample_libs (JObject (authorize_claims_map sample_authorize_claims)))
         authorize_claims_map sample_authorize_claims 7) 7 (Finite 120) (Finite 5) (Some REVOKE_COMPUTE_AUD))"
proof -
  let ?L = "sample_libs (JObject (authorize_claims_map sample_authorize_claims))"
  let ?t = "sign_kernel_token ?L authorize_claims_map sample_authorize_claims 7"
  have "authorize_set.well_formed sample_authorize_claims" "ac_aud sample_authorize_claims = KERNEL_AUTHORIZE_AUD"
    "in_window (Finite 120) (Finite 5) (ac_issued_at sample_authorize_claims) (ac_expires_at sample_authorize_claims)"
    by (simp_all add: authorize_set.well_formed_def sample_authorize_claims_def graphic_def str_trim_graphic in_window_sample)
  then have "\<exists>vc. verify_kernel_token ?L ?t (verifying_key ?L 7) (Finite 120) (Finite 5) (Some KERNEL_AUTHORIZE_AUD) = Ok vc"
    using authorize_set.sign_verify[OF sample_libs_contracts(1,2,3), of sample_authorize_claims] by fastforce
  then obtain vc where "verify_kernel_token ?L ?t 7 (Finite 120) (Finite 5) (Some KERNEL_AUTHORIZE_AUD) = Ok vc"
    by (auto simp: sample_libs_def)
  moreover from audience_exclusive[OF this, of "Finite 120" "Finite 5" REVOKE_COMPUTE_AUD]
  have "\<not> is_ok (verify_kernel_token ?L ?t 7 (Finite 120) (Finite 5) (Some REVOKE_COMPUTE_AUD))"
    by (auto simp: is_ok_iff aud_defs)
  ultimately show ?thesis by blast
qed

end
