(* ===== verification/Revoke.thy ===== *)
theory Revoke
  imports Claims "HOL-Library.Monad_Syntax"
begin

text \<open>
  The revocation contract shared by kernel and reaper, \<^verbatim>\<open>src/crates/domain/src/safety/revoke.rs\<close>: the
  honour decision with its generation fence, the wire types, and the decoding of the signed claim
  objects into typed claims (the derived \<^verbatim>\<open>Deserialize\<close> of the claim structs, which accepts unknown
  keys, treats a missing optional field as absent, and reads a struct from an array and a unit
  variant from a one-entry object as well).
\<close>

section \<open>The honour decision\<close>

record revoke_gates =
  rg_signature_verified :: bool
  rg_not_expired :: bool
  rg_nonce_unseen :: bool
  rg_target_matches :: bool

datatype revoke_reject_reason =
    SignatureUnverified
  | RevocationExpired
  | NonceReplayed
  | TargetMismatch
  | RevocationStaleGeneration

datatype honour_decision = Honour | RejectRevocation revoke_reject_reason

definition honour_revocation :: "u64 \<Rightarrow> u64 \<Rightarrow> revoke_gates \<Rightarrow> honour_decision" where
  "honour_revocation revocation_generation current_grant_generation gates =
     (if \<not> rg_signature_verified gates then RejectRevocation SignatureUnverified
      else if \<not> rg_not_expired gates then RejectRevocation RevocationExpired
      else if \<not> rg_target_matches gates then RejectRevocation TargetMismatch
      else if \<not> rg_nonce_unseen gates then RejectRevocation NonceReplayed
      else if revocation_generation \<noteq> current_grant_generation then RejectRevocation RevocationStaleGeneration
      else Honour)"

section \<open>Wire types\<close>

record mint_revoke_request =
  mq_target :: instance_target
  mq_tier :: revocation_tier
  mq_trigger :: revoke_trigger
  mq_reason :: "string option"

record restore_request =
  rq_target :: instance_target
  rq_reason :: "string option"

record signed_revoke_response =
  sr_ok :: bool
  sr_run_id :: string
  sr_token :: string
  sr_token_sha256 :: string
  sr_claims :: "json btree"

record pending_revoke_response =
  pr_ok :: bool
  pr_pending :: "string list"
  pr_current_grant_generation :: u64

record revoke_ack_request =
  aq_run_id :: string
  aq_outcome :: string

record revoke_ack_response =
  ak_ok :: bool
  ak_run_id :: string
  ak_cleared :: bool

section \<open>Decoding typed claims\<close>

fun de_u64 :: "json \<Rightarrow> u64 option" where
  "de_u64 (JNumber (PosInt n)) = Some (of_nat n)"
| "de_u64 _ = None"

fun de_opt_string :: "json \<Rightarrow> string option option" where
  "de_opt_string JNull = Some None"
| "de_opt_string (JString s) = Some (Some s)"
| "de_opt_string _ = None"

definition de_field :: "json btree \<Rightarrow> string \<Rightarrow> (json \<Rightarrow> 'a option) \<Rightarrow> 'a option" where
  "de_field obj k f = Option.bind (bt_get obj k) f"

definition de_opt_field :: "json btree \<Rightarrow> string \<Rightarrow> string option option" where
  "de_opt_field obj k = (case bt_get obj k of None \<Rightarrow> Some None | Some v \<Rightarrow> de_opt_string v)"

fun de_target :: "json \<Rightarrow> instance_target option" where
  "de_target (JObject m) = do {
     project \<leftarrow> de_field m ''project'' json_as_str;
     zone \<leftarrow> de_field m ''zone'' json_as_str;
     inst \<leftarrow> de_field m ''instance'' json_as_str;
     Some \<lparr>it_project = project, it_zone = zone, it_instance = inst\<rparr> }"
| "de_target (JArray [JString project, JString zone, JString inst]) =
     Some \<lparr>it_project = project, it_zone = zone, it_instance = inst\<rparr>"
| "de_target _ = None"

fun de_variant :: "json \<Rightarrow> string option" where
  "de_variant (JString s) = Some s"
| "de_variant (JObject [(s, JNull)]) = Some s"
| "de_variant _ = None"

definition de_tier :: "json \<Rightarrow> revocation_tier option" where
  "de_tier v = do {
     s \<leftarrow> de_variant v;
     if s = ''sigterm'' then Some Sigterm else if s = ''sigkill'' then Some Sigkill
     else if s = ''cgroup_kill'' then Some CgroupKill else if s = ''vm_stop'' then Some VmStop else None }"

definition de_trigger :: "json \<Rightarrow> revoke_trigger option" where
  "de_trigger v = do {
     s \<leftarrow> de_variant v;
     if s = ''operator_emergency_stop'' then Some OperatorEmergencyStop
     else if s = ''rogue_determination'' then Some RogueDetermination else None }"

definition parse_revoke_claims :: "json btree \<Rightarrow> revoke_compute_claims option" where
  "parse_revoke_claims obj = do {
     aud \<leftarrow> de_field obj ''aud'' json_as_str;
     run_id \<leftarrow> de_field obj ''run_id'' json_as_str;
     subject \<leftarrow> de_field obj ''subject'' json_as_str;
     fp \<leftarrow> de_field obj ''params_fingerprint'' json_as_str;
     iat \<leftarrow> de_field obj ''issued_at'' json_as_f64;
     expiry \<leftarrow> de_field obj ''expires_at'' json_as_f64;
     nonce \<leftarrow> de_field obj ''nonce'' json_as_str;
     target \<leftarrow> de_field obj ''target'' de_target;
     generation \<leftarrow> de_field obj ''target_generation'' de_u64;
     tier \<leftarrow> de_field obj ''tier'' de_tier;
     trigger \<leftarrow> de_field obj ''trigger'' de_trigger;
     reason \<leftarrow> de_opt_field obj ''reason'';
     Some \<lparr>rc_aud = aud, rc_run_id = run_id, rc_subject = subject, rc_params_fingerprint = fp,
       rc_issued_at = iat, rc_expires_at = expiry, rc_nonce = nonce, rc_target = target,
       rc_target_generation = generation, rc_tier = tier, rc_trigger = trigger, rc_reason = reason\<rparr> }"

definition parse_restore_claims :: "json btree \<Rightarrow> restore_claims option" where
  "parse_restore_claims obj = do {
     aud \<leftarrow> de_field obj ''aud'' json_as_str;
     run_id \<leftarrow> de_field obj ''run_id'' json_as_str;
     subject \<leftarrow> de_field obj ''subject'' json_as_str;
     fp \<leftarrow> de_field obj ''params_fingerprint'' json_as_str;
     iat \<leftarrow> de_field obj ''issued_at'' json_as_f64;
     expiry \<leftarrow> de_field obj ''expires_at'' json_as_f64;
     nonce \<leftarrow> de_field obj ''nonce'' json_as_str;
     target \<leftarrow> de_field obj ''target'' de_target;
     reason \<leftarrow> de_opt_field obj ''reason'';
     Some \<lparr>rs_aud = aud, rs_run_id = run_id, rs_subject = subject, rs_params_fingerprint = fp,
       rs_issued_at = iat, rs_expires_at = expiry, rs_nonce = nonce, rs_target = target, rs_reason = reason\<rparr> }"

section \<open>Lemmas\<close>

lemma de_tier_to_value [simp]: "de_tier (tier_to_value t) = Some t"
  by (cases t) (simp_all add: de_tier_def)

lemma de_trigger_to_value [simp]: "de_trigger (trigger_to_value t) = Some t"
  by (cases t) (simp_all add: de_trigger_def)

lemma de_target_to_value [simp]: "de_target (target_to_value t) = Some t"
  by (cases t) (simp add: target_to_value_def de_field_def bt_get_of_list)

lemma de_u64_from_u64 [simp]: "de_u64 (json_from_u64 n) = Some n"
  by (simp add: json_from_u64_def)

lemma de_opt_string_from [simp]: "de_opt_string (json_from_opt_str s) = Some s"
  by (cases s) (simp_all add: json_from_opt_str_def)

lemma json_as_f64_from [simp]: "f64_is_finite x \<Longrightarrow> json_as_f64 (json_from_f64 x) = Some x"
  by (simp add: json_from_f64_def)

lemma parse_revoke_claims_map:
  "f64_is_finite (rc_issued_at c) \<Longrightarrow> f64_is_finite (rc_expires_at c) \<Longrightarrow>
   parse_revoke_claims (revoke_compute_claims_map c) = Some c"
  by (simp add: parse_revoke_claims_def revoke_compute_claims_map_def de_field_def de_opt_field_def bt_get_of_list)

lemma parse_restore_claims_map:
  "f64_is_finite (rs_issued_at c) \<Longrightarrow> f64_is_finite (rs_expires_at c) \<Longrightarrow>
   parse_restore_claims (restore_claims_map c) = Some c"
  by (simp add: parse_restore_claims_def restore_claims_map_def de_field_def de_opt_field_def bt_get_of_list)

lemma honour_revocation_iff:
  "honour_revocation g cur gates = Honour \<longleftrightarrow>
     rg_signature_verified gates \<and> rg_not_expired gates \<and> rg_target_matches gates \<and>
     rg_nonce_unseen gates \<and> g = cur"
  by (simp add: honour_revocation_def)

end
