(* ===== verification/NonceStore.thy ===== *)
theory NonceStore
  imports Json
begin

text \<open>
  The seen-nonce stores of the reaper, \<^verbatim>\<open>src/crates/services/safety-kernel-reaper/src/nonce_store.rs\<close>.

  The file store is its file content together with the in-memory set; a write either succeeds or
  stops after some prefix of the line reached the file (\<open>IoErr n\<close>).  Reopening the store reads the
  content back.  The locale \<open>seen_nonce_store\<close> is the contract of the trait \<^verbatim>\<open>SeenNonceStore\<close>.
\<close>

record nonce_key =
  nk_nonce :: string
  nk_run_id :: string

definition to_line :: "nonce_key \<Rightarrow> string" where
  "to_line k = nk_nonce k @ [CHR 0x09] @ nk_run_id k"

definition from_line :: "string \<Rightarrow> nonce_key option" where
  "from_line line =
     (case splitn2 CHR 0x09 line of
        (_, None) \<Rightarrow> None
      | (nonce, Some run_id) \<Rightarrow>
          if nonce = [] \<or> run_id = [] then None else Some \<lparr>nk_nonce = nonce, nk_run_id = run_id\<rparr>)"

datatype io_result = IoOk | IoErr nat

record file_nonce_store =
  fs_content :: string
  fs_seen :: "nonce_key set"

definition file_lines :: "string \<Rightarrow> string list" where
  "file_lines s = (let ls = split_on CHR 0x0A s in if last ls = [] then butlast ls else ls)"

definition file_store_open :: "string \<Rightarrow> file_nonce_store" where
  "file_store_open content =
     \<lparr>fs_content = content,
      fs_seen = set (List.map_filter (\<lambda>line. let trimmed = str_trim line in
        if trimmed = [] then None else from_line trimmed) (file_lines content))\<rparr>"

definition file_is_seen :: "file_nonce_store \<Rightarrow> nonce_key \<Rightarrow> bool" where
  "file_is_seen s k \<longleftrightarrow> k \<in> fs_seen s"

definition file_record :: "io_result \<Rightarrow> nonce_key \<Rightarrow> file_nonce_store \<Rightarrow> bool \<times> file_nonce_store" where
  "file_record io k s =
     (if k \<in> fs_seen s then (True, s)
      else let line = to_line k @ [CHR 0x0A] in
        case io of
          IoOk \<Rightarrow> (True, \<lparr>fs_content = fs_content s @ line, fs_seen = insert k (fs_seen s)\<rparr>)
        | IoErr n \<Rightarrow> (False, s\<lparr>fs_content := fs_content s @ take n line\<rparr>))"

type_synonym mem_nonce_store = "nonce_key set"

definition mem_is_seen :: "mem_nonce_store \<Rightarrow> nonce_key \<Rightarrow> bool" where
  "mem_is_seen s k \<longleftrightarrow> k \<in> s"

definition mem_record :: "io_result \<Rightarrow> nonce_key \<Rightarrow> mem_nonce_store \<Rightarrow> bool \<times> mem_nonce_store" where
  "mem_record io k s = (True, insert k s)"

text \<open>The trait object: either store.\<close>

datatype nonce_store = FileStore file_nonce_store | MemStore mem_nonce_store

fun is_seen :: "nonce_store \<Rightarrow> nonce_key \<Rightarrow> bool" where
  "is_seen (FileStore s) k = file_is_seen s k"
| "is_seen (MemStore s) k = mem_is_seen s k"

fun record_nonce :: "io_result \<Rightarrow> nonce_key \<Rightarrow> nonce_store \<Rightarrow> bool \<times> nonce_store" where
  "record_nonce io k (FileStore s) = (let (ok, s') = file_record io k s in (ok, FileStore s'))"
| "record_nonce io k (MemStore s) = (let (ok, s') = mem_record io k s in (ok, MemStore s'))"

section \<open>The contract\<close>

locale seen_nonce_store =
  fixes seen :: "'s \<Rightarrow> nonce_key \<Rightarrow> bool"
    and rec :: "io_result \<Rightarrow> nonce_key \<Rightarrow> 's \<Rightarrow> bool \<times> 's"
  assumes rec_seen: "fst (rec io k s) \<Longrightarrow> seen (snd (rec io k s)) k"
    and rec_keeps: "seen s k' \<Longrightarrow> seen (snd (rec io k s)) k'"
    and rec_only: "seen (snd (rec io k s)) k' \<Longrightarrow> k' = k \<or> seen s k'"
    and rec_io: "fst (rec IoOk k s)"
begin

lemma seen_foldl: "seen s k \<Longrightarrow> seen (foldl (\<lambda>s (io, k). snd (rec io k s)) s ops) k"
  by (induction ops arbitrary: s) (auto simp: rec_keeps)

lemma recorded_in_ops:
  "seen (foldl (\<lambda>s (io, k). snd (rec io k s)) s ops) k \<Longrightarrow> seen s k \<or> k \<in> snd ` set ops"
  by (induction ops arbitrary: s) (fastforce dest: rec_only)+

lemma ok_ops_seen:
  "k \<in> set ks \<Longrightarrow> seen (foldl (\<lambda>s k. snd (rec IoOk k s)) s ks) k"
proof (induction ks arbitrary: s)
  case (Cons k' ks)
  have "seen s' k \<Longrightarrow> seen (foldl (\<lambda>s k. snd (rec IoOk k s)) s' ks) k" for s'
    using seen_foldl[of s' k "map (\<lambda>k. (IoOk, k)) ks"] by (simp add: foldl_map)
  with Cons show ?case using rec_seen[OF rec_io] by auto
qed simp

end

interpretation file_store: seen_nonce_store file_is_seen file_record
  by unfold_locales (auto simp: file_is_seen_def file_record_def Let_def split: io_result.splits if_splits)

interpretation mem_store: seen_nonce_store mem_is_seen mem_record
  by unfold_locales (auto simp: mem_is_seen_def mem_record_def)

interpretation any_store: seen_nonce_store is_seen record_nonce
proof (unfold_locales, goal_cases)
  case (1 io k s) then show ?case using file_store.rec_seen mem_store.rec_seen by (cases s) (auto simp: Let_def split_beta)
next
  case (2 s k' io k) then show ?case using file_store.rec_keeps mem_store.rec_keeps by (cases s) (auto simp: Let_def split_beta)
next
  case (3 io k s k') then show ?case using file_store.rec_only mem_store.rec_only by (cases s) (auto simp: Let_def split_beta)
next
  case (4 k s) then show ?case using file_store.rec_io mem_store.rec_io by (cases s) (auto simp: Let_def split_beta)
qed

section \<open>Surviving a restart\<close>

definition clean_key :: "nonce_key \<Rightarrow> bool" where
  "clean_key k \<longleftrightarrow> list_all graphic (nk_nonce k) \<and> list_all graphic (nk_run_id k) \<and>
     nk_nonce k \<noteq> [] \<and> nk_run_id k \<noteq> []"

lemma splitn2_append: "c \<notin> set a \<Longrightarrow> splitn2 c (a @ c # b) = (a, Some b)"
  by (induction a) auto

lemma not_graphic [simp]: "\<not> graphic CHR 0x09" "\<not> graphic CHR 0x0A"
  by (simp_all add: graphic_def)

lemma graphic_not_in: "list_all graphic s \<Longrightarrow> \<not> graphic c \<Longrightarrow> c \<notin> set s"
  by (auto simp: list_all_iff)

lemma from_line_to_line: "clean_key k \<Longrightarrow> from_line (to_line k) = Some k"
  by (cases k) (auto simp: clean_key_def from_line_def to_line_def splitn2_append graphic_not_in)

lemma trim_start_head: "s \<noteq> [] \<Longrightarrow> graphic (hd s) \<Longrightarrow> trim_start s = s"
proof -
  assume s: "s \<noteq> []" "graphic (hd s)"
  have hd_ws: "\<forall>w\<in>set ws_codes. \<not> graphic (hd w) \<and> w \<noteq> []" by (simp add: ws_codes_def graphic_def)
  have "find (\<lambda>w. prefix w s) ws_codes = None"
  proof (rule ccontr)
    assume "find (\<lambda>w. prefix w s) ws_codes \<noteq> None"
    then obtain w where "w \<in> set ws_codes" "prefix w s" by (auto simp: find_None_iff)
    with hd_ws s show False by (cases w) (auto simp: prefix_def)
  qed
  then show ?thesis by (subst trim_start.simps) simp
qed

lemma trim_end_last: "s \<noteq> [] \<Longrightarrow> graphic (last s) \<Longrightarrow> trim_end s = s"
proof -
  assume s: "s \<noteq> []" "graphic (last s)"
  have last_ws: "\<forall>w\<in>set ws_codes. \<not> graphic (last w) \<and> w \<noteq> []" by (simp add: ws_codes_def graphic_def)
  have "find (\<lambda>w. suffix w s) ws_codes = None"
  proof (rule ccontr)
    assume "find (\<lambda>w. suffix w s) ws_codes \<noteq> None"
    then obtain w where "w \<in> set ws_codes" "suffix w s" by (auto simp: find_None_iff)
    with last_ws s show False by (auto simp: suffix_def)
  qed
  then show ?thesis by (subst trim_end.simps) simp
qed

lemma str_trim_to_line: "clean_key k \<Longrightarrow> str_trim (to_line k) = to_line k"
  unfolding str_trim_def
  by (subst trim_start_head) (auto simp: clean_key_def to_line_def list_all_iff intro!: trim_end_last)

lemma to_line_no_newline: "clean_key k \<Longrightarrow> CHR 0x0A \<notin> set (to_line k)"
  by (auto simp: clean_key_def to_line_def graphic_not_in)

lemma file_lines_append:
  "CHR 0x0A \<notin> set line \<Longrightarrow> file_lines (line @ [CHR 0x0A] @ rest) = line # file_lines rest"
  by (auto simp: file_lines_def split_on_append Let_def)

lemma file_lines_of_lines:
  "list_all clean_key ks \<Longrightarrow> file_lines (concat (map (\<lambda>k. to_line k @ [CHR 0x0A]) ks)) = map to_line ks"
proof (induction ks)
  case Nil then show ?case by (simp add: file_lines_def)
next
  case (Cons k ks)
  then show ?case
    using file_lines_append[of "to_line k" "concat (map (\<lambda>k. to_line k @ [CHR 0x0A]) ks)"]
    by (simp add: to_line_no_newline)
qed

lemma reopen_lines:
  assumes "list_all clean_key ks"
  shows "fs_seen (file_store_open (concat (map (\<lambda>k. to_line k @ [CHR 0x0A]) ks))) = set ks"
proof -
  have "List.map_filter (\<lambda>line. let trimmed = str_trim line in if trimmed = [] then None else from_line trimmed)
      (map to_line ks) = ks"
    using assms
  proof (induction ks)
    case (Cons k ks)
    then have "to_line k \<noteq> []" by (auto simp: to_line_def)
    with Cons show ?case by (simp add: List.map_filter_simps str_trim_to_line from_line_to_line)
  qed (simp add: List.map_filter_simps)
  then show ?thesis by (simp add: file_store_open_def file_lines_of_lines[OF assms])
qed

text \<open>The invariant of a store whose writes all completed: the file lists the keys of the set.\<close>

definition file_inv :: "file_nonce_store \<Rightarrow> bool" where
  "file_inv s \<longleftrightarrow> (\<exists>ks. list_all clean_key ks \<and> fs_seen s = set ks \<and>
     fs_content s = concat (map (\<lambda>k. to_line k @ [CHR 0x0A]) ks))"

lemma open_empty [simp]: "fs_seen (file_store_open []) = {}" "fs_content (file_store_open []) = []"
  by (simp_all add: file_store_open_def file_lines_def List.map_filter_simps)

lemma file_inv_open_empty: "file_inv (file_store_open [])"
  unfolding file_inv_def by (rule exI[of _ "[]"]) simp

lemma file_inv_record:
  assumes "file_inv s" "clean_key k" shows "file_inv (snd (file_record IoOk k s))"
proof -
  obtain ks where "list_all clean_key ks" "fs_seen s = set ks"
    "fs_content s = concat (map (\<lambda>k. to_line k @ [CHR 0x0A]) ks)"
    using assms(1) by (auto simp: file_inv_def)
  then have "k \<notin> fs_seen s \<Longrightarrow> file_inv (snd (file_record IoOk k s))"
    using assms(2) unfolding file_inv_def
    by (intro exI[of _ "ks @ [k]"]) (auto simp: file_record_def Let_def)
  then show ?thesis using assms(1) by (cases "k \<in> fs_seen s") (auto simp: file_record_def)
qed

lemma file_inv_reopen: "file_inv s \<Longrightarrow> fs_seen (file_store_open (fs_content s)) = fs_seen s"
  unfolding file_inv_def by (metis reopen_lines)

text \<open>A write that fails before its first byte leaves the store as it was.\<close>

lemma file_record_nothing: "snd (file_record (IoErr 0) k s) = s"
  by (simp add: file_record_def Let_def)

lemma clean_ops_inv:
  assumes "list_all (\<lambda>(io, k). clean_key k \<and> (io = IoOk \<or> io = IoErr 0)) ops"
  shows "file_inv (foldl (\<lambda>s (io, k). snd (file_record io k s)) (file_store_open []) ops) \<and>
    fs_seen (foldl (\<lambda>s (io, k). snd (file_record io k s)) (file_store_open []) ops) = {k. (IoOk, k) \<in> set ops}"
  using assms
proof (induction ops rule: rev_induct)
  case Nil
  then show ?case using file_inv_open_empty by (simp add: file_store_open_def file_lines_def map_filter_simps)
next
  case (snoc op ops)
  obtain io k where op: "op = (io, k)" by (cases op)
  let ?s = "foldl (\<lambda>s (io, k). snd (file_record io k s)) (file_store_open []) ops"
  from snoc have s: "file_inv ?s" "fs_seen ?s = {k. (IoOk, k) \<in> set ops}" and k: "clean_key k" "io = IoOk \<or> io = IoErr 0"
    by (simp_all add: op)
  show ?case
  proof (cases "io = IoOk")
    case True
    then show ?thesis using s file_inv_record[OF s(1) k(1)] by (auto simp: op file_record_def Let_def)
  next
    case False
    then show ?thesis using s k(2) by (auto simp: op file_record_nothing)
  qed
qed

text \<open>C22: a restart of the reaper forgets no recorded kill, if no write was torn.  When a store that began
  with an empty file has recorded keys whose characters need no trimming, each write either
  complete or failed before its first byte, then closing and reopening it finds exactly the keys
  that were written.  (A write that stops inside a line is excluded: the next theorem shows that it
  makes the store forget a record.)\<close>

theorem nonce_store_survives_restart:
  assumes "list_all (\<lambda>(io, k). clean_key k \<and> (io = IoOk \<or> io = IoErr 0)) ops"
  shows "file_is_seen (file_store_open (fs_content
      (foldl (\<lambda>s (io, k). snd (file_record io k s)) (file_store_open []) ops))) k \<longleftrightarrow> (IoOk, k) \<in> set ops"
  using clean_ops_inv[OF assms] file_inv_reopen by (auto simp: file_is_seen_def)

theorem nonce_store_survives_restart_witness:
  "file_is_seen (file_store_open (fs_content
      (foldl (\<lambda>s (io, k). snd (file_record io k s)) (file_store_open [])
        [(IoOk, \<lparr>nk_nonce = ''n1'', nk_run_id = ''revoke_1''\<rparr>), (IoErr 0, \<lparr>nk_nonce = ''n3'', nk_run_id = ''revoke_3''\<rparr>),
         (IoOk, \<lparr>nk_nonce = ''n2'', nk_run_id = ''revoke_2''\<rparr>)])))
     \<lparr>nk_nonce = ''n1'', nk_run_id = ''revoke_1''\<rparr>"
  by (subst nonce_store_survives_restart) (simp_all add: clean_key_def graphic_def)

text \<open>A write that stopped inside a nonce makes the store forget the next completed record after a
  restart, because the record is appended to the torn line.\<close>

theorem torn_write_forgets_next_record:
  assumes "clean_key k1" "clean_key k2" "0 < n" "n \<le> length (nk_nonce k1)"
  shows "\<not> file_is_seen (file_store_open (fs_content
      (snd (file_record IoOk k2 (snd (file_record (IoErr n) k1 (file_store_open []))))))) k2"
proof -
  let ?torn = "take n (nk_nonce k1)"
  let ?k = "\<lparr>nk_nonce = ?torn @ nk_nonce k2, nk_run_id = nk_run_id k2\<rparr>"
  have line: "take n (to_line k1 @ [CHR 0x0A]) = ?torn" using assms(4) by (simp add: to_line_def)
  have "fs_content (snd (file_record IoOk k2 (snd (file_record (IoErr n) k1 (file_store_open []))))) =
      concat (map (\<lambda>k. to_line k @ [CHR 0x0A]) [?k])"
    using line by (simp add: file_record_def Let_def) (simp add: to_line_def)
  moreover have "clean_key ?k"
    using assms set_take_subset[of n "nk_nonce k1"] by (auto simp: clean_key_def list_all_iff)
  moreover have "k2 \<noteq> ?k"
  proof
    assume "k2 = ?k"
    then have "length (nk_nonce k2) = length (nk_nonce ?k)" by (rule arg_cong)
    with assms(3,4) show False by simp
  qed
  ultimately show ?thesis
    using reopen_lines[of "[?k]"] by (simp add: file_is_seen_def)
qed

theorem torn_write_forgets_next_record_witness:
  "\<not> file_is_seen (file_store_open (fs_content
      (snd (file_record IoOk \<lparr>nk_nonce = ''n2'', nk_run_id = ''revoke_2''\<rparr>
        (snd (file_record (IoErr 2) \<lparr>nk_nonce = ''n1'', nk_run_id = ''revoke_1''\<rparr> (file_store_open [])))))))
     \<lparr>nk_nonce = ''n2'', nk_run_id = ''revoke_2''\<rparr>"
  by (rule torn_write_forgets_next_record) (simp_all add: clean_key_def graphic_def)

end
