(* ===== verification/Executor.thy ===== *)
theory Executor
  imports Claims
begin

text \<open>
  The privileged executor of the reaper, \<^verbatim>\<open>src/crates/services/safety-kernel-reaper/src/executor.rs\<close>.

  The cloud backend (\<^verbatim>\<open>GceInstanceOps\<close>, a network call) is the parameter \<open>ops\<close>; the calls that reach it
  are appended to a log, which is what the safety properties speak about.  The mock executor of the
  crate records its calls in the same log.  The locale \<open>compute_executor\<close> is the contract of the
  trait \<^verbatim>\<open>ComputeExecutor\<close>: a refused target leaves no trace, an allowed one is called exactly once.
\<close>

record protected_coord =
  pc_project :: string
  pc_instance :: string

definition pc_matches :: "protected_coord \<Rightarrow> instance_target \<Rightarrow> bool" where
  "pc_matches p target \<longleftrightarrow> pc_project p = it_project target \<and> pc_instance p = it_instance target"

record stop_outcome =
  so_instance :: string
  so_op_id :: string
  so_prev_state :: string

datatype executor_error =
    ForbiddenTarget string string
  | LiveArmingGated string
  | NoScratchTarget
  | RefusedNonScratchTarget string string
  | Backend string

fun executor_error_to_string :: "executor_error \<Rightarrow> string" where
  "executor_error_to_string (ForbiddenTarget project instance) =
     ''refused: '' @ instance @ '' in '' @ project @
     '' is a protected host (never stop/start the box we run on or a configured protected instance)''"
| "executor_error_to_string (LiveArmingGated op) =
     ''executor disarmed: REAPER_ARMED is not true, live arming is operator-gated; op='' @ op"
| "executor_error_to_string NoScratchTarget = ''executor armed but no scratch target configured; refusing to act''"
| "executor_error_to_string (RefusedNonScratchTarget asked scratch) =
     ''refused: target '' @ asked @ '' is not the configured scratch instance '' @ scratch"
| "executor_error_to_string (Backend s) = ''compute backend error: '' @ s"

definition COMPUTE_API_ROOT :: string where
  "COMPUTE_API_ROOT = ''https://compute.googleapis.com/compute/v1''"

definition instance_op_url :: "instance_target \<Rightarrow> string \<Rightarrow> string" where
  "instance_op_url target op =
     COMPUTE_API_ROOT @ ''/projects/'' @ it_project target @ ''/zones/'' @ it_zone target @
     ''/instances/'' @ it_instance target @ ''/'' @ op"

type_synonym op_call = "string \<times> instance_target"
type_synonym gce_ops = "instance_target \<Rightarrow> string \<Rightarrow> (executor_error, stop_outcome) result"

section \<open>The guarded executor\<close>

record gcp_executor =
  gx_armed :: bool
  gx_scratch :: "instance_target option"
  gx_self_identity :: "protected_coord option"
  gx_protected :: "protected_coord list"

definition gcp_disarmed :: gcp_executor where
  "gcp_disarmed = \<lparr>gx_armed = False, gx_scratch = None, gx_self_identity = None, gx_protected = []\<rparr>"

definition gcp_new :: "bool \<Rightarrow> instance_target option \<Rightarrow> gcp_executor" where
  "gcp_new armed scratch = \<lparr>gx_armed = armed, gx_scratch = scratch, gx_self_identity = None, gx_protected = []\<rparr>"

definition with_self_identity :: "protected_coord option \<Rightarrow> gcp_executor \<Rightarrow> gcp_executor" where
  "with_self_identity me x = x\<lparr>gx_self_identity := me\<rparr>"

definition with_protected :: "protected_coord list \<Rightarrow> gcp_executor \<Rightarrow> gcp_executor" where
  "with_protected ps x = x\<lparr>gx_protected := ps\<rparr>"

definition is_protected :: "gcp_executor \<Rightarrow> instance_target \<Rightarrow> bool" where
  "is_protected x asked \<longleftrightarrow>
     (case gx_self_identity x of Some me \<Rightarrow> pc_matches me asked | None \<Rightarrow> False) \<or>
     list_ex (\<lambda>p. pc_matches p asked) (gx_protected x)"

definition guard :: "gcp_executor \<Rightarrow> instance_target \<Rightarrow> string \<Rightarrow> (executor_error, instance_target) result" where
  "guard x asked op =
     (if is_protected x asked then Err (ForbiddenTarget (it_project asked) (it_instance asked))
      else if \<not> gx_armed x then Err (LiveArmingGated op)
      else case gx_scratch x of None \<Rightarrow> Err NoScratchTarget
        | Some scratch \<Rightarrow>
            if asked \<noteq> scratch then Err (RefusedNonScratchTarget (it_instance asked) (it_instance scratch))
            else Ok scratch)"

definition gcp_op :: "gce_ops \<Rightarrow> string \<Rightarrow> gcp_executor \<Rightarrow> instance_target \<Rightarrow> op_call list \<Rightarrow>
    (executor_error, stop_outcome) result \<times> op_call list" where
  "gcp_op ops op x target calls =
     (case guard x target op of Inl e \<Rightarrow> (Err e, calls)
      | Inr scratch \<Rightarrow> (ops scratch op, calls @ [(op, scratch)]))"

definition mock_op :: "string \<Rightarrow> instance_target \<Rightarrow> op_call list \<Rightarrow>
    (executor_error, stop_outcome) result \<times> op_call list" where
  "mock_op op target calls =
     (Ok \<lparr>so_instance = it_instance target, so_op_id = ''mock-'' @ op @ ''-'' @ it_instance target,
          so_prev_state = (if op = ''stop'' then ''RUNNING'' else ''TERMINATED'')\<rparr>,
      calls @ [(op, target)])"

text \<open>The trait object: either executor.\<close>

datatype executor = GcpExecutor gcp_executor | MockExecutor

fun exec_op :: "gce_ops \<Rightarrow> string \<Rightarrow> executor \<Rightarrow> instance_target \<Rightarrow> op_call list \<Rightarrow>
    (executor_error, stop_outcome) result \<times> op_call list" where
  "exec_op ops op (GcpExecutor x) target calls = gcp_op ops op x target calls"
| "exec_op ops op MockExecutor target calls = mock_op op target calls"

definition exec_stop :: "gce_ops \<Rightarrow> executor \<Rightarrow> instance_target \<Rightarrow> op_call list \<Rightarrow>
    (executor_error, stop_outcome) result \<times> op_call list" where
  "exec_stop ops = exec_op ops ''stop''"

definition exec_start :: "gce_ops \<Rightarrow> executor \<Rightarrow> instance_target \<Rightarrow> op_call list \<Rightarrow>
    (executor_error, stop_outcome) result \<times> op_call list" where
  "exec_start ops = exec_op ops ''start''"

section \<open>Configuration\<close>

text \<open>
  From \<^verbatim>\<open>config.rs\<close> and \<^verbatim>\<open>main.rs\<close>: the environment is a partial map, the denylist variable a comma
  separated list of \<open>project/instance\<close> entries (a malformed entry is returned as the error), and the
  live executor is only built when the configuration is armed.
\<close>

type_synonym process_env = "string \<rightharpoonup> string"

definition env_nonempty :: "process_env \<Rightarrow> string \<Rightarrow> string option" where
  "env_nonempty env key =
     (case env key of None \<Rightarrow> None | Some v \<Rightarrow> if str_trim v = [] then None else Some v)"

fun parse_protected_entries :: "string list \<Rightarrow> (string, protected_coord list) result" where
  "parse_protected_entries [] = Ok []"
| "parse_protected_entries (e # es) =
     (let entry = str_trim e in
      if entry = [] then parse_protected_entries es
      else let (p, i) = splitn2 CHR ''/'' entry;
               project = str_trim p;
               instance = str_trim (case i of None \<Rightarrow> [] | Some x \<Rightarrow> x) in
        if project = [] \<or> instance = [] then Err entry
        else res_bind (parse_protected_entries es)
               (\<lambda>out. Ok (\<lparr>pc_project = project, pc_instance = instance\<rparr> # out)))"

definition parse_protected_instances :: "process_env \<Rightarrow> (string, protected_coord list) result" where
  "parse_protected_instances env =
     (case env_nonempty env ''REAPER_PROTECTED_INSTANCES'' of None \<Rightarrow> Ok []
      | Some raw \<Rightarrow> parse_protected_entries (split_on CHR '','' raw))"

definition select_executor :: "bool \<Rightarrow> instance_target option \<Rightarrow> protected_coord option \<Rightarrow> protected_coord list \<Rightarrow> executor" where
  "select_executor armed scratch self_identity protected_instances =
     (if armed then GcpExecutor (with_protected protected_instances
        (with_self_identity self_identity (gcp_new True scratch)))
      else MockExecutor)"

definition executor_allows :: "executor \<Rightarrow> instance_target \<Rightarrow> bool" where
  "executor_allows ex target =
     (case ex of GcpExecutor x \<Rightarrow> is_ok (guard x target ''stop'') | MockExecutor \<Rightarrow> True)"

section \<open>The contract\<close>

locale compute_executor =
  fixes act :: "gce_ops \<Rightarrow> string \<Rightarrow> 'x \<Rightarrow> instance_target \<Rightarrow> op_call list \<Rightarrow>
      (executor_error, stop_outcome) result \<times> op_call list"
    and allows :: "'x \<Rightarrow> instance_target \<Rightarrow> bool"
  assumes refused: "\<not> allows x target \<Longrightarrow> \<exists>e. act ops op x target calls = (Err e, calls)"
    and called_once: "allows x target \<Longrightarrow> snd (act ops op x target calls) = calls @ [(op, target)]"
begin

lemma ok_allowed: "act ops op x target calls = (Ok o', calls') \<Longrightarrow> allows x target \<and> calls' = calls @ [(op, target)]"
  by (cases "allows x target") (use refused[of x target ops op calls] called_once[of x target ops op calls] in auto)

lemma calls_cases:
  "snd (act ops op x target calls) = calls \<or>
   allows x target \<and> snd (act ops op x target calls) = calls @ [(op, target)]"
  by (cases "allows x target") (use refused[of x target ops op calls] called_once[of x target ops op calls] in auto)

lemma all_allowed:
  "\<forall>c\<in>set calls. allows x (snd c) \<Longrightarrow> \<forall>c\<in>set (snd (act ops op x target calls)). allows x (snd c)"
  using calls_cases[of ops op x target calls] by auto

end

lemma guard_Ok: "guard x asked op = Ok t \<longleftrightarrow> \<not> is_protected x asked \<and> gx_armed x \<and> gx_scratch x = Some asked \<and> t = asked"
  by (auto simp: guard_def split: option.splits)

lemma is_ok_guard: "is_ok (guard x asked op) \<longleftrightarrow> \<not> is_protected x asked \<and> gx_armed x \<and> gx_scratch x = Some asked"
  by (auto simp: is_ok_iff guard_Ok)

lemma guard_cases: "guard x asked op = Ok asked \<or> (\<exists>e. guard x asked op = Err e)"
  using guard_Ok[of x asked op] by (cases "guard x asked op") auto

interpretation any_executor: compute_executor exec_op executor_allows
proof (unfold_locales, goal_cases)
  case (1 x target ops op calls)
  then show ?case
  proof (cases x)
    case (GcpExecutor g)
    with 1 have "guard g target op \<noteq> Ok target"
      by (simp add: executor_allows_def is_ok_guard guard_Ok)
    with guard_cases[of g target op] GcpExecutor show ?thesis by (auto simp: gcp_op_def)
  qed (simp add: executor_allows_def)
next
  case (2 x target ops op calls)
  then show ?case
  proof (cases x)
    case (GcpExecutor g)
    with 2 have "guard g target op = Ok target"
      by (simp add: executor_allows_def is_ok_guard guard_Ok)
    with GcpExecutor show ?thesis by (simp add: gcp_op_def)
  qed (simp add: mock_op_def)
qed

text \<open>The live executor reaches the cloud API only for the configured scratch coordinate, only when
  armed, and never for its own host or a protected instance, whatever zone is given; every other
  request is refused without a call.\<close>

theorem executor_guard_complete:
  "snd (gcp_op ops op x target calls) =
     (if gx_armed x \<and> gx_scratch x = Some target \<and>
         (\<forall>p\<in>set (gx_protected x) \<union> set_option (gx_self_identity x).
            pc_project p \<noteq> it_project target \<or> pc_instance p \<noteq> it_instance target)
      then calls @ [(op, target)] else calls)"
  by (auto simp: gcp_op_def guard_def is_protected_def pc_matches_def list_ex_iff split: option.splits)

theorem executor_guard_complete_witness:
  "snd (gcp_op (\<lambda>_ _. Err (Backend ''down'')) ''stop''
     (with_protected [\<lparr>pc_project = ''p'', pc_instance = ''kernel''\<rparr>]
       (gcp_new True (Some \<lparr>it_project = ''p'', it_zone = ''z'', it_instance = ''scratch''\<rparr>)))
     \<lparr>it_project = ''p'', it_zone = ''z'', it_instance = ''scratch''\<rparr> []) =
   [(''stop'', \<lparr>it_project = ''p'', it_zone = ''z'', it_instance = ''scratch''\<rparr>)]"
  unfolding executor_guard_complete by (simp add: with_protected_def gcp_new_def)

end
