(* ===== verification/Reaper.thy ===== *)
theory Reaper
  imports Revoke NonceStore Executor
begin

text \<open>
  The reaper state machine, \<^verbatim>\<open>src/crates/services/safety-kernel-reaper/src/reaper.rs\<close>, the pinned-key
  verifier it uses (\<^verbatim>\<open>adapters/safety_kernel_client/src/token.rs\<close>), the kill record (\<^verbatim>\<open>tlog.rs\<close>) and the poll
  loop (\<^verbatim>\<open>main.rs\<close>).

  The mutable parts a handler touches are the state \<open>reaper_state\<close>: the nonce store, the calls that
  reached the cloud API, the kill records appended and the acks sent.  What the outside world
  answers during one handler (the cloud backend and the nonce file) is the record \<open>tick\<close>; the
  results of recorder and ack are ignored by the code and do not appear.
\<close>

section \<open>The pinned-key verifier\<close>

record pinned_key_verifier =
  pk_pinned :: "256 word"
  pk_fingerprint :: string
  pk_leeway_seconds :: f64

definition fingerprint_for :: "libs \<Rightarrow> 256 word \<Rightarrow> string" where
  "fingerprint_for L pubkey = hex_encode L (take 8 (be_bytes (sha256 L (be_bytes pubkey))))"

definition from_pubkey_bytes :: "libs \<Rightarrow> 256 word \<Rightarrow> pinned_key_verifier" where
  "from_pubkey_bytes L pinned =
     \<lparr>pk_pinned = pinned, pk_fingerprint = fingerprint_for L pinned, pk_leeway_seconds = Finite 5\<rparr>"

definition pk_verify :: "libs \<Rightarrow> pinned_key_verifier \<Rightarrow> string \<Rightarrow> f64 \<Rightarrow> (kernel_token_error, verified_claims) result" where
  "pk_verify L v token now_s = verify_kernel_token L token (pk_pinned v) now_s (pk_leeway_seconds v) None"

definition verify_with_aud :: "libs \<Rightarrow> pinned_key_verifier \<Rightarrow> string \<Rightarrow> f64 \<Rightarrow> string \<Rightarrow>
    (kernel_token_error, verified_claims) result" where
  "verify_with_aud L v token now_s expected_aud =
     verify_kernel_token L token (pk_pinned v) now_s (pk_leeway_seconds v) (Some expected_aud)"

section \<open>State and outcomes\<close>

datatype reject_reason =
    ForgedSignature
  | ExpiredToken
  | WrongAudience
  | MalformedClaims
  | ActionMismatch
  | FingerprintMismatch
  | AlreadyExecuted
  | StaleGeneration
  | ExecutorError string

datatype outcome =
    Executed string stop_outcome
  | Restored string stop_outcome
  | FailClosed stop_outcome
  | Rejected reject_reason

datatype liveness_action = WithinDeadline | FailedClosed outcome bool

record kill_record =
  kr_kind :: string
  kr_run_id :: string
  kr_nonce :: string
  kr_token_sha256 :: string
  kr_target :: instance_target
  kr_outcome_instance :: string
  kr_outcome_op_id :: string
  kr_outcome_prev_state :: string
  kr_occurred_at_epoch_seconds :: nat

record reaper =
  rp_verifier :: pinned_key_verifier
  rp_executor :: executor
  rp_target :: instance_target
  rp_liveness_deadline_s :: f64
  rp_has_recorder :: bool
  rp_has_client :: bool

record reaper_state =
  rst_store :: nonce_store
  rst_calls :: "op_call list"
  rst_records :: "kill_record list"
  rst_acks :: "(string \<times> string) list"

record tick =
  tk_ops :: gce_ops
  tk_io :: io_result

section \<open>Handlers\<close>

definition liveness_expired :: "reaper \<Rightarrow> f64 \<Rightarrow> f64 \<Rightarrow> bool" where
  "liveness_expired r last_success_s now_s = f64_lt (rp_liveness_deadline_s r) (f64_sub now_s last_success_s)"

fun classify_verify_error :: "kernel_token_error \<Rightarrow> reject_reason" where
  "classify_verify_error (TokExpired _) = ExpiredToken"
| "classify_verify_error (TokSignature _) = ForgedSignature"
| "classify_verify_error (TokClaims m) = (if m = ''invalid_audience'' then WrongAudience else MalformedClaims)"
| "classify_verify_error (TokFormat _) = MalformedClaims"

definition action_of :: "verified_claims \<Rightarrow> string option" where
  "action_of vc = Option.bind (bt_get (vc_claims vc) ''action'') json_as_str"

definition peek_action :: "libs \<Rightarrow> string \<Rightarrow> string option" where
  "peek_action L token =
     (case b64url_decode L (hd (split_on CHR ''.'' token)) of Inl _ \<Rightarrow> None
      | Inr bs \<Rightarrow> (case json_from_slice L bs of
            Inr (JObject m) \<Rightarrow> Option.bind (bt_get m ''action'') json_as_str
          | _ \<Rightarrow> None))"

definition record_and_ack :: "libs \<Rightarrow> reaper \<Rightarrow> string \<Rightarrow> string \<Rightarrow> string \<Rightarrow> string \<Rightarrow> instance_target \<Rightarrow>
    stop_outcome \<Rightarrow> f64 \<Rightarrow> string \<Rightarrow> reaper_state \<Rightarrow> reaper_state" where
  "record_and_ack L r kind run_id nonce token target out now_s ack_outcome st =
     (let rec = \<lparr>kr_kind = kind, kr_run_id = run_id, kr_nonce = nonce, kr_token_sha256 = token_sha256 L token,
                 kr_target = target, kr_outcome_instance = so_instance out, kr_outcome_op_id = so_op_id out,
                 kr_outcome_prev_state = so_prev_state out,
                 kr_occurred_at_epoch_seconds = f64_as_u64 (f64_max now_s (Finite 0))\<rparr>;
          st1 = (if rp_has_recorder r then st\<lparr>rst_records := rst_records st @ [rec]\<rparr> else st)
      in if rp_has_client r then st1\<lparr>rst_acks := rst_acks st1 @ [(run_id, ack_outcome)]\<rparr> else st1)"

text \<open>Steps 1 to 4b of \<^verbatim>\<open>handle_kill_candidate\<close>: everything before the executor is called.\<close>

definition kill_checks :: "libs \<Rightarrow> reaper \<Rightarrow> nonce_store \<Rightarrow> string \<Rightarrow> u64 \<Rightarrow> f64 \<Rightarrow>
    (reject_reason, revoke_compute_claims) result" where
  "kill_checks L r store token current_grant_generation now_s =
     (case verify_with_aud L (rp_verifier r) token now_s REVOKE_COMPUTE_AUD of
        Inl e \<Rightarrow> Err (classify_verify_error e)
      | Inr verified \<Rightarrow>
          if action_of verified \<noteq> Some REVOKE_COMPUTE_ACTION then Err ActionMismatch
          else case parse_revoke_claims (vc_claims verified) of
            None \<Rightarrow> Err MalformedClaims
          | Some claims \<Rightarrow>
              if revoke_params_fingerprint L (rc_run_id claims) (rc_target claims) (rc_target_generation claims)
                   (rc_tier claims) (rc_trigger claims) (rc_reason claims) \<noteq> rc_params_fingerprint claims
              then Err FingerprintMismatch
              else if is_seen store \<lparr>nk_nonce = rc_nonce claims, nk_run_id = rc_run_id claims\<rparr>
              then Err AlreadyExecuted
              else case honour_revocation (rc_target_generation claims) current_grant_generation
                \<lparr>rg_signature_verified = True, rg_not_expired = True, rg_nonce_unseen = True, rg_target_matches = True\<rparr> of
                  Honour \<Rightarrow> Ok claims
                | RejectRevocation RevocationStaleGeneration \<Rightarrow> Err StaleGeneration
                | RejectRevocation _ \<Rightarrow> Err StaleGeneration)"

definition handle_kill_candidate :: "libs \<Rightarrow> reaper \<Rightarrow> tick \<Rightarrow> string \<Rightarrow> u64 \<Rightarrow> f64 \<Rightarrow> reaper_state \<Rightarrow>
    outcome \<times> reaper_state" where
  "handle_kill_candidate L r tk token current_grant_generation now_s st =
     (case kill_checks L r (rst_store st) token current_grant_generation now_s of
        Inl reason \<Rightarrow> (Rejected reason, st)
      | Inr claims \<Rightarrow>
          (case exec_stop (tk_ops tk) (rp_executor r) (rc_target claims) (rst_calls st) of
             (Inl e, calls) \<Rightarrow> (Rejected (ExecutorError (executor_error_to_string e)), st\<lparr>rst_calls := calls\<rparr>)
           | (Inr out, calls) \<Rightarrow>
               let store = snd (record_nonce (tk_io tk) \<lparr>nk_nonce = rc_nonce claims, nk_run_id = rc_run_id claims\<rparr> (rst_store st))
               in (Executed (rc_run_id claims) out,
                   record_and_ack L r ''kill_executed'' (rc_run_id claims) (rc_nonce claims) token (rc_target claims)
                     out now_s ''stopped'' (st\<lparr>rst_calls := calls, rst_store := store\<rparr>))))"

definition restore_checks :: "libs \<Rightarrow> reaper \<Rightarrow> nonce_store \<Rightarrow> string \<Rightarrow> f64 \<Rightarrow> (reject_reason, restore_claims) result" where
  "restore_checks L r store token now_s =
     (case verify_with_aud L (rp_verifier r) token now_s REVOKE_RESTORE_AUD of
        Inl e \<Rightarrow> Err (classify_verify_error e)
      | Inr verified \<Rightarrow>
          if action_of verified \<noteq> Some REVOKE_RESTORE_ACTION then Err ActionMismatch
          else case parse_restore_claims (vc_claims verified) of
            None \<Rightarrow> Err MalformedClaims
          | Some claims \<Rightarrow>
              if restore_params_fingerprint L (rs_run_id claims) (rs_target claims) (rs_reason claims) \<noteq> rs_params_fingerprint claims
              then Err FingerprintMismatch
              else if is_seen store \<lparr>nk_nonce = rs_nonce claims, nk_run_id = rs_run_id claims\<rparr>
              then Err AlreadyExecuted
              else Ok claims)"

definition handle_restore_candidate :: "libs \<Rightarrow> reaper \<Rightarrow> tick \<Rightarrow> string \<Rightarrow> f64 \<Rightarrow> reaper_state \<Rightarrow>
    outcome \<times> reaper_state" where
  "handle_restore_candidate L r tk token now_s st =
     (case restore_checks L r (rst_store st) token now_s of
        Inl reason \<Rightarrow> (Rejected reason, st)
      | Inr claims \<Rightarrow>
          (case exec_start (tk_ops tk) (rp_executor r) (rs_target claims) (rst_calls st) of
             (Inl e, calls) \<Rightarrow> (Rejected (ExecutorError (executor_error_to_string e)), st\<lparr>rst_calls := calls\<rparr>)
           | (Inr out, calls) \<Rightarrow>
               let store = snd (record_nonce (tk_io tk) \<lparr>nk_nonce = rs_nonce claims, nk_run_id = rs_run_id claims\<rparr> (rst_store st))
               in (Restored (rs_run_id claims) out,
                   record_and_ack L r ''restore_executed'' (rs_run_id claims) (rs_nonce claims) token (rs_target claims)
                     out now_s ''started'' (st\<lparr>rst_calls := calls, rst_store := store\<rparr>))))"

definition handle_pending_candidate :: "libs \<Rightarrow> reaper \<Rightarrow> tick \<Rightarrow> string \<Rightarrow> u64 \<Rightarrow> f64 \<Rightarrow> reaper_state \<Rightarrow>
    outcome \<times> reaper_state" where
  "handle_pending_candidate L r tk token current_grant_generation now_s st =
     (if peek_action L token = Some REVOKE_RESTORE_ACTION
      then handle_restore_candidate L r tk token now_s st
      else handle_kill_candidate L r tk token current_grant_generation now_s st)"

definition fail_closed_stop :: "libs \<Rightarrow> reaper \<Rightarrow> tick \<Rightarrow> f64 \<Rightarrow> reaper_state \<Rightarrow> outcome \<times> reaper_state" where
  "fail_closed_stop L r tk now_s st =
     (case exec_stop (tk_ops tk) (rp_executor r) (rp_target r) (rst_calls st) of
        (Inr out, calls) \<Rightarrow>
          (FailClosed out,
           record_and_ack L r ''kill_executed_failclosed'' (''failclosed_'' @ it_instance (rp_target r))
             ''liveness-deadline'' (''liveness_failclosed:'' @ it_instance (rp_target r)) (rp_target r)
             out now_s ''stopped_failclosed'' (st\<lparr>rst_calls := calls\<rparr>))
      | (Inl e, calls) \<Rightarrow> (Rejected (ExecutorError (executor_error_to_string e)), st\<lparr>rst_calls := calls\<rparr>))"

definition on_kernel_pull_failure :: "libs \<Rightarrow> reaper \<Rightarrow> tick \<Rightarrow> f64 \<Rightarrow> f64 \<Rightarrow> reaper_state \<Rightarrow>
    liveness_action \<times> reaper_state" where
  "on_kernel_pull_failure L r tk last_success_s now_s st =
     (if \<not> liveness_expired r last_success_s now_s then (WithinDeadline, st)
      else let (out, st') = fail_closed_stop L r tk now_s st
           in (FailedClosed out (case out of FailClosed _ \<Rightarrow> True | _ \<Rightarrow> False), st'))"

section \<open>The poll loop\<close>

record pending_pull =
  pp_tokens :: "string list"
  pp_current_grant_generation :: u64

datatype pull_result = PullOk f64 pending_pull "(f64 \<times> tick) list" | PullErr f64 tick

text \<open>
  One round of the loop of \<^verbatim>\<open>main.rs\<close>.  A successful pull carries the time of the success and, for each
  token in order, the time and the answers of the world while it is handled; a failed pull carries
  the time of the failure.  The state is the last-success tracker and the reaper state.
\<close>

fun handle_tokens :: "libs \<Rightarrow> reaper \<Rightarrow> u64 \<Rightarrow> string list \<Rightarrow> (f64 \<times> tick) list \<Rightarrow> reaper_state \<Rightarrow> reaper_state" where
  "handle_tokens L r g (token # tokens) ((now_s, tk) # ticks) st =
     handle_tokens L r g tokens ticks (snd (handle_pending_candidate L r tk token g now_s st))"
| "handle_tokens L r g _ _ st = st"

fun poll_round :: "libs \<Rightarrow> reaper \<Rightarrow> pull_result \<Rightarrow> f64 \<times> reaper_state \<Rightarrow> f64 \<times> reaper_state" where
  "poll_round L r (PullOk now_s pull ticks) (last_success, st) =
     (now_s, handle_tokens L r (pp_current_grant_generation pull) (pp_tokens pull) ticks st)"
| "poll_round L r (PullErr now_s tk) (last_success, st) =
     (case on_kernel_pull_failure L r tk last_success now_s st of
        (FailedClosed _ True, st') \<Rightarrow> (now_s, st')
      | (_, st') \<Rightarrow> (last_success, st'))"

section \<open>Exact behaviour of the checks\<close>

definition kill_key :: "revoke_compute_claims \<Rightarrow> nonce_key" where
  "kill_key c = \<lparr>nk_nonce = rc_nonce c, nk_run_id = rc_run_id c\<rparr>"

definition restore_key :: "restore_claims \<Rightarrow> nonce_key" where
  "restore_key c = \<lparr>nk_nonce = rs_nonce c, nk_run_id = rs_run_id c\<rparr>"

text \<open>A token that verifies as a kill under the pinned key and binds its claims.\<close>

definition kill_token :: "libs \<Rightarrow> reaper \<Rightarrow> string \<Rightarrow> f64 \<Rightarrow> revoke_compute_claims \<Rightarrow> bool" where
  "kill_token L r token now_s c \<longleftrightarrow>
     (\<exists>vc. verify_with_aud L (rp_verifier r) token now_s REVOKE_COMPUTE_AUD = Ok vc \<and>
        action_of vc = Some REVOKE_COMPUTE_ACTION \<and> parse_revoke_claims (vc_claims vc) = Some c \<and>
        revoke_params_fingerprint L (rc_run_id c) (rc_target c) (rc_target_generation c)
          (rc_tier c) (rc_trigger c) (rc_reason c) = rc_params_fingerprint c)"

definition restore_token :: "libs \<Rightarrow> reaper \<Rightarrow> string \<Rightarrow> f64 \<Rightarrow> restore_claims \<Rightarrow> bool" where
  "restore_token L r token now_s c \<longleftrightarrow>
     (\<exists>vc. verify_with_aud L (rp_verifier r) token now_s REVOKE_RESTORE_AUD = Ok vc \<and>
        action_of vc = Some REVOKE_RESTORE_ACTION \<and> parse_restore_claims (vc_claims vc) = Some c \<and>
        restore_params_fingerprint L (rs_run_id c) (rs_target c) (rs_reason c) = rs_params_fingerprint c)"

lemma kill_checks_Ok:
  "kill_checks L r store token g now_s = Ok c \<longleftrightarrow>
     kill_token L r token now_s c \<and> \<not> is_seen store (kill_key c) \<and> rc_target_generation c = g"
  unfolding kill_checks_def kill_token_def kill_key_def
  by (auto simp: honour_revocation_def split: sum.splits option.splits)

lemma restore_checks_Ok:
  "restore_checks L r store token now_s = Ok c \<longleftrightarrow>
     restore_token L r token now_s c \<and> \<not> is_seen store (restore_key c)"
  unfolding restore_checks_def restore_token_def restore_key_def
  by (auto split: sum.splits option.splits)

lemma record_and_ack_simps [simp]:
  "rst_store (record_and_ack L r kind run_id nonce token target out now_s a st) = rst_store st"
  "rst_calls (record_and_ack L r kind run_id nonce token target out now_s a st) = rst_calls st"
  by (simp_all add: record_and_ack_def Let_def)

lemma handle_kill_cases:
  obtains (rejected) reason where "handle_kill_candidate L r tk token g now_s st = (Rejected reason, st)"
      "kill_checks L r (rst_store st) token g now_s = Err reason"
  | (failed) c e calls where "kill_checks L r (rst_store st) token g now_s = Ok c"
      "exec_stop (tk_ops tk) (rp_executor r) (rc_target c) (rst_calls st) = (Err e, calls)"
      "handle_kill_candidate L r tk token g now_s st =
         (Rejected (ExecutorError (executor_error_to_string e)), st\<lparr>rst_calls := calls\<rparr>)"
  | (executed) c out where "kill_checks L r (rst_store st) token g now_s = Ok c"
      "exec_stop (tk_ops tk) (rp_executor r) (rc_target c) (rst_calls st) =
         (Ok out, rst_calls st @ [(''stop'', rc_target c)])"
      "executor_allows (rp_executor r) (rc_target c)"
      "fst (handle_kill_candidate L r tk token g now_s st) = Executed (rc_run_id c) out"
      "rst_store (snd (handle_kill_candidate L r tk token g now_s st)) =
         snd (record_nonce (tk_io tk) (kill_key c) (rst_store st))"
      "rst_calls (snd (handle_kill_candidate L r tk token g now_s st)) = rst_calls st @ [(''stop'', rc_target c)]"
proof (cases "kill_checks L r (rst_store st) token g now_s")
  case (Inl reason)
  then show ?thesis using rejected by (simp add: handle_kill_candidate_def)
next
  case (Inr c)
  obtain res calls where e: "exec_stop (tk_ops tk) (rp_executor r) (rc_target c) (rst_calls st) = (res, calls)"
    by (cases "exec_stop (tk_ops tk) (rp_executor r) (rc_target c) (rst_calls st)")
  show ?thesis
  proof (cases res)
    case (Inl err)
    then show ?thesis using failed[OF Inr] Inr e by (simp add: handle_kill_candidate_def)
  next
    case ok: (Inr out)
    with e any_executor.ok_allowed[of "tk_ops tk" "''stop''" "rp_executor r" "rc_target c" "rst_calls st" out calls]
    have "executor_allows (rp_executor r) (rc_target c)" "calls = rst_calls st @ [(''stop'', rc_target c)]"
      by (auto simp: exec_stop_def)
    then show ?thesis using executed[OF Inr] Inr e ok
      by (simp add: handle_kill_candidate_def kill_key_def Let_def)
  qed
qed

lemma handle_restore_cases:
  obtains (rejected) reason where "handle_restore_candidate L r tk token now_s st = (Rejected reason, st)"
  | (failed) c e calls where "restore_checks L r (rst_store st) token now_s = Ok c"
      "exec_start (tk_ops tk) (rp_executor r) (rs_target c) (rst_calls st) = (Err e, calls)"
      "handle_restore_candidate L r tk token now_s st =
         (Rejected (ExecutorError (executor_error_to_string e)), st\<lparr>rst_calls := calls\<rparr>)"
  | (executed) c out where "restore_checks L r (rst_store st) token now_s = Ok c"
      "executor_allows (rp_executor r) (rs_target c)"
      "fst (handle_restore_candidate L r tk token now_s st) = Restored (rs_run_id c) out"
      "rst_store (snd (handle_restore_candidate L r tk token now_s st)) =
         snd (record_nonce (tk_io tk) (restore_key c) (rst_store st))"
      "rst_calls (snd (handle_restore_candidate L r tk token now_s st)) = rst_calls st @ [(''start'', rs_target c)]"
proof (cases "restore_checks L r (rst_store st) token now_s")
  case (Inl reason)
  then show ?thesis using rejected by (simp add: handle_restore_candidate_def)
next
  case (Inr c)
  obtain res calls where e: "exec_start (tk_ops tk) (rp_executor r) (rs_target c) (rst_calls st) = (res, calls)"
    by (cases "exec_start (tk_ops tk) (rp_executor r) (rs_target c) (rst_calls st)")
  show ?thesis
  proof (cases res)
    case (Inl err)
    then show ?thesis using failed[OF Inr] Inr e by (simp add: handle_restore_candidate_def)
  next
    case ok: (Inr out)
    with e any_executor.ok_allowed[of "tk_ops tk" "''start''" "rp_executor r" "rs_target c" "rst_calls st" out calls]
    have "executor_allows (rp_executor r) (rs_target c)" "calls = rst_calls st @ [(''start'', rs_target c)]"
      by (auto simp: exec_start_def)
    then show ?thesis using executed[OF Inr] Inr e ok
      by (simp add: handle_restore_candidate_def restore_key_def Let_def)
  qed
qed

section \<open>Runs\<close>

inductive reaper_step :: "libs \<Rightarrow> reaper \<Rightarrow> reaper_state \<Rightarrow> reaper_state \<Rightarrow> bool" for L r where
  pending: "reaper_step L r st (snd (handle_pending_candidate L r tk token g now_s st))"
| pull_failure: "reaper_step L r st (snd (on_kernel_pull_failure L r tk last_success now_s st))"

lemma exec_stop_keeps_allowed:
  "\<forall>c\<in>set calls. executor_allows x (snd c) \<Longrightarrow> exec_stop ops x target calls = (res, calls') \<Longrightarrow>
   \<forall>c\<in>set calls'. executor_allows x (snd c)"
  using any_executor.all_allowed[of calls x ops "''stop''" target] by (simp add: exec_stop_def)

lemma exec_start_keeps_allowed:
  "\<forall>c\<in>set calls. executor_allows x (snd c) \<Longrightarrow> exec_start ops x target calls = (res, calls') \<Longrightarrow>
   \<forall>c\<in>set calls'. executor_allows x (snd c)"
  using any_executor.all_allowed[of calls x ops "''start''" target] by (simp add: exec_start_def)

lemma handle_pending_allowed:
  assumes "\<forall>c\<in>set (rst_calls st). executor_allows (rp_executor r) (snd c)"
  shows "\<forall>c\<in>set (rst_calls (snd (handle_pending_candidate L r tk token g now_s st))). executor_allows (rp_executor r) (snd c)"
proof (cases "peek_action L token = Some REVOKE_RESTORE_ACTION")
  case True
  show ?thesis
  proof (cases rule: handle_restore_cases[where L = L and r = r and tk = tk and token = token and now_s = now_s and st = st])
    case (failed c e calls)
    with exec_start_keeps_allowed[OF assms failed(2)] True show ?thesis by (simp add: handle_pending_candidate_def)
  qed (use True assms in \<open>auto simp: handle_pending_candidate_def\<close>)
next
  case False
  show ?thesis
  proof (cases rule: handle_kill_cases[where L = L and r = r and tk = tk and token = token and g = g and now_s = now_s and st = st])
    case (failed c e calls)
    with exec_stop_keeps_allowed[OF assms failed(2)] False show ?thesis by (simp add: handle_pending_candidate_def)
  qed (use False assms in \<open>auto simp: handle_pending_candidate_def\<close>)
qed

lemma fail_closed_calls:
  "rst_calls (snd (fail_closed_stop L r tk now_s st)) = snd (exec_stop (tk_ops tk) (rp_executor r) (rp_target r) (rst_calls st))"
  "rst_store (snd (fail_closed_stop L r tk now_s st)) = rst_store st"
  by (auto simp: fail_closed_stop_def split: prod.splits sum.splits)

lemma reaper_step_allowed:
  assumes "reaper_step L r st st'" "\<forall>c\<in>set (rst_calls st). executor_allows (rp_executor r) (snd c)"
  shows "\<forall>c\<in>set (rst_calls st'). executor_allows (rp_executor r) (snd c)"
  using assms
proof (induction rule: reaper_step.induct)
  case (pending st tk token g now_s)
  then show ?case by (rule handle_pending_allowed)
next
  case (pull_failure st tk last_success now_s)
  then show ?case
    using any_executor.all_allowed[OF pull_failure, of "tk_ops tk" "''stop''" "rp_target r"]
      fail_closed_calls(1)[of L r tk now_s st]
    by (auto simp: on_kernel_pull_failure_def exec_stop_def Let_def split_beta)
qed

lemma reaper_step_seen:
  assumes "reaper_step L r st st'" "is_seen (rst_store st) k" shows "is_seen (rst_store st') k"
  using assms
proof (induction rule: reaper_step.induct)
  case (pending st tk token g now_s)
  show ?case
  proof (cases "peek_action L token = Some REVOKE_RESTORE_ACTION")
    case True
    with pending show ?thesis
      by (cases rule: handle_restore_cases[where L = L and r = r and tk = tk and token = token and now_s = now_s and st = st])
        (auto simp: handle_pending_candidate_def any_store.rec_keeps)
  next
    case False
    with pending show ?thesis
      by (cases rule: handle_kill_cases[where L = L and r = r and tk = tk and token = token and g = g and now_s = now_s and st = st])
        (auto simp: handle_pending_candidate_def any_store.rec_keeps)
  qed
next
  case (pull_failure st tk last_success now_s)
  then show ?case using fail_closed_calls(2)[of L r tk now_s st]
    by (auto simp: on_kernel_pull_failure_def Let_def split_beta)
qed

lemma reaper_run_seen: "(reaper_step L r)\<^sup>*\<^sup>* st st' \<Longrightarrow> is_seen (rst_store st) k \<Longrightarrow> is_seen (rst_store st') k"
  by (induction rule: rtranclp_induct) (auto intro: reaper_step_seen)

lemma reaper_run_allowed:
  "(reaper_step L r)\<^sup>*\<^sup>* st st' \<Longrightarrow> \<forall>c\<in>set (rst_calls st). executor_allows (rp_executor r) (snd c) \<Longrightarrow>
   \<forall>c\<in>set (rst_calls st'). executor_allows (rp_executor r) (snd c)"
  by (induction rule: rtranclp_induct) (auto dest: reaper_step_allowed)

section \<open>A signed kill is a kill\<close>

lemma signed_kill_token:
  assumes "b64_contract L" "ed25519_contract L" "json_contract L (JObject (revoke_compute_claims_map c))"
    and "revoke_set.well_formed c" "rc_aud c = REVOKE_COMPUTE_AUD"
    and "in_window now_s (pk_leeway_seconds (rp_verifier r)) (rc_issued_at c) (rc_expires_at c)"
    and "pk_pinned (rp_verifier r) = verifying_key L sk"
    and "revoke_params_fingerprint L (rc_run_id c) (rc_target c) (rc_target_generation c)
          (rc_tier c) (rc_trigger c) (rc_reason c) = rc_params_fingerprint c"
  shows "kill_token L r (sign_kernel_token L revoke_compute_claims_map c sk) now_s c"
proof -
  have "f64_is_finite (rc_issued_at c)" "f64_is_finite (rc_expires_at c)"
    using assms(4) by (auto simp: revoke_set.well_formed_def)
  moreover obtain s where "verify_kernel_token L (sign_kernel_token L revoke_compute_claims_map c sk) (verifying_key L sk)
      now_s (pk_leeway_seconds (rp_verifier r)) (Some REVOKE_COMPUTE_AUD) =
    Ok \<lparr>vc_token = sign_kernel_token L revoke_compute_claims_map c sk, vc_claims = revoke_compute_claims_map c,
        vc_signature_b64 = s\<rparr>"
    using revoke_set.sign_verify[OF assms(1-4,6), of "Some REVOKE_COMPUTE_AUD" sk] assms(5) by auto
  ultimately show ?thesis
    using assms(7,8) revoke_set.get_action[of c] unfolding kill_token_def verify_with_aud_def
    by (auto simp: action_of_def parse_revoke_claims_map)
qed

definition sample_target :: instance_target where
  "sample_target = \<lparr>it_project = ''proj'', it_zone = ''zone-a'', it_instance = ''agent-vm''\<rparr>"

definition sample_kill :: revoke_compute_claims where
  "sample_kill =
     \<lparr>rc_aud = REVOKE_COMPUTE_AUD, rc_run_id = ''revoke_1'', rc_subject = ''operator'',
      rc_params_fingerprint = revoke_params_fingerprint (sample_libs JNull) ''revoke_1'' sample_target 0 VmStop
        OperatorEmergencyStop None,
      rc_issued_at = Finite 100, rc_expires_at = Finite 130, rc_nonce = ''n1'', rc_target = sample_target,
      rc_target_generation = 0, rc_tier = VmStop, rc_trigger = OperatorEmergencyStop, rc_reason = None\<rparr>"

definition kill_libs :: libs where
  "kill_libs = sample_libs (JObject (revoke_compute_claims_map sample_kill))"

definition sample_kill_token :: string where
  "sample_kill_token = sign_kernel_token kill_libs revoke_compute_claims_map sample_kill 7"

definition sample_reaper :: "executor \<Rightarrow> reaper" where
  "sample_reaper x = \<lparr>rp_verifier = from_pubkey_bytes kill_libs 7, rp_executor = x, rp_target = sample_target,
     rp_liveness_deadline_s = Finite 300, rp_has_recorder = True, rp_has_client = True\<rparr>"

definition sample_state :: reaper_state where
  "sample_state = \<lparr>rst_store = MemStore {}, rst_calls = [], rst_records = [], rst_acks = []\<rparr>"

definition good_tick :: tick where
  "good_tick = \<lparr>tk_ops = (\<lambda>t op. Ok \<lparr>so_instance = it_instance t, so_op_id = op, so_prev_state = ''UNKNOWN''\<rparr>), tk_io = IoOk\<rparr>"

definition bad_tick :: tick where
  "bad_tick = \<lparr>tk_ops = (\<lambda>t op. Err (Backend ''503'')), tk_io = IoOk\<rparr>"

lemma base16_graphic: "list_all graphic (base16_encode bs)"
  using base16_chars by (auto simp: list_all_iff)

lemma sample_kill_ok: "kill_token kill_libs (sample_reaper x) sample_kill_token (Finite 120) sample_kill"
proof -
  have fp: "revoke_params_fingerprint kill_libs rid t g tr tg re = revoke_params_fingerprint (sample_libs JNull) rid t g tr tg re"
    for rid t g tr tg re
    by (simp add: revoke_params_fingerprint_def params_fingerprint_def sha256_hex_def kill_libs_def sample_libs_def)
  have "rc_params_fingerprint sample_kill \<noteq> []" "list_all graphic (rc_params_fingerprint sample_kill)"
    using base16_graphic
    by (simp_all add: sample_kill_def revoke_params_fingerprint_def params_fingerprint_def sha256_hex_def sample_libs_def
        base16_encode_def be_bytes_def le_bytes_def)
  then have "revoke_set.well_formed sample_kill"
    by (simp add: revoke_set.well_formed_def str_trim_graphic) (simp add: sample_kill_def graphic_def str_trim_graphic)
  then show ?thesis
    unfolding sample_kill_token_def
    by (intro signed_kill_token)
      (simp_all add: kill_libs_def sample_libs_contracts sample_reaper_def from_pubkey_bytes_def fp[unfolded kill_libs_def],
       simp_all add: sample_kill_def in_window_sample sample_libs_def)
qed

section \<open>Properties\<close>

lemma peek_action_sample: "peek_action kill_libs sample_kill_token \<noteq> Some REVOKE_RESTORE_ACTION"
proof -
  have "bt_get (revoke_compute_claims_map sample_kill) ''action'' = Some (JString REVOKE_COMPUTE_ACTION)"
    by (rule revoke_set.get_action)
  moreover have "json_from_slice kill_libs bs = Ok (JObject (revoke_compute_claims_map sample_kill))" for bs
    by (simp add: kill_libs_def sample_libs_def)
  ultimately show ?thesis by (simp add: peek_action_def action_defs split: sum.split)
qed

lemma kill_token_unique: "kill_token L r token now_s c \<Longrightarrow> kill_token L r token now_s' c' \<Longrightarrow> c = c'"
  unfolding kill_token_def verify_with_aud_def verify_Ok_iff
  by (auto dest: token_carries_unique)

text \<open>A call while a token is handled: the stop of a kill or the start of a restore that the token signs, whose
  nonce was not used before.  A restore is not bound to a generation.\<close>

definition token_call :: "libs \<Rightarrow> reaper \<Rightarrow> reaper_state \<Rightarrow> u64 \<Rightarrow> f64 \<Rightarrow> string \<Rightarrow> string \<times> instance_target \<Rightarrow> bool" where
  "token_call L r st g now_s token call \<longleftrightarrow>
     (\<exists>c. kill_token L r token now_s c \<and> \<not> is_seen (rst_store st) (kill_key c) \<and> rc_target_generation c = g \<and> call = (''stop'', rc_target c)) \<or>
     (\<exists>c. restore_token L r token now_s c \<and> \<not> is_seen (rst_store st) (restore_key c) \<and> call = (''start'', rs_target c))"

lemma pending_call_authorised:
  assumes "rst_calls (snd (handle_pending_candidate L r tk token g now_s st)) \<noteq> rst_calls st"
  shows "\<exists>call. rst_calls (snd (handle_pending_candidate L r tk token g now_s st)) = rst_calls st @ [call] \<and>
    token_call L r st g now_s token call \<and> executor_allows (rp_executor r) (snd call)"
proof (cases "peek_action L token = Some REVOKE_RESTORE_ACTION")
  case True
  then have eq: "handle_pending_candidate L r tk token g now_s st = handle_restore_candidate L r tk token now_s st"
    by (simp add: handle_pending_candidate_def)
  show ?thesis
  proof (cases rule: handle_restore_cases[where L = L and r = r and tk = tk and token = token and now_s = now_s and st = st])
    case (failed c e calls)
    with assms eq any_executor.calls_cases[of "tk_ops tk" "''start''" "rp_executor r" "rs_target c" "rst_calls st"]
    show ?thesis by (auto simp: exec_start_def restore_checks_Ok token_call_def)
  qed (use assms eq in \<open>auto simp: restore_checks_Ok token_call_def\<close>)
next
  case False
  then have eq: "handle_pending_candidate L r tk token g now_s st = handle_kill_candidate L r tk token g now_s st"
    by (simp add: handle_pending_candidate_def)
  show ?thesis
  proof (cases rule: handle_kill_cases[where L = L and r = r and tk = tk and token = token and g = g and now_s = now_s and st = st])
    case (failed c e calls)
    with assms eq any_executor.calls_cases[of "tk_ops tk" "''stop''" "rp_executor r" "rc_target c" "rst_calls st"]
    show ?thesis by (auto simp: exec_stop_def kill_checks_Ok token_call_def)
  qed (use assms eq in \<open>auto simp: kill_checks_Ok token_call_def\<close>)
qed

lemma token_call_step:
  assumes "reaper_step L r st st'" "token_call L r st' g now_s token call"
  shows "token_call L r st g now_s token call"
  using assms(2) reaper_step_seen[OF assms(1)] unfolding token_call_def by blast

lemma handle_tokens_calls:
  "\<exists>new. rst_calls (handle_tokens L r g tokens ticks st) = rst_calls st @ new \<and>
    (\<forall>call\<in>set new. executor_allows (rp_executor r) (snd call) \<and>
      (\<exists>token\<in>set tokens. \<exists>now_s\<in>fst ` set ticks. token_call L r st g now_s token call))"
proof (induction L r g tokens ticks st rule: handle_tokens.induct)
  case (1 L r g token tokens now_s tk ticks st)
  let ?st1 = "snd (handle_pending_candidate L r tk token g now_s st)"
  obtain new where new: "rst_calls (handle_tokens L r g tokens ticks ?st1) = rst_calls ?st1 @ new"
    and auth: "\<forall>call\<in>set new. executor_allows (rp_executor r) (snd call) \<and>
      (\<exists>token\<in>set tokens. \<exists>now_s\<in>fst ` set ticks. token_call L r ?st1 g now_s token call)"
    using 1 by (elim exE conjE) (rule that)
  obtain pre where pre: "rst_calls ?st1 = rst_calls st @ pre"
    and first: "\<forall>call\<in>set pre. executor_allows (rp_executor r) (snd call) \<and> token_call L r st g now_s token call"
  proof (cases "rst_calls ?st1 = rst_calls st")
    case True
    then show ?thesis using that[of "[]"] by simp
  next
    case False
    from pending_call_authorised[OF this] obtain call where "rst_calls ?st1 = rst_calls st @ [call]"
      "token_call L r st g now_s token call" "executor_allows (rp_executor r) (snd call)" by blast
    then show ?thesis using that[of "[call]"] by simp
  qed
  have "executor_allows (rp_executor r) (snd call) \<and>
      (\<exists>token'\<in>set (token # tokens). \<exists>now\<in>fst ` set ((now_s, tk) # ticks). token_call L r st g now token' call)"
    if "call \<in> set (pre @ new)" for call
  proof (cases "call \<in> set pre")
    case True
    with first show ?thesis by auto
  next
    case False
    with that have "call \<in> set new" by simp
    with auth obtain token' now where a: "executor_allows (rp_executor r) (snd call)" "token' \<in> set tokens" "now \<in> fst ` set ticks"
      "token_call L r ?st1 g now token' call" by blast
    from token_call_step[OF reaper_step.pending a(4)] have "token_call L r st g now token' call" .
    then show ?thesis using a(1-3) by (intro conjI bexI[of _ token'] bexI[of _ now]) simp_all
  qed
  then show ?case using new pre by (intro exI[of _ "pre @ new"]) simp
qed (intro exI[of _ "[]"]; simp)+

text \<open>C15: whatever the kernel sends, each call of a round of the poll loop to the cloud API has one of three
  grounds.  It is the stop of a kill, or the start of a restore, for the target in the claims of a
  token of this pull, which verifies under the pinned key with the audience, action and
  fingerprint of its kind at the time it is handled, whose nonce was not used before the round and,
  for a kill, whose generation is the one delivered with the pull; or the pull failed after more
  than the deadline since the last success, and the call is the stop of the watched instance.  The
  executor allows the target, and no earlier call is forgotten.\<close>

theorem reaper_call_authorised:
  assumes "poll_round L r p (last_success, st) = (last_success', st')"
    and "length (rst_calls st) \<le> i" "i < length (rst_calls st')" "rst_calls st' ! i = call"
  shows "take (length (rst_calls st)) (rst_calls st') = rst_calls st \<and> executor_allows (rp_executor r) (snd call) \<and>
    ((\<exists>now pull ticks token now_s. p = PullOk now pull ticks \<and> token \<in> set (pp_tokens pull) \<and> now_s \<in> fst ` set ticks \<and>
        token_call L r st (pp_current_grant_generation pull) now_s token call) \<or>
     (\<exists>now_s tk. p = PullErr now_s tk \<and> f64_lt (rp_liveness_deadline_s r) (f64_sub now_s last_success) \<and> call = (''stop'', rp_target r)))"
proof (cases p)
  case (PullOk now pull ticks)
  then have st': "st' = handle_tokens L r (pp_current_grant_generation pull) (pp_tokens pull) ticks st" using assms(1) by simp
  from handle_tokens_calls[of L r "pp_current_grant_generation pull" "pp_tokens pull" ticks st, folded st'] obtain new where new: "rst_calls st' = rst_calls st @ new"
    and auth: "\<forall>call\<in>set new. executor_allows (rp_executor r) (snd call) \<and>
      (\<exists>token\<in>set (pp_tokens pull). \<exists>now_s\<in>fst ` set ticks. token_call L r st (pp_current_grant_generation pull) now_s token call)"
    by (elim exE conjE) (rule that)
  have "call \<in> set new" using assms(2-4) new by (auto simp: nth_append)
  with auth obtain token now_s where "executor_allows (rp_executor r) (snd call)" "token \<in> set (pp_tokens pull)" "now_s \<in> fst ` set ticks"
    "token_call L r st (pp_current_grant_generation pull) now_s token call" by blast
  moreover have "take (length (rst_calls st)) (rst_calls st') = rst_calls st" using new by simp
  ultimately show ?thesis using PullOk by blast
next
  case (PullErr now_s tk)
  have "st' = snd (on_kernel_pull_failure L r tk last_success now_s st)"
    using assms(1) PullErr by (auto split: prod.splits liveness_action.splits bool.splits)
  moreover have "st' \<noteq> st" using assms(2,3) by auto
  ultimately have late: "liveness_expired r last_success now_s" and "st' = snd (fail_closed_stop L r tk now_s st)"
    by (auto simp: on_kernel_pull_failure_def split_beta Let_def split: if_splits)
  then have "executor_allows (rp_executor r) (rp_target r) \<and> rst_calls st' = rst_calls st @ [(''stop'', rp_target r)]"
    using any_executor.calls_cases[of "tk_ops tk" "''stop''" "rp_executor r" "rp_target r" "rst_calls st"] fail_closed_calls(1)[of L r tk now_s st] assms(2,3)
    by (auto simp: exec_stop_def)
  then show ?thesis using assms(2-4) late PullErr by (auto simp: nth_append liveness_expired_def split: if_splits)
qed

lemma sample_kill_checks:
  "kill_checks kill_libs (sample_reaper x) (MemStore {}) sample_kill_token 0 (Finite 120) = Ok sample_kill"
  unfolding kill_checks_Ok by (simp add: sample_kill_ok mem_is_seen_def) (simp add: sample_kill_def)

lemma sample_execution:
  "rst_calls (snd (handle_pending_candidate kill_libs (sample_reaper MockExecutor) good_tick sample_kill_token 0 (Finite 120) sample_state)) =
     [(''stop'', sample_target)]"
  "fst (handle_kill_candidate kill_libs (sample_reaper MockExecutor) good_tick sample_kill_token 0 (Finite 120) sample_state) =
     Executed ''revoke_1'' \<lparr>so_instance = ''agent-vm'', so_op_id = ''mock-stop-agent-vm'', so_prev_state = ''RUNNING''\<rparr>"
proof -
  show
    "rst_calls (snd (handle_pending_candidate kill_libs (sample_reaper MockExecutor) good_tick sample_kill_token 0 (Finite 120) sample_state)) =
       [(''stop'', sample_target)]"
    "fst (handle_kill_candidate kill_libs (sample_reaper MockExecutor) good_tick sample_kill_token 0 (Finite 120) sample_state) =
       Executed ''revoke_1'' \<lparr>so_instance = ''agent-vm'', so_op_id = ''mock-stop-agent-vm'', so_prev_state = ''RUNNING''\<rparr>"
    using sample_kill_checks[of MockExecutor]
    by (simp_all add: handle_pending_candidate_def peek_action_sample handle_kill_candidate_def sample_state_def
        sample_reaper_def exec_stop_def mock_op_def Let_def record_and_ack_def sample_kill_def sample_target_def)
qed

theorem reaper_call_authorised_witness:
  "\<exists>now_s c. kill_token kill_libs (sample_reaper MockExecutor) sample_kill_token now_s c \<and> rc_target c = sample_target \<and>
    rst_calls (snd (poll_round kill_libs (sample_reaper MockExecutor)
      (PullOk (Finite 120) \<lparr>pp_tokens = [sample_kill_token], pp_current_grant_generation = 0\<rparr> [(Finite 120, good_tick)]) (Finite 100, sample_state))) =
      [(''stop'', sample_target)]"
proof -
  let ?p = "PullOk (Finite 120) \<lparr>pp_tokens = [sample_kill_token], pp_current_grant_generation = 0\<rparr> [(Finite 120, good_tick)]"
  obtain l' st' where round: "poll_round kill_libs (sample_reaper MockExecutor) ?p (Finite 100, sample_state) = (l', st')" by force
  then have calls: "rst_calls st' = [(''stop'', sample_target)]" using sample_execution(1) by auto
  have "rst_calls sample_state = []" by (simp add: sample_state_def)
  with reaper_call_authorised[OF round, of 0 "(''stop'', sample_target)"] calls
  have "\<exists>now_s. token_call kill_libs (sample_reaper MockExecutor) sample_state 0 now_s sample_kill_token (''stop'', sample_target)" by auto
  then show ?thesis using round calls by (fastforce simp: token_call_def)
qed

text \<open>C16: a kill that executed and whose nonce was recorded without an I/O error never acts again while
  the reaper process runs: in every state the reaper can reach afterwards, by any tokens,
  generations, times, backend answers and pull failures, presenting the same token at any time is
  rejected and leaves the state unchanged.  Nothing is claimed after a failed record, which the
  reaper answers with the kill executed and its nonce forgotten, nor across a restart, where the
  volatile store starts empty.\<close>

theorem executed_kill_never_replays:
  assumes "handle_kill_candidate L r tk token g now_s st = (Executed run_id out, st1)" "tk_io tk = IoOk"
    and "(reaper_step L r)\<^sup>*\<^sup>* st1 st2"
  shows "\<exists>reason. handle_kill_candidate L r tk' token g' now_s' st2 = (Rejected reason, st2)"
proof -
  from assms(1) obtain c where c: "kill_token L r token now_s c" and s: "is_seen (rst_store st1) (kill_key c)"
    by (cases rule: handle_kill_cases[where L = L and r = r and tk = tk and token = token and g = g and now_s = now_s and st = st])
      (auto simp: kill_checks_Ok assms(2) any_store.rec_seen[OF any_store.rec_io])
  have seen: "is_seen (rst_store st2) (kill_key c)" using reaper_run_seen[OF assms(3) s] .
  have "kill_checks L r (rst_store st2) token g' now_s' \<noteq> Ok c'" for c'
    using seen kill_token_unique[OF c] by (auto simp: kill_checks_Ok)
  then obtain reason where "kill_checks L r (rst_store st2) token g' now_s' = Err reason"
    by (cases "kill_checks L r (rst_store st2) token g' now_s'") auto
  then show ?thesis by (simp add: handle_kill_candidate_def)
qed

theorem executed_kill_never_replays_witness:
  "\<exists>reason. handle_kill_candidate kill_libs (sample_reaper MockExecutor) good_tick sample_kill_token 0 (Finite 121)
     (snd (handle_kill_candidate kill_libs (sample_reaper MockExecutor) good_tick sample_kill_token 0 (Finite 120) sample_state)) =
   (Rejected reason, snd (handle_kill_candidate kill_libs (sample_reaper MockExecutor) good_tick sample_kill_token 0 (Finite 120) sample_state))"
proof -
  let ?h = "handle_kill_candidate kill_libs (sample_reaper MockExecutor) good_tick sample_kill_token 0 (Finite 120) sample_state"
  have "?h = (Executed ''revoke_1'' \<lparr>so_instance = ''agent-vm'', so_op_id = ''mock-stop-agent-vm'', so_prev_state = ''RUNNING''\<rparr>, snd ?h)"
    using sample_execution(2) by (metis prod.collapse)
  then show ?thesis by (rule executed_kill_never_replays) (simp_all add: good_tick_def)
qed

text \<open>A failing backend suppresses nothing: when the executor errors, the reaper records and
  acknowledges nothing and does not burn the nonce, and the same token executes as soon as the
  backend answers.\<close>

theorem failed_kill_is_retried:
  assumes "handle_kill_candidate L r tk token g now_s st = (Rejected (ExecutorError e), st')"
  shows "rst_store st' = rst_store st \<and> rst_records st' = rst_records st \<and> rst_acks st' = rst_acks st \<and>
    (\<exists>c. kill_token L r token now_s c \<and>
      (\<forall>tk' out. fst (exec_stop (tk_ops tk') (rp_executor r) (rc_target c) (rst_calls st')) = Ok out \<longrightarrow>
         fst (handle_kill_candidate L r tk' token g now_s st') = Executed (rc_run_id c) out))"
proof -
  obtain c calls where k: "kill_checks L r (rst_store st) token g now_s = Ok c" and st': "st' = st\<lparr>rst_calls := calls\<rparr>"
    using assms
  proof (cases rule: handle_kill_cases[where L = L and r = r and tk = tk and token = token and g = g and now_s = now_s and st = st])
    case (rejected reason)
    then have "kill_checks L r (rst_store st) token g now_s = Err (ExecutorError e)" using assms by simp
    moreover have "classify_verify_error err \<noteq> ExecutorError e" for err by (cases err) auto
    ultimately show ?thesis
      by (auto simp: kill_checks_def split: sum.splits if_splits option.splits honour_decision.splits revoke_reject_reason.splits)
  qed (use that in auto)
  moreover have "kill_token L r token now_s c" using k by (simp add: kill_checks_Ok)
  ultimately show ?thesis
    by (auto simp: handle_kill_candidate_def Let_def split: prod.splits)
qed

theorem failed_kill_is_retried_witness:
  "fst (handle_kill_candidate kill_libs (sample_reaper (GcpExecutor (gcp_new True (Some sample_target)))) good_tick
     sample_kill_token 0 (Finite 120)
     (snd (handle_kill_candidate kill_libs (sample_reaper (GcpExecutor (gcp_new True (Some sample_target)))) bad_tick
       sample_kill_token 0 (Finite 120) sample_state))) =
   Executed ''revoke_1'' \<lparr>so_instance = ''agent-vm'', so_op_id = ''stop'', so_prev_state = ''UNKNOWN''\<rparr>"
proof -
  let ?r = "sample_reaper (GcpExecutor (gcp_new True (Some sample_target)))"
  let ?h = "handle_kill_candidate kill_libs ?r bad_tick sample_kill_token 0 (Finite 120) sample_state"
  have ex: "rp_executor ?r = GcpExecutor (gcp_new True (Some sample_target))" by (simp add: sample_reaper_def)
  have g: "guard (gcp_new True (Some sample_target)) sample_target ''stop'' = Ok sample_target"
    by (simp add: guard_def gcp_new_def is_protected_def)
  have t: "rc_target sample_kill = sample_target" "rc_run_id sample_kill = ''revoke_1''" by (simp_all add: sample_kill_def)
  have "?h = (Rejected (ExecutorError ''compute backend error: 503''), snd ?h)"
    by (simp add: handle_kill_candidate_def sample_state_def sample_kill_checks ex exec_stop_def gcp_op_def g t bad_tick_def)
  from failed_kill_is_retried[OF this] obtain c where c: "kill_token kill_libs ?r sample_kill_token (Finite 120) c"
    and run: "\<And>tk' out. fst (exec_stop (tk_ops tk') (rp_executor ?r) (rc_target c) (rst_calls (snd ?h))) = Ok out \<Longrightarrow>
         fst (handle_kill_candidate kill_libs ?r tk' sample_kill_token 0 (Finite 120) (snd ?h)) = Executed (rc_run_id c) out"
    by blast
  have "c = sample_kill" using kill_token_unique[OF c sample_kill_ok] .
  with run[of good_tick] show ?thesis
    by (simp add: ex exec_stop_def gcp_op_def g t good_tick_def) (simp add: sample_target_def)
qed

lemma select_executor_allows:
  "executor_allows (select_executor True scratch me ps) t \<longleftrightarrow>
     scratch = Some t \<and> (\<forall>p\<in>set ps \<union> set_option me. pc_project p \<noteq> it_project t \<or> pc_instance p \<noteq> it_instance t)"
  by (auto simp: executor_allows_def select_executor_def is_ok_guard with_protected_def with_self_identity_def
      gcp_new_def is_protected_def pc_matches_def list_ex_iff split: option.splits)

text \<open>C18: in every run of an armed reaper, whatever tokens it is fed and however the kernel connection
  fails, each call to the cloud API is for the configured scratch instance, and never for its own
  host or a protected instance.\<close>

theorem reaper_never_touches_protected:
  assumes "rp_executor r = select_executor True scratch me ps"
    and "(reaper_step L r)\<^sup>*\<^sup>* st st'" "rst_calls st = []" "(op, t) \<in> set (rst_calls st')"
  shows "scratch = Some t \<and> (\<forall>p\<in>set ps \<union> set_option me. pc_project p \<noteq> it_project t \<or> pc_instance p \<noteq> it_instance t)"
proof -
  have "executor_allows (rp_executor r) t"
    using reaper_run_allowed[OF assms(2)] assms(3,4) by fastforce
  then show ?thesis unfolding assms(1) select_executor_allows .
qed

theorem reaper_never_touches_protected_witness:
  "(''stop'', sample_target) \<in> set (rst_calls (snd (handle_pending_candidate kill_libs
     (sample_reaper (select_executor True (Some sample_target) None [\<lparr>pc_project = ''proj'', pc_instance = ''kernel-vm''\<rparr>]))
     good_tick sample_kill_token 0 (Finite 120) sample_state))) \<and>
   \<not> (it_project sample_target = ''proj'' \<and> it_instance sample_target = ''kernel-vm'')"
proof -
  let ?x = "select_executor True (Some sample_target) None [\<lparr>pc_project = ''proj'', pc_instance = ''kernel-vm''\<rparr>]"
  let ?r = "sample_reaper ?x"
  let ?st = "snd (handle_pending_candidate kill_libs ?r good_tick sample_kill_token 0 (Finite 120) sample_state)"
  have ex: "rp_executor ?r = ?x" by (simp add: sample_reaper_def)
  have "executor_allows ?x sample_target" unfolding select_executor_allows by (simp add: sample_target_def)
  then have "rst_calls ?st = [(''stop'', sample_target)]"
    using any_executor.called_once[of ?x sample_target "tk_ops good_tick" "''stop''" "[]"]
    by (auto simp: handle_pending_candidate_def peek_action_sample handle_kill_candidate_def sample_state_def
        sample_kill_checks ex exec_stop_def Let_def sample_kill_def[THEN arg_cong[of _ _ rc_target], simplified]
        split: prod.splits sum.splits)
  then have "(''stop'', sample_target) \<in> set (rst_calls ?st)" by simp
  moreover have "(reaper_step kill_libs ?r)\<^sup>*\<^sup>* sample_state ?st"
    by (rule r_into_rtranclp, rule reaper_step.pending)
  ultimately show ?thesis
    using reaper_never_touches_protected[OF ex, of kill_libs sample_state ?st "''stop''" sample_target]
    by (auto simp: sample_state_def)
qed

text \<open>The liveness deadline.\<close>

lemma liveness_expired_mono:
  "liveness_expired r l t \<Longrightarrow> f64_le t t' \<Longrightarrow> f64_is_finite l \<Longrightarrow> liveness_expired r l t'"
  unfolding liveness_expired_def using f64_sub_mono f64_lt_le_trans by blast

lemma poll_failed_stop:
  assumes "liveness_expired r l t" "executor_allows (rp_executor r) (rp_target r)"
    and "\<not> is_ok (fst (exec_stop (tk_ops tk) (rp_executor r) (rp_target r) (rst_calls st)))"
  shows "poll_round L r (PullErr t tk) (l, st) = (l, st\<lparr>rst_calls := rst_calls st @ [(''stop'', rp_target r)]\<rparr>)"
  using assms any_executor.called_once[OF assms(2), of "tk_ops tk" "''stop''" "rst_calls st"]
  by (cases "exec_stop (tk_ops tk) (rp_executor r) (rp_target r) (rst_calls st)"; cases "fst (exec_stop (tk_ops tk) (rp_executor r) (rp_target r) (rst_calls st))")
    (auto simp: on_kernel_pull_failure_def fail_closed_stop_def exec_stop_def is_ok_iff)

lemma poll_good_stop:
  assumes "liveness_expired r l t" "executor_allows (rp_executor r) (rp_target r)"
    and "is_ok (fst (exec_stop (tk_ops tk) (rp_executor r) (rp_target r) (rst_calls st)))"
  shows "fst (poll_round L r (PullErr t tk) (l, st)) = t \<and>
    rst_calls (snd (poll_round L r (PullErr t tk) (l, st))) = rst_calls st @ [(''stop'', rp_target r)]"
  using assms any_executor.called_once[OF assms(2), of "tk_ops tk" "''stop''" "rst_calls st"]
  by (cases "exec_stop (tk_ops tk) (rp_executor r) (rp_target r) (rst_calls st)"; cases "fst (exec_stop (tk_ops tk) (rp_executor r) (rp_target r) (rst_calls st))")
    (auto simp: on_kernel_pull_failure_def fail_closed_stop_def exec_stop_def)

lemma poll_failures:
  assumes "liveness_expired r l t0" "f64_is_finite l" "executor_allows (rp_executor r) (rp_target r)"
    and "\<forall>(t, tk)\<in>set fails. f64_le t0 t \<and> (\<forall>calls. \<not> is_ok (fst (exec_stop (tk_ops tk) (rp_executor r) (rp_target r) calls)))"
  shows "foldl (\<lambda>s (t, tk). poll_round L r (PullErr t tk) s) (l, st) fails =
    (l, st\<lparr>rst_calls := rst_calls st @ replicate (length fails) (''stop'', rp_target r)\<rparr>)"
  using assms(4)
proof (induction fails arbitrary: st)
  case (Cons f fails)
  obtain t tk where f: "f = (t, tk)" by (cases f)
  have "liveness_expired r l t" using liveness_expired_mono[OF assms(1) _ assms(2)] Cons.prems f by auto
  then have "poll_round L r (PullErr t tk) (l, st) = (l, st\<lparr>rst_calls := rst_calls st @ [(''stop'', rp_target r)]\<rparr>)"
    using Cons.prems f assms(3) by (intro poll_failed_stop) auto
  then show ?case using Cons f by (simp add: replicate_append_same[symmetric])
qed simp

text \<open>C19: once the kernel has been dark past the deadline, every failed pull attempts a stop of the
  watched instance until one succeeds: after any number of failing attempts the deadline is still
  expired, and the first attempt whose backend answers stops the instance and resets the tracker.\<close>

theorem dark_kernel_fails_closed:
  assumes "liveness_expired r l t0" "f64_is_finite l" "executor_allows (rp_executor r) (rp_target r)"
    and "\<forall>(t, tk)\<in>set fails. f64_le t0 t \<and> (\<forall>calls. \<not> is_ok (fst (exec_stop (tk_ops tk) (rp_executor r) (rp_target r) calls)))"
    and "f64_le t0 tn" "\<And>calls. is_ok (fst (exec_stop (tk_ops tkn) (rp_executor r) (rp_target r) calls))"
  shows "fst (foldl (\<lambda>s (t, tk). poll_round L r (PullErr t tk) s) (l, st) (fails @ [(tn, tkn)])) = tn \<and>
    rst_calls (snd (foldl (\<lambda>s (t, tk). poll_round L r (PullErr t tk) s) (l, st) (fails @ [(tn, tkn)]))) =
      rst_calls st @ replicate (Suc (length fails)) (''stop'', rp_target r)"
  using poll_failures[OF assms(1-4), of L st]
    poll_good_stop[OF liveness_expired_mono[OF assms(1,5,2)] assms(3) assms(6),
      of L "st\<lparr>rst_calls := rst_calls st @ replicate (length fails) (''stop'', rp_target r)\<rparr>"]
  by (simp add: replicate_append_same[symmetric])

lemma sample_expired: "liveness_expired (sample_reaper x) (Finite 100) (Finite 500)"
  using f64_add_int[of 500 "- 100"] by (simp add: liveness_expired_def sample_reaper_def f64_sub_def)

theorem dark_kernel_fails_closed_witness:
  "rst_calls (snd (foldl (\<lambda>s (t, tk). poll_round kill_libs (sample_reaper (GcpExecutor (gcp_new True (Some sample_target)))) (PullErr t tk) s)
      (Finite 100, sample_state) ([(Finite 500, bad_tick), (Finite 515, bad_tick)] @ [(Finite 530, good_tick)]))) =
   replicate 3 (''stop'', sample_target)"
proof -
  let ?r = "sample_reaper (GcpExecutor (gcp_new True (Some sample_target)))"
  have ex: "rp_executor ?r = GcpExecutor (gcp_new True (Some sample_target))" "rp_target ?r = sample_target"
    by (simp_all add: sample_reaper_def)
  have al: "executor_allows (rp_executor ?r) (rp_target ?r)"
    unfolding ex by (simp add: executor_allows_def is_ok_guard gcp_new_def is_protected_def)
  have g: "guard (gcp_new True (Some sample_target)) sample_target ''stop'' = Ok sample_target"
    by (simp add: guard_Ok gcp_new_def is_protected_def)
  show ?thesis
    using dark_kernel_fails_closed[OF sample_expired _ al, of "[(Finite 500, bad_tick), (Finite 515, bad_tick)]" "Finite 530" good_tick kill_libs sample_state]
    by (simp add: ex exec_stop_def gcp_op_def g bad_tick_def good_tick_def sample_state_def numeral_3_eq_3)
qed

text \<open>C20: a disarmed reaper runs the mock executor, for which every verified kill succeeds: nothing is
  stopped, yet the kill is recorded as executed, acknowledged to the kernel as stopped, and its
  nonce burned.\<close>

theorem disarmed_reaper_acknowledges_kill:
  assumes "rp_executor r = select_executor False scratch me ps" "rp_has_client r" "rp_has_recorder r"
    and "kill_checks L r (rst_store st) token g now_s = Ok c" "tk_io tk = IoOk"
  shows "rst_acks (snd (handle_kill_candidate L r tk token g now_s st)) = rst_acks st @ [(rc_run_id c, ''stopped'')] \<and>
    (\<exists>k. rst_records (snd (handle_kill_candidate L r tk token g now_s st)) = rst_records st @ [k] \<and>
       kr_kind k = ''kill_executed'' \<and> kr_run_id k = rc_run_id c) \<and>
    is_seen (rst_store (snd (handle_kill_candidate L r tk token g now_s st))) (kill_key c)"
  using assms any_store.rec_seen[OF any_store.rec_io]
  by (simp add: handle_kill_candidate_def select_executor_def exec_stop_def mock_op_def record_and_ack_def
      kill_key_def Let_def)

theorem disarmed_reaper_acknowledges_kill_witness:
  "rst_acks (snd (handle_kill_candidate kill_libs (sample_reaper MockExecutor) good_tick sample_kill_token 0 (Finite 120) sample_state)) =
     [(''revoke_1'', ''stopped'')]"
  using disarmed_reaper_acknowledges_kill[of "sample_reaper MockExecutor" None None "[]" kill_libs sample_state
      sample_kill_token 0 "Finite 120" sample_kill good_tick] sample_kill_checks[of MockExecutor]
  by (simp add: sample_reaper_def select_executor_def sample_state_def good_tick_def) (simp add: sample_kill_def)

end
