(* ===== verification/TlogClient.thy ===== *)
theory TlogClient
  imports TLog Reaper
begin

text \<open>
  The HTTP clients of the transparency log and of the revoke queue: the kernel's
  \<^verbatim>\<open>ReqwestTransparencyClient\<close> (\<^verbatim>\<open>src/crates/services/safety-kernel/src/transparency_client.rs\<close>), the reaper's
  \<^verbatim>\<open>ReqwestKillRecorder\<close> (\<^verbatim>\<open>safety-kernel-reaper/src/tlog.rs\<close>) and \<^verbatim>\<open>ReqwestKernelClient\<close> (\<^verbatim>\<open>kernel_client.rs\<close>).

  What \<^verbatim>\<open>reqwest\<close> gives back for one request is a \<open>send_result\<close>: a transport error, or a status with the
  JSON decoding of the body and its text.  \<open>deliver\<close> carries a response of the log service to the
  client; the text of a body is the parameter \<open>txt\<close>.
\<close>

section \<open>Transport\<close>

datatype 'a send_result = SendError string | Response nat "(string, 'a) result" string

fun deliver :: "(tlog_error_response + 'a \<Rightarrow> string) \<Rightarrow> 'a http_reply \<Rightarrow> 'a send_result" where
  "deliver txt (Reply status body) =
     Response status (case body of Inl _ \<Rightarrow> Err ''missing field'' | Inr r \<Rightarrow> Ok r) (txt body)"
| "deliver txt NoReply = SendError ''connection closed''"

definition is_success :: "nat \<Rightarrow> bool" where
  "is_success status \<longleftrightarrow> 200 \<le> status \<and> status < 300"

definition is_server_error :: "nat \<Rightarrow> bool" where
  "is_server_error status \<longleftrightarrow> 500 \<le> status \<and> status < 600"

text \<open>Strings are UTF-8, so a character begins at each byte that is not a continuation byte.\<close>

definition is_char_start :: "char \<Rightarrow> bool" where
  "is_char_start c \<longleftrightarrow> \<not> (let n = of_char c :: nat in 128 \<le> n \<and> n < 192)"

fun take_chars :: "nat \<Rightarrow> string \<Rightarrow> string" where
  "take_chars n [] = []"
| "take_chars n (c # cs) =
     (if is_char_start c then (if n = 0 then [] else c # take_chars (n - 1) cs)
      else c # take_chars n cs)"

definition truncate_chars :: "string \<Rightarrow> nat \<Rightarrow> string" where
  "truncate_chars s mx = (if length (filter is_char_start s) \<le> mx then s else take_chars mx s)"

section \<open>The kernel's transparency client\<close>

record transparency_append_outcome =
  to_leaf_index :: nat
  to_idempotent_replay :: bool

datatype transparency_error =
    TlUnreachable string
  | TlRejected nat string
  | TlServerError nat string
  | TlConflict
  | TlMalformed string
  | TlProtocolViolation string

fun tl_kind :: "transparency_error \<Rightarrow> string" where
  "tl_kind (TlUnreachable _) = ''unreachable''"
| "tl_kind (TlRejected _ _) = ''append_failed''"
| "tl_kind (TlServerError _ _) = ''server_error''"
| "tl_kind TlConflict = ''conflict''"
| "tl_kind (TlMalformed _) = ''malformed_response''"
| "tl_kind (TlProtocolViolation _) = ''protocol_violation''"

fun tl_detail :: "transparency_error \<Rightarrow> string" where
  "tl_detail (TlUnreachable detail) = ''transparency-log unreachable: '' @ detail"
| "tl_detail (TlRejected status_code detail) =
     ''transparency-log rejected request: status='' @ dec_string status_code @ '' detail='' @ detail"
| "tl_detail (TlServerError status_code detail) =
     ''transparency-log server error: status='' @ dec_string status_code @ '' detail='' @ detail"
| "tl_detail TlConflict = ''transparency-log idempotency conflict (existing row preserved)''"
| "tl_detail (TlMalformed detail) = ''transparency-log malformed response: '' @ detail"
| "tl_detail (TlProtocolViolation s) = ''transparency-log protocol violation: '' @ s"

definition idempotency_key_for_token :: "libs \<Rightarrow> string \<Rightarrow> hash32" where
  "idempotency_key_for_token L token = sha256 L (as_bytes token)"

definition client_append_body :: "libs \<Rightarrow> string \<Rightarrow> append_input \<Rightarrow> append_request" where
  "client_append_body L kernel_key_fingerprint_hex input =
     \<lparr>aq_idempotency_key_hex = hex_encode L (be_bytes (ai_idempotency_key input)),
      aq_kernel_key_fingerprint_sha256 = kernel_key_fingerprint_hex,
      aq_occurred_at_epoch_seconds = ai_occurred_at_epoch_seconds input,
      aq_token_b64 = b64url_encode L (ai_payload input)\<rparr>"

fun client_append_result :: "libs \<Rightarrow> append_input \<Rightarrow> append_response send_result \<Rightarrow>
    (transparency_error, transparency_append_outcome) result" where
  "client_append_result L input (SendError e) = Err (TlUnreachable (truncate_chars e 300))"
| "client_append_result L input (Response status json text) =
     (if status = 409 then Err TlConflict
      else if is_success status then
        (case json of
           Inl e \<Rightarrow> Err (TlMalformed (truncate_chars e 300))
         | Inr parsed \<Rightarrow>
             let expected = leaf_hash (sha256 L) (ai_payload input) in
             (case hex_decode L (as_leaf_hash_hex parsed) of
                Inl _ \<Rightarrow> Err (TlProtocolViolation (''non-hex leaf_hash returned by t-log (got '' @
                  dec_string (length (as_leaf_hash_hex parsed)) @ '' chars)''))
              | Inr returned \<Rightarrow>
                  if be_bytes expected \<noteq> returned
                  then Err (TlProtocolViolation (''leaf_hash mismatch '' @ [CHR 0xE2, CHR 0x80, CHR 0x94] @
                    '' t-log lied about what it stored (expected '' @ hex_encode L (be_bytes expected) @
                    '', got '' @ truncate_chars (as_leaf_hash_hex parsed) 64 @ '')''))
                  else Ok \<lparr>to_leaf_index = as_leaf_index parsed, to_idempotent_replay = as_idempotent_replay parsed\<rparr>))
      else let detail = truncate_chars text 300 in
        if is_server_error status then Err (TlServerError status detail) else Err (TlRejected status detail))"

text \<open>One append of the kernel against the log service.\<close>

definition client_append :: "libs \<Rightarrow> string \<Rightarrow> string \<Rightarrow> string \<Rightarrow> string \<Rightarrow> (tlog_error_response + append_response \<Rightarrow> string) \<Rightarrow>
    append_input \<Rightarrow> mem_store \<Rightarrow> (transparency_error, transparency_append_outcome) result \<times> mem_store" where
  "client_append L client_fpr api_key service_fpr service_key txt input store =
     (let (reply, store') = tlog_auth_layer service_key ''/v1/append'' (Some api_key) store
            (append_route L service_fpr (client_append_body L client_fpr input))
      in (client_append_result L input (deliver txt reply), store'))"

section \<open>The reaper's kill recorder\<close>

definition kill_record_payload_bytes :: "libs \<Rightarrow> kill_record \<Rightarrow> bytes" where
  "kill_record_payload_bytes L k = as_bytes (json_to_string L (JObject
     [(''kind'', JString (kr_kind k)), (''run_id'', JString (kr_run_id k)), (''nonce'', JString (kr_nonce k)),
      (''token_sha256'', JString (kr_token_sha256 k)),
      (''target'', JObject [(''project'', JString (it_project (kr_target k))), (''zone'', JString (it_zone (kr_target k))),
         (''instance'', JString (it_instance (kr_target k)))]),
      (''outcome_instance'', JString (kr_outcome_instance k)), (''outcome_op_id'', JString (kr_outcome_op_id k)),
      (''outcome_prev_state'', JString (kr_outcome_prev_state k)),
      (''occurred_at_epoch_seconds'', JNumber (PosInt (kr_occurred_at_epoch_seconds k)))]))"

definition kill_recorder_body :: "libs \<Rightarrow> string \<Rightarrow> kill_record \<Rightarrow> append_request" where
  "kill_recorder_body L kernel_key_fingerprint_hex k =
     (let payload = kill_record_payload_bytes L k; idempotency_key = sha256 L payload in
      \<lparr>aq_idempotency_key_hex = hex_encode L (be_bytes idempotency_key),
       aq_kernel_key_fingerprint_sha256 = kernel_key_fingerprint_hex,
       aq_occurred_at_epoch_seconds = kr_occurred_at_epoch_seconds k,
       aq_token_b64 = b64url_encode L payload\<rparr>)"

fun kill_recorder_result :: "append_response send_result \<Rightarrow> (string, unit) result" where
  "kill_recorder_result (SendError e) = Err e"
| "kill_recorder_result (Response status json text) =
     (if is_success status \<or> status = 409 then Ok ()
      else Err (''status='' @ dec_string status @ '' body='' @ take_chars 200 text))"

text \<open>One \<^verbatim>\<open>record\<close> of the recorder that \<^verbatim>\<open>main.rs\<close> builds from the pinned verifier.\<close>

definition kill_record_append :: "libs \<Rightarrow> pinned_key_verifier \<Rightarrow> string \<Rightarrow> string \<Rightarrow> string \<Rightarrow>
    (tlog_error_response + append_response \<Rightarrow> string) \<Rightarrow> kill_record \<Rightarrow> mem_store \<Rightarrow>
    (string, unit) result \<times> mem_store" where
  "kill_record_append L verifier api_key service_fpr service_key txt k store =
     (let (reply, store') = tlog_auth_layer service_key ''/v1/append'' (Some api_key) store
            (append_route L service_fpr (kill_recorder_body L (pk_fingerprint verifier) k))
      in (kill_recorder_result (deliver txt reply), store'))"

section \<open>The reaper's kernel client\<close>

datatype kernel_client_error = KcUnreachable string | KcRejected nat string | KcMalformed string

fun pull_pending_result :: "pending_revoke_response send_result \<Rightarrow> (kernel_client_error, pending_pull) result" where
  "pull_pending_result (SendError e) = Err (KcUnreachable (take_chars 300 e))"
| "pull_pending_result (Response status json text) =
     (if status = 204 then Ok \<lparr>pp_tokens = [], pp_current_grant_generation = 0\<rparr>
      else if \<not> is_success status then Err (KcRejected status (take_chars 300 text))
      else case json of
          Inl e \<Rightarrow> Err (KcMalformed (take_chars 300 e))
        | Inr parsed \<Rightarrow> Ok \<lparr>pp_tokens = pr_pending parsed, pp_current_grant_generation = pr_current_grant_generation parsed\<rparr>)"

fun ack_result :: "unit send_result \<Rightarrow> (kernel_client_error, unit) result" where
  "ack_result (SendError e) = Err (KcUnreachable (take_chars 300 e))"
| "ack_result (Response status json text) =
     (if \<not> is_success status then Err (KcRejected status (take_chars 300 text)) else Ok ())"

text \<open>The fingerprint the log service computes at boot from the kernel's verifying key.\<close>

definition tlog_kernel_fingerprint :: "libs \<Rightarrow> 256 word \<Rightarrow> string" where
  "tlog_kernel_fingerprint L kernel_pk = hex_encode L (be_bytes (sha256 L (be_bytes kernel_pk)))"

section \<open>Lemmas\<close>

lemma trim_end_matches_id: "c \<notin> set s \<Longrightarrow> trim_end_matches c s = s"
  by (cases s rule: rev_cases) (auto simp: trim_end_matches_def)

lemma hex_encode_trim: "hex_contract L \<Longrightarrow> str_trim (hex_encode L bs) = hex_encode L bs"
  by (rule str_trim_graphic) (auto simp: hex_contract_def list_all_iff)

lemma b64_encode_trim:
  "b64_contract L \<Longrightarrow> trim_end_matches (CHR ''='') (str_trim (b64url_encode L bs)) = b64url_encode L bs"
proof -
  assume c: "b64_contract L"
  then have "str_trim (b64url_encode L bs) = b64url_encode L bs"
    by (intro str_trim_graphic) (auto simp: b64_contract_def list_all_iff)
  moreover have "CHR ''='' \<notin> set (b64url_encode L bs)" using c by (auto simp: b64_contract_def)
  ultimately show ?thesis by (simp add: trim_end_matches_id)
qed

lemma append_checks_client:
  assumes "b64_contract L" "hex_contract L" "ai_payload input \<noteq> []"
    and "to_ascii_lowercase (str_trim client_fpr) = to_ascii_lowercase service_fpr"
  shows "append_checks L service_fpr (client_append_body L client_fpr input) = Ok input"
  using assms hex_encode_trim[OF assms(2)] b64_encode_trim[OF assms(1)]
  by (simp add: append_checks_def client_append_body_def tlog_b64url_decode_def hex_to_32_def
      b64_contract_def hex_contract_def)

lemma client_append_steps:
  assumes "b64_contract L" "hex_contract L" "mem_inv (sha256 L) s" "ai_payload input \<noteq> []"
    and "to_ascii_lowercase (str_trim client_fpr) = to_ascii_lowercase service_fpr" "key \<noteq> []"
  shows "client_append L client_fpr key service_fpr key tx input s =
    (map_sum (\<lambda>_. TlConflict) (\<lambda>out. \<lparr>to_leaf_index = ao_leaf_index out, to_idempotent_replay = \<not> ao_created out\<rparr>)
       (fst (store_append (sha256 L) s input)), snd (store_append (sha256 L) s input))"
proof -
  have auth: "tlog_auth_layer key ''/v1/append'' (Some key) s f = f s" for f :: "mem_store \<Rightarrow> append_response http_reply \<times> mem_store"
    using assms(6) by (simp add: tlog_auth_layer_passes tlog_is_public_path_def)
  note chk = append_checks_client[OF assms(1,2,4,5)]
  show ?thesis using assms(3)
  proof (cases rule: mem_ledger.append_cases[of "sha256 L" s input])
    case fresh
    then show ?thesis using assms(2) chk
      by (cases "store_append (sha256 L) s input")
        (simp add: client_append_def auth append_route_def is_success_def hex_contract_def Let_def)
  next
    case (replay i)
    then show ?thesis using assms(2) chk
      by (simp add: client_append_def auth append_route_def is_success_def hex_contract_def Let_def)
  next
    case (conflict i)
    then show ?thesis using chk by (simp add: client_append_def auth append_route_def)
  qed
qed

lemma length_to_ascii_lowercase [simp]: "length (to_ascii_lowercase s) = length s"
  by (simp add: to_ascii_lowercase_def)

section \<open>Properties\<close>

text \<open>When the kernel and the log share the key fingerprint and the API key, an append by the
  kernel's client against the log succeeds exactly when the key is new or was used for the same
  bytes; after a success the payload is in the ledger at the reported index.  The only other answer is
  a conflict, which leaves the ledger alone.\<close>

theorem client_append_records_payload:
  assumes "b64_contract L" "hex_contract L" "mem_inv (sha256 L) s" "ai_payload input \<noteq> []"
    and "to_ascii_lowercase (str_trim client_fpr) = to_ascii_lowercase service_fpr" "key \<noteq> []"
    and "client_append L client_fpr key service_fpr key tx input s = (res, s')"
  shows "mem_inv (sha256 L) s' \<and> prefix (ms_payloads s) (ms_payloads s') \<and>
    (case res of
       Inr out \<Rightarrow> to_leaf_index out < length (ms_payloads s') \<and> ms_payloads s' ! to_leaf_index out = ai_payload input \<and>
         (to_idempotent_replay out \<longleftrightarrow> s' = s)
     | Inl e \<Rightarrow> e = TlConflict \<and> s' = s \<and>
         (\<exists>i. ms_idempotency s (ai_idempotency_key input) = Some i \<and> ms_payloads s ! i \<noteq> ai_payload input))"
proof -
  have eq: "(res, s') = (map_sum (\<lambda>_. TlConflict) (\<lambda>out. \<lparr>to_leaf_index = ao_leaf_index out, to_idempotent_replay = \<not> ao_created out\<rparr>)
       (fst (store_append (sha256 L) s input)), snd (store_append (sha256 L) s input))"
    using client_append_steps[OF assms(1-6), of tx] assms(7) by simp
  have s': "s' = snd (store_append (sha256 L) s input)" using eq by simp
  note mono = mem_ledger.append_monotone[OF assms(3), of input] mem_ledger.append_inv[OF assms(3), of input]
  show ?thesis using assms(3)
  proof (cases rule: mem_ledger.append_cases[of "sha256 L" s input])
    case fresh
    then have "s' \<noteq> s" using s' by (metis append_self_conv not_Cons_self2)
    then show ?thesis using fresh eq mono s' by auto
  next
    case (replay i)
    then show ?thesis using eq mono s' mem_inv_range[OF assms(3) replay(1)] by auto
  next
    case (conflict i)
    then show ?thesis using eq mono s' by auto
  qed
qed

theorem client_append_records_payload_witness:
  "let L = sample_libs JNull in
   \<exists>out. fst (client_append L ''AB'' ''k'' ''ab'' ''k'' (\<lambda>_. []) (sample_append 1 [5]) mem_store_new) = Ok out \<and>
     ms_payloads (snd (client_append L ''AB'' ''k'' ''ab'' ''k'' (\<lambda>_. []) (sample_append 1 [5]) mem_store_new)) ! to_leaf_index out = [5]"
proof -
  let ?L = "sample_libs JNull"
  let ?c = "client_append ?L ''AB'' ''k'' ''ab'' ''k'' (\<lambda>_. []) (sample_append 1 [5]) mem_store_new"
  have fpr: "to_ascii_lowercase (str_trim ''AB'') = to_ascii_lowercase ''ab''" by code_simp
  have "ai_payload (sample_append 1 [5]) \<noteq> []" "''k'' \<noteq> ([] :: string)" by (simp_all add: sample_append_def)
  from client_append_records_payload[OF sample_libs_contracts(1,4)[of JNull] mem_inv_new this(1) fpr this(2) surjective_pairing, of "\<lambda>_. []"]
  have *: "case fst ?c of Inr out \<Rightarrow> ms_payloads (snd ?c) ! to_leaf_index out = [5] | Inl e \<Rightarrow> ms_idempotency mem_store_new 1 \<noteq> None"
    by (auto simp: sample_append_def split: sum.splits)
  then show ?thesis
    by (cases "fst ?c") (simp_all add: Let_def mem_store_new_def[THEN arg_cong[of _ _ ms_idempotency]])
qed

text \<open>C26: the recorder of the reaper announces the eight-byte fingerprint of the pinned verifier, while
  the log compares against the full digest of the same kernel key.  So every kill record is refused
  with 403 and none enters the ledger, whatever its content and even when keys and API key agree.\<close>

theorem kill_records_always_refused:
  assumes "hex_contract L" "key \<noteq> []"
  shows "kill_record_append L (from_pubkey_bytes L kernel_pk) key (tlog_kernel_fingerprint L kernel_pk) key tx k s =
    (Err (''status=403 body='' @ take_chars 200 (tx (Inl (te_with_reason ''forbidden'' ''kernel_fingerprint_mismatch'')))), s)"
proof -
  let ?f = "pk_fingerprint (from_pubkey_bytes L kernel_pk)"
  have "str_trim ?f = ?f" "length ?f = 16" "length (tlog_kernel_fingerprint L kernel_pk) = 64"
    using assms(1) hex_encode_trim[OF assms(1)]
    by (simp_all add: from_pubkey_bytes_def fingerprint_for_def tlog_kernel_fingerprint_def hex_contract_def)
  then have "to_ascii_lowercase (str_trim ?f) \<noteq> to_ascii_lowercase (tlog_kernel_fingerprint L kernel_pk)"
    by (auto dest!: arg_cong[of _ _ length])
  then have "append_checks L (tlog_kernel_fingerprint L kernel_pk) (kill_recorder_body L ?f k) = Err KernelFingerprintMismatch"
    by (simp add: append_checks_def kill_recorder_body_def Let_def)
  moreover have "dec_string 403 = ''403''" by code_simp
  ultimately show ?thesis using assms(2)
    by (simp add: kill_record_append_def tlog_auth_layer_passes tlog_is_public_path_def append_route_def is_success_def)
qed

theorem kill_records_always_refused_witness:
  "snd (kill_record_append (sample_libs JNull) (from_pubkey_bytes (sample_libs JNull) 7) ''k''
     (tlog_kernel_fingerprint (sample_libs JNull) 7) ''k'' (\<lambda>_. [])
     \<lparr>kr_kind = ''kill_executed'', kr_run_id = ''revoke_1'', kr_nonce = ''n'', kr_token_sha256 = [], kr_target = sample_target,
      kr_outcome_instance = [], kr_outcome_op_id = [], kr_outcome_prev_state = [], kr_occurred_at_epoch_seconds = 0\<rparr>
     mem_store_new) = mem_store_new"
  using kill_records_always_refused[OF sample_libs_contracts(4)[of JNull], of "''k''" 7] by simp

end
