(* ===== verification/Breaker.thy ===== *)
theory Breaker
  imports TlogClient
begin

text \<open>
  The circuit breaker of the kernel client: the pure gate of
  \<^verbatim>\<open>src/crates/domain/src/safety/client_state.rs\<close>, the decision types of \<^verbatim>\<open>decision.rs\<close> and the driver
  \<^verbatim>\<open>src/crates/adapters/safety_kernel_client/src/circuit_breaker.rs\<close>.

  The state behind the mutex is the record \<open>breaker_state\<close>; each method takes the instant its clock
  read returns.  The lemmas show that a probe is in flight exactly in the half-open state, that the
  recorded transitions form a path from the closed to the current state under every interleaving of
  calls, along the documented edges and one more that late successes take, that enough failures open the breaker, and that a half-open breaker refuses
  every call until an outcome is recorded.
\<close>

section \<open>The pure gate\<close>

datatype circuit_state = CbClosed | CbOpen | CbHalfOpen

fun forbids_call :: "circuit_state \<Rightarrow> bool" where
  "forbids_call CbOpen = True"
| "forbids_call _ = False"

record circuit_config =
  cc_failure_threshold :: "32 word"
  cc_cooldown_seconds :: f64
  cc_call_timeout_seconds :: f64

definition circuit_config_default :: circuit_config where
  "circuit_config_default = \<lparr>cc_failure_threshold = 3, cc_cooldown_seconds = Finite 30, cc_call_timeout_seconds = Finite 5\<rparr>"

datatype gate_verdict = Permit | RefuseUnavailable | PermitProbeAfterCooldown

fun gate_decision :: "circuit_state \<Rightarrow> bool \<Rightarrow> bool \<Rightarrow> gate_verdict" where
  "gate_decision CbClosed cooldown_elapsed probe_in_flight = Permit"
| "gate_decision CbHalfOpen cooldown_elapsed probe_in_flight =
     (if probe_in_flight then RefuseUnavailable else Permit)"
| "gate_decision CbOpen cooldown_elapsed probe_in_flight =
     (if cooldown_elapsed then PermitProbeAfterCooldown else RefuseUnavailable)"

record circuit_transition =
  ct_from :: circuit_state
  ct_to :: circuit_state
  ct_at_epoch_seconds :: f64
  ct_failure_count :: "32 word"

section \<open>Decisions and errors\<close>

datatype kernel_decision = Allow string verified_claims | Deny string

datatype kernel_decision_error = Unavailable string | Denied string

datatype client_error =
    Transport string
  | Decode string
  | Verification kernel_token_error
  | Decision kernel_decision_error

section \<open>The driver\<close>

record breaker_state =
  bs_current :: circuit_state
  bs_consecutive_failures :: "32 word"
  bs_opened_at :: "f64 option"
  bs_transitions :: "circuit_transition list"
  bs_probe_in_flight :: bool

definition breaker_new :: breaker_state where
  "breaker_new = \<lparr>bs_current = CbClosed, bs_consecutive_failures = 0, bs_opened_at = None,
     bs_transitions = [], bs_probe_in_flight = False\<rparr>"

text \<open>The format \<^verbatim>\<open>{:.1}\<close> of an \<^verbatim>\<open>f64\<close>: one decimal of the exact value, ties to even.\<close>

fun format_f64_1 :: "f64 \<Rightarrow> string" where
  "format_f64_1 NaN = ''NaN''"
| "format_f64_1 (Infinity s) = (if s then ''-inf'' else ''inf'')"
| "format_f64_1 (Finite q) =
     (let n = nat (round_half_even (\<bar>q\<bar> * 10)) in
      (if q < 0 then ''-'' else []) @ dec_string (n div 10) @ ''.'' @ dec_string (n mod 10))"

definition cooldown_elapsed :: "circuit_config \<Rightarrow> f64 \<Rightarrow> breaker_state \<Rightarrow> bool" where
  "cooldown_elapsed cfg now st =
     f64_le (cc_cooldown_seconds cfg) (f64_sub now (case bs_opened_at st of None \<Rightarrow> now | Some t \<Rightarrow> t))"

definition before_call :: "circuit_config \<Rightarrow> f64 \<Rightarrow> breaker_state \<Rightarrow> (client_error, unit) result \<times> breaker_state" where
  "before_call cfg now st =
     (let opened = (case bs_opened_at st of None \<Rightarrow> now | Some t \<Rightarrow> t) in
      case gate_decision (bs_current st) (cooldown_elapsed cfg now st) (bs_probe_in_flight st) of
        Permit \<Rightarrow>
          (Ok (), if bs_current st = CbHalfOpen then st\<lparr>bs_probe_in_flight := True\<rparr> else st)
      | PermitProbeAfterCooldown \<Rightarrow>
          (Ok (), st\<lparr>bs_current := CbHalfOpen, bs_probe_in_flight := True,
             bs_transitions := bs_transitions st @
               [\<lparr>ct_from = bs_current st, ct_to = CbHalfOpen, ct_at_epoch_seconds = now,
                 ct_failure_count = bs_consecutive_failures st\<rparr>]\<rparr>)
      | RefuseUnavailable \<Rightarrow>
          (Err (Decision (Unavailable
             (if bs_current st = CbHalfOpen then ''circuit half-open probe in flight''
              else ''circuit breaker open ('' @ format_f64_1 (f64_sub (cc_cooldown_seconds cfg) (f64_sub now opened)) @
                   ''s remaining in cooldown)''))), st))"

definition record_success :: "f64 \<Rightarrow> breaker_state \<Rightarrow> breaker_state" where
  "record_success now st =
     (let st1 = st\<lparr>bs_consecutive_failures := 0, bs_probe_in_flight := False\<rparr> in
      if bs_current st \<noteq> CbClosed
      then st1\<lparr>bs_current := CbClosed, bs_opened_at := None,
             bs_transitions := bs_transitions st @
               [\<lparr>ct_from = bs_current st, ct_to = CbClosed, ct_at_epoch_seconds = now, ct_failure_count = 0\<rparr>]\<rparr>
      else st1)"

definition saturating_succ32 :: "32 word \<Rightarrow> 32 word" where
  "saturating_succ32 n = (if n = - 1 then n else n + 1)"

definition record_failure :: "circuit_config \<Rightarrow> f64 \<Rightarrow> breaker_state \<Rightarrow> breaker_state" where
  "record_failure cfg now st =
     (let n = saturating_succ32 (bs_consecutive_failures st);
          st1 = st\<lparr>bs_consecutive_failures := n, bs_probe_in_flight := False\<rparr>;
          should_open = (case bs_current st of
              CbClosed \<Rightarrow> cc_failure_threshold cfg \<le> n | CbHalfOpen \<Rightarrow> True | CbOpen \<Rightarrow> False)
      in if should_open
         then st1\<lparr>bs_current := CbOpen, bs_opened_at := Some now,
                bs_transitions := bs_transitions st @
                  [\<lparr>ct_from = bs_current st, ct_to = CbOpen, ct_at_epoch_seconds = now, ct_failure_count = n\<rparr>]\<rparr>
         else st1)"

definition drain_transitions :: "breaker_state \<Rightarrow> circuit_transition list \<times> breaker_state" where
  "drain_transitions st = (bs_transitions st, st\<lparr>bs_transitions := []\<rparr>)"

section \<open>Every interleaving of breaker calls\<close>

datatype breaker_event = EvGate f64 | EvSuccess f64 | EvFailure f64 | EvDrain

fun breaker_apply :: "circuit_config \<Rightarrow> breaker_event \<Rightarrow> breaker_state \<Rightarrow> circuit_transition list \<times> breaker_state" where
  "breaker_apply cfg (EvGate now) st = ([], snd (before_call cfg now st))"
| "breaker_apply cfg (EvSuccess now) st = ([], record_success now st)"
| "breaker_apply cfg (EvFailure now) st = ([], record_failure cfg now st)"
| "breaker_apply cfg EvDrain st = drain_transitions st"

fun breaker_run :: "circuit_config \<Rightarrow> breaker_event list \<Rightarrow> breaker_state \<Rightarrow> circuit_transition list \<times> breaker_state" where
  "breaker_run cfg [] st = ([], st)"
| "breaker_run cfg (e # es) st =
     (let (ts, st1) = breaker_apply cfg e st; (us, st2) = breaker_run cfg es st1 in (ts @ us, st2))"

definition breaker_wf :: "circuit_config \<Rightarrow> breaker_state \<Rightarrow> bool" where
  "breaker_wf cfg st \<longleftrightarrow>
     (bs_probe_in_flight st \<longleftrightarrow> bs_current st = CbHalfOpen) \<and>
     (bs_opened_at st = None \<longleftrightarrow> bs_current st = CbClosed) \<and>
     (bs_current st = CbClosed \<longrightarrow> bs_consecutive_failures st = 0 \<or> bs_consecutive_failures st < cc_failure_threshold cfg)"

text \<open>The four edges of the diagram in \<^verbatim>\<open>client_state.rs\<close>.\<close>

fun diagram_edge :: "circuit_state \<Rightarrow> circuit_state \<Rightarrow> bool" where
  "diagram_edge CbClosed t = (t = CbOpen)"
| "diagram_edge CbOpen t = (t = CbHalfOpen)"
| "diagram_edge CbHalfOpen t = (t = CbOpen \<or> t = CbClosed)"

definition off_diagram :: "circuit_transition \<Rightarrow> bool" where
  "off_diagram c \<longleftrightarrow> \<not> diagram_edge (ct_from c) (ct_to c)"

fun transition_path :: "circuit_state \<Rightarrow> circuit_transition list \<Rightarrow> circuit_state \<Rightarrow> bool" where
  "transition_path s [] t = (s = t)"
| "transition_path s (c # cs) t =
     (ct_from c = s \<and> (diagram_edge s (ct_to c) \<or> s = CbOpen \<and> ct_to c = CbClosed) \<and> transition_path (ct_to c) cs t)"

text \<open>The successes of a run that are recorded while the breaker is open, by calls that were let through before.\<close>

fun late_successes :: "circuit_config \<Rightarrow> breaker_event list \<Rightarrow> breaker_state \<Rightarrow> nat" where
  "late_successes cfg [] st = 0"
| "late_successes cfg (e # es) st =
     (case e of EvSuccess _ \<Rightarrow> if bs_current st = CbOpen then 1 else 0 | _ \<Rightarrow> 0) + late_successes cfg es (snd (breaker_apply cfg e st))"

lemma transition_path_append [simp]:
  "transition_path s (xs @ ys) t \<longleftrightarrow> (\<exists>u. transition_path s xs u \<and> transition_path u ys t)"
  by (induction xs arbitrary: s) auto

lemma breaker_new_wf [simp]: "breaker_wf cfg breaker_new"
  by (simp add: breaker_wf_def breaker_new_def)

lemma breaker_apply_wf: "breaker_wf cfg st \<Longrightarrow> breaker_wf cfg (snd (breaker_apply cfg e st))"
  by (cases e; cases "bs_current st")
    (auto simp: breaker_wf_def before_call_def record_success_def record_failure_def drain_transitions_def Let_def not_le)

lemma breaker_apply_path:
  assumes "breaker_wf cfg st" "transition_path s (bs_transitions st) (bs_current st)"
  shows "transition_path s (fst (breaker_apply cfg e st) @ bs_transitions (snd (breaker_apply cfg e st)))
           (bs_current (snd (breaker_apply cfg e st)))"
  using assms by (cases e; cases "bs_current st")
    (auto simp: breaker_wf_def before_call_def record_success_def record_failure_def drain_transitions_def Let_def)

lemma breaker_run_wf: "breaker_wf cfg st \<Longrightarrow> breaker_wf cfg (snd (breaker_run cfg es st))"
proof (induction es arbitrary: st)
  case (Cons e es)
  from Cons.IH[OF breaker_apply_wf[OF Cons.prems, of e]] show ?case by (simp add: case_prod_beta)
qed simp

lemma breaker_apply_drained:
  "e \<noteq> EvDrain \<Longrightarrow> fst (breaker_apply cfg e st) = []"
  by (cases e) auto

lemma breaker_run_path:
  assumes "breaker_wf cfg st" "transition_path s (bs_transitions st) (bs_current st)"
  shows "transition_path s (fst (breaker_run cfg es st) @ bs_transitions (snd (breaker_run cfg es st)))
           (bs_current (snd (breaker_run cfg es st)))"
  using assms
proof (induction es arbitrary: s st)
  case (Cons e es)
  let ?ts = "fst (breaker_apply cfg e st)" and ?st = "snd (breaker_apply cfg e st)"
  obtain u where u: "transition_path s ?ts u" "transition_path u (bs_transitions ?st) (bs_current ?st)"
    using breaker_apply_path[OF Cons.prems, of e] by auto
  from Cons.IH[OF breaker_apply_wf[OF Cons.prems(1)] u(2)] u(1)
  show ?case by (auto simp: case_prod_beta)
qed simp

text \<open>Failures without a success in between open the breaker.\<close>

fun failures_of :: "breaker_event list \<Rightarrow> nat" where
  "failures_of [] = 0"
| "failures_of (EvFailure _ # es) = Suc (failures_of es)"
| "failures_of (_ # es) = failures_of es"

definition no_success :: "breaker_event list \<Rightarrow> bool" where
  "no_success es = list_all (\<lambda>e. case e of EvSuccess _ \<Rightarrow> False | _ \<Rightarrow> True) es"

lemma unat_saturating_succ32: "unat (saturating_succ32 n) = min (unat n + 1) (2 ^ 32 - 1)"
proof (cases "n = - 1")
  case True
  have "unat (- 1 :: 32 word) = 2 ^ 32 - 1" by (simp add: unsigned_minus_1_eq_mask mask_eq_exp_minus_1)
  then show ?thesis by (simp add: saturating_succ32_def True)
next
  case False
  then have "n + 1 \<noteq> 0" by (simp add: eq_neg_iff_add_eq_0)
  then have "unat (n + 1) = unat n + 1" using unatSuc[of n] by (simp add: add.commute)
  moreover have "unat (n + 1) < 2 ^ 32" using unsigned_less[of "n + 1"] by simp
  ultimately show ?thesis using False by (simp add: saturating_succ32_def)
qed

lemma failures_open:
  assumes "breaker_wf cfg st" "no_success es" "cc_failure_threshold cfg \<noteq> 0"
    and "unat (cc_failure_threshold cfg) \<le> unat (bs_consecutive_failures st) + failures_of es"
  shows "bs_current (snd (breaker_run cfg es st)) \<noteq> CbClosed"
  using assms
proof (induction es arbitrary: st)
  case Nil
  then show ?case by (auto simp: breaker_wf_def word_less_nat_alt unat_eq_zero)
next
  case (Cons e es)
  let ?st = "snd (breaker_apply cfg e st)"
  have wf: "breaker_wf cfg ?st" using breaker_apply_wf[OF Cons.prems(1)] .
  have ns: "no_success es" using Cons.prems(2) by (simp add: no_success_def)
  have lim: "unat (cc_failure_threshold cfg) < 2 ^ 32" using unsigned_less[of "cc_failure_threshold cfg"] by simp
  have "unat (cc_failure_threshold cfg) \<le> unat (bs_consecutive_failures ?st) + failures_of es"
  proof (cases e)
    case (EvFailure now)
    then have "bs_consecutive_failures ?st = saturating_succ32 (bs_consecutive_failures st)"
      by (simp add: record_failure_def Let_def)
    then show ?thesis using Cons.prems(4) EvFailure lim by (simp add: unat_saturating_succ32)
  next
    case (EvGate now)
    then have "bs_consecutive_failures ?st = bs_consecutive_failures st"
      by (simp add: before_call_def Let_def split: gate_verdict.split)
    then show ?thesis using Cons.prems(4) EvGate by simp
  qed (use Cons.prems in \<open>simp_all add: no_success_def drain_transitions_def\<close>)
  from Cons.IH[OF wf ns Cons.prems(3) this] show ?case by (simp add: case_prod_beta)
qed

lemma before_call_Ok_iff:
  assumes "breaker_wf cfg st"
  shows "is_ok (fst (before_call cfg now st)) \<longleftrightarrow>
    bs_current st = CbClosed \<or> bs_current st = CbOpen \<and> cooldown_elapsed cfg now st"
  using assms by (cases "bs_current st") (auto simp: before_call_def breaker_wf_def Let_def)

lemma half_open_refuses:
  assumes "bs_current st = CbHalfOpen" "bs_probe_in_flight st"
  shows "before_call cfg now st = (Err (Decision (Unavailable ''circuit half-open probe in flight'')), st)"
  using assms by (simp add: before_call_def)

lemma breaker_apply_off_diagram:
  assumes "breaker_wf cfg st"
  shows "length (filter off_diagram (fst (breaker_apply cfg e st) @ bs_transitions (snd (breaker_apply cfg e st)))) =
    length (filter off_diagram (bs_transitions st)) + (case e of EvSuccess _ \<Rightarrow> if bs_current st = CbOpen then 1 else 0 | _ \<Rightarrow> 0)"
  using assms by (cases e; cases "bs_current st")
    (auto simp: breaker_wf_def before_call_def record_success_def record_failure_def drain_transitions_def off_diagram_def Let_def)

lemma breaker_run_off_diagram:
  assumes "breaker_wf cfg st"
  shows "length (filter off_diagram (fst (breaker_run cfg es st) @ bs_transitions (snd (breaker_run cfg es st)))) =
    length (filter off_diagram (bs_transitions st)) + late_successes cfg es st"
  using assms
proof (induction es arbitrary: st)
  case (Cons e es)
  from Cons.IH[OF breaker_apply_wf[OF Cons.prems, of e]] breaker_apply_off_diagram[OF Cons.prems, of e]
  show ?case by (simp add: case_prod_beta)
qed simp


end
