(* ===== verification/PolicyClient.thy ===== *)
theory PolicyClient
  imports Json "HOL-Library.Monad_Syntax"
begin

text \<open>
  The Unix-socket client of the policy sidecar, \<^verbatim>\<open>src/crates/adapters/src/policy_engine_client.rs\<close>: the
  request envelopes, the round trip with its timeouts, and the response parsers.

  What the socket does during one round trip is the record \<open>ipc_io\<close> (connect, write, read of one
  line), each step finishing, failing with the text of an I/O error or exceeding its timeout.  The
  two timeouts enter the code's results only through their printed form.  The request id is the
  UUID the client generates for the request.
\<close>

section \<open>Errors\<close>

datatype ipc_error =
    IpcConnect string
  | IpcTimeout string
  | IpcEof
  | MalformedResponse string
  | SidecarReportedError string
  | RequestIdMismatch string string

fun ipc_kind :: "ipc_error \<Rightarrow> string" where
  "ipc_kind (IpcConnect _) = ''IpcConnect''"
| "ipc_kind (IpcTimeout _) = ''IpcTimeout''"
| "ipc_kind IpcEof = ''IpcEof''"
| "ipc_kind (MalformedResponse _) = ''MalformedResponse''"
| "ipc_kind (SidecarReportedError _) = ''SidecarReportedError''"
| "ipc_kind (RequestIdMismatch _ _) = ''RequestIdMismatch''"

fun ipc_detail :: "ipc_error \<Rightarrow> string" where
  "ipc_detail (IpcConnect s) = ''ipc_connect:'' @ s"
| "ipc_detail (IpcTimeout s) = ''ipc_timeout:'' @ s"
| "ipc_detail IpcEof = ''ipc_eof''"
| "ipc_detail (MalformedResponse s) = ''malformed_response:'' @ s"
| "ipc_detail (SidecarReportedError s) = ''sidecar_error:'' @ s"
| "ipc_detail (RequestIdMismatch e g) = ''request_id_mismatch:'' @ e @ '' vs '' @ g"

section \<open>Payloads\<close>

record authorize_policy_request =
  apr_action :: string
  apr_subject :: string
  apr_now :: f64
  apr_metadata :: json

record policy_decision =
  pd_allowed :: bool
  pd_reason :: string
  pd_metadata :: json

record audit_append_request =
  au_unit_id :: string
  au_action_name :: string
  au_payload :: json
  au_success :: bool
  au_error :: "string option"
  au_started_at :: f64
  au_ended_at :: f64

record audit_chain_entry =
  ace_outcome_id :: string
  ace_record_hash :: string
  ace_chain_entry :: json

record ipc_module_authorize_request =
  mar_event_kind :: string
  mar_module_path :: string
  mar_caller_subject :: string
  mar_caller_run_id :: string
  mar_event_fingerprint :: string
  mar_expected_required_patterns :: "string list option"
  mar_metadata :: "json option"

record ipc_module_authorize_response =
  mas_decision :: string
  mas_reason :: "string option"
  mas_registered_at_unix_ms :: "int option"

record ipc_module_register_request =
  mrr_module_path :: string
  mrr_required_patterns_regex_set :: "string list"
  mrr_caller_subject :: string

record ipc_module_register_response =
  mrs_registered_at_unix_ms :: int
  mrs_revoked_at_unix_ms :: "int option"
  mrs_conflict :: bool

record ipc_audit_event_request =
  aer_event_kind :: string
  aer_subject :: string
  aer_metadata :: "json btree option"

record ipc_status_decision_row =
  sdr_ts_unix_ms :: int
  sdr_decision :: string
  sdr_caller_run_id :: string
  sdr_token_sha256 :: string

record ipc_module_status_response =
  mss_module_path :: string
  mss_required_patterns_regex_set :: "string list"
  mss_registered_at_unix_ms :: int
  mss_registered_by :: string
  mss_revoked_at_unix_ms :: "int option"
  mss_recent_decisions :: "ipc_status_decision_row list"

section \<open>Envelopes\<close>

definition json_from_opt :: "('a \<Rightarrow> json) \<Rightarrow> 'a option \<Rightarrow> json" where
  "json_from_opt f x = (case x of None \<Rightarrow> JNull | Some y \<Rightarrow> f y)"

definition json_from_strings :: "string list \<Rightarrow> json" where
  "json_from_strings ss = JArray (map JString ss)"

definition ipc_envelope :: "string \<Rightarrow> string \<Rightarrow> json \<Rightarrow> json" where
  "ipc_envelope op request_id payload = JObject (bt_of_list
     [(''op'', JString op), (''request_id'', JString request_id), (''payload'', payload)])"

definition authorize_envelope :: "string \<Rightarrow> authorize_policy_request \<Rightarrow> json" where
  "authorize_envelope request_id req = ipc_envelope ''authorize'' request_id (JObject (bt_of_list
     [(''action'', JString (apr_action req)), (''subject'', JString (apr_subject req)),
      (''now'', json_from_f64 (apr_now req)), (''metadata'', apr_metadata req)]))"

definition audit_append_envelope :: "string \<Rightarrow> audit_append_request \<Rightarrow> json" where
  "audit_append_envelope request_id req = ipc_envelope ''audit_append'' request_id (JObject (bt_of_list
     [(''unit_id'', JString (au_unit_id req)), (''action_name'', JString (au_action_name req)),
      (''payload'', au_payload req), (''success'', JBool (au_success req)),
      (''error'', json_from_opt_str (au_error req)), (''started_at'', json_from_f64 (au_started_at req)),
      (''ended_at'', json_from_f64 (au_ended_at req))]))"

definition policy_authorize_envelope :: "string \<Rightarrow> ipc_module_authorize_request \<Rightarrow> json" where
  "policy_authorize_envelope request_id req = ipc_envelope ''policy_authorize'' request_id (JObject (bt_of_list
     [(''event_kind'', JString (mar_event_kind req)), (''module_path'', JString (mar_module_path req)),
      (''caller_subject'', JString (mar_caller_subject req)), (''caller_run_id'', JString (mar_caller_run_id req)),
      (''event_fingerprint'', JString (mar_event_fingerprint req)),
      (''expected_required_patterns'', json_from_opt json_from_strings (mar_expected_required_patterns req)),
      (''metadata'', json_from_opt id (mar_metadata req))]))"

definition policy_register_envelope :: "string \<Rightarrow> ipc_module_register_request \<Rightarrow> json" where
  "policy_register_envelope request_id req = ipc_envelope ''policy_register'' request_id (JObject (bt_of_list
     [(''module_path'', JString (mrr_module_path req)),
      (''required_patterns_regex_set'', json_from_strings (mrr_required_patterns_regex_set req)),
      (''caller_subject'', JString (mrr_caller_subject req))]))"

definition policy_audit_event_envelope :: "string \<Rightarrow> ipc_audit_event_request \<Rightarrow> json" where
  "policy_audit_event_envelope request_id req = ipc_envelope ''policy_audit_event'' request_id (JObject (bt_of_list
     [(''event_kind'', JString (aer_event_kind req)), (''subject'', JString (aer_subject req)),
      (''metadata'', json_from_opt JObject (aer_metadata req))]))"

definition policy_status_envelope :: "string \<Rightarrow> string \<Rightarrow> json" where
  "policy_status_envelope request_id module_path = ipc_envelope ''policy_status'' request_id (JObject (bt_of_list
     [(''module_path'', JString module_path)]))"

section \<open>The round trip\<close>

datatype 'a io_step = IoDone 'a | IoFailed string | IoElapsed

record ipc_io =
  io_connect :: "unit io_step"
  io_write :: "unit io_step"
  io_read :: "string io_step"

record policy_engine_client =
  pe_connect_timeout :: string
  pe_request_timeout :: string

definition trim_line_end :: "string \<Rightarrow> string" where
  "trim_line_end s = rev (dropWhile (\<lambda>c. c = CHR 0x0A \<or> c = CHR 0x0D) (rev s))"

fun parse_line :: "libs \<Rightarrow> string \<Rightarrow> (ipc_error, json) result" where
  "parse_line L buf =
     (if buf = [] then Err IpcEof
      else case json_from_slice L (as_bytes (trim_line_end buf)) of
          Inl e \<Rightarrow> Err (MalformedResponse (''parse:'' @ e))
        | Inr (JObject m) \<Rightarrow> Ok (JObject m)
        | Inr _ \<Rightarrow> Err (MalformedResponse ''not_object''))"

definition round_trip :: "libs \<Rightarrow> policy_engine_client \<Rightarrow> (string \<Rightarrow> ipc_io) \<Rightarrow> json \<Rightarrow> (ipc_error, json) result" where
  "round_trip L c sidecar envelope =
     (let io = sidecar (json_to_string L envelope @ [CHR 0x0A]) in
      case io_connect io of
        IoFailed e \<Rightarrow> Err (IpcConnect e)
      | IoElapsed \<Rightarrow> Err (IpcTimeout (''connect:'' @ pe_connect_timeout c))
      | IoDone _ \<Rightarrow>
          (case io_write io of
             IoFailed e \<Rightarrow> Err (MalformedResponse (''write:'' @ e))
           | IoElapsed \<Rightarrow> Err (IpcTimeout (''write:'' @ pe_request_timeout c))
           | IoDone _ \<Rightarrow>
               (case io_read io of
                  IoFailed e \<Rightarrow> Err (MalformedResponse (''read:'' @ e))
                | IoElapsed \<Rightarrow> Err (IpcTimeout (''read:'' @ pe_request_timeout c))
                | IoDone buf \<Rightarrow> parse_line L buf)))"

section \<open>Response parsers\<close>

fun json_get :: "json \<Rightarrow> string \<Rightarrow> json option" where
  "json_get (JObject m) k = bt_get m k"
| "json_get _ k = None"

fun json_as_bool :: "json \<Rightarrow> bool option" where
  "json_as_bool (JBool b) = Some b"
| "json_as_bool _ = None"

fun json_as_i64 :: "json \<Rightarrow> int option" where
  "json_as_i64 (JNumber (PosInt n)) = (if n < 2 ^ 63 then Some (int n) else None)"
| "json_as_i64 (JNumber (NegInt i)) = Some i"
| "json_as_i64 _ = None"

definition get_with :: "(json \<Rightarrow> 'a option) \<Rightarrow> json \<Rightarrow> string \<Rightarrow> 'a option" where
  "get_with f v k = Option.bind (json_get v k) f"

text \<open>The checks every parser starts with: the flag, the echoed request id, the reported error.\<close>

definition check_envelope :: "json \<Rightarrow> string \<Rightarrow> (ipc_error, unit) result" where
  "check_envelope resp expected_request_id =
     res_bind (ok_or (MalformedResponse ''missing_ok'') (get_with json_as_bool resp ''ok'')) (\<lambda>ok.
       let echoed_rid = (case get_with json_as_str resp ''request_id'' of None \<Rightarrow> [] | Some s \<Rightarrow> s) in
       if echoed_rid \<noteq> expected_request_id then Err (RequestIdMismatch expected_request_id echoed_rid)
       else if \<not> ok then Err (SidecarReportedError
         (case get_with json_as_str resp ''error'' of None \<Rightarrow> ''unspecified'' | Some s \<Rightarrow> s))
       else Ok ())"

definition validate_envelope :: "json \<Rightarrow> string \<Rightarrow> string \<Rightarrow> (ipc_error, json) result" where
  "validate_envelope resp expected_request_id result_key =
     res_bind (check_envelope resp expected_request_id) (\<lambda>_.
       ok_or (MalformedResponse (''missing_'' @ result_key)) (json_get resp result_key))"

definition parse_authorize_response :: "json \<Rightarrow> string \<Rightarrow> (ipc_error, policy_decision) result" where
  "parse_authorize_response resp expected_request_id =
     res_bind (check_envelope resp expected_request_id) (\<lambda>_.
     res_bind (ok_or (MalformedResponse ''missing_decision'') (json_get resp ''decision'')) (\<lambda>decision.
     res_bind (ok_or (MalformedResponse ''missing_decision.allowed'') (get_with json_as_bool decision ''allowed'')) (\<lambda>allowed.
       Ok \<lparr>pd_allowed = allowed,
           pd_reason = (case get_with json_as_str decision ''reason'' of None \<Rightarrow> [] | Some s \<Rightarrow> s),
           pd_metadata = (case json_get decision ''metadata'' of None \<Rightarrow> JObject [] | Some m \<Rightarrow> m)\<rparr>)))"

definition parse_audit_append_response :: "json \<Rightarrow> string \<Rightarrow> (ipc_error, audit_chain_entry) result" where
  "parse_audit_append_response resp expected_request_id =
     res_bind (check_envelope resp expected_request_id) (\<lambda>_.
     res_bind (ok_or (MalformedResponse ''missing_outcome_id'') (get_with json_as_str resp ''outcome_id'')) (\<lambda>outcome_id.
     res_bind (ok_or (MalformedResponse ''missing_record_hash'') (get_with json_as_str resp ''record_hash'')) (\<lambda>record_hash.
       Ok \<lparr>ace_outcome_id = outcome_id, ace_record_hash = record_hash,
           ace_chain_entry = (case json_get resp ''chain_entry'' of None \<Rightarrow> JObject [] | Some m \<Rightarrow> m)\<rparr>)))"

definition parse_policy_authorize_response :: "json \<Rightarrow> string \<Rightarrow> (ipc_error, ipc_module_authorize_response) result" where
  "parse_policy_authorize_response resp expected_request_id =
     res_bind (validate_envelope resp expected_request_id ''decision'') (\<lambda>decision_obj.
     res_bind (ok_or (MalformedResponse ''missing_decision.decision'') (get_with json_as_str decision_obj ''decision'')) (\<lambda>decision.
       Ok \<lparr>mas_decision = decision, mas_reason = get_with json_as_str decision_obj ''reason'',
           mas_registered_at_unix_ms = get_with json_as_i64 decision_obj ''registered_at_unix_ms''\<rparr>))"

definition parse_policy_register_response :: "json \<Rightarrow> string \<Rightarrow> (ipc_error, ipc_module_register_response) result" where
  "parse_policy_register_response resp expected_request_id =
     res_bind (validate_envelope resp expected_request_id ''result'') (\<lambda>result.
     res_bind (ok_or (MalformedResponse ''missing_result.registered_at_unix_ms'')
       (get_with json_as_i64 result ''registered_at_unix_ms'')) (\<lambda>registered_at_unix_ms.
       Ok \<lparr>mrs_registered_at_unix_ms = registered_at_unix_ms,
           mrs_revoked_at_unix_ms = get_with json_as_i64 result ''revoked_at_unix_ms'',
           mrs_conflict = (case get_with json_as_bool result ''conflict'' of None \<Rightarrow> False | Some b \<Rightarrow> b)\<rparr>))"

definition parse_policy_audit_event_response :: "json \<Rightarrow> string \<Rightarrow> (ipc_error, int) result" where
  "parse_policy_audit_event_response resp expected_request_id =
     res_bind (validate_envelope resp expected_request_id ''result'') (\<lambda>result.
       ok_or (MalformedResponse ''missing_result.ts_unix_ms'') (get_with json_as_i64 result ''ts_unix_ms''))"

text \<open>
  The derived \<^verbatim>\<open>Deserialize\<close> of the status payload: a struct is read from an object (unknown keys
  ignored, a missing optional field absent) or from an array with one element per field.
\<close>

definition struct_fields :: "string list \<Rightarrow> json \<Rightarrow> (string \<Rightarrow> json option) option" where
  "struct_fields ks v =
     (case v of JObject m \<Rightarrow> Some (bt_get m)
      | JArray xs \<Rightarrow> if length xs = length ks then Some (map_of (zip ks xs)) else None
      | _ \<Rightarrow> None)"

fun json_strings :: "json list \<Rightarrow> string list option" where
  "json_strings [] = Some []"
| "json_strings (v # vs) = do { s \<leftarrow> json_as_str v; ss \<leftarrow> json_strings vs; Some (s # ss) }"

fun de_strings :: "json \<Rightarrow> string list option" where
  "de_strings (JArray vs) = json_strings vs"
| "de_strings _ = None"

fun de_opt_i64 :: "json option \<Rightarrow> int option option" where
  "de_opt_i64 None = Some None"
| "de_opt_i64 (Some JNull) = Some None"
| "de_opt_i64 (Some v) = map_option Some (json_as_i64 v)"

definition de_status_row :: "json \<Rightarrow> ipc_status_decision_row option" where
  "de_status_row v = do {
     f \<leftarrow> struct_fields [''ts_unix_ms'', ''decision'', ''caller_run_id'', ''token_sha256''] v;
     ts \<leftarrow> Option.bind (f ''ts_unix_ms'') json_as_i64;
     decision \<leftarrow> Option.bind (f ''decision'') json_as_str;
     run_id \<leftarrow> Option.bind (f ''caller_run_id'') json_as_str;
     sha \<leftarrow> Option.bind (f ''token_sha256'') json_as_str;
     Some \<lparr>sdr_ts_unix_ms = ts, sdr_decision = decision, sdr_caller_run_id = run_id, sdr_token_sha256 = sha\<rparr> }"

fun de_status_rows :: "json list \<Rightarrow> ipc_status_decision_row list option" where
  "de_status_rows [] = Some []"
| "de_status_rows (v # vs) = do { r \<leftarrow> de_status_row v; rs \<leftarrow> de_status_rows vs; Some (r # rs) }"

definition de_status :: "json \<Rightarrow> ipc_module_status_response option" where
  "de_status v = do {
     f \<leftarrow> struct_fields [''module_path'', ''required_patterns_regex_set'', ''registered_at_unix_ms'', ''registered_by'',
            ''revoked_at_unix_ms'', ''recent_decisions''] v;
     path \<leftarrow> Option.bind (f ''module_path'') json_as_str;
     patterns \<leftarrow> Option.bind (f ''required_patterns_regex_set'') de_strings;
     registered_at \<leftarrow> Option.bind (f ''registered_at_unix_ms'') json_as_i64;
     registered_by \<leftarrow> Option.bind (f ''registered_by'') json_as_str;
     revoked_at \<leftarrow> de_opt_i64 (f ''revoked_at_unix_ms'');
     recent \<leftarrow> Option.bind (f ''recent_decisions'') (\<lambda>r. case r of JArray vs \<Rightarrow> de_status_rows vs | _ \<Rightarrow> None);
     Some \<lparr>mss_module_path = path, mss_required_patterns_regex_set = patterns, mss_registered_at_unix_ms = registered_at,
       mss_registered_by = registered_by, mss_revoked_at_unix_ms = revoked_at, mss_recent_decisions = recent\<rparr> }"

text \<open>The text of a decoding error is the parameter \<open>emsg\<close>.\<close>

definition parse_policy_status_response :: "(json \<Rightarrow> string) \<Rightarrow> json \<Rightarrow> string \<Rightarrow>
    (ipc_error, ipc_module_status_response option) result" where
  "parse_policy_status_response emsg resp expected_request_id =
     res_bind (check_envelope resp expected_request_id) (\<lambda>_.
       case json_get resp ''result'' of
         None \<Rightarrow> Err (MalformedResponse ''missing_result'')
       | Some result \<Rightarrow>
           if result = JNull then Ok None
           else (case de_status result of
               None \<Rightarrow> Err (MalformedResponse (''status_payload:'' @ emsg result))
             | Some inner \<Rightarrow> Ok (Some inner)))"

section \<open>Client operations\<close>

definition ipc_authorize :: "libs \<Rightarrow> policy_engine_client \<Rightarrow> (string \<Rightarrow> ipc_io) \<Rightarrow> string \<Rightarrow> authorize_policy_request \<Rightarrow>
    (ipc_error, policy_decision) result" where
  "ipc_authorize L c sidecar request_id req =
     res_bind (round_trip L c sidecar (authorize_envelope request_id req)) (\<lambda>resp. parse_authorize_response resp request_id)"

definition ipc_audit_append :: "libs \<Rightarrow> policy_engine_client \<Rightarrow> (string \<Rightarrow> ipc_io) \<Rightarrow> string \<Rightarrow> audit_append_request \<Rightarrow>
    (ipc_error, audit_chain_entry) result" where
  "ipc_audit_append L c sidecar request_id req =
     res_bind (round_trip L c sidecar (audit_append_envelope request_id req)) (\<lambda>resp. parse_audit_append_response resp request_id)"

definition ipc_policy_authorize :: "libs \<Rightarrow> policy_engine_client \<Rightarrow> (string \<Rightarrow> ipc_io) \<Rightarrow> string \<Rightarrow> ipc_module_authorize_request \<Rightarrow>
    (ipc_error, ipc_module_authorize_response) result" where
  "ipc_policy_authorize L c sidecar request_id req =
     res_bind (round_trip L c sidecar (policy_authorize_envelope request_id req)) (\<lambda>resp. parse_policy_authorize_response resp request_id)"

definition ipc_policy_register :: "libs \<Rightarrow> policy_engine_client \<Rightarrow> (string \<Rightarrow> ipc_io) \<Rightarrow> string \<Rightarrow> ipc_module_register_request \<Rightarrow>
    (ipc_error, ipc_module_register_response) result" where
  "ipc_policy_register L c sidecar request_id req =
     res_bind (round_trip L c sidecar (policy_register_envelope request_id req)) (\<lambda>resp. parse_policy_register_response resp request_id)"

definition ipc_policy_audit_event :: "libs \<Rightarrow> policy_engine_client \<Rightarrow> (string \<Rightarrow> ipc_io) \<Rightarrow> string \<Rightarrow> ipc_audit_event_request \<Rightarrow>
    (ipc_error, int) result" where
  "ipc_policy_audit_event L c sidecar request_id req =
     res_bind (round_trip L c sidecar (policy_audit_event_envelope request_id req)) (\<lambda>resp. parse_policy_audit_event_response resp request_id)"

definition ipc_policy_module_status :: "libs \<Rightarrow> policy_engine_client \<Rightarrow> (string \<Rightarrow> ipc_io) \<Rightarrow> (json \<Rightarrow> string) \<Rightarrow> string \<Rightarrow> string \<Rightarrow>
    (ipc_error, ipc_module_status_response option) result" where
  "ipc_policy_module_status L c sidecar emsg request_id module_path =
     res_bind (round_trip L c sidecar (policy_status_envelope request_id module_path)) (\<lambda>resp. parse_policy_status_response emsg resp request_id)"
end
