(* ===== verification/RevokeRoutes.thy ===== *)
theory RevokeRoutes
  imports TlogClient PolicyClient "HOL-Library.AList"
begin

text \<open>
  The coercive-shutdown handlers of the kernel, \<^verbatim>\<open>src/crates/services/safety-kernel/src/routes/revoke.rs\<close>, with
  the error envelope of \<^verbatim>\<open>dto.rs\<close>.

  The process-global stores and what a handler sends to the audit log are the record \<open>kernel_state\<close>;
  hash maps are association lists with distinct keys.  The clock readings, the nonce, the UUID and
  the answer of the transparency log during one request are the record \<open>kernel_env\<close>: the log answers
  as a function of the append it is sent, or the call times out.  The answer of the audit log is
  ignored by the handlers (they fail open on it), so each audit record sent is appended to \<open>ks_audit\<close>.

  A mint reads the generations before it waits for the log and queues afterwards, and a pull takes
  the locks of the queue and of the generations one after the other.  So \<open>mint_revoke_at\<close> and \<open>pending_revoke_at\<close>
  take the generations they read as an argument; \<open>mint_revoke\<close> and \<open>pending_revoke_route\<close> are the requests that
  nothing interrupts, and \<open>revoke_step\<close> has the locked sections as its steps.
\<close>

section \<open>Envelopes\<close>

record error_response =
  er_ok :: bool
  er_error :: string
  er_reason :: "string option"

definition er_simple :: "string \<Rightarrow> error_response" where
  "er_simple error = \<lparr>er_ok = False, er_error = error, er_reason = None\<rparr>"

definition er_with_reason :: "string \<Rightarrow> string \<Rightarrow> error_response" where
  "er_with_reason error reason = \<lparr>er_ok = False, er_error = error, er_reason = Some reason\<rparr>"

datatype 'a kernel_reply = KJson 'a | KDeny nat error_response | KNoContent

section \<open>State\<close>

record pending_revoke =
  pe_run_id :: string
  pe_token :: string
  pe_expires_at :: f64

type_synonym pending_store = "(string \<times> pending_revoke list) list"
type_synonym generation_store = "(instance_target \<times> u64) list"

record kernel_state =
  ks_pending :: pending_store
  ks_generations :: generation_store
  ks_audit :: "audit_append_request list"

datatype tlog_answer = TlogElapsed | TlogAnswered "(transparency_error, transparency_append_outcome) result"

record kernel_config =
  kc_signing_key :: "256 word"
  kc_revoke_token_ttl_s :: int
  kc_default_token_ttl_s :: int
  kc_max_token_ttl_s :: int
  kc_approval_token_ttl_s :: int
  kc_build_version :: string
  kc_public_key_b64 :: string
  kc_public_key_fingerprint :: string

record kernel_env =
  ke_now :: f64
  ke_ended_at :: f64
  ke_nonce :: string
  ke_uuid :: string
  ke_tlog :: "(append_input \<Rightarrow> tlog_answer) option"

section \<open>The pending store\<close>

definition enqueue_pending :: "string \<Rightarrow> pending_revoke \<Rightarrow> f64 \<Rightarrow> pending_store \<Rightarrow> pending_store" where
  "enqueue_pending inst entry now store =
     (let list = (case map_of store inst of None \<Rightarrow> [] | Some l \<Rightarrow> l) in
      AList.update inst (filter (\<lambda>p. f64_lt now (pe_expires_at p)) list @ [entry]) store)"

definition drain_live_tokens :: "string \<Rightarrow> f64 \<Rightarrow> pending_store \<Rightarrow> string list \<times> pending_store" where
  "drain_live_tokens inst now store =
     (case map_of store inst of
        None \<Rightarrow> ([], store)
      | Some list \<Rightarrow>
          let live = filter (\<lambda>p. f64_lt now (pe_expires_at p)) list in
          (map pe_token live, AList.update inst live store))"

definition clear_pending :: "string \<Rightarrow> pending_store \<Rightarrow> bool \<times> pending_store" where
  "clear_pending run_id store =
     (let store' = map (\<lambda>(i, list). (i, filter (\<lambda>p. pe_run_id p \<noteq> run_id) list)) store in
      (list_ex (\<lambda>(i, list). length (filter (\<lambda>p. pe_run_id p \<noteq> run_id) list) \<noteq> length list) store, store'))"

section \<open>Grant generations\<close>

definition gen_current :: "generation_store \<Rightarrow> instance_target \<Rightarrow> u64" where
  "gen_current gs target = (case map_of gs target of None \<Rightarrow> 0 | Some g \<Rightarrow> g)"

definition gen_increment :: "generation_store \<Rightarrow> instance_target \<Rightarrow> u64 \<times> generation_store" where
  "gen_increment gs target =
     (let entry = saturating_add (gen_current gs target) 1 in (entry, AList.update target entry gs))"

definition gen_current_for_instance :: "generation_store \<Rightarrow> string \<Rightarrow> u64" where
  "gen_current_for_instance gs inst =
     (case map snd (filter (\<lambda>(t, _). it_instance t = inst) gs) of
        [] \<Rightarrow> 0 | g # rest \<Rightarrow> foldl max g rest)"

section \<open>Helpers\<close>

definition occurred_at :: "f64 \<Rightarrow> nat" where
  "occurred_at now = (if f64_is_finite now \<and> f64_le (Finite 0) now then f64_as_u64 now else 0)"

definition tlog_input :: "libs \<Rightarrow> string \<Rightarrow> f64 \<Rightarrow> append_input" where
  "tlog_input L token now =
     \<lparr>ai_idempotency_key = idempotency_key_for_token L token, ai_payload = as_bytes token,
      ai_occurred_at_epoch_seconds = occurred_at now\<rparr>"

definition tlog_append_failclosed :: "libs \<Rightarrow> (append_input \<Rightarrow> tlog_answer) option \<Rightarrow> string \<Rightarrow> f64 \<Rightarrow> (string, unit) result" where
  "tlog_append_failclosed L tlog token now =
     (case tlog of
        None \<Rightarrow> Ok ()
      | Some log_append \<Rightarrow>
          (case log_append (tlog_input L token now) of
             TlogAnswered (Inr _) \<Rightarrow> Ok ()
           | TlogAnswered (Inl e) \<Rightarrow>
               if e = TlConflict then Ok () else Err (''transparency_error:'' @ tl_kind e)
           | TlogElapsed \<Rightarrow> Err ''transparency_error:timeout''))"

definition audit_append :: "kernel_env \<Rightarrow> string \<Rightarrow> json \<Rightarrow> f64 \<Rightarrow> kernel_state \<Rightarrow> kernel_state" where
  "audit_append env action_name payload started_at st =
     st\<lparr>ks_audit := ks_audit st @
       [\<lparr>au_unit_id = ''safety_kernel'', au_action_name = action_name, au_payload = payload,
         au_success = True, au_error = None, au_started_at = started_at, au_ended_at = ke_ended_at env\<rparr>]\<rparr>"

section \<open>Handlers\<close>

definition mint_claims :: "libs \<Rightarrow> kernel_config \<Rightarrow> kernel_env \<Rightarrow> generation_store \<Rightarrow> mint_revoke_request \<Rightarrow> revoke_compute_claims" where
  "mint_claims L cfg env gs body =
     (let now = ke_now env;
          run_id = ''revoke_'' @ ke_uuid env;
          ttl = max (kc_revoke_token_ttl_s cfg) 30;
          target_generation = gen_current gs (mq_target body);
          fp = revoke_params_fingerprint L run_id (mq_target body) target_generation (mq_tier body) (mq_trigger body) (mq_reason body)
      in \<lparr>rc_aud = REVOKE_COMPUTE_AUD, rc_run_id = run_id, rc_subject = ''operator'', rc_params_fingerprint = fp,
          rc_issued_at = now, rc_expires_at = f64_add now (f64_of_int ttl), rc_nonce = ke_nonce env,
          rc_target = mq_target body, rc_target_generation = target_generation, rc_tier = mq_tier body,
          rc_trigger = mq_trigger body, rc_reason = mq_reason body\<rparr>)"

definition refusal_payload :: "instance_target \<Rightarrow> string \<Rightarrow> string \<Rightarrow> string \<Rightarrow> json" where
  "refusal_payload target caller run_id reason = JObject (bt_of_list
     [(''request'', JObject (bt_of_list [(''target'', target_to_value target), (''caller_role'', JString caller)])),
      (''run_id'', JString run_id), (''refused'', JString reason)])"

text \<open>
  The handlers take the locks of the two stores one after the other, and a mint waits for the
  transparency log in between.  \<open>mint_revoke_at\<close> and \<open>pending_revoke_at\<close> have the generations that the
  handler read as an argument of their own, beside the state in which they touch the queue; a
  restore is its fence followed by its entry in the queue.  The handlers without interference are
  \<open>mint_revoke\<close>, \<open>pending_revoke_route\<close> and \<open>restore_revoke\<close>.
\<close>

definition mint_revoke_at :: "libs \<Rightarrow> kernel_config \<Rightarrow> kernel_env \<Rightarrow> string \<Rightarrow> mint_revoke_request \<Rightarrow> generation_store \<Rightarrow> kernel_state \<Rightarrow>
    signed_revoke_response kernel_reply \<times> kernel_state" where
  "mint_revoke_at L cfg env caller body gens st =
     (if caller \<noteq> ''operator'' then (KDeny 403 (er_with_reason ''forbidden'' ''caller_role_not_operator''), st)
      else if mq_tier body \<noteq> VmStop then (KDeny 422 (er_with_reason ''unprocessable_entity'' ''tier_unsupported_phase1''), st)
      else
        let now = ke_now env;
            claims = mint_claims L cfg env gens body;
            token = sign_kernel_token L revoke_compute_claims_map claims (kc_signing_key cfg);
            tok_sha = token_sha256 L token;
            claims_map = revoke_compute_claims_map claims in
        (case tlog_append_failclosed L (ke_tlog env) token now of
           Inl reason \<Rightarrow>
             (KDeny 503 (er_with_reason ''unavailable'' ''revoke_not_recorded''),
              audit_append env ''kernel_revoke_compute_refused''
                (refusal_payload (mq_target body) caller (rc_run_id claims) reason) now st)
         | Inr _ \<Rightarrow>
             let st1 = st\<lparr>ks_pending := enqueue_pending (it_instance (mq_target body))
                   \<lparr>pe_run_id = rc_run_id claims, pe_token = token, pe_expires_at = rc_expires_at claims\<rparr> now (ks_pending st)\<rparr>;
                 audit_payload = JObject (bt_of_list
                   [(''request'', JObject (bt_of_list
                       [(''target'', target_to_value (mq_target body)), (''tier'', tier_to_value (mq_tier body)),
                        (''trigger'', trigger_to_value (mq_trigger body)), (''reason'', json_from_opt_str (mq_reason body)),
                        (''caller_role'', JString caller)])),
                    (''token_sha256'', JString tok_sha), (''claims'', JObject claims_map)])
             in (KJson \<lparr>sr_ok = True, sr_run_id = rc_run_id claims, sr_token = token, sr_token_sha256 = tok_sha, sr_claims = claims_map\<rparr>,
                 audit_append env ''kernel_revoke_compute'' audit_payload now st1)))"

definition mint_revoke :: "libs \<Rightarrow> kernel_config \<Rightarrow> kernel_env \<Rightarrow> string \<Rightarrow> mint_revoke_request \<Rightarrow> kernel_state \<Rightarrow>
    signed_revoke_response kernel_reply \<times> kernel_state" where
  "mint_revoke L cfg env caller body st = mint_revoke_at L cfg env caller body (ks_generations st) st"

definition pending_revoke_at :: "kernel_env \<Rightarrow> string \<Rightarrow> string \<Rightarrow> generation_store \<Rightarrow> kernel_state \<Rightarrow>
    pending_revoke_response kernel_reply \<times> kernel_state" where
  "pending_revoke_at env caller inst gens st =
     (if caller \<noteq> ''reaper'' \<and> caller \<noteq> ''operator'' then (KDeny 403 (er_with_reason ''forbidden'' ''caller_role_not_reaper''), st)
      else
        let (pending, store') = drain_live_tokens inst (ke_now env) (ks_pending st);
            st1 = st\<lparr>ks_pending := store'\<rparr> in
        if pending = [] then (KNoContent, st1)
        else (KJson \<lparr>pr_ok = True, pr_pending = pending,
                pr_current_grant_generation = gen_current_for_instance gens inst\<rparr>, st1))"

definition pending_revoke_route :: "kernel_env \<Rightarrow> string \<Rightarrow> string \<Rightarrow> kernel_state \<Rightarrow>
    pending_revoke_response kernel_reply \<times> kernel_state" where
  "pending_revoke_route env caller inst st = pending_revoke_at env caller inst (ks_generations st) st"

definition ack_revoke :: "kernel_env \<Rightarrow> string \<Rightarrow> revoke_ack_request \<Rightarrow> kernel_state \<Rightarrow>
    revoke_ack_response kernel_reply \<times> kernel_state" where
  "ack_revoke env caller body st =
     (if caller \<noteq> ''reaper'' \<and> caller \<noteq> ''operator'' then (KDeny 403 (er_with_reason ''forbidden'' ''caller_role_not_reaper''), st)
      else
        let (cleared, store') = clear_pending (aq_run_id body) (ks_pending st);
            payload = JObject (bt_of_list
              [(''run_id'', JString (aq_run_id body)), (''outcome'', JString (aq_outcome body)),
               (''cleared'', JBool cleared), (''caller_role'', JString caller)]) in
        (KJson \<lparr>ak_ok = True, ak_run_id = aq_run_id body, ak_cleared = cleared\<rparr>,
         audit_append env ''kernel_revoke_ack'' payload (ke_now env) (st\<lparr>ks_pending := store'\<rparr>)))"

definition restore_mint_claims :: "libs \<Rightarrow> kernel_config \<Rightarrow> kernel_env \<Rightarrow> restore_request \<Rightarrow> restore_claims" where
  "restore_mint_claims L cfg env body =
     (let now = ke_now env;
          run_id = ''restore_'' @ ke_uuid env;
          ttl = max (kc_revoke_token_ttl_s cfg) 30;
          fp = restore_params_fingerprint L run_id (rq_target body) (rq_reason body)
      in \<lparr>rs_aud = REVOKE_RESTORE_AUD, rs_run_id = run_id, rs_subject = ''operator'', rs_params_fingerprint = fp,
          rs_issued_at = now, rs_expires_at = f64_add now (f64_of_int ttl), rs_nonce = ke_nonce env,
          rs_target = rq_target body, rs_reason = rq_reason body\<rparr>)"

definition restore_fence :: "instance_target \<Rightarrow> kernel_state \<Rightarrow> u64 \<times> kernel_state" where
  "restore_fence target st = (let (new_generation, gs) = gen_increment (ks_generations st) target in (new_generation, st\<lparr>ks_generations := gs\<rparr>))"

definition restore_queue :: "libs \<Rightarrow> kernel_config \<Rightarrow> kernel_env \<Rightarrow> restore_request \<Rightarrow> kernel_state \<Rightarrow> kernel_state" where
  "restore_queue L cfg env body st =
     (let claims = restore_mint_claims L cfg env body;
          token = sign_kernel_token L restore_claims_map claims (kc_signing_key cfg) in
      st\<lparr>ks_pending := enqueue_pending (it_instance (rq_target body))
        \<lparr>pe_run_id = rs_run_id claims, pe_token = token, pe_expires_at = rs_expires_at claims\<rparr> (ke_now env) (ks_pending st)\<rparr>)"

definition restore_revoke :: "libs \<Rightarrow> kernel_config \<Rightarrow> kernel_env \<Rightarrow> string \<Rightarrow> restore_request \<Rightarrow> kernel_state \<Rightarrow>
    signed_revoke_response kernel_reply \<times> kernel_state" where
  "restore_revoke L cfg env caller body st =
     (if caller \<noteq> ''operator'' then (KDeny 403 (er_with_reason ''forbidden'' ''caller_role_not_operator''), st)
      else
        let now = ke_now env;
            claims = restore_mint_claims L cfg env body;
            token = sign_kernel_token L restore_claims_map claims (kc_signing_key cfg);
            tok_sha = token_sha256 L token;
            claims_map = restore_claims_map claims in
        (case tlog_append_failclosed L (ke_tlog env) token now of
           Inl reason \<Rightarrow>
             (KDeny 503 (er_with_reason ''unavailable'' ''revoke_not_recorded''),
              audit_append env ''kernel_revoke_restore_refused''
                (refusal_payload (rq_target body) caller (rs_run_id claims) reason) now st)
         | Inr _ \<Rightarrow>
             let (new_generation, st_fenced) = restore_fence (rq_target body) st;
                 st1 = restore_queue L cfg env body st_fenced;
                 audit_payload = JObject (bt_of_list
                   [(''request'', JObject (bt_of_list
                       [(''target'', target_to_value (rq_target body)), (''reason'', json_from_opt_str (rq_reason body)),
                        (''caller_role'', JString caller)])),
                    (''token_sha256'', JString tok_sha), (''new_grant_generation'', json_from_u64 new_generation),
                    (''claims'', JObject claims_map)])
             in (KJson \<lparr>sr_ok = True, sr_run_id = rs_run_id claims, sr_token = token, sr_token_sha256 = tok_sha, sr_claims = claims_map\<rparr>,
                 audit_append env ''kernel_revoke_restore'' audit_payload now st1)))"

section \<open>The contract of the generation store\<close>

lemma saturating_add_1:
  "a \<le> saturating_add a 1" "a \<noteq> - 1 \<Longrightarrow> a < saturating_add a (1 :: u64)"
proof -
  have lt: "unat a < 2 ^ 64" using unsigned_less[of a] by simp
  have m1: "unat (- 1 :: u64) = 2 ^ 64 - 1" by (simp add: unsigned_minus_1_eq_mask mask_eq_exp_minus_1)
  have u: "unat (saturating_add a 1) = (if unat a + 1 < 2 ^ 64 then unat a + 1 else 2 ^ 64 - 1)"
    using m1 by (simp add: saturating_add_def unat_add_lem[THEN iffD1])
  show "a \<le> saturating_add a 1" unfolding word_le_nat_alt u using lt by simp
  assume "a \<noteq> - 1"
  then have "unat a \<noteq> 2 ^ 64 - 1" using m1 by (metis word_unat_eq_iff)
  then show "a < saturating_add a 1" unfolding word_less_nat_alt u using lt by simp
qed

locale grant_generation_store =
  fixes inv :: "'s \<Rightarrow> bool"
    and current :: "'s \<Rightarrow> instance_target \<Rightarrow> u64"
    and increment :: "'s \<Rightarrow> instance_target \<Rightarrow> u64 \<times> 's"
    and current_for_instance :: "'s \<Rightarrow> string \<Rightarrow> u64"
  assumes increment_inv: "inv s \<Longrightarrow> inv (snd (increment s t))"
    and increment_current: "inv s \<Longrightarrow> current (snd (increment s t)) =
      (current s)(t := saturating_add (current s t) 1)"
    and increment_returns: "inv s \<Longrightarrow> fst (increment s t) = saturating_add (current s t) 1"
    and for_instance_upper: "inv s \<Longrightarrow> current s t \<le> current_for_instance s (it_instance t)"
    and for_instance_attained: "inv s \<Longrightarrow> current_for_instance s i \<noteq> 0 \<Longrightarrow>
      \<exists>t. it_instance t = i \<and> current s t = current_for_instance s i"
begin

lemma increment_mono: "inv s \<Longrightarrow> current s t \<le> current (snd (increment s u)) t"
  by (simp add: increment_current saturating_add_1)

lemma increment_strict: "inv s \<Longrightarrow> current s t \<noteq> - 1 \<Longrightarrow> current s t < current (snd (increment s t)) t"
  by (simp add: increment_current saturating_add_1)

lemma older_fenced: "inv s \<Longrightarrow> g < current s t \<Longrightarrow> current_for_instance s (it_instance t) \<noteq> g"
  using for_instance_upper[of s t] by auto

lemma unique_name_exact:
  assumes "inv s" "\<And>u. it_instance u = it_instance t \<Longrightarrow> u \<noteq> t \<Longrightarrow> current s u = 0"
  shows "current_for_instance s (it_instance t) = current s t"
proof (cases "current_for_instance s (it_instance t) = 0")
  case True
  then show ?thesis using for_instance_upper[OF assms(1), of t] by simp
next
  case False
  then obtain u where "it_instance u = it_instance t" "current s u = current_for_instance s (it_instance t)"
    using for_instance_attained[OF assms(1)] by blast
  then show ?thesis using assms(2)[of u] False by (cases "u = t") auto
qed

end

lemma foldl_max_bounds: "\<forall>x\<in>insert g (set rest). x \<le> foldl max (g :: 'a::linorder) rest"
proof (induction rest arbitrary: g)
  case (Cons y ys)
  have "max g y \<le> foldl max (max g y) ys" "\<forall>x\<in>set ys. x \<le> foldl max (max g y) ys"
    using Cons[of "max g y"] by blast+
  then show ?case by simp
qed simp

lemmas foldl_max_upper = foldl_max_bounds[rule_format]

lemma foldl_max_attained: "foldl max (g :: 'a::linorder) rest \<in> insert g (set rest)"
proof (induction rest arbitrary: g)
  case (Cons y ys)
  show ?case using Cons[of "max g y"] by (auto simp: max_def split: if_splits)
qed simp

lemma gen_for_instance_cases:
  "gen_current_for_instance gs i =
    (if filter (\<lambda>(t, _). it_instance t = i) gs = [] then 0
     else foldl max (snd (hd (filter (\<lambda>(t, _). it_instance t = i) gs)))
       (map snd (tl (filter (\<lambda>(t, _). it_instance t = i) gs))))"
  by (auto simp: gen_current_for_instance_def split: list.splits)

lemma gen_for_instance_upper:
  assumes "(t, g) \<in> set gs" "it_instance t = i"
  shows "g \<le> gen_current_for_instance gs i"
proof -
  have "(t, g) \<in> set (filter (\<lambda>(t, _). it_instance t = i) gs)" using assms by simp
  then show ?thesis
    unfolding gen_for_instance_cases
    by (cases "filter (\<lambda>(t, _). it_instance t = i) gs") (auto intro!: foldl_max_upper simp: image_iff, force)
qed

lemma gen_for_instance_attained:
  assumes "gen_current_for_instance gs i \<noteq> 0"
  shows "\<exists>t. it_instance t = i \<and> (t, gen_current_for_instance gs i) \<in> set gs"
proof -
  let ?f = "filter (\<lambda>(t, _). it_instance t = i) gs"
  have ne: "?f \<noteq> []" using assms unfolding gen_for_instance_cases by auto
  then have "gen_current_for_instance gs i \<in> snd ` set ?f"
    unfolding gen_for_instance_cases
    using foldl_max_attained[of "snd (hd ?f)" "map snd (tl ?f)"] by (cases ?f) auto
  then show ?thesis by auto
qed

interpretation mem_generations: grant_generation_store "\<lambda>gs. distinct (map fst gs)" gen_current gen_increment gen_current_for_instance
proof
  fix s :: generation_store and t i
  assume d: "distinct (map fst s)"
  show "distinct (map fst (snd (gen_increment s t)))"
    using d by (simp add: gen_increment_def Let_def distinct_update)
  show "gen_current (snd (gen_increment s t)) = (gen_current s)(t := saturating_add (gen_current s t) 1)"
    by (auto simp: gen_increment_def gen_current_def update_conv' Let_def)
  show "fst (gen_increment s t) = saturating_add (gen_current s t) 1"
    by (simp add: gen_increment_def Let_def)
  show "gen_current s t \<le> gen_current_for_instance s (it_instance t)"
    using d gen_for_instance_upper[of t _ s] by (auto simp: gen_current_def split: option.split dest: map_of_SomeD)
  assume "gen_current_for_instance s i \<noteq> 0"
  then obtain u where "it_instance u = i" "(u, gen_current_for_instance s i) \<in> set s"
    using gen_for_instance_attained by blast
  then show "\<exists>t. it_instance t = i \<and> gen_current s t = gen_current_for_instance s i"
    using d by (auto simp: gen_current_def intro!: exI[of _ u])
qed

section \<open>Runs of the service\<close>

text \<open>A request to the \<^verbatim>\<open>/kernel/v1/revoke\<close> router, with the role the authentication layer attached.\<close>

datatype revoke_request =
    ReqMint mint_revoke_request
  | ReqPending string
  | ReqAck revoke_ack_request
  | ReqRestore restore_request

fun revoke_service :: "libs \<Rightarrow> kernel_config \<Rightarrow> kernel_env \<times> string \<times> revoke_request \<Rightarrow> kernel_state \<Rightarrow> kernel_state" where
  "revoke_service L cfg (env, caller, ReqMint body) st = snd (mint_revoke L cfg env caller body st)"
| "revoke_service L cfg (env, caller, ReqPending inst) st = snd (pending_revoke_route env caller inst st)"
| "revoke_service L cfg (env, caller, ReqAck body) st = snd (ack_revoke env caller body st)"
| "revoke_service L cfg (env, caller, ReqRestore body) st = snd (restore_revoke L cfg env caller body st)"

definition revoke_run :: "libs \<Rightarrow> kernel_config \<Rightarrow> (kernel_env \<times> string \<times> revoke_request) list \<Rightarrow> kernel_state \<Rightarrow> kernel_state" where
  "revoke_run L cfg reqs st = foldl (\<lambda>st r. revoke_service L cfg r st) st reqs"

definition kernel_state_init :: kernel_state where
  "kernel_state_init = \<lparr>ks_pending = [], ks_generations = [], ks_audit = []\<rparr>"

definition pending_tokens :: "kernel_state \<Rightarrow> string set" where
  "pending_tokens st = (\<Union>(i, l)\<in>set (ks_pending st). pe_token ` set l)"

lemma revoke_run_simps [simp]:
  "revoke_run L cfg [] st = st"
  "revoke_run L cfg (r # rs) st = revoke_run L cfg rs (revoke_service L cfg r st)"
  by (simp_all add: revoke_run_def)

lemma audit_append_simps [simp]:
  "ks_pending (audit_append env a p s st) = ks_pending st"
  "ks_generations (audit_append env a p s st) = ks_generations st"
  by (simp_all add: audit_append_def)

lemma alist_update_subset: "set (AList.update k v al) \<subseteq> insert (k, v) (set al)"
  by (induction al) auto

lemma enqueue_tokens:
  "(i, l) \<in> set (enqueue_pending inst \<lparr>pe_run_id = r, pe_token = tok, pe_expires_at = e\<rparr> now store) \<Longrightarrow>
    p \<in> set l \<Longrightarrow> pe_token p = tok \<or> (\<exists>i l. (i, l) \<in> set store \<and> p \<in> set l)"
  using alist_update_subset[of inst _ store]
  by (fastforce simp: enqueue_pending_def Let_def split: option.splits dest: map_of_SomeD)

lemma drain_tokens:
  "(i, l) \<in> set (snd (drain_live_tokens inst now store)) \<Longrightarrow> p \<in> set l \<Longrightarrow> \<exists>i l. (i, l) \<in> set store \<and> p \<in> set l"
  using alist_update_subset[of inst _ store]
  by (fastforce simp: drain_live_tokens_def Let_def split: option.splits dest: map_of_SomeD)

lemma clear_tokens:
  "(i, l) \<in> set (snd (clear_pending run_id store)) \<Longrightarrow> p \<in> set l \<Longrightarrow> \<exists>i l. (i, l) \<in> set store \<and> p \<in> set l"
  by (fastforce simp: clear_pending_def Let_def)

text \<open>The only requests that put a token into the queue or change a generation.\<close>

definition queued_by :: "libs \<Rightarrow> kernel_config \<Rightarrow> kernel_state \<Rightarrow> kernel_env \<times> string \<times> revoke_request \<Rightarrow> string \<Rightarrow> bool" where
  "queued_by L cfg st r token \<longleftrightarrow>
     (case r of (env, caller, req) \<Rightarrow>
        caller = ''operator'' \<and> is_ok (tlog_append_failclosed L (ke_tlog env) token (ke_now env)) \<and>
        ((\<exists>body. req = ReqMint body \<and> mq_tier body = VmStop \<and>
            token = sign_kernel_token L revoke_compute_claims_map (mint_claims L cfg env (ks_generations st) body) (kc_signing_key cfg)) \<or>
         (\<exists>body. req = ReqRestore body \<and>
            token = sign_kernel_token L restore_claims_map (restore_mint_claims L cfg env body) (kc_signing_key cfg))))"

lemma service_queues:
  assumes "token \<in> pending_tokens (revoke_service L cfg r st)" "token \<notin> pending_tokens st"
  shows "queued_by L cfg st r token"
proof -
  obtain env caller req where r: "r = (env, caller, req)" by (cases r)
  obtain i l p where p: "(i, l) \<in> set (ks_pending (revoke_service L cfg r st))" "p \<in> set l" "pe_token p = token"
    using assms(1) by (auto simp: pending_tokens_def)
  have no: "\<nexists>i l. (i, l) \<in> set (ks_pending st) \<and> p \<in> set l"
    using assms(2) p(3) by (force simp: pending_tokens_def)
  show ?thesis
  proof (cases req)
    case (ReqMint body)
    then show ?thesis using p r no
      by (auto simp: queued_by_def mint_revoke_def mint_revoke_at_def Let_def split: if_splits sum.splits dest!: enqueue_tokens)
  next
    case (ReqPending inst)
    then have "ks_pending (revoke_service L cfg r st) \<in> {ks_pending st, snd (drain_live_tokens inst (ke_now env) (ks_pending st))}"
      by (auto simp: r pending_revoke_route_def pending_revoke_at_def Let_def split: prod.splits)
    then show ?thesis using p no drain_tokens[of i l inst "ke_now env" "ks_pending st" p] by auto
  next
    case (ReqAck body)
    then have "ks_pending (revoke_service L cfg r st) \<in> {ks_pending st, snd (clear_pending (aq_run_id body) (ks_pending st))}"
      by (auto simp: r ack_revoke_def Let_def split: prod.splits)
    then show ?thesis using p no clear_tokens[of i l "aq_run_id body" "ks_pending st" p] by auto
  next
    case (ReqRestore body)
    then show ?thesis using p r no
      by (auto simp: queued_by_def restore_revoke_def restore_fence_def restore_queue_def Let_def split: if_splits sum.splits prod.splits dest!: enqueue_tokens)
  qed
qed

lemma service_generations:
  "ks_generations (revoke_service L cfg r st) = ks_generations st \<or>
   (\<exists>env body. r = (env, ''operator'', ReqRestore body) \<and>
      ks_generations (revoke_service L cfg r st) = snd (gen_increment (ks_generations st) (rq_target body)))"
proof -
  obtain env caller req where r: "r = (env, caller, req)" by (cases r)
  show ?thesis
    by (cases req)
      (auto simp: r mint_revoke_def mint_revoke_at_def pending_revoke_route_def pending_revoke_at_def ack_revoke_def restore_revoke_def restore_fence_def restore_queue_def Let_def split: sum.splits prod.splits)
qed

definition kernel_inv :: "kernel_state \<Rightarrow> bool" where
  "kernel_inv st \<longleftrightarrow> distinct (map fst (ks_generations st))"

lemma kernel_inv_init [simp]: "kernel_inv kernel_state_init"
  by (simp add: kernel_inv_def kernel_state_init_def)

lemma kernel_inv_service: "kernel_inv st \<Longrightarrow> kernel_inv (revoke_service L cfg r st)"
  using service_generations[of L cfg r st] mem_generations.increment_inv by (auto simp: kernel_inv_def)

lemma revoke_run_mono:
  "kernel_inv st \<Longrightarrow> kernel_inv (revoke_run L cfg rs st) \<and>
    gen_current (ks_generations st) t \<le> gen_current (ks_generations (revoke_run L cfg rs st)) t"
proof (induction rs arbitrary: st)
  case (Cons r rs)
  have "gen_current (ks_generations st) t \<le> gen_current (ks_generations (revoke_service L cfg r st)) t"
    using service_generations[of L cfg r st] mem_generations.increment_mono Cons.prems by (auto simp: kernel_inv_def)
  then show ?case using Cons.IH[OF kernel_inv_service[OF Cons.prems, of L cfg r]] by auto
qed simp

section \<open>Interleaved requests\<close>

text \<open>
  One locked section of a handler at a time, of any number of requests in flight: the steps of
  different requests may follow one another in any order.  A mint or a pull may have read the
  generations at any time before its own step.
\<close>

inductive revoke_step :: "libs \<Rightarrow> kernel_config \<Rightarrow> kernel_state \<Rightarrow> kernel_state \<Rightarrow> bool" for L cfg where
  mint: "revoke_step L cfg st (snd (mint_revoke_at L cfg env caller body gens st))"
| pull: "revoke_step L cfg st (snd (pending_revoke_at env caller inst gens st))"
| ack: "revoke_step L cfg st (snd (ack_revoke env caller body st))"
| fence: "revoke_step L cfg st (snd (restore_fence target st))"
| queue: "revoke_step L cfg st (restore_queue L cfg env body st)"
| audit: "revoke_step L cfg st (audit_append env action_name payload started_at st)"

lemma revoke_step_generations:
  assumes "revoke_step L cfg st st'"
  shows "ks_generations st' = ks_generations st \<or> (\<exists>t. ks_generations st' = snd (gen_increment (ks_generations st) t))"
  using assms
proof (induction rule: revoke_step.induct)
  case (fence st target)
  then show ?case by (auto simp: restore_fence_def split_beta)
qed (auto simp: mint_revoke_at_def pending_revoke_at_def ack_revoke_def restore_queue_def Let_def split: sum.splits prod.splits)

lemma revoke_steps_mono:
  assumes "(revoke_step L cfg)\<^sup>*\<^sup>* st st'" "kernel_inv st"
  shows "kernel_inv st' \<and> gen_current (ks_generations st) t \<le> gen_current (ks_generations st') t"
  using assms
proof (induction rule: rtranclp_induct)
  case (step st1 st2)
  then show ?case
    using revoke_step_generations[OF step(2)] mem_generations.increment_inv mem_generations.increment_mono[of "ks_generations st1" t]
    by (fastforce simp: kernel_inv_def intro: order_trans)
qed simp

section \<open>A queued order stays queued\<close>

definition queued :: "string \<Rightarrow> pending_revoke \<Rightarrow> kernel_state \<Rightarrow> bool" where
  "queued inst p st \<longleftrightarrow> (\<exists>l. map_of (ks_pending st) inst = Some l \<and> p \<in> set l)"

lemma enqueue_keeps:
  "map_of store i = Some l \<Longrightarrow> p \<in> set l \<Longrightarrow> f64_lt now (pe_expires_at p) \<Longrightarrow>
    \<exists>l'. map_of (enqueue_pending inst entry now store) i = Some l' \<and> p \<in> set l'"
  by (auto simp: enqueue_pending_def Let_def update_conv')

lemma drain_keeps:
  "map_of store i = Some l \<Longrightarrow> p \<in> set l \<Longrightarrow> f64_lt now (pe_expires_at p) \<Longrightarrow>
    \<exists>l'. map_of (snd (drain_live_tokens inst now store)) i = Some l' \<and> p \<in> set l'"
  by (auto simp: drain_live_tokens_def Let_def update_conv' split: option.split)

lemma clear_keeps:
  assumes "map_of store i = Some l" "p \<in> set l" "pe_run_id p \<noteq> run_id"
  shows "\<exists>l'. map_of (snd (clear_pending run_id store)) i = Some l' \<and> p \<in> set l'"
proof -
  have "map_of (map (\<lambda>(i, list). (i, filter (\<lambda>p. pe_run_id p \<noteq> run_id) list)) store) i = Some (filter (\<lambda>p. pe_run_id p \<noteq> run_id) l)"
    using assms(1) by (simp add: map_of_map)
  then show ?thesis using assms(2,3) by (simp add: clear_pending_def Let_def)
qed

lemma service_keeps_queued:
  assumes "queued inst p st" "f64_lt (ke_now env) (pe_expires_at p)" "\<And>a. req = ReqAck a \<Longrightarrow> aq_run_id a \<noteq> pe_run_id p"
  shows "queued inst p (revoke_service L cfg (env, caller, req) st)"
proof -
  obtain l where l: "map_of (ks_pending st) inst = Some l" "p \<in> set l" using assms(1) by (auto simp: queued_def)
  note keeps = enqueue_keeps[OF l assms(2)] drain_keeps[OF l assms(2)]
  show ?thesis
  proof (cases req)
    case (ReqMint body)
    then show ?thesis using keeps(1) l
      by (auto simp: queued_def mint_revoke_def mint_revoke_at_def Let_def split: sum.splits)
  next
    case (ReqPending i)
    then have "ks_pending (revoke_service L cfg (env, caller, req) st) \<in> {ks_pending st, snd (drain_live_tokens i (ke_now env) (ks_pending st))}"
      by (auto simp: pending_revoke_route_def pending_revoke_at_def Let_def split: prod.splits)
    then show ?thesis using keeps(2)[of i] l by (auto simp: queued_def)
  next
    case (ReqAck a)
    then have "ks_pending (revoke_service L cfg (env, caller, req) st) \<in> {ks_pending st, snd (clear_pending (aq_run_id a) (ks_pending st))}"
      by (auto simp: ack_revoke_def Let_def split: prod.splits)
    then show ?thesis using clear_keeps[OF l, of "aq_run_id a"] assms(3)[OF ReqAck] l by (auto simp: queued_def)
  next
    case (ReqRestore body)
    then show ?thesis using keeps(1) l
      by (auto simp: queued_def restore_revoke_def restore_fence_def restore_queue_def Let_def split: sum.splits prod.splits)
  qed
qed

lemma increment_other_instance:
  assumes "it_instance t \<noteq> i"
  shows "gen_current_for_instance (snd (gen_increment gs t)) i = gen_current_for_instance gs i"
proof -
  have "filter (\<lambda>(t, _). it_instance t = i) (AList.update t v gs) = filter (\<lambda>(t, _). it_instance t = i) gs" for v
    using assms by (induction gs) auto
  then show ?thesis by (simp add: gen_current_for_instance_def gen_increment_def Let_def)
qed

lemma service_keeps_generation:
  assumes "\<And>q. req = ReqRestore q \<Longrightarrow> it_instance (rq_target q) \<noteq> i"
  shows "gen_current_for_instance (ks_generations (revoke_service L cfg (env, caller, req) st)) i =
    gen_current_for_instance (ks_generations st) i"
  using service_generations[of L cfg "(env, caller, req)" st] increment_other_instance assms by auto

section \<open>Minted kills at the reaper\<close>

lemma signed_kill_token_claims:
  assumes "b64_contract L" "ed25519_contract L" "json_contract L (JObject (revoke_compute_claims_map c))"
    and "f64_is_finite (rc_issued_at c)" "f64_is_finite (rc_expires_at c)"
    and "pk_pinned (rp_verifier r) = verifying_key L sk"
    and "kill_token L r (sign_kernel_token L revoke_compute_claims_map c sk) now_s c'"
  shows "c' = c"
proof -
  obtain s where s: "token_carries L (sign_kernel_token L revoke_compute_claims_map c sk) (verifying_key L sk) s (revoke_compute_claims_map c)"
    using sign_token_carries[of L revoke_compute_claims_map c sk] assms(1-3) revoke_set.wf[of c] by blast
  obtain vc where vc: "verify_with_aud L (rp_verifier r) (sign_kernel_token L revoke_compute_claims_map c sk) now_s REVOKE_COMPUTE_AUD = Ok vc"
    "parse_revoke_claims (vc_claims vc) = Some c'"
    using assms(7) by (auto simp: kill_token_def)
  then have "vc_claims vc = bt_of_list (revoke_compute_claims_map c)"
    using token_carries_unique[OF s] by (auto simp: verify_with_aud_def verify_Ok_iff assms(6))
  then show ?thesis using vc(2) revoke_set.wf[of c] parse_revoke_claims_map[OF assms(4,5)] by simp
qed

lemma peek_signed_kill:
  assumes "b64_contract L" "json_contract L (JObject (revoke_compute_claims_map c))"
  shows "peek_action L (sign_kernel_token L revoke_compute_claims_map c sk) = Some REVOKE_COMPUTE_ACTION"
proof -
  let ?j = "stable_json L (revoke_compute_claims_map c)"
  let ?p = "b64url_encode L (as_bytes ?j)"
  have "CHR ''.'' \<notin> set ?p" using assms(1) by (auto simp: b64_contract_def)
  then have "hd (split_on CHR ''.'' (sign_kernel_token L revoke_compute_claims_map c sk)) = ?p"
    by (simp add: sign_kernel_token_def Let_def split_on_append)
  moreover have "json_from_slice L (as_bytes ?j) = Ok (JObject (revoke_compute_claims_map c))"
    using assms(2) stable_json_wf[OF revoke_set.wf, of L c] by (simp add: json_contract_def)
  ultimately show ?thesis using assms(1) revoke_set.get_action[of c]
    by (simp add: peek_action_def b64_contract_def)
qed

lemma mint_revoke_success:
  assumes "fst (mint_revoke_at L cfg env caller body gens st) = KJson resp"
  shows "caller = ''operator''" "mq_tier body = VmStop"
    "sr_token resp = sign_kernel_token L revoke_compute_claims_map (mint_claims L cfg env gens body) (kc_signing_key cfg)"
    "is_ok (tlog_append_failclosed L (ke_tlog env) (sr_token resp) (ke_now env))"
    "ks_generations (snd (mint_revoke_at L cfg env caller body gens st)) = ks_generations st"
    "ks_pending (snd (mint_revoke_at L cfg env caller body gens st)) = enqueue_pending (it_instance (mq_target body))
       \<lparr>pe_run_id = ''revoke_'' @ ke_uuid env, pe_token = sr_token resp,
        pe_expires_at = rc_expires_at (mint_claims L cfg env gens body)\<rparr> (ke_now env) (ks_pending st)"
  using assms by (auto simp: mint_revoke_at_def Let_def mint_claims_def split: if_splits sum.splits)

lemmas mint_revoke_alone = mint_revoke_success[where gens = "ks_generations st" and st = st for st, folded mint_revoke_def]

lemma restore_revoke_success:
  assumes "fst (restore_revoke L cfg env caller body st) = KJson resp"
  shows "ks_generations (snd (restore_revoke L cfg env caller body st)) = snd (gen_increment (ks_generations st) (rq_target body))"
  using assms by (auto simp: restore_revoke_def restore_fence_def restore_queue_def Let_def split: if_splits sum.splits prod.splits)

lemma pending_generation:
  "fst (pending_revoke_at env caller inst gens st) = KJson resp \<Longrightarrow>
    pr_current_grant_generation resp = gen_current_for_instance gens inst"
  by (auto simp: pending_revoke_at_def Let_def split: if_splits prod.splits)

lemma mint_claims_simps [simp]:
  "rc_target (mint_claims L cfg env gs body) = mq_target body"
  "rc_target_generation (mint_claims L cfg env gs body) = gen_current gs (mq_target body)"
  "rc_issued_at (mint_claims L cfg env gs body) = ke_now env"
  "rc_expires_at (mint_claims L cfg env gs body) = f64_add (ke_now env) (f64_of_int (max (kc_revoke_token_ttl_s cfg) 30))"
  by (simp_all add: mint_claims_def Let_def)

lemma minted_well_formed:
  assumes "hex_contract L" "list_all graphic (ke_uuid env)" "str_trim (ke_nonce env) \<noteq> []"
    and "f64_is_finite (ke_now env)" "f64_is_finite (rc_expires_at (mint_claims L cfg env gs body))"
  shows "revoke_set.well_formed (mint_claims L cfg env gs body)"
proof -
  have "str_trim (''revoke_'' @ ke_uuid env) = ''revoke_'' @ ke_uuid env" "str_trim ''operator'' = ''operator''"
    using assms(2) by (intro str_trim_graphic; simp add: graphic_def)+
  moreover have "str_trim (sha256_hex L bs) \<noteq> []" for bs
  proof -
    have "length (sha256_hex L bs) = 64" "list_all graphic (sha256_hex L bs)"
      using assms(1) by (simp_all add: sha256_hex_def hex_contract_def be_bytes_def le_bytes_def list_all_iff)
    then show ?thesis by (auto simp: str_trim_graphic)
  qed
  ultimately show ?thesis using assms(3-5)
    by (simp add: revoke_set.well_formed_def mint_claims_def Let_def revoke_params_fingerprint_def params_fingerprint_def)
qed

text \<open>A minted kill is a kill for the reaper that pins the kernel's key, inside the window of the token.\<close>

lemma minted_kill_token:
  assumes "b64_contract L" "hex_contract L" "ed25519_contract L" "json_contract L (JObject (revoke_compute_claims_map c))"
    and "c = mint_claims L cfg env gs body" "list_all graphic (ke_uuid env)" "str_trim (ke_nonce env) \<noteq> []"
    and "f64_is_finite (rc_issued_at c)" "f64_is_finite (rc_expires_at c)"
    and "pk_pinned (rp_verifier r) = verifying_key L (kc_signing_key cfg)"
    and "in_window now_s (pk_leeway_seconds (rp_verifier r)) (rc_issued_at c) (rc_expires_at c)"
  shows "kill_token L r (sign_kernel_token L revoke_compute_claims_map c (kc_signing_key cfg)) now_s c"
proof -
  have wf: "revoke_set.well_formed c" "rc_aud c = REVOKE_COMPUTE_AUD"
    using minted_well_formed[OF assms(2,6,7), of cfg gs body] assms(8,9)
    unfolding assms(5) mint_claims_simps(3) by (simp_all add: mint_claims_def Let_def)
  have "revoke_params_fingerprint L (rc_run_id c) (rc_target c) (rc_target_generation c) (rc_tier c) (rc_trigger c) (rc_reason c) =
      rc_params_fingerprint c"
    unfolding assms(5) by (simp add: mint_claims_def Let_def)
  with wf show ?thesis by (intro signed_kill_token assms(1,3,4,10,11))
qed

lemma stale_kill_rejected:
  assumes "kill_token L r token now_s c" "\<not> is_seen (rst_store rst) (kill_key c)" "rc_target_generation c \<noteq> g"
  shows "handle_kill_candidate L r tk token g now_s rst = (Rejected StaleGeneration, rst)"
  using assms by (auto simp: kill_token_def handle_kill_candidate_def kill_checks_def kill_key_def honour_revocation_def)

text \<open>A minted kill pulled with another generation is refused without touching the executor.\<close>

lemma minted_kill_rejected:
  assumes "b64_contract L" "ed25519_contract L" "c = mint_claims L cfg env gs body"
    and "json_contract L (JObject (revoke_compute_claims_map c))"
    and "f64_is_finite (rc_issued_at c)" "f64_is_finite (rc_expires_at c)"
    and "pk_pinned (rp_verifier r) = verifying_key L (kc_signing_key cfg)"
    and "g \<noteq> gen_current gs (mq_target body)"
  shows "\<exists>reason. handle_kill_candidate L r tk (sign_kernel_token L revoke_compute_claims_map c (kc_signing_key cfg)) g now_s rst =
    (Rejected reason, rst)"
proof -
  let ?t = "sign_kernel_token L revoke_compute_claims_map c (kc_signing_key cfg)"
  have "kill_checks L r (rst_store rst) ?t g now_s \<noteq> Ok c'" for c'
  proof
    assume "kill_checks L r (rst_store rst) ?t g now_s = Ok c'"
    then have "kill_token L r ?t now_s c'" "rc_target_generation c' = g" by (simp_all add: kill_checks_Ok)
    moreover from this(1) have "c' = c" using signed_kill_token_claims[OF assms(1,2,4-7)] by blast
    ultimately show False using assms(3,8) by simp
  qed
  then show ?thesis
    by (cases "kill_checks L r (rst_store rst) ?t g now_s") (auto simp: handle_kill_candidate_def)
qed

section \<open>Properties\<close>

text \<open>In every run of the revoke routes from boot, each token in the queue was put there by an
  operator's mint or restore request whose append the transparency log accepted (or, with no log
  configured, in development): no other role and no failed append ever queues a kill.\<close>

theorem queued_tokens_operator_and_logged:
  "token \<in> pending_tokens (revoke_run L cfg reqs kernel_state_init) \<Longrightarrow>
    \<exists>pre r post. reqs = pre @ r # post \<and> queued_by L cfg (revoke_run L cfg pre kernel_state_init) r token"
proof (induction reqs rule: rev_induct)
  case Nil
  then show ?case by (simp add: pending_tokens_def kernel_state_init_def)
next
  case (snoc r reqs)
  let ?st = "revoke_run L cfg reqs kernel_state_init"
  have run: "revoke_run L cfg (reqs @ [r]) kernel_state_init = revoke_service L cfg r ?st"
    by (simp add: revoke_run_def)
  show ?case
  proof (cases "token \<in> pending_tokens ?st")
    case True
    then obtain pre r' post where "reqs = pre @ r' # post" "queued_by L cfg (revoke_run L cfg pre kernel_state_init) r' token"
      using snoc.IH by blast
    then show ?thesis by (intro exI[of _ pre] exI[of _ r'] exI[of _ "post @ [r]"]) simp
  next
    case False
    then have "queued_by L cfg ?st r token" using service_queues snoc.prems unfolding run by blast
    then show ?thesis by blast
  qed
qed

definition sample_config :: kernel_config where
  "sample_config = \<lparr>kc_signing_key = 7, kc_revoke_token_ttl_s = 30, kc_default_token_ttl_s = 60, kc_max_token_ttl_s = 300,
     kc_approval_token_ttl_s = 60, kc_build_version = ''1.0'', kc_public_key_b64 = ''pk'', kc_public_key_fingerprint = ''f00d''\<rparr>"

definition sample_env :: kernel_env where
  "sample_env = \<lparr>ke_now = Finite 100, ke_ended_at = Finite 100, ke_nonce = ''n1'', ke_uuid = ''1'', ke_tlog = None\<rparr>"

definition sample_mint :: mint_revoke_request where
  "sample_mint = \<lparr>mq_target = sample_target, mq_tier = VmStop, mq_trigger = OperatorEmergencyStop, mq_reason = None\<rparr>"

lemma sample_expiry: "f64_add (Finite 100) (f64_of_int 30) = Finite 130"
  using f64_of_rat_int[of 30] f64_add_int[of 100 30] by (simp add: f64_of_int_def)

lemma sample_mint_claims: "gen_current gs sample_target = 0 \<Longrightarrow> mint_claims kill_libs sample_config sample_env gs sample_mint = sample_kill"
  by (simp add: mint_claims_def sample_config_def sample_env_def sample_mint_def sample_kill_def sample_expiry
      revoke_params_fingerprint_def params_fingerprint_def sha256_hex_def kill_libs_def sample_libs_def)

lemma sample_mint_ok:
  "gen_current (ks_generations st) sample_target = 0 \<Longrightarrow>
    \<exists>resp. fst (mint_revoke kill_libs sample_config sample_env ''operator'' sample_mint st) = KJson resp \<and> sr_token resp = sample_kill_token"
  by (simp add: mint_revoke_def mint_revoke_at_def tlog_append_failclosed_def Let_def sample_env_def[THEN arg_cong[of _ _ ke_tlog]]
      sample_mint_def[THEN arg_cong[of _ _ mq_tier]] sample_mint_def[THEN arg_cong[of _ _ mq_target]]
      sample_mint_claims sample_kill_token_def sample_config_def[THEN arg_cong[of _ _ kc_signing_key]])

theorem queued_tokens_operator_and_logged_witness:
  "sample_kill_token \<in> pending_tokens (revoke_run kill_libs sample_config [(sample_env, ''operator'', ReqMint sample_mint)] kernel_state_init) \<and>
   (\<exists>pre r post. [(sample_env, ''operator'', ReqMint sample_mint)] = pre @ r # post \<and>
     queued_by kill_libs sample_config (revoke_run kill_libs sample_config pre kernel_state_init) r sample_kill_token)"
proof -
  obtain resp where r: "fst (mint_revoke kill_libs sample_config sample_env ''operator'' sample_mint kernel_state_init) = KJson resp"
    "sr_token resp = sample_kill_token"
    using sample_mint_ok[of kernel_state_init] by (auto simp: gen_current_def kernel_state_init_def)
  have "sample_kill_token \<in> pending_tokens (revoke_run kill_libs sample_config [(sample_env, ''operator'', ReqMint sample_mint)] kernel_state_init)"
    using mint_revoke_alone(6)[OF r(1)] r(2)
    by (simp add: pending_tokens_def enqueue_pending_def kernel_state_init_def)
  with queued_tokens_operator_and_logged[OF this] show ?thesis by blast
qed

text \<open>C14: a restore of a target fences the kills that were minted for it before, however the locked sections
  of the requests in flight interleave.  When a kill read the generation of its target before the
  restore advanced it, and the reaper handles the kill with a generation that the kernel read after
  that, the kill is rejected and the executor is not called; it does not matter when the kill was
  queued or taken from the queue.  (The generation must not have reached the top of its 64-bit
  range.  A kill that the reaper pulled with the generation from before the restore is not fenced.)\<close>

theorem restore_fences_earlier_kills:
  assumes "b64_contract L" "ed25519_contract L" "json_contract L (JObject (revoke_compute_claims_map c))"
    and "kernel_inv st0" "fst (mint_revoke_at L cfg env caller body (ks_generations st0) st_mint) = KJson minted"
    and "c = mint_claims L cfg env (ks_generations st0) body" "f64_is_finite (rc_issued_at c)" "f64_is_finite (rc_expires_at c)"
    and "(revoke_step L cfg)\<^sup>*\<^sup>* st0 st1" "gen_current (ks_generations st1) (mq_target body) \<noteq> - 1"
    and "restore_fence (mq_target body) st1 = (new_generation, st2)" "(revoke_step L cfg)\<^sup>*\<^sup>* st2 st3"
    and "fst (pending_revoke_at env3 caller3 (it_instance (mq_target body)) (ks_generations st3) st_pull) = KJson pulled"
    and "pk_pinned (rp_verifier r) = verifying_key L (kc_signing_key cfg)"
  shows "\<exists>reason. handle_kill_candidate L r tk (sr_token minted) (pr_current_grant_generation pulled) now_s rst = (Rejected reason, rst)"
proof -
  let ?t = "mq_target body"
  have i1: "kernel_inv st1" and le1: "gen_current (ks_generations st0) ?t \<le> gen_current (ks_generations st1) ?t"
    using revoke_steps_mono[OF assms(9,4)] by blast+
  have st2: "st2 = snd (restore_fence ?t st1)" "ks_generations st2 = snd (gen_increment (ks_generations st1) ?t)"
    using assms(11) by (auto simp: restore_fence_def split: prod.splits)
  have lt: "gen_current (ks_generations st1) ?t < gen_current (ks_generations st2) ?t"
    using mem_generations.increment_strict[of "ks_generations st1" ?t] i1 assms(10) st2(2) by (simp add: kernel_inv_def)
  have "kernel_inv st2" using i1 st2(2) mem_generations.increment_inv by (simp add: kernel_inv_def)
  then have i3: "kernel_inv st3" and le3: "gen_current (ks_generations st2) ?t \<le> gen_current (ks_generations st3) ?t"
    using revoke_steps_mono[OF assms(12)] by blast+
  have "pr_current_grant_generation pulled \<noteq> gen_current (ks_generations st0) ?t"
    using mem_generations.older_fenced[of "ks_generations st3" "gen_current (ks_generations st0) ?t" ?t] le1 le3 lt i3
      pending_generation[OF assms(13)] by (simp add: kernel_inv_def)
  then show ?thesis
    using minted_kill_rejected[OF assms(1,2,6,3,7,8,14)] mint_revoke_success(3)[OF assms(5)] assms(6) by simp
qed

text \<open>C17: the pull resolves the generation by instance name alone, as the maximum over all targets of that
  name.  So once a target of the same name in another project or zone has been restored more often,
  a kill of this target that the kernel accepts, stamped with the target's own current generation and
  presented inside its window to a reaper that has not seen it, is rejected with the reason that
  its generation is stale: the order never reaches the executor.\<close>

theorem same_name_restore_suppresses_kill:
  assumes "b64_contract L" "hex_contract L" "ed25519_contract L" "json_contract L (JObject (revoke_compute_claims_map c))"
    and "kernel_inv st0" "fst (mint_revoke L cfg env caller body st0) = KJson minted"
    and "c = mint_claims L cfg env (ks_generations st0) body" "list_all graphic (ke_uuid env)" "str_trim (ke_nonce env) \<noteq> []"
    and "f64_is_finite (rc_issued_at c)" "f64_is_finite (rc_expires_at c)"
    and "it_instance other = it_instance (mq_target body)"
    and "gen_current (ks_generations st0) (mq_target body) < gen_current (ks_generations st0) other"
    and "fst (pending_revoke_route env3 caller3 (it_instance (mq_target body)) (snd (mint_revoke L cfg env caller body st0))) = KJson pulled"
    and "pk_pinned (rp_verifier r) = verifying_key L (kc_signing_key cfg)"
    and "in_window now_s (pk_leeway_seconds (rp_verifier r)) (rc_issued_at c) (rc_expires_at c)" "\<not> is_seen (rst_store rst) (kill_key c)"
  shows "rc_target_generation c = gen_current (ks_generations st0) (mq_target body) \<and>
    handle_kill_candidate L r tk (sr_token minted) (pr_current_grant_generation pulled) now_s rst = (Rejected StaleGeneration, rst)"
proof -
  have g: "rc_target_generation c = gen_current (ks_generations st0) (mq_target body)" by (simp add: assms(7))
  have "pr_current_grant_generation pulled \<noteq> gen_current (ks_generations st0) (mq_target body)"
    using mem_generations.older_fenced[of "ks_generations st0" _ other] assms(5,12,13)
      pending_generation[OF assms(14)[unfolded pending_revoke_route_def]] mint_revoke_alone(5)[OF assms(6)] by (simp add: kernel_inv_def)
  moreover have "kill_token L r (sr_token minted) now_s c"
    unfolding mint_revoke_alone(3)[OF assms(6)] assms(7)[symmetric] by (rule minted_kill_token[OF assms(1-4,7-11,15,16)])
  ultimately show ?thesis using stale_kill_rejected assms(17) g by metis
qed

lemma enqueue_lookup:
  "\<exists>l. map_of (enqueue_pending inst e now store) inst = Some (l @ [e])"
  by (auto simp: enqueue_pending_def Let_def update_conv')

lemma pending_delivers:
  assumes "map_of (ks_pending st) inst = Some l" "p \<in> set l" "f64_lt (ke_now env) (pe_expires_at p)"
    and "caller = ''reaper'' \<or> caller = ''operator''"
  shows "\<exists>resp. fst (pending_revoke_route env caller inst st) = KJson resp \<and> pe_token p \<in> set (pr_pending resp) \<and>
    pr_current_grant_generation resp = gen_current_for_instance (ks_generations st) inst"
  using assms by (auto simp: pending_revoke_route_def pending_revoke_at_def drain_live_tokens_def Let_def filter_empty_conv)

definition late_env :: kernel_env where
  "late_env = sample_env\<lparr>ke_now := Finite 120, ke_nonce := ''n2'', ke_uuid := ''2''\<rparr>"

definition sample_restore :: "instance_target \<Rightarrow> restore_request" where
  "sample_restore t = \<lparr>rq_target = t, rq_reason = None\<rparr>"

lemma sample_restore_ok:
  "\<exists>resp. fst (restore_revoke L sample_config sample_env ''operator'' (sample_restore t) st) = KJson resp \<and>
    ks_generations (snd (restore_revoke L sample_config sample_env ''operator'' (sample_restore t) st)) =
      snd (gen_increment (ks_generations st) t) \<and>
    ks_pending (snd (restore_revoke L sample_config sample_env ''operator'' (sample_restore t) st)) = enqueue_pending (it_instance t)
      \<lparr>pe_run_id = ''restore_1'', pe_token = sr_token resp, pe_expires_at = Finite 130\<rparr> (Finite 100) (ks_pending st)"
  by (simp add: restore_revoke_def restore_fence_def restore_queue_def tlog_append_failclosed_def sample_env_def sample_restore_def restore_mint_claims_def
      sample_config_def sample_expiry Let_def split: prod.splits)

lemma sample_kill_libs:
  "b64_contract kill_libs" "ed25519_contract kill_libs" "json_contract kill_libs (JObject (revoke_compute_claims_map sample_kill))"
  "f64_is_finite (rc_issued_at sample_kill)" "f64_is_finite (rc_expires_at sample_kill)"
  "pk_pinned (rp_verifier (sample_reaper x)) = verifying_key kill_libs (kc_signing_key sample_config)"
  by (simp_all add: kill_libs_def sample_libs_contracts sample_kill_def sample_reaper_def from_pubkey_bytes_def sample_config_def)
    (simp_all add: sample_libs_def)

lemma sample_mint_late:
  "\<exists>resp. fst (mint_revoke_at kill_libs sample_config sample_env ''operator'' sample_mint [] st) = KJson resp \<and> sr_token resp = sample_kill_token"
  by (simp add: mint_revoke_at_def tlog_append_failclosed_def Let_def sample_env_def[THEN arg_cong[of _ _ ke_tlog]]
      sample_mint_def[THEN arg_cong[of _ _ mq_tier]] sample_mint_def[THEN arg_cong[of _ _ mq_target]] gen_current_def
      sample_mint_claims sample_kill_token_def sample_config_def[THEN arg_cong[of _ _ kc_signing_key]])

text \<open>A mint that overlaps a restore: it reads the generation before the fence and is queued after it.\<close>

theorem restore_fences_earlier_kills_witness:
  "let st2 = snd (restore_fence sample_target kernel_state_init);
       st3 = snd (mint_revoke_at kill_libs sample_config sample_env ''operator'' sample_mint (ks_generations kernel_state_init) st2) in
   \<exists>pulled reason. fst (pending_revoke_at late_env ''reaper'' ''agent-vm'' (ks_generations st3) st3) = KJson pulled \<and>
     sample_kill_token \<in> set (pr_pending pulled) \<and>
     handle_kill_candidate kill_libs (sample_reaper MockExecutor) good_tick sample_kill_token (pr_current_grant_generation pulled)
       (Finite 120) sample_state = (Rejected reason, sample_state)"
proof -
  let ?st2 = "snd (restore_fence sample_target kernel_state_init)"
  let ?mint = "mint_revoke_at kill_libs sample_config sample_env ''operator'' sample_mint (ks_generations kernel_state_init) ?st2"
  let ?st3 = "snd ?mint"
  have none: "ks_generations kernel_state_init = []" by (simp add: kernel_state_init_def)
  obtain minted where m: "fst ?mint = KJson minted" "sr_token minted = sample_kill_token"
    using sample_mint_late none by auto
  have c: "sample_kill = mint_claims kill_libs sample_config sample_env (ks_generations kernel_state_init) sample_mint"
    by (rule sample_mint_claims[symmetric]) (simp add: gen_current_def none)
  have t: "mq_target sample_mint = sample_target" and e: "ke_uuid sample_env = ''1''" "rc_expires_at sample_kill = Finite 130"
    by (simp_all add: sample_mint_def sample_env_def sample_kill_def)
  obtain l where l: "map_of (ks_pending ?st3) (it_instance sample_target) = Some (l @
      [\<lparr>pe_run_id = ''revoke_'' @ ''1'', pe_token = sample_kill_token, pe_expires_at = Finite 130\<rparr>])"
    using enqueue_lookup unfolding mint_revoke_success(6)[OF m(1)] m(2) c[symmetric] t e by metis
  obtain pulled where p: "fst (pending_revoke_at late_env ''reaper'' (it_instance sample_target) (ks_generations ?st3) ?st3) = KJson pulled"
    "sample_kill_token \<in> set (pr_pending pulled)"
    using pending_delivers[OF l, of "\<lparr>pe_run_id = ''revoke_'' @ ''1'', pe_token = sample_kill_token, pe_expires_at = Finite 130\<rparr>" late_env "''reaper''"]
    by (auto simp: late_env_def pending_revoke_route_def)
  have "gen_current (ks_generations kernel_state_init) (mq_target sample_mint) \<noteq> - 1" by (simp add: gen_current_def none)
  from restore_fences_earlier_kills[OF sample_kill_libs(1-3) kernel_inv_init m(1) c sample_kill_libs(4,5) rtranclp.rtrancl_refl this,
      of "fst (restore_fence sample_target kernel_state_init)" ?st2 ?st3 late_env "''reaper''" ?st3 pulled "sample_reaper MockExecutor"]
  have "\<exists>reason. handle_kill_candidate kill_libs (sample_reaper MockExecutor) good_tick sample_kill_token (pr_current_grant_generation pulled)
       (Finite 120) sample_state = (Rejected reason, sample_state)"
    using p(1) m(2) r_into_rtranclp[of "revoke_step kill_libs sample_config" ?st2 ?st3, OF revoke_step.mint] sample_kill_libs(6)
    by (auto simp: t)
  moreover have "it_instance sample_target = ''agent-vm''" by (simp add: sample_target_def)
  ultimately show ?thesis using p unfolding Let_def by metis
qed

definition twin_target :: instance_target where
  "twin_target = sample_target\<lparr>it_zone := ''zone-b''\<rparr>"

theorem same_name_restore_suppresses_kill_witness:
  "let st0 = snd (restore_revoke kill_libs sample_config sample_env ''operator'' (sample_restore twin_target) kernel_state_init);
       st1 = snd (mint_revoke kill_libs sample_config sample_env ''operator'' sample_mint st0) in
   \<exists>pulled. fst (pending_revoke_route late_env ''reaper'' ''agent-vm'' st1) = KJson pulled \<and>
     handle_kill_candidate kill_libs (sample_reaper MockExecutor) good_tick sample_kill_token (pr_current_grant_generation pulled)
       (Finite 120) sample_state = (Rejected StaleGeneration, sample_state)"
proof -
  let ?st0 = "snd (restore_revoke kill_libs sample_config sample_env ''operator'' (sample_restore twin_target) kernel_state_init)"
  let ?st1 = "snd (mint_revoke kill_libs sample_config sample_env ''operator'' sample_mint ?st0)"
  have g: "ks_generations ?st0 = [(twin_target, 1)]"
    using sample_restore_ok[of kill_libs twin_target kernel_state_init]
    by (auto simp: gen_increment_def gen_current_def kernel_state_init_def saturating_add_def)
  have gt: "gen_current (ks_generations ?st0) sample_target = 0" "gen_current (ks_generations ?st0) twin_target = 1"
    unfolding g by (simp_all add: gen_current_def twin_target_def sample_target_def)
  obtain minted where m: "fst (mint_revoke kill_libs sample_config sample_env ''operator'' sample_mint ?st0) = KJson minted"
    "sr_token minted = sample_kill_token"
    using sample_mint_ok[OF gt(1)] by blast
  have c: "sample_kill = mint_claims kill_libs sample_config sample_env (ks_generations ?st0) sample_mint"
    by (rule sample_mint_claims[OF gt(1), symmetric])
  have t: "mq_target sample_mint = sample_target" and e: "ke_uuid sample_env = ''1''" "rc_expires_at sample_kill = Finite 130"
    by (simp_all add: sample_mint_def sample_env_def sample_kill_def)
  obtain l where l: "map_of (ks_pending ?st1) (it_instance sample_target) = Some (l @
      [\<lparr>pe_run_id = ''revoke_'' @ ''1'', pe_token = sample_kill_token, pe_expires_at = Finite 130\<rparr>])"
    using enqueue_lookup unfolding mint_revoke_alone(6)[OF m(1)] m(2) c[symmetric] t e by metis
  obtain pulled where p: "fst (pending_revoke_route late_env ''reaper'' (it_instance sample_target) ?st1) = KJson pulled"
    using pending_delivers[OF l, of "\<lparr>pe_run_id = ''revoke_'' @ ''1'', pe_token = sample_kill_token, pe_expires_at = Finite 130\<rparr>" late_env "''reaper''"]
    by (auto simp: late_env_def)
  have inv: "kernel_inv ?st0" by (simp add: kernel_inv_def g)
  have same: "it_instance twin_target = it_instance sample_target" by (simp add: twin_target_def sample_target_def)
  have "gen_current (ks_generations ?st0) sample_target < gen_current (ks_generations ?st0) twin_target" unfolding gt by simp
  have hex: "hex_contract kill_libs" by (simp add: kill_libs_def sample_libs_contracts)
  have ids: "list_all graphic (ke_uuid sample_env)" "str_trim (ke_nonce sample_env) \<noteq> []"
    by (simp_all add: sample_env_def graphic_def str_trim_graphic)
  have win: "in_window (Finite 120) (pk_leeway_seconds (rp_verifier (sample_reaper MockExecutor))) (rc_issued_at sample_kill) (rc_expires_at sample_kill)"
    by (simp add: sample_reaper_def from_pubkey_bytes_def sample_kill_def in_window_sample)
  have fresh: "\<not> is_seen (rst_store sample_state) (kill_key sample_kill)" by (simp add: sample_state_def mem_is_seen_def)
  from same_name_restore_suppresses_kill[OF sample_kill_libs(1) hex sample_kill_libs(2,3) inv m(1) c ids sample_kill_libs(4,5), of twin_target, unfolded t,
      OF same \<open>gen_current (ks_generations ?st0) sample_target < gen_current (ks_generations ?st0) twin_target\<close> p sample_kill_libs(6) win fresh] m(2)
  have "handle_kill_candidate kill_libs (sample_reaper MockExecutor) good_tick sample_kill_token (pr_current_grant_generation pulled)
       (Finite 120) sample_state = (Rejected StaleGeneration, sample_state)" by simp
  moreover have "it_instance sample_target = ''agent-vm''" by (simp add: sample_target_def)
  ultimately show ?thesis using p unfolding Let_def by metis
qed
end
