(* ===== verification/Authorize.thy ===== *)
theory Authorize
  imports RevokeRoutes
begin

text \<open>
  The authorisation surface of the kernel: the API-key layer \<^verbatim>\<open>auth.rs\<close>, the allowlist of actions of the
  \<^verbatim>\<open>api\<close> role \<^verbatim>\<open>api_action_allowlist.rs\<close>, and the handlers \<^verbatim>\<open>routes/authorize.rs\<close>,
  \<^verbatim>\<open>routes/approvals.rs\<close> and \<^verbatim>\<open>routes/meta.rs\<close>.

  The handlers use the clock, nonce and transparency log of \<open>kernel_env\<close>; the policy sidecar of one
  request is the record \<open>ipc_channel\<close> (the client's timeouts, the request id it generates and what the
  socket does with a request line).  Audit records sent are appended to \<open>ks_audit\<close>, as the handlers
  continue whatever the audit sidecar answers.  The \<^verbatim>\<open>test-seams\<close> feature is off.
\<close>

section \<open>The allowlist of API actions\<close>

definition API_ALLOWED_PREFIXES :: "string list" where
  "API_ALLOWED_PREFIXES =
     [''/api/v1/aara-engine/'', ''/api/v1/aara/'', ''/api/v1/aara-orchestrator/'', ''/api/v1/runs/'',
      ''/api/v1/experiments/'', ''/api/v1/compute/'', ''/api/v1/artifacts/'', ''/api/v1/analysis/'',
      ''/api/v1/context/'', ''/api/v1/data/'', ''/api/v1/nano/'', ''/api/v1/agents/'', ''/api/v1/domains/'',
      ''/api/v1/connectors/'', ''/api/v1/planner/'', ''/api/v1/workflows/'', ''/api/v1/chat/'', ''/api/v1/chat'',
      ''/api/v1/training/'', ''/api/v1/inference/'', ''/api/v1/queue/'', ''/api/v1/stream/'',
      ''/api/v1/ingest/'', ''/api/v1/governance/'', ''/api/v1/compliance/'', ''/api/v1/safety/'',
      ''/api/v1/autonomous/'', ''/api/v1/rsi/'', ''/api/v1/hypothesis-evolution/'',
      ''/api/v1/problem-discovery/'', ''/api/v1/world-model/'', ''/api/v1/semantic-kb/'',
      ''/api/v1/knowledge-base/'', ''/api/v1/solvers/'', ''/api/v1/solvers'', ''/api/v1/integrations/'',
      ''/api/v1/code-tools/'', ''/api/v1/tool-discovery/'', ''/api/v1/autonomy/'', ''/api/v1/hitl/'',
      ''/api/v1/graduation/'', ''/api/v1/auth/'', ''/api/v1/preferences/'', ''/api/v1/ui-rsi/'',
      ''/api/v1/telco/'', ''/api/v1/panasonic/'', ''/api/v1/qcad/'', ''/api/v1/pulse/'', ''/api/v1/qec/'',
      ''/api/v1/wps/'', ''/api/v1/models/'', ''/api/v1/metrics/'', ''/api/v1/system/'', ''/api/v1/emergency/'',
      ''/api/v1/mcp/'', ''/mcp/'', ''/aara-engine/'', ''/api/v1/demo/'', ''/api/v1/demo_builder/'',
      ''/api/v1/jobs/'', ''/api/v1/github/'', ''/api/v1/oauth/'', ''/api/v1/health'', ''/health'',
      ''artifact_promote'', ''artifact_rollback'', ''artifact_set_canary'']"

definition prefix_match :: "string \<Rightarrow> string \<Rightarrow> bool" where
  "prefix_match path pre \<longleftrightarrow> path = trim_end_matches (CHR ''/'') pre \<or> prefix pre path"

definition is_api_action_allowed :: "string \<Rightarrow> bool" where
  "is_api_action_allowed action =
     (let path = (case splitn2 (CHR '':'') action of (_, None) \<Rightarrow> action | (_, Some rest) \<Rightarrow> rest) in
      list_ex (prefix_match (str_trim path)) API_ALLOWED_PREFIXES)"

section \<open>The API-key layer\<close>

record auth_settings =
  as_env :: string
  as_auth_mode :: string
  as_api_key_worker :: "string option"
  as_api_key_api :: "string option"
  as_api_key_operator :: "string option"
  as_api_key_reaper :: "string option"

definition is_public_path :: "string \<Rightarrow> bool" where
  "is_public_path path \<longleftrightarrow>
     path = ''/health'' \<or> path = ''/kernel/v1/health'' \<or> path = ''/kernel/v1/public_key''"

definition unwrap_or_empty :: "string option \<Rightarrow> string" where
  "unwrap_or_empty s = (case s of None \<Rightarrow> [] | Some v \<Rightarrow> v)"

definition auth_role :: "auth_settings \<Rightarrow> string \<Rightarrow> string option" where
  "auth_role s supplied =
     (let matches = (\<lambda>key. key \<noteq> [] \<and> constant_time_eq (as_bytes supplied) (as_bytes key)) in
      if matches (unwrap_or_empty (as_api_key_worker s)) then Some ''worker''
      else if matches (unwrap_or_empty (as_api_key_api s)) then Some ''api''
      else if matches (unwrap_or_empty (as_api_key_operator s)) then Some ''operator''
      else if matches (unwrap_or_empty (as_api_key_reaper s)) then Some ''reaper''
      else None)"

text \<open>The decision of the layer: forward without a role, refuse, or forward with the caller's role.\<close>

datatype auth_outcome = AuthPublic | AuthDeny nat error_response | AuthCaller string

definition auth_layer :: "auth_settings \<Rightarrow> string \<Rightarrow> string option \<Rightarrow> auth_outcome" where
  "auth_layer s path header =
     (if is_public_path path then AuthPublic
      else if as_auth_mode s \<noteq> ''api_key'' then AuthDeny 503 (er_simple ''auth_misconfigured'')
      else if unwrap_or_empty (as_api_key_worker s) = [] \<or> unwrap_or_empty (as_api_key_api s) = []
      then AuthDeny 503 (er_simple ''auth_misconfigured'')
      else if as_env s \<in> {''prod'', ''production''} \<and> unwrap_or_empty (as_api_key_operator s) = []
      then AuthDeny 503 (er_simple ''auth_misconfigured'')
      else let supplied = unwrap_or_empty header in
        if supplied = [] then AuthDeny 401 (er_simple ''unauthorized'')
        else case auth_role s supplied of
            None \<Rightarrow> AuthDeny 401 (er_simple ''unauthorized'')
          | Some role \<Rightarrow> AuthCaller role)"

section \<open>Requests and responses\<close>

record authorize_request =
  arq_action :: string
  arq_run_id :: string
  arq_subject :: string
  arq_params_fingerprint :: string
  arq_params :: "json btree option"
  arq_ttl_s :: "int option"
  arq_metadata :: "json btree option"

record authorize_response =
  ar_ok :: bool
  ar_token :: string
  ar_token_sha256 :: string
  ar_claims :: "json btree"

record ipc_channel =
  ch_client :: policy_engine_client
  ch_request_id :: string
  ch_sidecar :: "string \<Rightarrow> ipc_io"

section \<open>The authorize handler\<close>

definition int_string :: "int \<Rightarrow> string" where
  "int_string i = (if i < 0 then CHR ''-'' # dec_string (nat (- i)) else dec_string (nat i))"

definition issued_ttl :: "kernel_config \<Rightarrow> authorize_request \<Rightarrow> int \<times> int" where
  "issued_ttl cfg body =
     (let requested = (case arq_ttl_s body of None \<Rightarrow> kc_default_token_ttl_s cfg | Some t \<Rightarrow> t) in
      (requested, max (min (kc_max_token_ttl_s cfg) (max requested 1)) 1))"

text \<open>The checks before the policy call, in the order of the handler.\<close>

definition authorize_precheck :: "libs \<Rightarrow> string \<Rightarrow> authorize_request \<Rightarrow> (nat \<times> error_response, unit) result" where
  "authorize_precheck L caller_role body =
     (if caller_role \<notin> {''worker'', ''api''}
      then Err (403, er_with_reason ''forbidden'' ''caller_role_forbidden'')
      else if caller_role = ''api'' \<and> \<not> is_api_action_allowed (str_trim (arq_action body))
      then Err (403, er_with_reason ''forbidden'' ''api_action_forbidden'')
      else if (case arq_params body of None \<Rightarrow> False
               | Some params \<Rightarrow> params_fingerprint L (JObject params) \<noteq> arq_params_fingerprint body)
      then Err (403, er_with_reason ''forbidden'' ''params_fingerprint_mismatch'')
      else case arq_ttl_s body of
          None \<Rightarrow> Ok ()
        | Some t \<Rightarrow> if 1 \<le> t \<and> t \<le> 3600 then Ok ()
                    else Err (422, er_with_reason ''invalid_request'' (''ttl_s_out_of_range:'' @ int_string t)))"

definition policy_metadata :: "string \<Rightarrow> authorize_request \<Rightarrow> json btree" where
  "policy_metadata caller_role body =
     (let md = bt_insert ''caller_role'' (JString caller_role) (bt_insert ''run_id'' (JString (arq_run_id body)) []);
          md = (case arq_params body of None \<Rightarrow> md | Some params \<Rightarrow> bt_insert ''params'' (JObject params) md) in
      case arq_metadata body of None \<Rightarrow> md
      | Some extra \<Rightarrow> foldl (\<lambda>m (k, v). bt_insert k v m) md extra)"

definition policy_request :: "kernel_env \<Rightarrow> string \<Rightarrow> authorize_request \<Rightarrow> authorize_policy_request" where
  "policy_request env caller_role body =
     \<lparr>apr_action = arq_action body, apr_subject = caller_role, apr_now = ke_now env,
      apr_metadata = JObject (policy_metadata caller_role body)\<rparr>"

definition effective_decision :: "(ipc_error, policy_decision) result \<Rightarrow> policy_decision" where
  "effective_decision r =
     (case r of Inr d \<Rightarrow> d
      | Inl e \<Rightarrow> \<lparr>pd_allowed = False, pd_reason = ''policy_error:'' @ ipc_kind e,
                  pd_metadata = JObject (bt_of_list [(''error'', JString (ipc_detail e))])\<rparr>)"

definition authorize_audit_payload :: "string \<Rightarrow> authorize_request \<Rightarrow> int \<Rightarrow> int \<Rightarrow> policy_decision \<Rightarrow> json \<Rightarrow> json \<Rightarrow> json" where
  "authorize_audit_payload caller_role body requested ttl d tok_sha claims = JObject (bt_of_list
     [(''request'', JObject (bt_of_list
        [(''action'', JString (arq_action body)), (''run_id'', JString (arq_run_id body)),
         (''subject'', JString (arq_subject body)), (''caller_role'', JString caller_role),
         (''params_fingerprint'', JString (arq_params_fingerprint body)),
         (''ttl_s_requested'', json_from_i64 requested), (''ttl_s_issued'', json_from_i64 ttl),
         (''metadata'', json_from_opt JObject (arq_metadata body))])),
      (''decision'', JObject (bt_of_list
        [(''allowed'', JBool (pd_allowed d)), (''reason'', JString (pd_reason d)), (''metadata'', pd_metadata d)])),
      (''token_sha256'', tok_sha), (''claims'', claims)])"

definition audit_record :: "kernel_env \<Rightarrow> string \<Rightarrow> json \<Rightarrow> string option \<Rightarrow> kernel_state \<Rightarrow> kernel_state" where
  "audit_record env action_name payload error st = st\<lparr>ks_audit := ks_audit st @
     [\<lparr>au_unit_id = ''safety_kernel'', au_action_name = action_name, au_payload = payload,
       au_success = (error = None), au_error = error, au_started_at = ke_now env, au_ended_at = ke_ended_at env\<rparr>]\<rparr>"

definition authorize_token_claims :: "kernel_env \<Rightarrow> string \<Rightarrow> authorize_request \<Rightarrow> int \<Rightarrow> authorize_claims" where
  "authorize_token_claims env caller_role body ttl =
     \<lparr>ac_action = arq_action body, ac_aud = KERNEL_AUTHORIZE_AUD, ac_run_id = arq_run_id body, ac_subject = caller_role,
      ac_params_fingerprint = arq_params_fingerprint body, ac_issued_at = ke_now env,
      ac_expires_at = f64_add (ke_now env) (f64_of_int ttl), ac_nonce = ke_nonce env\<rparr>"

text \<open>The answer of the transparency log as the handler branches on it: the reason and the detail of a refusal.\<close>

definition authorize_tlog :: "libs \<Rightarrow> kernel_env \<Rightarrow> string \<Rightarrow> (string \<times> string, unit) result" where
  "authorize_tlog L env token =
     (case ke_tlog env of
        None \<Rightarrow> Ok ()
      | Some log_append \<Rightarrow>
          (case log_append (tlog_input L token (ke_now env)) of
             TlogAnswered (Inr _) \<Rightarrow> Ok ()
           | TlogAnswered (Inl e) \<Rightarrow>
               if e = TlConflict then Ok () else Err (''transparency_error:'' @ tl_kind e, tl_detail e)
           | TlogElapsed \<Rightarrow> Err (''transparency_error:timeout'', ''transparency-log timed out'')))"

definition synth_audit_and_deny :: "kernel_env \<Rightarrow> string \<Rightarrow> authorize_request \<Rightarrow> int \<Rightarrow> int \<Rightarrow> string \<Rightarrow> string \<Rightarrow> kernel_state \<Rightarrow>
    kernel_state" where
  "synth_audit_and_deny env caller_role body requested ttl reason detail st =
     audit_record env ''kernel_authorize''
       (authorize_audit_payload caller_role body requested ttl
          \<lparr>pd_allowed = False, pd_reason = reason, pd_metadata = JObject (bt_of_list [(''error'', JString detail)])\<rparr> JNull JNull)
       (Some reason) st"

definition authorize :: "libs \<Rightarrow> kernel_config \<Rightarrow> kernel_env \<Rightarrow> ipc_channel \<Rightarrow> string \<Rightarrow> authorize_request \<Rightarrow> kernel_state \<Rightarrow>
    authorize_response kernel_reply \<times> kernel_state" where
  "authorize L cfg env ch caller_role body st =
     (case authorize_precheck L caller_role body of
        Inl (status, e) \<Rightarrow> (KDeny status e, st)
      | Inr _ \<Rightarrow>
        let (requested, ttl) = issued_ttl cfg body;
            d = effective_decision (ipc_authorize L (ch_client ch) (ch_sidecar ch) (ch_request_id ch) (policy_request env caller_role body)) in
        if \<not> pd_allowed d then
          (KDeny 403 (er_with_reason ''denied'' (pd_reason d)),
           audit_record env ''kernel_authorize'' (authorize_audit_payload caller_role body requested ttl d JNull JNull)
             (Some (pd_reason d)) st)
        else
          let claims = authorize_token_claims env caller_role body ttl;
              token = sign_kernel_token L authorize_claims_map claims (kc_signing_key cfg);
              tok_sha = token_sha256 L token;
              claims_map = authorize_claims_map claims in
          case authorize_tlog L env token of
            Inl (reason, detail) \<Rightarrow>
              (KDeny 403 (er_with_reason ''denied'' reason),
               synth_audit_and_deny env caller_role body requested ttl reason detail st)
          | Inr _ \<Rightarrow>
              (KJson \<lparr>ar_ok = True, ar_token = token, ar_token_sha256 = tok_sha, ar_claims = claims_map\<rparr>,
               audit_record env ''kernel_authorize''
                 (authorize_audit_payload caller_role body requested ttl d (JString tok_sha) (JObject claims_map)) None st))"

section \<open>Approvals\<close>

record approve_request =
  pq_approver :: string
  pq_proposal_fingerprint :: string
  pq_metadata :: "json btree option"

record reject_request =
  jq_approver :: string
  jq_proposal_fingerprint :: string
  jq_reason :: "string option"
  jq_metadata :: "json btree option"

record signed_decision_response =
  sd_ok :: bool
  sd_item_id :: string
  sd_decision :: string
  sd_token :: string
  sd_token_sha256 :: string
  sd_claims :: "json btree"

definition compute_decision_fingerprint :: "libs \<Rightarrow> string \<Rightarrow> string \<Rightarrow> string \<Rightarrow> string option \<Rightarrow> string \<Rightarrow> string" where
  "compute_decision_fingerprint L item_id decision approver reason proposal_fingerprint =
     params_fingerprint L (JObject (bt_of_list
       [(''item_id'', JString item_id), (''decision'', JString decision), (''approver'', JString approver),
        (''reason'', json_from_opt_str reason), (''proposal_fingerprint'', JString proposal_fingerprint)]))"

definition decision_claims :: "libs \<Rightarrow> kernel_config \<Rightarrow> kernel_env \<Rightarrow> string \<Rightarrow> string \<Rightarrow> string \<Rightarrow> string option \<Rightarrow> string \<Rightarrow> approval_claims" where
  "decision_claims L cfg env item_id decision approver reason proposal_fingerprint =
     \<lparr>ap_action = ''approval_decision'', ap_aud = APPROVAL_AUD, ap_run_id = item_id, ap_subject = ''operator'',
      ap_params_fingerprint = compute_decision_fingerprint L item_id decision approver reason proposal_fingerprint,
      ap_issued_at = ke_now env, ap_expires_at = f64_add (ke_now env) (f64_of_int (max (kc_approval_token_ttl_s cfg) 60)),
      ap_nonce = ke_nonce env, ap_decision = decision, ap_reason = reason, ap_approver = approver,
      ap_proposal_fingerprint = proposal_fingerprint\<rparr>"

definition sign_decision :: "libs \<Rightarrow> kernel_config \<Rightarrow> kernel_env \<Rightarrow> string \<Rightarrow> string \<Rightarrow> string \<Rightarrow> string \<Rightarrow> string option \<Rightarrow> string \<Rightarrow>
    json btree option \<Rightarrow> kernel_state \<Rightarrow> signed_decision_response kernel_reply \<times> kernel_state" where
  "sign_decision L cfg env caller_role item_id decision approver reason proposal_fingerprint metadata st =
     (if caller_role \<noteq> ''operator'' then (KDeny 403 (er_with_reason ''forbidden'' ''caller_role_not_operator''), st)
      else
        let claims = decision_claims L cfg env item_id decision approver reason proposal_fingerprint;
            token = sign_kernel_token L approval_claims_map claims (kc_signing_key cfg);
            tok_sha = token_sha256 L token;
            claims_map = approval_claims_map claims;
            audit_payload = JObject (bt_of_list
              [(''request'', JObject (bt_of_list
                 [(''item_id'', JString item_id), (''decision'', JString decision), (''approver'', JString approver),
                  (''reason'', json_from_opt_str reason), (''proposal_fingerprint'', JString proposal_fingerprint),
                  (''metadata'', json_from_opt JObject metadata), (''caller_role'', JString caller_role)])),
               (''token_sha256'', JString tok_sha), (''claims'', JObject claims_map)]) in
        (KJson \<lparr>sd_ok = True, sd_item_id = item_id, sd_decision = decision, sd_token = token,
           sd_token_sha256 = tok_sha, sd_claims = claims_map\<rparr>,
         audit_record env ''kernel_signed_approval'' audit_payload None st))"

definition approve :: "libs \<Rightarrow> kernel_config \<Rightarrow> kernel_env \<Rightarrow> string \<Rightarrow> string \<Rightarrow> approve_request \<Rightarrow> kernel_state \<Rightarrow>
    signed_decision_response kernel_reply \<times> kernel_state" where
  "approve L cfg env caller item_id body st =
     sign_decision L cfg env caller item_id ''approved'' (pq_approver body) None (pq_proposal_fingerprint body) (pq_metadata body) st"

definition reject :: "libs \<Rightarrow> kernel_config \<Rightarrow> kernel_env \<Rightarrow> string \<Rightarrow> string \<Rightarrow> reject_request \<Rightarrow> kernel_state \<Rightarrow>
    signed_decision_response kernel_reply \<times> kernel_state" where
  "reject L cfg env caller item_id body st =
     sign_decision L cfg env caller item_id ''rejected'' (jq_approver body) (jq_reason body) (jq_proposal_fingerprint body) (jq_metadata body) st"

section \<open>Public endpoints\<close>

record health_response =
  hr_ok :: bool
  hr_version :: string
  hr_uptime_s :: f64

record public_key_response =
  pkr_ok :: bool
  pkr_algorithm :: string
  pkr_public_key_b64 :: string
  pkr_public_key_fingerprint :: string

definition health :: "kernel_config \<Rightarrow> kernel_env \<Rightarrow> f64 \<Rightarrow> health_response" where
  "health cfg env started_at =
     \<lparr>hr_ok = True, hr_version = kc_build_version cfg, hr_uptime_s = f64_max (f64_sub (ke_now env) started_at) (Finite 0)\<rparr>"

definition public_key_route :: "kernel_config \<Rightarrow> public_key_response" where
  "public_key_route cfg =
     \<lparr>pkr_ok = True, pkr_algorithm = ''Ed25519'', pkr_public_key_b64 = kc_public_key_b64 cfg,
      pkr_public_key_fingerprint = kc_public_key_fingerprint cfg\<rparr>"

section \<open>Lemmas: the key layer\<close>

definition role_key :: "auth_settings \<Rightarrow> string \<Rightarrow> string option" where
  "role_key s role =
     (if role = ''worker'' then as_api_key_worker s else if role = ''api'' then as_api_key_api s
      else if role = ''operator'' then as_api_key_operator s else if role = ''reaper'' then as_api_key_reaper s else None)"

lemma unwrap_or_empty_nonempty: "unwrap_or_empty x \<noteq> [] \<longleftrightarrow> (\<exists>v. x = Some v \<and> v \<noteq> [])"
  by (auto simp: unwrap_or_empty_def split: option.splits)

lemma unwrap_or_empty_key: "unwrap_or_empty x \<noteq> [] \<Longrightarrow> k = unwrap_or_empty x \<Longrightarrow> x = Some k \<and> k \<noteq> []"
  by (auto simp: unwrap_or_empty_def split: option.splits)

lemma auth_role_key:
  assumes "auth_role s k = Some role"
  shows "role_key s role = Some k \<and> k \<noteq> []"
proof -
  from assms consider
      "role = ''worker''" "unwrap_or_empty (as_api_key_worker s) \<noteq> []" "k = unwrap_or_empty (as_api_key_worker s)"
    | "role = ''api''" "unwrap_or_empty (as_api_key_api s) \<noteq> []" "k = unwrap_or_empty (as_api_key_api s)"
    | "role = ''operator''" "unwrap_or_empty (as_api_key_operator s) \<noteq> []" "k = unwrap_or_empty (as_api_key_operator s)"
    | "role = ''reaper''" "unwrap_or_empty (as_api_key_reaper s) \<noteq> []" "k = unwrap_or_empty (as_api_key_reaper s)"
    unfolding auth_role_def Let_def constant_time_eq_iff as_bytes_inj
    by (metis option.distinct(1) option.inject)
  then show ?thesis by cases (use unwrap_or_empty_key in \<open>auto simp: role_key_def\<close>)
qed

lemma auth_layer_caller:
  "auth_layer s path header = AuthCaller role \<Longrightarrow>
     \<not> is_public_path path \<and> (\<exists>k. header = Some k \<and> k \<noteq> [] \<and> role_key s role = Some k)"
  by (auto simp: auth_layer_def Let_def unwrap_or_empty_nonempty split: if_splits option.splits dest!: auth_role_key)
    (auto simp: unwrap_or_empty_def)

section \<open>Lemmas: the policy round trip\<close>

text \<open>
  What an allowing sidecar did: it was reached, took the request line and answered one line with a
  JSON object that reports success, repeats the request id and carries an allowing decision.
\<close>

definition sidecar_allows :: "libs \<Rightarrow> ipc_channel \<Rightarrow> authorize_policy_request \<Rightarrow> bool" where
  "sidecar_allows L ch req \<longleftrightarrow>
     (let io = ch_sidecar ch (json_to_string L (authorize_envelope (ch_request_id ch) req) @ [CHR 0x0A]) in
      io_connect io = IoDone () \<and> io_write io = IoDone () \<and>
      (\<exists>buf m d. io_read io = IoDone buf \<and> buf \<noteq> [] \<and>
         json_from_slice L (as_bytes (trim_line_end buf)) = Ok (JObject m) \<and>
         bt_get m ''ok'' = Some (JBool True) \<and> bt_get m ''request_id'' = Some (JString (ch_request_id ch)) \<and>
         bt_get m ''decision'' = Some (JObject d) \<and> bt_get d ''allowed'' = Some (JBool True)))"

lemma json_as_bool_eq [simp]: "json_as_bool v = Some b \<longleftrightarrow> v = JBool b"
  by (cases v) auto

lemma json_as_str_eq [simp]: "json_as_str v = Some s \<longleftrightarrow> v = JString s"
  by (cases v) auto

lemma json_get_eq: "json_get v k = Some x \<longleftrightarrow> (\<exists>m. v = JObject m \<and> bt_get m k = Some x)"
  by (cases v) auto

lemma get_with_eq: "get_with f v k = Some x \<longleftrightarrow> (\<exists>m y. v = JObject m \<and> bt_get m k = Some y \<and> f y = Some x)"
  by (auto simp: get_with_def json_get_eq bind_eq_Some_conv)

lemma parse_line_Ok: "parse_line L buf = Ok v \<longleftrightarrow>
    buf \<noteq> [] \<and> (\<exists>m. v = JObject m \<and> json_from_slice L (as_bytes (trim_line_end buf)) = Ok (JObject m))"
  by (auto split: sum.splits json.splits)

lemma round_trip_Ok: "round_trip L c sidecar envelope = Ok v \<longleftrightarrow>
    (let io = sidecar (json_to_string L envelope @ [CHR 0x0A]) in
     io_connect io = IoDone () \<and> io_write io = IoDone () \<and> (\<exists>buf. io_read io = IoDone buf \<and> parse_line L buf = Ok v))"
  by (simp add: round_trip_def Let_def split: io_step.splits del: parse_line.simps)

lemma get_with_obj [simp]: "get_with f (JObject m) k = Option.bind (bt_get m k) f"
  by (simp add: get_with_def)

lemma check_envelope_Ok:
  assumes "rid \<noteq> []"
  shows "check_envelope (JObject m) rid = Ok u \<longleftrightarrow>
    bt_get m ''ok'' = Some (JBool True) \<and> bt_get m ''request_id'' = Some (JString rid)"
proof (cases "Option.bind (bt_get m ''ok'') json_as_bool")
  case None
  then show ?thesis by (auto simp: check_envelope_def res_bind_def ok_or_def)
next
  case (Some b)
  then show ?thesis using assms
    by (cases "Option.bind (bt_get m ''request_id'') json_as_str")
      (auto simp: check_envelope_def res_bind_def ok_or_def Let_def bind_eq_Some_conv)
qed

lemma parse_authorize_allowed:
  assumes "rid \<noteq> []"
  shows "(\<exists>d. parse_authorize_response (JObject m) rid = Ok d \<and> pd_allowed d) \<longleftrightarrow>
    bt_get m ''ok'' = Some (JBool True) \<and> bt_get m ''request_id'' = Some (JString rid) \<and>
    (\<exists>d. bt_get m ''decision'' = Some (JObject d) \<and> bt_get d ''allowed'' = Some (JBool True))"
proof (cases "check_envelope (JObject m) rid")
  case (Inl e)
  then show ?thesis using check_envelope_Ok[OF assms, of m "()"]
    by (auto simp: parse_authorize_response_def res_bind_def)
next
  case (Inr u)
  have "(\<exists>d. parse_authorize_response (JObject m) rid = Ok d \<and> pd_allowed d) \<longleftrightarrow>
      (\<exists>v. bt_get m ''decision'' = Some v \<and> get_with json_as_bool v ''allowed'' = Some True)"
    by (cases "bt_get m ''decision''")
      (auto simp: parse_authorize_response_def res_bind_def ok_or_def Inr split: option.splits sum.splits)
  then show ?thesis using check_envelope_Ok[OF assms, of m u] Inr by (auto simp: get_with_eq)
qed

lemma ipc_authorize_allowed:
  assumes "ch_request_id ch \<noteq> []"
  shows "pd_allowed (effective_decision (ipc_authorize L (ch_client ch) (ch_sidecar ch) (ch_request_id ch) req)) \<longleftrightarrow>
    sidecar_allows L ch req"
proof -
  let ?r = "ipc_authorize L (ch_client ch) (ch_sidecar ch) (ch_request_id ch) req"
  have "pd_allowed (effective_decision ?r) \<longleftrightarrow> (\<exists>d. ?r = Ok d \<and> pd_allowed d)"
    by (auto simp: effective_decision_def split: sum.splits)
  also have "\<dots> \<longleftrightarrow> (\<exists>v. round_trip L (ch_client ch) (ch_sidecar ch) (authorize_envelope (ch_request_id ch) req) = Ok v \<and>
      (\<exists>d. parse_authorize_response v (ch_request_id ch) = Ok d \<and> pd_allowed d))"
    by (auto simp: ipc_authorize_def res_bind_def split: sum.splits)
  also have "\<dots> \<longleftrightarrow> sidecar_allows L ch req"
    unfolding round_trip_Ok sidecar_allows_def Let_def parse_line_Ok
    using parse_authorize_allowed[OF assms] by blast
  finally show ?thesis .
qed

section \<open>Lemmas: the authorize handler\<close>

lemma authorize_precheck_Ok: "authorize_precheck L caller body = Ok u \<longleftrightarrow>
    caller \<in> {''worker'', ''api''} \<and> (caller = ''api'' \<longrightarrow> is_api_action_allowed (str_trim (arq_action body))) \<and>
    (\<forall>params. arq_params body = Some params \<longrightarrow> params_fingerprint L (JObject params) = arq_params_fingerprint body) \<and>
    (\<forall>t. arq_ttl_s body = Some t \<longrightarrow> 1 \<le> t \<and> t \<le> 3600)"
  by (auto simp: authorize_precheck_def split: option.splits if_splits)

lemma issued_ttl_bounds:
  "issued_ttl cfg body = (requested, ttl) \<Longrightarrow> 1 \<le> ttl \<and> ttl \<le> max 1 (kc_max_token_ttl_s cfg)"
  by (auto simp: issued_ttl_def Let_def)

lemma authorize_reply:
  assumes "ch_request_id ch \<noteq> []"
  shows "fst (authorize L cfg env ch caller body st) = KJson resp \<longleftrightarrow>
    is_ok (authorize_precheck L caller body) \<and> sidecar_allows L ch (policy_request env caller body) \<and>
    is_ok (authorize_tlog L env (ar_token resp)) \<and>
    (\<exists>claims. claims = authorize_token_claims env caller body (snd (issued_ttl cfg body)) \<and>
      ar_ok resp \<and> ar_token resp = sign_kernel_token L authorize_claims_map claims (kc_signing_key cfg) \<and>
      ar_token_sha256 resp = token_sha256 L (ar_token resp) \<and> ar_claims resp = authorize_claims_map claims)"
proof -
  let ?d = "effective_decision (ipc_authorize L (ch_client ch) (ch_sidecar ch) (ch_request_id ch) (policy_request env caller body))"
  have d: "pd_allowed ?d \<longleftrightarrow> sidecar_allows L ch (policy_request env caller body)"
    by (rule ipc_authorize_allowed[OF assms])
  show ?thesis
  proof (cases "authorize_precheck L caller body")
    case (Inl e)
    then show ?thesis by (cases e) (simp add: authorize_def is_ok_def)
  next
    case (Inr u)
    show ?thesis
    proof (cases "pd_allowed ?d")
      case False
      with d Inr show ?thesis by (simp add: authorize_def Let_def case_prod_beta is_ok_def)
    next
      case True
      let ?c = "authorize_token_claims env caller body (snd (issued_ttl cfg body))"
      let ?t = "sign_kernel_token L authorize_claims_map ?c (kc_signing_key cfg)"
      from True d Inr show ?thesis
        by (cases "authorize_tlog L env ?t"; cases resp)
          (auto simp: authorize_def Let_def case_prod_beta is_ok_def split: sum.splits)
    qed
  qed
qed

text \<open>C4: the kernel issues an authorisation exactly when every gate agrees: the caller is a worker or
  the API tier with an allow-listed action, the parameters (when sent) hash to the declared
  fingerprint, a requested lifetime is within an hour, the policy sidecar was reached and answered,
  for this request, an explicit allow, and the transparency log (when configured) accepted the very
  token that is returned.  A sidecar that is down, slow, malformed, answering another request or
  denying, and a log that is down, slow or refusing, all lead to a denial.\<close>

theorem authorize_issues_iff:
  assumes "ch_request_id ch \<noteq> []"
  shows "(\<exists>resp. fst (authorize L cfg env ch caller body st) = KJson resp) \<longleftrightarrow>
    (caller = ''worker'' \<or> caller = ''api'' \<and> is_api_action_allowed (str_trim (arq_action body))) \<and>
    (\<forall>params. arq_params body = Some params \<longrightarrow> params_fingerprint L (JObject params) = arq_params_fingerprint body) \<and>
    (\<forall>t. arq_ttl_s body = Some t \<longrightarrow> 1 \<le> t \<and> t \<le> 3600) \<and>
    sidecar_allows L ch (policy_request env caller body) \<and>
    (\<forall>log_append answer. ke_tlog env = Some log_append \<longrightarrow>
       log_append (tlog_input L (sign_kernel_token L authorize_claims_map
         (authorize_token_claims env caller body (snd (issued_ttl cfg body))) (kc_signing_key cfg)) (ke_now env)) = answer \<longrightarrow>
       answer = TlogAnswered (Inl TlConflict) \<or> (\<exists>outcome. answer = TlogAnswered (Inr outcome)))"
proof -
  let ?c = "authorize_token_claims env caller body (snd (issued_ttl cfg body))"
  let ?t = "sign_kernel_token L authorize_claims_map ?c (kc_signing_key cfg)"
  have "(\<exists>resp. fst (authorize L cfg env ch caller body st) = KJson resp) \<longleftrightarrow>
      is_ok (authorize_precheck L caller body) \<and> sidecar_allows L ch (policy_request env caller body) \<and>
      is_ok (authorize_tlog L env ?t)" (is "?l \<longleftrightarrow> ?r")
  proof
    assume ?r
    then have "fst (authorize L cfg env ch caller body st) =
        KJson \<lparr>ar_ok = True, ar_token = ?t, ar_token_sha256 = token_sha256 L ?t, ar_claims = authorize_claims_map ?c\<rparr>"
      by (simp add: authorize_reply[OF assms])
    then show ?l by blast
  qed (auto simp: authorize_reply[OF assms])
  moreover have "is_ok (authorize_tlog L env ?t) \<longleftrightarrow>
      (\<forall>log_append answer. ke_tlog env = Some log_append \<longrightarrow> log_append (tlog_input L ?t (ke_now env)) = answer \<longrightarrow>
         answer = TlogAnswered (Inl TlConflict) \<or> (\<exists>outcome. answer = TlogAnswered (Inr outcome)))"
    by (auto simp: authorize_tlog_def is_ok_def split: option.splits tlog_answer.splits sum.splits)
  moreover have "is_ok (authorize_precheck L caller body) \<longleftrightarrow> (\<exists>u. authorize_precheck L caller body = Ok u)"
    by (simp add: is_ok_iff)
  ultimately show ?thesis unfolding authorize_precheck_Ok by auto
qed


section \<open>Witnesses\<close>

definition sample_policy_reply :: json where
  "sample_policy_reply = JObject (bt_of_list [(''ok'', JBool True), (''request_id'', JString ''r1''),
     (''decision'', JObject (bt_of_list [(''allowed'', JBool True)]))])"

definition authorize_libs :: libs where
  "authorize_libs = (sample_libs (JObject (authorize_claims_map sample_authorize_claims)))
     \<lparr>json_from_slice := (\<lambda>bs. Ok (if bs = as_bytes ''ok'' then sample_policy_reply
        else JObject (authorize_claims_map sample_authorize_claims)))\<rparr>"

definition sample_channel :: ipc_channel where
  "sample_channel = \<lparr>ch_client = \<lparr>pe_connect_timeout = ''1s'', pe_request_timeout = ''5s''\<rparr>, ch_request_id = ''r1'',
     ch_sidecar = (\<lambda>_. \<lparr>io_connect = IoDone (), io_write = IoDone (), io_read = IoDone ''ok''\<rparr>)\<rparr>"

definition sample_authorize_request :: authorize_request where
  "sample_authorize_request = \<lparr>arq_action = ''deploy'', arq_run_id = ''run-1'', arq_subject = ''anyone'',
     arq_params_fingerprint = ''f00d'', arq_params = None, arq_ttl_s = Some 30, arq_metadata = None\<rparr>"

lemma authorize_libs_contracts:
  "b64_contract authorize_libs" "ed25519_contract authorize_libs"
  "json_contract authorize_libs (JObject (authorize_claims_map sample_authorize_claims))"
  using sample_libs_contracts[of "JObject (authorize_claims_map sample_authorize_claims)"]
  by (simp_all add: authorize_libs_def b64_contract_def ed25519_contract_def json_contract_def,
      simp add: sample_libs_def as_bytes_def)

lemma sample_reply_fields:
  "json_from_slice authorize_libs (as_bytes (trim_line_end ''ok'')) = Ok sample_policy_reply"
  by (simp add: authorize_libs_def trim_line_end_def)

lemma sample_sidecar_allows: "sidecar_allows authorize_libs sample_channel req"
  using sample_reply_fields
  by (simp add: sidecar_allows_def Let_def sample_channel_def sample_policy_reply_def bt_get_of_list)

lemma sample_sidecar_other_request: "\<not> sidecar_allows authorize_libs (sample_channel\<lparr>ch_request_id := ''r2''\<rparr>) req"
  using sample_reply_fields
  by (auto simp: sidecar_allows_def Let_def sample_channel_def sample_policy_reply_def bt_get_of_list)

lemma sample_ttl: "issued_ttl sample_config sample_authorize_request = (30, 30)"
  by (simp add: issued_ttl_def sample_config_def sample_authorize_request_def)

lemma sample_authorize_request_simps [simp]:
  "arq_action sample_authorize_request = ''deploy''" "arq_run_id sample_authorize_request = ''run-1''"
  "arq_params_fingerprint sample_authorize_request = ''f00d''"
  "arq_params sample_authorize_request = None" "arq_ttl_s sample_authorize_request = Some 30"
  by (simp_all add: sample_authorize_request_def)

lemma sample_env_simps [simp]:
  "ke_now sample_env = Finite 100" "ke_nonce sample_env = ''n1''" "ke_tlog sample_env = None"
  by (simp_all add: sample_env_def)

theorem authorize_issues_iff_witness:
  "(\<exists>resp. fst (authorize authorize_libs sample_config sample_env sample_channel ''worker'' sample_authorize_request kernel_state_init) =
      KJson resp) \<and>
   \<not> (\<exists>resp. fst (authorize authorize_libs sample_config sample_env (sample_channel\<lparr>ch_request_id := ''r2''\<rparr>) ''worker''
      sample_authorize_request kernel_state_init) = KJson resp)"
proof -
  have "ch_request_id sample_channel \<noteq> []" by (simp add: sample_channel_def)
  note a = authorize_issues_iff[OF this, of authorize_libs sample_config sample_env "''worker''" sample_authorize_request kernel_state_init]
  have "ch_request_id (sample_channel\<lparr>ch_request_id := ''r2''\<rparr>) \<noteq> []" by simp
  note b = authorize_issues_iff[OF this, of authorize_libs sample_config sample_env "''worker''" sample_authorize_request kernel_state_init]
  show ?thesis unfolding a b by (simp add: sample_sidecar_allows sample_sidecar_other_request)
qed

lemma sample_authorization:
  assumes "resp = \<lparr>ar_ok = True, ar_token = sign_kernel_token authorize_libs authorize_claims_map sample_authorize_claims 7,
    ar_token_sha256 = token_sha256 authorize_libs (sign_kernel_token authorize_libs authorize_claims_map sample_authorize_claims 7),
    ar_claims = authorize_claims_map sample_authorize_claims\<rparr>"
  shows "fst (authorize authorize_libs sample_config sample_env sample_channel ''worker'' sample_authorize_request kernel_state_init) = KJson resp"
proof -
  have c: "authorize_token_claims sample_env ''worker'' sample_authorize_request 30 = sample_authorize_claims"
    by (simp add: authorize_token_claims_def sample_authorize_claims_def sample_expiry)
  have k: "kc_signing_key sample_config = 7" by (simp add: sample_config_def)
  have "ch_request_id sample_channel \<noteq> []" by (simp add: sample_channel_def)
  moreover have "is_ok (authorize_precheck authorize_libs ''worker'' sample_authorize_request)"
    by (simp add: authorize_precheck_def is_ok_def)
  ultimately show ?thesis
    using assms by (simp add: authorize_reply sample_sidecar_allows sample_ttl c k authorize_tlog_def is_ok_def)
qed


end
