(* ===== verification/PolicyRoutes.thy ===== *)
theory PolicyRoutes
  imports Authorize
begin

text \<open>
  The module-policy endpoints of the kernel, \<^verbatim>\<open>src/crates/services/safety-kernel/src/routes/policy/\<close>
  (register, authorize, audit-event, status), with the request types of
  \<^verbatim>\<open>domain/src/safety/policy/types.rs\<close> and the path check of \<^verbatim>\<open>domain/src/safety/policy/validation.rs\<close>.

  The \<^verbatim>\<open>regex\<close> crate is the parameter \<open>regex_lib\<close>: compiling one pattern, and building a set under a
  size limit.  A reply with a JSON body carries its status.
\<close>

section \<open>Path and fingerprint checks\<close>

definition MAX_MODULE_PATH_LEN :: nat where "MAX_MODULE_PATH_LEN = 256"

definition MODULE_PATH_INVALID_CHARSET_REASON :: string where
  "MODULE_PATH_INVALID_CHARSET_REASON = ''module_path_invalid_charset''"

definition byte_in :: "char \<Rightarrow> char \<Rightarrow> char \<Rightarrow> bool" where
  "byte_in lo hi c \<longleftrightarrow> of_char lo \<le> (of_char c :: nat) \<and> (of_char c :: nat) \<le> of_char hi"

definition lower_hex :: "char \<Rightarrow> bool" where
  "lower_hex c \<longleftrightarrow> byte_in (CHR ''0'') (CHR ''9'') c \<or> byte_in (CHR ''a'') (CHR ''f'') c"

definition dotted_char :: "char \<Rightarrow> bool" where
  "dotted_char c \<longleftrightarrow> byte_in (CHR ''A'') (CHR ''Z'') c \<or> byte_in (CHR ''a'') (CHR ''z'') c \<or>
     byte_in (CHR ''0'') (CHR ''9'') c \<or> c = CHR ''_'' \<or> c = CHR ''.''"

definition is_valid_module_path :: "string \<Rightarrow> bool" where
  "is_valid_module_path s =
     (if s = [] \<or> MAX_MODULE_PATH_LEN < length s then False
      else if list_all dotted_char s then True
      else if length s = 64 then list_all lower_hex s
      else False)"

definition is_64_lowercase_hex :: "string \<Rightarrow> bool" where
  "is_64_lowercase_hex s \<longleftrightarrow> length s = 64 \<and> list_all lower_hex s"

section \<open>Requests\<close>

record module_authorize_request =
  maq_event_kind :: module_event_kind
  maq_module_path :: string
  maq_caller_subject :: string
  maq_caller_run_id :: string
  maq_event_fingerprint :: string
  maq_expected_required_patterns :: "string list option"
  maq_metadata :: "json btree option"

record module_register_request =
  gq_module_path :: string
  gq_required_patterns_regex_set :: "string list"
  gq_caller_subject :: string

datatype audit_event_kind = HookInstallViolation | SubprocessPropagationFailed | RegistryConsistencyWarning

record module_audit_event_request =
  eq_event_kind :: audit_event_kind
  eq_subject :: string
  eq_metadata :: "json btree option"

fun event_kind_to_wire :: "module_event_kind \<Rightarrow> string" where
  "event_kind_to_wire EvImport = ''import''"
| "event_kind_to_wire EvExec = ''exec''"
| "event_kind_to_wire EvCompile = ''compile''"

fun audit_event_kind_to_wire :: "audit_event_kind \<Rightarrow> string" where
  "audit_event_kind_to_wire HookInstallViolation = ''hook_install_violation''"
| "audit_event_kind_to_wire SubprocessPropagationFailed = ''subprocess_propagation_failed''"
| "audit_event_kind_to_wire RegistryConsistencyWarning = ''registry_consistency_warning''"

type_synonym json_reply = "(nat \<times> json) kernel_reply"

definition invalid_request :: "string \<Rightarrow> json_reply" where
  "invalid_request reason = KDeny 400 (er_with_reason ''invalid_request'' reason)"

definition policy_unavailable :: "ipc_error \<Rightarrow> json_reply" where
  "policy_unavailable e = KDeny 503 (er_with_reason ''kernel_unavailable'' (''policy_error:'' @ ipc_kind e))"

definition build_iss :: "kernel_config \<Rightarrow> string" where
  "build_iss cfg = ''qorch-safety-kernel/'' @ kc_build_version cfg @ ''@'' @ take 16 (kc_public_key_fingerprint cfg)"

section \<open>Authorize\<close>

definition AUTHORIZE_TOKEN_TTL_S :: f64 where "AUTHORIZE_TOKEN_TTL_S = Finite 60"

definition recompute_event_fingerprint :: "libs \<Rightarrow> module_authorize_request \<Rightarrow> string" where
  "recompute_event_fingerprint L req = params_fingerprint L (JObject (bt_of_list
     [(''event_kind'', JString (event_kind_to_wire (maq_event_kind req))), (''module_path'', JString (maq_module_path req)),
      (''caller_subject'', JString (maq_caller_subject req)), (''caller_run_id'', JString (maq_caller_run_id req))]))"

definition module_ipc_request :: "string \<Rightarrow> module_authorize_request \<Rightarrow> ipc_module_authorize_request" where
  "module_ipc_request recomputed body =
     \<lparr>mar_event_kind = event_kind_to_wire (maq_event_kind body), mar_module_path = maq_module_path body,
      mar_caller_subject = maq_caller_subject body, mar_caller_run_id = maq_caller_run_id body,
      mar_event_fingerprint = recomputed, mar_expected_required_patterns = maq_expected_required_patterns body,
      mar_metadata = map_option JObject (maq_metadata body)\<rparr>"

definition module_token_claims :: "kernel_config \<Rightarrow> kernel_env \<Rightarrow> module_authorize_request \<Rightarrow> string \<Rightarrow> module_authorize_decision \<Rightarrow>
    string option \<Rightarrow> module_authorize_claims" where
  "module_token_claims cfg env body recomputed decision reason =
     \<lparr>ma_aud = POLICY_AUTHORIZE_AUD, ma_iss = build_iss cfg, ma_iat = ke_now env,
      ma_exp = f64_add (ke_now env) AUTHORIZE_TOKEN_TTL_S, ma_subject = maq_caller_subject body,
      ma_run_id = maq_caller_run_id body, ma_event_kind = maq_event_kind body, ma_module_path = maq_module_path body,
      ma_event_fingerprint = recomputed, ma_decision = decision,
      ma_reason = (if decision = DecDeny then Some (case reason of None \<Rightarrow> ''unspecified'' | Some r \<Rightarrow> r) else None),
      ma_nonce = ke_nonce env\<rparr>"

definition module_audit_payload :: "string \<Rightarrow> module_authorize_request \<Rightarrow> bool \<Rightarrow> ipc_module_authorize_response \<Rightarrow> string \<Rightarrow> string \<Rightarrow>
    json btree \<Rightarrow> json" where
  "module_audit_payload caller_role body allowed ipc_resp audit_kind tok_sha claims_map = JObject (bt_of_list
     [(''request'', JObject (bt_of_list
        [(''event_kind'', JString (event_kind_to_wire (maq_event_kind body))), (''module_path'', JString (maq_module_path body)),
         (''caller_subject'', JString (maq_caller_subject body)), (''caller_run_id'', JString (maq_caller_run_id body)),
         (''event_fingerprint'', JString (maq_event_fingerprint body)), (''caller_role'', JString caller_role),
         (''expected_required_patterns'', json_from_opt json_from_strings (maq_expected_required_patterns body)),
         (''metadata'', json_from_opt JObject (maq_metadata body))])),
      (''decision'', JObject (bt_of_list
        [(''allowed'', JBool allowed), (''reason'', JString (unwrap_or_empty (mas_reason ipc_resp))),
         (''metadata'', JObject (bt_of_list
            [(''registered_at_unix_ms'', json_from_opt json_from_i64 (mas_registered_at_unix_ms ipc_resp)),
             (''audit_kind'', JString audit_kind)]))])),
      (''token_sha256'', JString tok_sha), (''claims'', JObject claims_map)])"

definition audit_send :: "kernel_env \<Rightarrow> string \<Rightarrow> json \<Rightarrow> bool \<Rightarrow> string option \<Rightarrow> kernel_state \<Rightarrow> kernel_state" where
  "audit_send env action_name payload success error st = st\<lparr>ks_audit := ks_audit st @
     [\<lparr>au_unit_id = ''safety_kernel'', au_action_name = action_name, au_payload = payload,
       au_success = success, au_error = error, au_started_at = ke_now env, au_ended_at = ke_ended_at env\<rparr>]\<rparr>"

definition policy_authorize :: "libs \<Rightarrow> kernel_config \<Rightarrow> kernel_env \<Rightarrow> ipc_channel \<Rightarrow> string \<Rightarrow> module_authorize_request \<Rightarrow> kernel_state \<Rightarrow>
    json_reply \<times> kernel_state" where
  "policy_authorize L cfg env ch caller_role body st =
     (if caller_role \<noteq> ''worker'' then (KDeny 403 (er_with_reason ''forbidden'' ''caller_role_not_worker''), st)
      else if \<not> is_valid_module_path (maq_module_path body) then (invalid_request MODULE_PATH_INVALID_CHARSET_REASON, st)
      else if \<not> is_64_lowercase_hex (maq_event_fingerprint body) then (invalid_request ''event_fingerprint_format'', st)
      else
        let recomputed = recompute_event_fingerprint L body in
        if recomputed \<noteq> maq_event_fingerprint body then (invalid_request ''event_fingerprint_invalid'', st)
        else
          case ipc_policy_authorize L (ch_client ch) (ch_sidecar ch) (ch_request_id ch) (module_ipc_request recomputed body) of
            Inl e \<Rightarrow> (policy_unavailable e, st)
          | Inr ipc_resp \<Rightarrow>
              if mas_decision ipc_resp = ''kernel_unavailable''
              then (KDeny 503 (er_with_reason ''kernel_unavailable'' ''sidecar_backend_unavailable''), st)
              else if mas_decision ipc_resp \<noteq> ''allow'' \<and> mas_decision ipc_resp \<noteq> ''deny''
              then (KDeny 503 (er_with_reason ''kernel_unavailable'' ''decision_unrecognized''), st)
              else
                let allow = (mas_decision ipc_resp = ''allow'');
                    audit_kind = (if allow then ''policy_authorize_allow'' else ''policy_authorize_deny'');
                    claims = module_token_claims cfg env body recomputed (if allow then DecAllow else DecDeny) (mas_reason ipc_resp);
                    token = sign_kernel_token L module_authorize_claims_map claims (kc_signing_key cfg);
                    tok_sha = token_sha256 L token;
                    claims_map = module_authorize_claims_map claims in
                (KJson (if allow then 200 else 403, JObject (bt_of_list
                   [(''ok'', JBool allow), (''decision'', JString (if allow then ''allow'' else ''deny'')), (''token'', JString token),
                    (''token_sha256'', JString tok_sha), (''claims'', JObject claims_map), (''reason'', json_from_opt_str (mas_reason ipc_resp))])),
                 audit_send env audit_kind (module_audit_payload caller_role body allow ipc_resp audit_kind tok_sha claims_map)
                   allow (if allow then None else mas_reason ipc_resp) st))"

section \<open>The nested-quantifier heuristic\<close>

text \<open>The scan of one group: the position, the depth and the flag when the loop ends.\<close>

function scan_group :: "string \<Rightarrow> nat \<Rightarrow> int \<Rightarrow> bool \<Rightarrow> nat \<times> int \<times> bool" where
  "scan_group s j depth vuln =
     (if j < length s \<and> 0 < depth then
        (if s ! j = CHR 0x5C then scan_group s (j + 2) depth vuln
         else
           let depth' = (if s ! j = CHR ''('' then depth + 1 else if s ! j = CHR '')'' then depth - 1 else depth);
               vuln' = (vuln \<or> (s ! j \<in> {CHR ''+'', CHR ''*'', CHR ''|''} \<and> depth = 1)) in
           if depth' = 0 then (j, depth', vuln') else scan_group s (j + 1) depth' vuln')
      else (j, depth, vuln))"
  by pat_completeness auto
termination by (relation "measure (\<lambda>(s, j, _). length s - j)") auto

declare scan_group.simps [simp del]

function scan_brace :: "string \<Rightarrow> nat \<Rightarrow> bool \<Rightarrow> nat \<times> bool" where
  "scan_brace s k has_comma =
     (if k < length s \<and> s ! k \<noteq> CHR ''}'' then scan_brace s (k + 1) (has_comma \<or> s ! k = CHR '','') else (k, has_comma))"
  by pat_completeness auto
termination by (relation "measure (\<lambda>(s, k, _). length s - k)") auto

declare scan_brace.simps [simp del]

definition quantified_at :: "string \<Rightarrow> nat \<Rightarrow> bool" where
  "quantified_at s i =
     (if i < length s then
        (if s ! i \<in> {CHR ''+'', CHR ''*''} then True
         else if s ! i = CHR ''{'' then (let (k, has_comma) = scan_brace s (i + 1) False in k < length s \<and> has_comma)
         else False)
      else False)"

lemma scan_group_ge: "j \<le> fst (scan_group s j depth vuln)"
proof (induction "length s - j" arbitrary: j depth vuln rule: less_induct)
  case less
  have ih: "j < j' \<Longrightarrow> j < length s \<Longrightarrow> j \<le> fst (scan_group s j' d v)" for j' d v
    using less[of j' d v] by (auto intro: le_trans[OF less_imp_le])
  show ?case by (subst scan_group.simps) (auto simp: Let_def ih)
qed

function has_nested_from :: "string \<Rightarrow> nat \<Rightarrow> bool" where
  "has_nested_from s i =
     (if i < length s then
        (if s ! i = CHR 0x5C then has_nested_from s (i + 2)
         else if s ! i = CHR ''('' then
           (case scan_group s (i + 1) 1 False of (j, depth, vuln) \<Rightarrow>
              if depth = 0 \<and> vuln \<and> quantified_at s (j + 1) then True else has_nested_from s (j + 1))
         else has_nested_from s (i + 1))
      else False)"
  by pat_completeness auto
termination
proof (relation "measure (\<lambda>(s, i). length s - i)", goal_cases)
  case prems: (3 s i)
  then show ?case using scan_group_ge[of "i + 1" s 1 False] by (auto simp: prod_eq_iff)
qed auto

declare has_nested_from.simps [simp del]

definition has_nested_quantifier :: "string \<Rightarrow> bool" where
  "has_nested_quantifier pattern = has_nested_from pattern 0"

section \<open>Register\<close>

datatype regex_error = RxSyntax | RxCompiledTooBig | RxOther

record regex_lib =
  rx_new :: "string \<Rightarrow> regex_error option"
  rx_set :: "nat \<Rightarrow> string list \<Rightarrow> regex_error option"

fun error_kind :: "regex_error \<Rightarrow> string" where
  "error_kind RxSyntax = ''Syntax''"
| "error_kind RxCompiledTooBig = ''CompiledTooBig''"
| "error_kind RxOther = ''Other''"

definition MAX_PATTERN_LENGTH_BYTES :: nat where "MAX_PATTERN_LENGTH_BYTES = 512"
definition MAX_PATTERNS_PER_MODULE :: nat where "MAX_PATTERNS_PER_MODULE = 32"
definition MAX_DFA_SIZE_BYTES :: nat where "MAX_DFA_SIZE_BYTES = 10 * 1024 * 1024"
definition REGISTER_TOKEN_TTL_S :: f64 where "REGISTER_TOKEN_TTL_S = Finite 60"

fun check_patterns :: "regex_lib \<Rightarrow> nat \<Rightarrow> string list \<Rightarrow> (string, unit) result" where
  "check_patterns R idx [] = Ok ()"
| "check_patterns R idx (pattern # rest) =
     (if MAX_PATTERN_LENGTH_BYTES < length pattern then Err (''pattern_too_long:'' @ dec_string idx)
      else if has_nested_quantifier pattern
      then Err (''regex_compile_failed:'' @ dec_string idx @ '':regex_redos_nested_quantifier'')
      else case rx_new R pattern of
          Some e \<Rightarrow> Err (''regex_compile_failed:'' @ dec_string idx @ '':'' @ error_kind e)
        | None \<Rightarrow> check_patterns R (idx + 1) rest)"

definition patterns_fingerprint :: "libs \<Rightarrow> string list \<Rightarrow> string" where
  "patterns_fingerprint L patterns =
     sha256_hex L (as_bytes (stable_json L (bt_insert ''patterns'' (json_from_strings patterns) [])))"

definition register_claims :: "libs \<Rightarrow> kernel_config \<Rightarrow> kernel_env \<Rightarrow> module_register_request \<Rightarrow> int \<Rightarrow> module_register_claims" where
  "register_claims L cfg env body registered_at =
     \<lparr>mr_aud = POLICY_REGISTER_AUD, mr_iss = build_iss cfg, mr_iat = ke_now env,
      mr_exp = f64_add (ke_now env) REGISTER_TOKEN_TTL_S, mr_subject = gq_caller_subject body,
      mr_run_id = gq_caller_subject body, mr_module_path = gq_module_path body,
      mr_required_patterns_regex_set_fingerprint = patterns_fingerprint L (gq_required_patterns_regex_set body),
      mr_registered_at_unix_ms = registered_at,
      mr_params_fingerprint = params_fingerprint L (JObject (bt_of_list
        [(''module_path'', JString (gq_module_path body)),
         (''required_patterns_regex_set'', json_from_strings (gq_required_patterns_regex_set body))])),
      mr_nonce = ke_nonce env\<rparr>"

definition register_audit_payload :: "string \<Rightarrow> module_register_request \<Rightarrow> int \<Rightarrow> string \<Rightarrow> json btree \<Rightarrow> json" where
  "register_audit_payload caller_role body registered_at tok_sha claims_map = JObject (bt_of_list
     [(''request'', JObject (bt_of_list
        [(''module_path'', JString (gq_module_path body)),
         (''required_patterns_regex_set'', json_from_strings (gq_required_patterns_regex_set body)),
         (''caller_subject'', JString (gq_caller_subject body)), (''caller_role'', JString caller_role)])),
      (''decision'', JObject (bt_of_list
        [(''allowed'', JBool True), (''reason'', JString ''registered''),
         (''metadata'', JObject (bt_of_list
            [(''registered_at_unix_ms'', json_from_i64 registered_at), (''action'', JString POLICY_REGISTER_ACTION)]))])),
      (''token_sha256'', JString tok_sha), (''claims'', JObject claims_map)])"

definition policy_register :: "libs \<Rightarrow> regex_lib \<Rightarrow> kernel_config \<Rightarrow> kernel_env \<Rightarrow> ipc_channel \<Rightarrow> string \<Rightarrow> module_register_request \<Rightarrow>
    kernel_state \<Rightarrow> json_reply \<times> kernel_state" where
  "policy_register L R cfg env ch caller_role body st =
     (let patterns = gq_required_patterns_regex_set body in
      if caller_role \<noteq> ''worker'' then (KDeny 403 (er_with_reason ''forbidden'' ''caller_role_not_worker''), st)
      else if \<not> is_valid_module_path (gq_module_path body) then (invalid_request MODULE_PATH_INVALID_CHARSET_REASON, st)
      else if MAX_PATTERNS_PER_MODULE < length patterns
      then (invalid_request (''too_many_patterns:'' @ dec_string (length patterns)), st)
      else case check_patterns R 0 patterns of
        Inl reason \<Rightarrow> (invalid_request reason, st)
      | Inr _ \<Rightarrow>
        (case rx_set R MAX_DFA_SIZE_BYTES patterns of
           Some e \<Rightarrow> (invalid_request (''regex_dfa_too_large:'' @ error_kind e), st)
         | None \<Rightarrow>
           (case ipc_policy_register L (ch_client ch) (ch_sidecar ch) (ch_request_id ch)
                   \<lparr>mrr_module_path = gq_module_path body, mrr_required_patterns_regex_set = patterns,
                    mrr_caller_subject = gq_caller_subject body\<rparr> of
              Inl e \<Rightarrow> (policy_unavailable e, st)
            | Inr ipc_resp \<Rightarrow>
              let registered_at = mrs_registered_at_unix_ms ipc_resp in
              if mrs_conflict ipc_resp then
                (KJson (409, JObject (bt_of_list
                   [(''ok'', JBool False), (''error'', JString ''module_already_registered''),
                    (''module_path'', JString (gq_module_path body)), (''registered_at_unix_ms'', json_from_i64 registered_at)])), st)
              else
                let claims = register_claims L cfg env body registered_at;
                    token = sign_kernel_token L module_register_claims_map claims (kc_signing_key cfg);
                    tok_sha = token_sha256 L token;
                    claims_map = module_register_claims_map claims in
                (KJson (201, JObject (bt_of_list
                   [(''ok'', JBool True), (''module_path'', JString (gq_module_path body)),
                    (''registered_at_unix_ms'', json_from_i64 registered_at), (''token'', JString token),
                    (''token_sha256'', JString tok_sha), (''claims'', JObject claims_map)])),
                 audit_send env ''policy_register'' (register_audit_payload caller_role body registered_at tok_sha claims_map) True None st))))"

section \<open>Audit events\<close>

definition audit_event_payload :: "string \<Rightarrow> module_audit_event_request \<Rightarrow> int \<Rightarrow> json" where
  "audit_event_payload caller_role body ts = JObject (bt_of_list
     [(''request'', JObject (bt_of_list
        [(''event_kind'', JString (audit_event_kind_to_wire (eq_event_kind body))), (''subject'', JString (eq_subject body)),
         (''caller_role'', JString caller_role), (''metadata'', json_from_opt JObject (eq_metadata body))])),
      (''decision'', JObject (bt_of_list
        [(''allowed'', JBool True), (''reason'', JString ''audit_event''),
         (''metadata'', JObject (bt_of_list [(''ts_unix_ms'', json_from_i64 ts)]))])),
      (''token_sha256'', JNull), (''claims'', JNull)])"

definition audit_event :: "libs \<Rightarrow> kernel_env \<Rightarrow> ipc_channel \<Rightarrow> string \<Rightarrow> module_audit_event_request \<Rightarrow> kernel_state \<Rightarrow>
    json_reply \<times> kernel_state" where
  "audit_event L env ch caller_role body st =
     (if caller_role \<noteq> ''worker'' then (KDeny 403 (er_with_reason ''forbidden'' ''caller_role_not_worker''), st)
      else if (case Option.bind (eq_metadata body) (\<lambda>m. bt_get m ''module_path'') of
                 Some (JString mp) \<Rightarrow> \<not> is_valid_module_path mp | _ \<Rightarrow> False)
      then (invalid_request MODULE_PATH_INVALID_CHARSET_REASON, st)
      else case ipc_policy_audit_event L (ch_client ch) (ch_sidecar ch) (ch_request_id ch)
                  \<lparr>aer_event_kind = audit_event_kind_to_wire (eq_event_kind body), aer_subject = eq_subject body,
                   aer_metadata = eq_metadata body\<rparr> of
          Inl e \<Rightarrow> (KDeny 502 (er_with_reason ''audit_event_failed'' (''policy_error:'' @ ipc_kind e)), st)
        | Inr ts \<Rightarrow>
            (KJson (202, JObject (bt_of_list
               [(''ok'', JBool True), (''audit_kind'', JString ''policy_audit_event''), (''ts_unix_ms'', json_from_i64 ts)])),
             audit_send env ''policy_audit_event'' (audit_event_payload caller_role body ts) True None st))"

section \<open>Status\<close>

definition status_body :: "ipc_module_status_response \<Rightarrow> json" where
  "status_body inner = JObject (bt_of_list
     [(''ok'', JBool True), (''module_path'', JString (mss_module_path inner)),
      (''registration'', JObject (bt_of_list
         [(''registered_at_unix_ms'', json_from_i64 (mss_registered_at_unix_ms inner)),
          (''registered_by'', JString (mss_registered_by inner)),
          (''required_patterns_regex_set'', json_from_strings (mss_required_patterns_regex_set inner)),
          (''revoked_at_unix_ms'', json_from_opt json_from_i64 (mss_revoked_at_unix_ms inner))])),
      (''recent_decisions'', JArray (map (\<lambda>d. JObject (bt_of_list
         [(''ts_unix_ms'', json_from_i64 (sdr_ts_unix_ms d)), (''decision'', JString (sdr_decision d)),
          (''caller_run_id'', JString (sdr_caller_run_id d)), (''token_sha256'', JString (sdr_token_sha256 d))]))
         (mss_recent_decisions inner)))])"

definition policy_status :: "libs \<Rightarrow> (json \<Rightarrow> string) \<Rightarrow> ipc_channel \<Rightarrow> string \<Rightarrow> string \<Rightarrow> json_reply" where
  "policy_status L emsg ch caller_role module_path =
     (if caller_role \<notin> {''worker'', ''operator''} then KDeny 403 (er_with_reason ''forbidden'' ''caller_role_forbidden'')
      else if \<not> is_valid_module_path module_path then invalid_request MODULE_PATH_INVALID_CHARSET_REASON
      else case ipc_policy_module_status L (ch_client ch) (ch_sidecar ch) emsg (ch_request_id ch) module_path of
          Inl e \<Rightarrow> policy_unavailable e
        | Inr None \<Rightarrow> KJson (404, JObject (bt_of_list
            [(''ok'', JBool False), (''error'', JString ''module_not_registered''), (''module_path'', JString module_path)]))
        | Inr (Some inner) \<Rightarrow> KJson (200, status_body inner))"

section \<open>Lemmas: the nested-quantifier heuristic\<close>

definition plain :: "string \<Rightarrow> bool" where
  "plain x \<longleftrightarrow> set x \<inter> {CHR ''('', CHR '')'', CHR 0x5C} = {}"

lemma scan_group_plain:
  assumes "plain x" "0 < depth"
  shows "scan_group (pre @ x @ suf) (length pre) depth vuln =
    scan_group (pre @ x @ suf) (length pre + length x) depth
      (vuln \<or> depth = 1 \<and> set x \<inter> {CHR ''+'', CHR ''*'', CHR ''|''} \<noteq> {})"
  using assms
proof (induction x arbitrary: pre vuln)
  case (Cons c x)
  have c: "c \<noteq> CHR ''(''" "c \<noteq> CHR '')''" "c \<noteq> CHR 0x5C" "plain x" using Cons.prems by (auto simp: plain_def)
  let ?v = "vuln \<or> (c \<in> {CHR ''+'', CHR ''*'', CHR ''|''} \<and> depth = 1)"
  have "scan_group (pre @ (c # x) @ suf) (length pre) depth vuln = scan_group ((pre @ [c]) @ x @ suf) (length (pre @ [c])) depth ?v"
    using c Cons.prems(2) by (subst scan_group.simps) (simp add: nth_append Let_def)
  also have "\<dots> = scan_group ((pre @ [c]) @ x @ suf) (length (pre @ [c]) + length x) depth
      (?v \<or> depth = 1 \<and> set x \<inter> {CHR ''+'', CHR ''*'', CHR ''|''} \<noteq> {})"
    by (rule Cons.IH[OF c(4) Cons.prems(2)])
  finally show ?case by (auto intro: arg_cong2[of _ _ _ _ "\<lambda>j v. scan_group _ j _ v"])
qed simp

lemma scan_group_one:
  assumes "plain x"
  shows "scan_group (''('' @ x @ '')'' @ q) 1 1 False = (length x + 1, 0, set x \<inter> {CHR ''+'', CHR ''*'', CHR ''|''} \<noteq> {})"
proof -
  have "scan_group (''('' @ x @ ('')'' @ q)) (length ''('') 1 False =
      scan_group (''('' @ x @ ('')'' @ q)) (length ''('' + length x) 1 (set x \<inter> {CHR ''+'', CHR ''*'', CHR ''|''} \<noteq> {})"
    using scan_group_plain[OF assms, of 1 "''(''" "'')'' @ q" False] by simp
  also have "\<dots> = (length x + 1, 0, set x \<inter> {CHR ''+'', CHR ''*'', CHR ''|''} \<noteq> {})"
    by (subst scan_group.simps) (simp add: nth_append)
  finally show ?thesis by simp
qed

lemma scan_group_two:
  assumes "plain x"
  shows "scan_group (''(('' @ x @ ''))'' @ q) 1 1 False = (length x + 3, 0, False)"
proof -
  have "scan_group (''(('' @ x @ ''))'' @ q) 1 1 False = scan_group (''(('' @ x @ ''))'' @ q) 2 2 False"
    by (subst scan_group.simps) (simp add: numeral_2_eq_2)
  also have "\<dots> = scan_group (''(('' @ x @ ''))'' @ q) (2 + length x) 2 False"
    using scan_group_plain[OF assms, of 2 "''((''" "''))'' @ q" False] by (simp add: numeral_2_eq_2)
  also have "\<dots> = scan_group (''(('' @ x @ ''))'' @ q) (3 + length x) 1 False"
    by (subst scan_group.simps) (simp add: nth_append nth_Cons' eval_nat_numeral)
  also have "\<dots> = (length x + 3, 0, False)"
    by (subst scan_group.simps) (simp add: nth_append nth_Cons' eval_nat_numeral)
  finally show ?thesis .
qed

lemma has_nested_from_end: "length s \<le> i \<Longrightarrow> \<not> has_nested_from s i"
  by (subst has_nested_from.simps) simp

text \<open>The check that keeps catastrophic patterns away from the sidecar's backtracking matcher refuses a
  quantified group over a quantifier or an alternation, and accepts the same pattern once the group
  is wrapped in a second pair of parentheses.\<close>

theorem redos_check_defeated_by_wrapping:
  assumes "set x \<inter> {CHR ''('', CHR '')'', CHR 0x5C} = {}" "set x \<inter> {CHR ''+'', CHR ''*'', CHR ''|''} \<noteq> {}"
    and "q = ''+'' \<or> q = ''*''"
  shows "has_nested_quantifier (''('' @ x @ '')'' @ q) \<and> \<not> has_nested_quantifier (''(('' @ x @ ''))'' @ q)"
proof -
  have x: "plain x" using assms(1) by (simp add: plain_def)
  have "quantified_at (''('' @ x @ '')'' @ q) (length x + 2)"
    using assms(3) by (auto simp: quantified_at_def nth_append)
  then have "has_nested_from (''('' @ x @ '')'' @ q) 0"
    by (subst has_nested_from.simps) (use scan_group_one[OF x, of q] assms(2) in simp)
  moreover have "\<not> has_nested_from (''(('' @ x @ ''))'' @ q) (length x + 4)"
    by (subst has_nested_from.simps) (use assms(3) in \<open>auto simp: nth_append has_nested_from_end\<close>)
  then have "\<not> has_nested_from (''(('' @ x @ ''))'' @ q) 0"
    by (subst has_nested_from.simps) (use scan_group_two[OF x, of q] in \<open>simp add: eval_nat_numeral\<close>)
  ultimately show ?thesis by (simp add: has_nested_quantifier_def)
qed

theorem redos_check_defeated_by_wrapping_witness:
  "has_nested_quantifier ''(a+)+'' \<and> \<not> has_nested_quantifier ''((a+))+''"
  using redos_check_defeated_by_wrapping[of "''a+''" "''+''"] by simp

section \<open>Lemmas: module decisions\<close>

lemma module_claims_gets [simp]:
  "bt_get (module_authorize_claims_map c) ''decision'' = Some (JString (case ma_decision c of DecAllow \<Rightarrow> ''allow''
     | DecDeny \<Rightarrow> ''deny'' | DecKernelUnavailable \<Rightarrow> ''kernel_unavailable''))"
  "bt_get (module_authorize_claims_map c) ''module_path'' = Some (JString (ma_module_path c))"
  "bt_get (module_authorize_claims_map c) ''event_fingerprint'' = Some (JString (ma_event_fingerprint c))"
  by (simp_all add: module_authorize_claims_map_def bt_get_of_list)

lemma lower_hex_graphic: "lower_hex c \<Longrightarrow> graphic c"
  by (auto simp: lower_hex_def byte_in_def graphic_def)

lemma fingerprint_nonempty: "is_64_lowercase_hex s \<Longrightarrow> str_trim s \<noteq> []"
  by (auto simp: is_64_lowercase_hex_def list_all_iff str_trim_graphic lower_hex_graphic)

lemma policy_authorize_reply:
  assumes "fst (policy_authorize L cfg env ch caller body st) = KJson (status, reply)"
  obtains ipc_resp decision claims token where
    "caller = ''worker''" "is_valid_module_path (maq_module_path body)" "is_64_lowercase_hex (maq_event_fingerprint body)"
    "recompute_event_fingerprint L body = maq_event_fingerprint body"
    "ipc_policy_authorize L (ch_client ch) (ch_sidecar ch) (ch_request_id ch)
       (module_ipc_request (maq_event_fingerprint body) body) = Ok ipc_resp"
    "mas_decision ipc_resp = (if decision = DecAllow then ''allow'' else ''deny'')" "decision \<in> {DecAllow, DecDeny}"
    "claims = module_token_claims cfg env body (maq_event_fingerprint body) decision (mas_reason ipc_resp)"
    "token = sign_kernel_token L module_authorize_claims_map claims (kc_signing_key cfg)"
    "status = (if decision = DecAllow then 200 else 403)"
    "\<exists>m. reply = JObject m \<and> bt_get m ''token'' = Some (JString token) \<and>
       bt_get m ''claims'' = Some (JObject (module_authorize_claims_map claims))"
proof -
  from assms obtain ipc_resp where g: "caller = ''worker''" "is_valid_module_path (maq_module_path body)"
      "is_64_lowercase_hex (maq_event_fingerprint body)" "recompute_event_fingerprint L body = maq_event_fingerprint body"
      "ipc_policy_authorize L (ch_client ch) (ch_sidecar ch) (ch_request_id ch)
         (module_ipc_request (maq_event_fingerprint body) body) = Ok ipc_resp"
      "mas_decision ipc_resp \<in> {''allow'', ''deny''}"
    by (auto simp: policy_authorize_def invalid_request_def policy_unavailable_def Let_def split: if_splits sum.splits)
  show ?thesis
    by (rule that[of ipc_resp "if mas_decision ipc_resp = ''allow'' then DecAllow else DecDeny", OF g(1-5) _ _ refl refl])
      (use g assms in \<open>auto simp: policy_authorize_def Let_def bt_get_of_list split: if_splits\<close>)
qed

text \<open>C6: a module decision leaves the kernel only signed, and says what the sidecar decided for this very
  request: the caller is a worker, the path and the fingerprint passed their checks, the returned
  token verifies for the module-authorize audience, its claims carry the sidecar's decision, the
  requested path and the fingerprint the kernel recomputed, and the status is 200 for an allow and
  403 for a deny.\<close>

theorem module_decision_is_signed:
  assumes "b64_contract L" "ed25519_contract L" "json_contract L claims_json"
    and "fst (policy_authorize L cfg env ch caller body st) = KJson (status, JObject m)" "bt_get m ''claims'' = Some claims_json"
    and "str_trim (maq_caller_run_id body) \<noteq> []" "str_trim (maq_caller_subject body) \<noteq> []" "str_trim (ke_nonce env) \<noteq> []"
    and "f64_is_finite (ke_now env)" "f64_is_finite (f64_add (ke_now env) AUTHORIZE_TOKEN_TTL_S)"
    and "in_window now_s leeway_s (ke_now env) (f64_add (ke_now env) AUTHORIZE_TOKEN_TTL_S)"
  shows "caller = ''worker'' \<and> is_valid_module_path (maq_module_path body) \<and>
    recompute_event_fingerprint L body = maq_event_fingerprint body \<and>
    (\<exists>token vc ipc_resp. bt_get m ''token'' = Some (JString token) \<and>
       verify_kernel_token L token (verifying_key L (kc_signing_key cfg)) now_s leeway_s (Some POLICY_AUTHORIZE_AUD) = Ok vc \<and>
       ipc_policy_authorize L (ch_client ch) (ch_sidecar ch) (ch_request_id ch)
         (module_ipc_request (maq_event_fingerprint body) body) = Ok ipc_resp \<and>
       bt_get (vc_claims vc) ''decision'' = Some (JString (mas_decision ipc_resp)) \<and>
       bt_get (vc_claims vc) ''module_path'' = Some (JString (maq_module_path body)) \<and>
       bt_get (vc_claims vc) ''event_fingerprint'' = Some (JString (maq_event_fingerprint body)) \<and>
       (mas_decision ipc_resp = ''allow'' \<and> status = 200 \<or> mas_decision ipc_resp = ''deny'' \<and> status = 403))"
proof -
  from assms(4) obtain ipc_resp decision claims token where g:
    "caller = ''worker''" "is_valid_module_path (maq_module_path body)" "is_64_lowercase_hex (maq_event_fingerprint body)"
    "recompute_event_fingerprint L body = maq_event_fingerprint body"
    "ipc_policy_authorize L (ch_client ch) (ch_sidecar ch) (ch_request_id ch)
       (module_ipc_request (maq_event_fingerprint body) body) = Ok ipc_resp"
    "mas_decision ipc_resp = (if decision = DecAllow then ''allow'' else ''deny'')" "decision \<in> {DecAllow, DecDeny}"
    "claims = module_token_claims cfg env body (maq_event_fingerprint body) decision (mas_reason ipc_resp)"
    "token = sign_kernel_token L module_authorize_claims_map claims (kc_signing_key cfg)"
    "status = (if decision = DecAllow then 200 else 403)"
    "bt_get m ''token'' = Some (JString token)" "claims_json = JObject (module_authorize_claims_map claims)"
    using assms(5) by (elim policy_authorize_reply) auto
  have "module_authorize_set.well_formed claims" "in_window now_s leeway_s (ma_iat claims) (ma_exp claims)" "ma_aud claims = POLICY_AUTHORIZE_AUD"
    using assms(6-11) fingerprint_nonempty[OF g(3)]
    by (simp_all add: g(8) module_authorize_set.well_formed_def module_token_claims_def)
  then obtain vc where "verify_kernel_token L token (verifying_key L (kc_signing_key cfg)) now_s leeway_s (Some POLICY_AUTHORIZE_AUD) = Ok vc"
    "vc_claims vc = module_authorize_claims_map claims"
    using module_authorize_set.sign_verify[OF assms(1,2) assms(3)[unfolded g(12)], of now_s leeway_s "Some POLICY_AUTHORIZE_AUD" "kc_signing_key cfg"]
    unfolding g(9) by fastforce
  with g show ?thesis by (auto simp: module_token_claims_def)
qed

section \<open>Witnesses\<close>

lemma base16_lower_hex: "list_all lower_hex (base16_encode bs)"
proof -
  have d: "lower_hex (hex_digit n)" if "n < 16" for n
  proof -
    have "\<forall>n\<in>set [0..<16]. lower_hex (hex_digit n)" by code_simp
    with that show ?thesis by auto
  qed
  have "unat b div 16 < 16" "unat b mod 16 < 16" for b :: u8
  proof -
    have "unat b < 256" using unsigned_less[of b] by simp
    then show "unat b div 16 < 16" "unat b mod 16 < 16" by auto
  qed
  then show ?thesis by (induction bs) (auto simp: base16_encode_def d)
qed

definition sample_module_request :: module_authorize_request where
  "sample_module_request = \<lparr>maq_event_kind = EvImport, maq_module_path = ''pkg.mod'', maq_caller_subject = ''w'', maq_caller_run_id = ''run-1'',
     maq_event_fingerprint = base16_encode (be_bytes (2 :: 256 word)), maq_expected_required_patterns = None, maq_metadata = None\<rparr>"

definition sample_module_claims :: module_authorize_claims where
  "sample_module_claims = module_token_claims sample_config sample_env sample_module_request (maq_event_fingerprint sample_module_request) DecAllow None"

definition sample_module_reply :: json where
  "sample_module_reply = JObject (bt_of_list [(''ok'', JBool True), (''request_id'', JString ''r1''),
     (''decision'', JObject (bt_of_list [(''decision'', JString ''allow'')]))])"

definition module_libs :: libs where
  "module_libs = (sample_libs (JObject (module_authorize_claims_map sample_module_claims)))
     \<lparr>json_from_slice := (\<lambda>bs. Ok (if bs = as_bytes ''ok'' then sample_module_reply
        else JObject (module_authorize_claims_map sample_module_claims)))\<rparr>"

lemma module_libs_contracts:
  "b64_contract module_libs" "ed25519_contract module_libs"
  "json_contract module_libs (JObject (module_authorize_claims_map sample_module_claims))"
  using sample_libs_contracts[of "JObject (module_authorize_claims_map sample_module_claims)"]
  by (simp_all add: module_libs_def b64_contract_def ed25519_contract_def json_contract_def,
      simp add: sample_libs_def as_bytes_def)

lemma sample_module_request_ok:
  "is_valid_module_path (maq_module_path sample_module_request)"
  "is_64_lowercase_hex (maq_event_fingerprint sample_module_request)"
  "recompute_event_fingerprint module_libs sample_module_request = maq_event_fingerprint sample_module_request"
proof -
  show "is_valid_module_path (maq_module_path sample_module_request)"
    by (simp add: sample_module_request_def is_valid_module_path_def MAX_MODULE_PATH_LEN_def dotted_char_def byte_in_def)
  show "is_64_lowercase_hex (maq_event_fingerprint sample_module_request)"
    by (simp add: sample_module_request_def is_64_lowercase_hex_def base16_lower_hex length_base16_encode be_bytes_def le_bytes_def)
  show "recompute_event_fingerprint module_libs sample_module_request = maq_event_fingerprint sample_module_request"
    by (simp add: recompute_event_fingerprint_def params_fingerprint_def sha256_hex_def module_libs_def sample_libs_def sample_module_request_def)
qed

lemma sample_module_ipc:
  "ipc_policy_authorize module_libs (ch_client sample_channel) (ch_sidecar sample_channel) (ch_request_id sample_channel) req =
     Ok \<lparr>mas_decision = ''allow'', mas_reason = None, mas_registered_at_unix_ms = None\<rparr>"
proof -
  have "json_from_slice module_libs (as_bytes (trim_line_end ''ok'')) = Ok sample_module_reply"
    by (simp add: module_libs_def trim_line_end_def)
  then show ?thesis
    by (simp add: ipc_policy_authorize_def round_trip_def sample_channel_def res_bind_def sample_module_reply_def
        parse_policy_authorize_response_def validate_envelope_def check_envelope_def ok_or_def Let_def bt_get_of_list)
qed

lemma sample_module_window:
  "f64_add (Finite 100) AUTHORIZE_TOKEN_TTL_S = Finite 160" "in_window (Finite 120) (Finite 5) (Finite 100) (Finite 160)"
  using f64_add_int[of 120 5] f64_add_int[of 120 "- 5"] f64_add_int[of 100 60]
  by (simp_all add: AUTHORIZE_TOKEN_TTL_S_def in_window_def Let_def f64_max_def f64_sub_def)

theorem module_decision_is_signed_witness:
  "\<exists>m token vc. fst (policy_authorize module_libs sample_config sample_env sample_channel ''worker'' sample_module_request kernel_state_init) =
      KJson (200, JObject m) \<and> bt_get m ''token'' = Some (JString token) \<and>
    verify_kernel_token module_libs token (verifying_key module_libs (kc_signing_key sample_config)) (Finite 120) (Finite 5)
      (Some POLICY_AUTHORIZE_AUD) = Ok vc \<and> bt_get (vc_claims vc) ''decision'' = Some (JString ''allow'')"
proof -
  obtain m where m: "fst (policy_authorize module_libs sample_config sample_env sample_channel ''worker'' sample_module_request kernel_state_init) =
      KJson (200, JObject m)" "bt_get m ''claims'' = Some (JObject (module_authorize_claims_map sample_module_claims))"
    by (simp add: policy_authorize_def sample_module_request_ok sample_module_ipc Let_def bt_get_of_list sample_module_claims_def)
  have "str_trim (maq_caller_run_id sample_module_request) \<noteq> []" "str_trim (maq_caller_subject sample_module_request) \<noteq> []"
    by (simp_all add: sample_module_request_def graphic_def str_trim_graphic)
  with m(1) show ?thesis
    using module_decision_is_signed[OF module_libs_contracts m, of "Finite 120" "Finite 5"]
    by (auto simp: sample_module_window sample_module_ipc graphic_def str_trim_graphic)
qed

end
