(* ===== verification/KernelService.thy ===== *)
theory KernelService
  imports PolicyRoutes
begin

text \<open>
  The kernel's HTTP service as \<^verbatim>\<open>main.rs\<close> composes it: the API-key layer in front of the router that
  merges the public, authorize, approval, policy and revoke routes.

  A request is the route the router selected with the values its extractors produced; requests whose
  path, query or body do not parse are answered by the framework and never reach a handler.  A
  handler that asks for the caller's role when the layer attached none is answered by the extractor.
\<close>

section \<open>The router\<close>

datatype kernel_request =
    RqHealth
  | RqKernelHealth
  | RqPublicKey
  | RqAuthorize authorize_request
  | RqApprove string approve_request
  | RqReject string reject_request
  | RqRegister module_register_request
  | RqModuleAuthorize module_authorize_request
  | RqAuditEvent module_audit_event_request
  | RqStatus string
  | RqRevoke revoke_request

fun request_path :: "kernel_request \<Rightarrow> string" where
  "request_path RqHealth = ''/health''"
| "request_path RqKernelHealth = ''/kernel/v1/health''"
| "request_path RqPublicKey = ''/kernel/v1/public_key''"
| "request_path (RqAuthorize _) = ''/kernel/v1/authorize''"
| "request_path (RqApprove item_id _) = ''/kernel/v1/approvals/'' @ item_id @ ''/approve''"
| "request_path (RqReject item_id _) = ''/kernel/v1/approvals/'' @ item_id @ ''/reject''"
| "request_path (RqRegister _) = ''/policy/module/register''"
| "request_path (RqModuleAuthorize _) = ''/policy/module/authorize''"
| "request_path (RqAuditEvent _) = ''/policy/audit-event''"
| "request_path (RqStatus module_path) = ''/policy/module/'' @ module_path @ ''/status''"
| "request_path (RqRevoke (ReqMint _)) = ''/kernel/v1/revoke/compute''"
| "request_path (RqRevoke (ReqPending _)) = ''/kernel/v1/revoke/pending''"
| "request_path (RqRevoke (ReqAck _)) = ''/kernel/v1/revoke/ack''"
| "request_path (RqRevoke (ReqRestore _)) = ''/kernel/v1/revoke/restore''"

datatype kernel_answer =
    AnsDenied nat error_response
  | AnsMissingRole
  | AnsHealth health_response
  | AnsPublicKey public_key_response
  | AnsAuthorize "authorize_response kernel_reply"
  | AnsDecision "signed_decision_response kernel_reply"
  | AnsPolicy json_reply
  | AnsSignedRevoke "signed_revoke_response kernel_reply"
  | AnsPending "pending_revoke_response kernel_reply"
  | AnsAck "revoke_ack_response kernel_reply"

record kernel_app =
  app_libs :: libs
  app_regex :: regex_lib
  app_decode_error :: "json \<Rightarrow> string"
  app_config :: kernel_config
  app_auth :: auth_settings
  app_started_at :: f64

record kernel_call =
  call_env :: kernel_env
  call_channel :: ipc_channel
  call_header :: "string option"
  call_request :: kernel_request

fun revoke_dispatch :: "kernel_app \<Rightarrow> kernel_env \<Rightarrow> string \<Rightarrow> revoke_request \<Rightarrow> kernel_state \<Rightarrow> kernel_answer \<times> kernel_state" where
  "revoke_dispatch app env caller (ReqMint body) st =
     apfst AnsSignedRevoke (mint_revoke (app_libs app) (app_config app) env caller body st)"
| "revoke_dispatch app env caller (ReqPending inst) st = apfst AnsPending (pending_revoke_route env caller inst st)"
| "revoke_dispatch app env caller (ReqAck body) st = apfst AnsAck (ack_revoke env caller body st)"
| "revoke_dispatch app env caller (ReqRestore body) st =
     apfst AnsSignedRevoke (restore_revoke (app_libs app) (app_config app) env caller body st)"

fun role_dispatch :: "kernel_app \<Rightarrow> kernel_env \<Rightarrow> ipc_channel \<Rightarrow> string \<Rightarrow> kernel_request \<Rightarrow> kernel_state \<Rightarrow> kernel_answer \<times> kernel_state" where
  "role_dispatch app env ch caller (RqAuthorize body) st =
     apfst AnsAuthorize (authorize (app_libs app) (app_config app) env ch caller body st)"
| "role_dispatch app env ch caller (RqApprove item_id body) st =
     apfst AnsDecision (approve (app_libs app) (app_config app) env caller item_id body st)"
| "role_dispatch app env ch caller (RqReject item_id body) st =
     apfst AnsDecision (reject (app_libs app) (app_config app) env caller item_id body st)"
| "role_dispatch app env ch caller (RqRegister body) st =
     apfst AnsPolicy (policy_register (app_libs app) (app_regex app) (app_config app) env ch caller body st)"
| "role_dispatch app env ch caller (RqModuleAuthorize body) st =
     apfst AnsPolicy (policy_authorize (app_libs app) (app_config app) env ch caller body st)"
| "role_dispatch app env ch caller (RqAuditEvent body) st =
     apfst AnsPolicy (audit_event (app_libs app) env ch caller body st)"
| "role_dispatch app env ch caller (RqStatus module_path) st =
     (AnsPolicy (policy_status (app_libs app) (app_decode_error app) ch caller module_path), st)"
| "role_dispatch app env ch caller (RqRevoke r) st = revoke_dispatch app env caller r st"
| "role_dispatch app env ch caller RqHealth st = (AnsHealth (health (app_config app) env (app_started_at app)), st)"
| "role_dispatch app env ch caller RqKernelHealth st = (AnsHealth (health (app_config app) env (app_started_at app)), st)"
| "role_dispatch app env ch caller RqPublicKey st = (AnsPublicKey (public_key_route (app_config app)), st)"

fun public_dispatch :: "kernel_app \<Rightarrow> kernel_env \<Rightarrow> kernel_request \<Rightarrow> kernel_answer" where
  "public_dispatch app env RqHealth = AnsHealth (health (app_config app) env (app_started_at app))"
| "public_dispatch app env RqKernelHealth = AnsHealth (health (app_config app) env (app_started_at app))"
| "public_dispatch app env RqPublicKey = AnsPublicKey (public_key_route (app_config app))"
| "public_dispatch app env _ = AnsMissingRole"

definition kernel_service :: "kernel_app \<Rightarrow> kernel_call \<Rightarrow> kernel_state \<Rightarrow> kernel_answer \<times> kernel_state" where
  "kernel_service app call st =
     (case auth_layer (app_auth app) (request_path (call_request call)) (call_header call) of
        AuthPublic \<Rightarrow> (public_dispatch app (call_env call) (call_request call), st)
      | AuthDeny status e \<Rightarrow> (AnsDenied status e, st)
      | AuthCaller role \<Rightarrow> role_dispatch app (call_env call) (call_channel call) role (call_request call) st)"

definition kernel_run :: "kernel_app \<Rightarrow> kernel_call list \<Rightarrow> kernel_state \<Rightarrow> kernel_state" where
  "kernel_run app calls st = foldl (\<lambda>st call. snd (kernel_service app call st)) st calls"

section \<open>Lemmas: what the routes keep\<close>

text \<open>The revocation stores, which only the revoke routes touch.\<close>

abbreviation revocation_stores :: "kernel_state \<Rightarrow> pending_store \<times> generation_store" where
  "revocation_stores st \<equiv> (ks_pending st, ks_generations st)"

lemma audit_keeps_stores [simp]:
  "revocation_stores (audit_record env a p e st) = revocation_stores st"
  "revocation_stores (audit_send env a p b e st) = revocation_stores st"
  "ks_pending (audit_record env a p e st) = ks_pending st" "ks_pending (audit_send env a p b e st) = ks_pending st"
  "ks_generations (audit_record env a p e st) = ks_generations st" "ks_generations (audit_send env a p b e st) = ks_generations st"
  by (simp_all add: audit_record_def audit_send_def)

lemma authorize_keeps_stores: "revocation_stores (snd (authorize L cfg env ch caller body st)) = revocation_stores st"
  by (simp add: authorize_def synth_audit_and_deny_def Let_def split: sum.split prod.split)

lemma sign_decision_keeps_stores:
  "revocation_stores (snd (sign_decision L cfg env caller item_id decision approver reason fp md st)) = revocation_stores st"
  by (simp add: sign_decision_def Let_def)

lemma policy_register_keeps_stores: "revocation_stores (snd (policy_register L R cfg env ch caller body st)) = revocation_stores st"
  by (simp add: policy_register_def Let_def split: sum.split option.split)

lemma policy_authorize_keeps_stores: "revocation_stores (snd (policy_authorize L cfg env ch caller body st)) = revocation_stores st"
  by (simp add: policy_authorize_def Let_def split: sum.split)

lemma audit_event_keeps_stores: "revocation_stores (snd (audit_event L env ch caller body st)) = revocation_stores st"
  by (simp add: audit_event_def split: sum.split)

lemma revoke_dispatch_service:
  "snd (revoke_dispatch app env caller r st) = revoke_service (app_libs app) (app_config app) (env, caller, r) st"
  by (cases r) simp_all

lemma role_dispatch_stores:
  assumes "\<nexists>r. req = RqRevoke r"
  shows "revocation_stores (snd (role_dispatch app env ch caller req st)) = revocation_stores st"
  using assms
  by (cases req) (simp_all add: approve_def reject_def del: prod.inject
      add: authorize_keeps_stores sign_decision_keeps_stores policy_register_keeps_stores policy_authorize_keeps_stores audit_event_keeps_stores)

lemma service_stores:
  "revocation_stores (snd (kernel_service app call st)) = revocation_stores st \<or>
   (\<exists>role k r. auth_layer (app_auth app) (request_path (call_request call)) (call_header call) = AuthCaller role \<and>
      call_header call = Some k \<and> k \<noteq> [] \<and> role_key (app_auth app) role = Some k \<and> call_request call = RqRevoke r \<and>
      snd (kernel_service app call st) = revoke_service (app_libs app) (app_config app) (call_env call, role, r) st)"
proof (cases "auth_layer (app_auth app) (request_path (call_request call)) (call_header call)")
  case (AuthCaller role)
  show ?thesis
  proof (cases "\<exists>r. call_request call = RqRevoke r")
    case True
    then show ?thesis using AuthCaller auth_layer_caller[OF AuthCaller] by (auto simp: kernel_service_def revoke_dispatch_service)
  next
    case False
    then show ?thesis using AuthCaller role_dispatch_stores[OF False] by (simp add: kernel_service_def)
  qed
qed (simp_all add: kernel_service_def)

section \<open>Properties\<close>

text \<open>C3: whatever requests the kernel has served since boot, with whatever credentials, each token in the
  kill queue comes from a request that presented the configured operator key: the key layer, the
  router and the handlers together let no other credential, and no missing one, queue a kill.\<close>

theorem queued_kills_need_operator_key:
  "token \<in> pending_tokens (kernel_run app calls kernel_state_init) \<Longrightarrow>
    \<exists>pre call post k r. calls = pre @ call # post \<and> call_header call = Some k \<and> k \<noteq> [] \<and>
      as_api_key_operator (app_auth app) = Some k \<and> call_request call = RqRevoke r \<and>
      queued_by (app_libs app) (app_config app) (kernel_run app pre kernel_state_init) (call_env call, ''operator'', r) token"
proof (induction calls rule: rev_induct)
  case Nil
  then show ?case by (simp add: pending_tokens_def kernel_state_init_def kernel_run_def)
next
  case (snoc call calls)
  let ?st = "kernel_run app calls kernel_state_init"
  have run: "kernel_run app (calls @ [call]) kernel_state_init = snd (kernel_service app call ?st)"
    by (simp add: kernel_run_def)
  show ?case
  proof (cases "token \<in> pending_tokens ?st")
    case True
    from snoc.IH[OF this] obtain pre c post k r where "calls = pre @ c # post" "call_header c = Some k" "k \<noteq> []"
      "as_api_key_operator (app_auth app) = Some k" "call_request c = RqRevoke r"
      "queued_by (app_libs app) (app_config app) (kernel_run app pre kernel_state_init) (call_env c, ''operator'', r) token" by blast
    then show ?thesis by (intro exI[of _ pre] exI[of _ c] exI[of _ "post @ [call]"]) simp
  next
    case False
    have "revocation_stores (snd (kernel_service app call ?st)) \<noteq> revocation_stores ?st"
      using False snoc.prems unfolding run pending_tokens_def by (metis prod.inject)
    then obtain role k r where c: "call_header call = Some k" "k \<noteq> []" "role_key (app_auth app) role = Some k" "call_request call = RqRevoke r"
      "snd (kernel_service app call ?st) = revoke_service (app_libs app) (app_config app) (call_env call, role, r) ?st"
      using service_stores[of app call ?st] by blast
    have q: "queued_by (app_libs app) (app_config app) ?st (call_env call, role, r) token"
      using service_queues False snoc.prems unfolding run c(5) by blast
    then have role: "role = ''operator''" by (simp add: queued_by_def)
    then have "as_api_key_operator (app_auth app) = Some k" using c(3) by (simp add: role_key_def)
    with c q role show ?thesis by blast
  qed
qed

definition sample_app :: kernel_app where
  "sample_app = \<lparr>app_libs = kill_libs, app_regex = \<lparr>rx_new = (\<lambda>_. None), rx_set = (\<lambda>_ _. None)\<rparr>, app_decode_error = (\<lambda>_. []),
     app_config = sample_config,
     app_auth = \<lparr>as_env = ''prod'', as_auth_mode = ''api_key'', as_api_key_worker = Some ''w-key'', as_api_key_api = Some ''a-key'',
       as_api_key_operator = Some ''o-key'', as_api_key_reaper = Some ''r-key''\<rparr>, app_started_at = Finite 0\<rparr>"

definition sample_call :: "string \<Rightarrow> kernel_call" where
  "sample_call key = \<lparr>call_env = sample_env, call_channel = sample_channel, call_header = Some key, call_request = RqRevoke (ReqMint sample_mint)\<rparr>"

lemma sample_call_operator:
  "sample_kill_token \<in> pending_tokens (kernel_run sample_app [sample_call ''o-key''] kernel_state_init)"
proof -
  obtain resp where r: "fst (mint_revoke kill_libs sample_config sample_env ''operator'' sample_mint kernel_state_init) = KJson resp"
    "sr_token resp = sample_kill_token"
    using sample_mint_ok[of kernel_state_init] by (auto simp: gen_current_def kernel_state_init_def)
  have "auth_layer (app_auth sample_app) ''/kernel/v1/revoke/compute'' (Some ''o-key'') = AuthCaller ''operator''"
    by (simp add: auth_layer_def sample_app_def is_public_path_def unwrap_or_empty_def auth_role_def constant_time_eq_iff)
  then have "kernel_run sample_app [sample_call ''o-key''] kernel_state_init =
      snd (mint_revoke kill_libs sample_config sample_env ''operator'' sample_mint kernel_state_init)"
    by (simp add: kernel_run_def kernel_service_def sample_call_def, simp add: sample_app_def)
  then show ?thesis
    using mint_revoke_alone(6)[OF r(1)] r(2) by (simp add: pending_tokens_def enqueue_pending_def kernel_state_init_def)
qed

theorem queued_kills_need_operator_key_witness:
  "sample_kill_token \<in> pending_tokens (kernel_run sample_app [sample_call ''o-key''] kernel_state_init) \<and>
   sample_kill_token \<notin> pending_tokens (kernel_run sample_app [sample_call ''w-key''] kernel_state_init) \<and>
   (\<exists>k. call_header (sample_call ''o-key'') = Some k \<and> as_api_key_operator (app_auth sample_app) = Some k)"
proof (intro conjI)
  show "sample_kill_token \<notin> pending_tokens (kernel_run sample_app [sample_call ''w-key''] kernel_state_init)"
  proof
    assume "sample_kill_token \<in> pending_tokens (kernel_run sample_app [sample_call ''w-key''] kernel_state_init)"
    from queued_kills_need_operator_key[OF this] show False
      by (auto simp: Cons_eq_append_conv sample_call_def sample_app_def)
  qed
qed (fact sample_call_operator, simp add: sample_call_def sample_app_def)
end
