(* ===== verification/KernelSettings.thy ===== *)
theory KernelSettings
  imports KernelService
begin

text \<open>
  Start-up of the kernel: \<^verbatim>\<open>settings.rs\<close> (the configuration read from the environment), \<^verbatim>\<open>key_backend.rs\<close>
  (where the signing seed comes from), the optional log client of \<^verbatim>\<open>transparency_client.rs\<close> and the
  sequence of checks in \<^verbatim>\<open>main.rs\<close> up to the point where the listener is bound.

  The environment is the function from variable names to values.  The HTTP calls of the GCP backend,
  standard base64 and the loading of the client certificate are parameters (record \<open>boot_io\<close>).
  Errors are represented by their kind.
\<close>

section \<open>Number parsing\<close>

definition parse_i64 :: "string \<Rightarrow> int option" where
  "parse_i64 s =
     (let (neg, digits) = (case s of [] \<Rightarrow> (False, []) | c # cs \<Rightarrow>
            if c = CHR ''-'' then (True, cs) else if c = CHR ''+'' then (False, cs) else (False, s)) in
      if digits = [] \<or> \<not> list_all is_digit digits then None
      else let v = (if neg then - int (dec_value digits) else int (dec_value digits)) in
        if - (2 ^ 63) \<le> v \<and> v < 2 ^ 63 then Some v else None)"

fun split_sign :: "string \<Rightarrow> bool \<times> string" where
  "split_sign [] = (False, [])"
| "split_sign (c # cs) = (if c = CHR ''-'' then (True, cs) else if c = CHR ''+'' then (False, cs) else (False, c # cs))"

text \<open>The exponent part of a decimal literal, absent when the text ends.\<close>

definition parse_exponent :: "string \<Rightarrow> int option" where
  "parse_exponent s =
     (case s of [] \<Rightarrow> Some 0
      | c # cs \<Rightarrow>
          if c = CHR ''e'' \<or> c = CHR ''E'' then
            (let (neg, digits) = split_sign cs in
             if digits = [] \<or> \<not> list_all is_digit digits then None
             else Some (if neg then - int (dec_value digits) else int (dec_value digits)))
          else None)"

definition parse_f64 :: "string \<Rightarrow> f64 option" where
  "parse_f64 s =
     (let (neg, body) = split_sign s; word = to_ascii_lowercase body in
      if word = ''inf'' \<or> word = ''infinity'' then Some (Infinity neg)
      else if word = ''nan'' then Some NaN
      else
        let whole = takeWhile is_digit body; rest = dropWhile is_digit body;
            (frac, rest) = (case rest of [] \<Rightarrow> ([], []) | c # cs \<Rightarrow>
               if c = CHR ''.'' then (takeWhile is_digit cs, dropWhile is_digit cs) else ([], rest)) in
        if whole = [] \<and> frac = [] then None
        else case parse_exponent rest of
            None \<Rightarrow> None
          | Some e \<Rightarrow>
              let q = of_nat (dec_value (whole @ frac)) * 10 powi (e - int (length frac)) :: rat in
              Some (f64_of_rat (if neg then - q else q)))"

section \<open>Key backends\<close>

datatype key_backend_kind = KbEnv | KbGcp | KbAws | KbAzure | KbPkcs11 | KbTpm

datatype boot_error =
    MissingVar string
  | UnknownKeyBackend string
  | EnvBackendInProd
  | KeyBackendNotImplemented key_backend_kind
  | ProdTransparencyIncomplete
  | ProdClientCertMissing
  | MetadataServer string
  | SecretManager string
  | SeedNotBase64
  | SeedLength nat
  | PepperNotBase64
  | ClientCertUnusable string
  | ProdNoTransparencyClient
  | ProdNoTls
  | BootPanic

definition parse_key_backend :: "string \<Rightarrow> (boot_error, key_backend_kind) result" where
  "parse_key_backend s =
     (let v = to_ascii_lowercase (str_trim s) in
      if v \<in> {'''', ''env''} then Ok KbEnv
      else if v \<in> {''gcp'', ''gcp_secret_manager'', ''gcp-secret-manager''} then Ok KbGcp
      else if v \<in> {''aws'', ''aws_secrets_manager'', ''aws-secrets-manager''} then Ok KbAws
      else if v \<in> {''azure'', ''azure_key_vault'', ''azure-key-vault''} then Ok KbAzure
      else if v \<in> {''pkcs11'', ''pkcs#11'', ''hsm''} then Ok KbPkcs11
      else if v \<in> {''tpm'', ''tpm2''} then Ok KbTpm
      else Err (UnknownKeyBackend v))"

section \<open>Settings\<close>

record settings =
  st_env :: string
  st_db_backend :: string
  st_db_path :: string
  st_pg_dsn :: "string option"
  st_auth_mode :: string
  st_api_key_worker :: "string option"
  st_api_key_api :: "string option"
  st_api_key_operator :: "string option"
  st_api_key_reaper :: "string option"
  st_signing_key_b64 :: string
  st_key_backend :: key_backend_kind
  st_key_gcp_project :: "string option"
  st_key_gcp_secret :: "string option"
  st_key_gcp_secret_version :: string
  st_audit_pepper_b64 :: string
  st_default_token_ttl_s :: int
  st_max_token_ttl_s :: int
  st_approval_token_ttl_s :: int
  st_revoke_token_ttl_s :: int
  st_build_version :: string
  st_listen_addr :: string
  st_policy_sock_path :: string
  st_tls_cert_path :: "string option"
  st_tls_key_path :: "string option"
  st_tls_client_ca_path :: "string option"
  st_tls_sni :: string
  st_tls_enable :: bool
  st_transparency_enabled :: bool
  st_transparency_log_url :: "string option"
  st_transparency_log_api_key :: "string option"
  st_transparency_log_timeout_seconds :: f64
  st_transparency_log_client_cert_path :: "string option"
  st_transparency_log_client_key_path :: "string option"

type_synonym environment = "string \<Rightarrow> string option"

definition var_or :: "environment \<Rightarrow> string \<Rightarrow> string \<Rightarrow> string" where
  "var_or e k d = (case e k of None \<Rightarrow> d | Some v \<Rightarrow> v)"

definition var_nonblank :: "environment \<Rightarrow> string \<Rightarrow> string option" where
  "var_nonblank e k = (case e k of None \<Rightarrow> None | Some v \<Rightarrow> if str_trim v \<noteq> [] then Some v else None)"

fun first_var :: "environment \<Rightarrow> string list \<Rightarrow> string option" where
  "first_var e [] = None"
| "first_var e (k # ks) = (case e k of None \<Rightarrow> first_var e ks | Some v \<Rightarrow> Some v)"

definition required_secret :: "environment \<Rightarrow> string \<Rightarrow> (boot_error, string) result" where
  "required_secret e k =
     (case e k of None \<Rightarrow> Err (MissingVar k)
      | Some v \<Rightarrow> if str_trim v = [] then Err (MissingVar k) else Ok (str_trim v))"

definition ttl_var :: "environment \<Rightarrow> string \<Rightarrow> int \<Rightarrow> int \<Rightarrow> int" where
  "ttl_var e k default_ttl floor_ttl =
     max (case Option.bind (e k) parse_i64 of None \<Rightarrow> default_ttl | Some v \<Rightarrow> v) floor_ttl"

definition prod_env :: "string \<Rightarrow> bool" where
  "prod_env env \<longleftrightarrow> env = ''prod'' \<or> env = ''production''"

definition signing_key_setting :: "environment \<Rightarrow> bool \<Rightarrow> key_backend_kind \<Rightarrow> (boot_error, string) result" where
  "signing_key_setting e is_prod backend =
     (case backend of
        KbEnv \<Rightarrow> if is_prod then Err EnvBackendInProd else required_secret e ''QORCH_KERNEL_SIGNING_KEY_B64''
      | KbGcp \<Rightarrow>
          if var_nonblank e ''KERNEL_KEY_GCP_PROJECT'' = None then Err (MissingVar ''KERNEL_KEY_GCP_PROJECT'')
          else if var_nonblank e ''KERNEL_KEY_GCP_SECRET'' = None then Err (MissingVar ''KERNEL_KEY_GCP_SECRET'')
          else Ok []
      | other \<Rightarrow> Err (KeyBackendNotImplemented other))"

definition transparency_flag :: "environment \<Rightarrow> bool \<Rightarrow> bool" where
  "transparency_flag e is_prod =
     (case e ''QORCH_KERNEL_TRANSPARENCY_ENABLED'' of None \<Rightarrow> is_prod
      | Some v \<Rightarrow> to_ascii_lowercase (str_trim v) \<in> {''1'', ''true'', ''yes'', ''on''})"

definition log_timeout :: "environment \<Rightarrow> f64" where
  "log_timeout e =
     (case Option.bind (e ''QORCH_KERNEL_TRANSPARENCY_TIMEOUT_S'') parse_f64 of
        Some v \<Rightarrow> if f64_is_finite v \<and> f64_lt (Finite 0) v then v else Finite 2
      | None \<Rightarrow> Finite 2)"

definition settings_of :: "environment \<Rightarrow> string \<Rightarrow> key_backend_kind \<Rightarrow> string \<Rightarrow> string \<Rightarrow> settings" where
  "settings_of e env_lower backend signing_key pepper =
     (let cert = var_nonblank e ''QORCH_KERNEL_TLS_CERT''; key = var_nonblank e ''QORCH_KERNEL_TLS_KEY'' in
      \<lparr>st_env = env_lower,
       st_db_backend = to_ascii_lowercase (case first_var e [''QORCH_KERNEL_DB_BACKEND'', ''QORCH_DB_BACKEND''] of
          None \<Rightarrow> ''postgres'' | Some v \<Rightarrow> v),
       st_db_path = var_or e ''QORCH_KERNEL_DB_PATH'' ''.qorch/kernel_audit.sqlite3'',
       st_pg_dsn = first_var e [''QORCH_KERNEL_PG_DSN'', ''QORCH_PG_DSN_CONTAINER'', ''QORCH_PG_DSN_HOST'', ''QORCH_PG_DSN'', ''DATABASE_URL''],
       st_auth_mode = to_ascii_lowercase (var_or e ''QORCH_KERNEL_AUTH_MODE'' ''api_key''),
       st_api_key_worker = var_nonblank e ''QORCH_KERNEL_API_KEY_WORKER'',
       st_api_key_api = var_nonblank e ''QORCH_KERNEL_API_KEY_API'',
       st_api_key_operator = var_nonblank e ''QORCH_KERNEL_API_KEY_OPERATOR'',
       st_api_key_reaper = var_nonblank e ''QORCH_KERNEL_API_KEY_REAPER'',
       st_signing_key_b64 = signing_key, st_key_backend = backend,
       st_key_gcp_project = var_nonblank e ''KERNEL_KEY_GCP_PROJECT'',
       st_key_gcp_secret = var_nonblank e ''KERNEL_KEY_GCP_SECRET'',
       st_key_gcp_secret_version = (case var_nonblank e ''KERNEL_KEY_GCP_SECRET_VERSION'' of None \<Rightarrow> ''latest'' | Some v \<Rightarrow> v),
       st_audit_pepper_b64 = pepper,
       st_default_token_ttl_s = ttl_var e ''QORCH_KERNEL_TOKEN_TTL_S'' 60 1,
       st_max_token_ttl_s = ttl_var e ''QORCH_KERNEL_MAX_TOKEN_TTL_S'' 300 1,
       st_approval_token_ttl_s = ttl_var e ''QORCH_KERNEL_APPROVAL_TOKEN_TTL_S'' (365 * 24 * 60 * 60) 60,
       st_revoke_token_ttl_s = ttl_var e ''QORCH_KERNEL_REVOKE_TOKEN_TTL_S'' 120 30,
       st_build_version = var_or e ''QORCH_KERNEL_BUILD_VERSION'' ''0.0.0-dev'',
       st_listen_addr = var_or e ''QORCH_KERNEL_LISTEN_ADDR'' ''0.0.0.0:9000'',
       st_policy_sock_path = var_or e ''QORCH_KERNEL_POLICY_SOCK'' ''/var/run/qorch/safety_policy.sock'',
       st_tls_cert_path = cert, st_tls_key_path = key,
       st_tls_client_ca_path = var_nonblank e ''QORCH_KERNEL_CLIENT_CA_PEM'',
       st_tls_sni = var_or e ''QORCH_KERNEL_SNI'' ''safety-kernel-rust.internal'',
       st_tls_enable = (cert \<noteq> None \<and> key \<noteq> None),
       st_transparency_enabled = transparency_flag e (prod_env env_lower),
       st_transparency_log_url = var_nonblank e ''QORCH_KERNEL_TRANSPARENCY_LOG_URL'',
       st_transparency_log_api_key = var_nonblank e ''QORCH_KERNEL_TRANSPARENCY_API_KEY'',
       st_transparency_log_timeout_seconds = log_timeout e,
       st_transparency_log_client_cert_path = var_nonblank e ''QORCH_KERNEL_TRANSPARENCY_CLIENT_CERT'',
       st_transparency_log_client_key_path = var_nonblank e ''QORCH_KERNEL_TRANSPARENCY_CLIENT_KEY''\<rparr>)"

definition check_api_keys :: "bool \<Rightarrow> settings \<Rightarrow> (boot_error, unit) result" where
  "check_api_keys is_prod s =
     (if st_api_key_worker s = None then Err (MissingVar ''QORCH_KERNEL_API_KEY_WORKER'')
      else if st_api_key_api s = None then Err (MissingVar ''QORCH_KERNEL_API_KEY_API'')
      else if is_prod \<and> st_api_key_operator s = None then Err (MissingVar ''QORCH_KERNEL_API_KEY_OPERATOR'')
      else Ok ())"

definition check_transparency :: "bool \<Rightarrow> settings \<Rightarrow> (boot_error, unit) result" where
  "check_transparency is_prod s =
     (if st_transparency_enabled s \<and> is_prod \<and>
        (st_transparency_log_url s = None \<or> st_transparency_log_api_key s = None) then Err ProdTransparencyIncomplete
      else if st_transparency_enabled s \<and> is_prod \<and>
        (st_transparency_log_client_cert_path s = None \<or> st_transparency_log_client_key_path s = None) then Err ProdClientCertMissing
      else Ok ())"

definition settings_check :: "bool \<Rightarrow> settings \<Rightarrow> (boot_error, settings) result" where
  "settings_check is_prod s =
     res_bind (check_api_keys is_prod s) (\<lambda>_. res_bind (check_transparency is_prod s) (\<lambda>_. Ok s))"

definition settings_from_env :: "environment \<Rightarrow> (boot_error, settings) result" where
  "settings_from_env e =
     (let env_lower = to_ascii_lowercase (str_trim (var_or e ''QORCH_ENV'' ''dev'')); is_prod = prod_env env_lower in
      res_bind (parse_key_backend (var_or e ''KERNEL_KEY_BACKEND'' [])) (\<lambda>backend.
      res_bind (signing_key_setting e is_prod backend) (\<lambda>signing_key.
      res_bind (required_secret e ''QORCH_KERNEL_AUDIT_PEPPER_B64'') (\<lambda>pepper.
        settings_check is_prod (settings_of e env_lower backend signing_key pepper)))))"

definition settings_is_prod :: "settings \<Rightarrow> bool" where
  "settings_is_prod s \<longleftrightarrow> prod_env (st_env s)"

section \<open>The GCP backend\<close>

text \<open>The answer of a finished HTTP call: an error of the client, or the status and the body text.\<close>

type_synonym http_answer = "(string, nat \<times> string) result"

record boot_io =
  bio_metadata :: http_answer
  bio_secret :: "string \<Rightarrow> string \<Rightarrow> http_answer"
  bio_b64_decode :: "string \<Rightarrow> (string, bytes) result"
  bio_client_cert :: "string \<Rightarrow> string \<Rightarrow> (string, unit) result"

text \<open>\<^verbatim>\<open>String::from_utf8\<close> succeeds exactly on well-formed UTF-8.\<close>

definition utf8_tail :: "u8 \<Rightarrow> bool" where
  "utf8_tail b \<longleftrightarrow> 0x80 \<le> b \<and> b \<le> 0xBF"

fun utf8_valid :: "bytes \<Rightarrow> bool" where
  "utf8_valid [] = True"
| "utf8_valid (a # bs) =
     (if a \<le> 0x7F then utf8_valid bs
      else if 0xC2 \<le> a \<and> a \<le> 0xDF then (case bs of b # r \<Rightarrow> utf8_tail b \<and> utf8_valid r | _ \<Rightarrow> False)
      else if 0xE0 \<le> a \<and> a \<le> 0xEF then
        (case bs of b # c # r \<Rightarrow> utf8_tail b \<and> utf8_tail c \<and> (a = 0xE0 \<longrightarrow> 0xA0 \<le> b) \<and> (a = 0xED \<longrightarrow> b \<le> 0x9F) \<and> utf8_valid r | _ \<Rightarrow> False)
      else if 0xF0 \<le> a \<and> a \<le> 0xF4 then
        (case bs of b # c # d # r \<Rightarrow>
           utf8_tail b \<and> utf8_tail c \<and> utf8_tail d \<and> (a = 0xF0 \<longrightarrow> 0x90 \<le> b) \<and> (a = 0xF4 \<longrightarrow> b \<le> 0x8F) \<and> utf8_valid r | _ \<Rightarrow> False)
      else False)"

definition string_of_bytes :: "bytes \<Rightarrow> string" where
  "string_of_bytes bs = map (\<lambda>b. char_of (unat b)) bs"

definition gcp_metadata_access_token :: "libs \<Rightarrow> boot_io \<Rightarrow> (boot_error, string) result" where
  "gcp_metadata_access_token L io =
     (case bio_metadata io of
        Inl e \<Rightarrow> Err (MetadataServer e)
      | Inr (status, body) \<Rightarrow>
          if \<not> is_success status then Err (MetadataServer body)
          else case json_from_slice L (as_bytes body) of
              Inl e \<Rightarrow> Err (MetadataServer e)
            | Inr v \<Rightarrow> ok_or (MetadataServer ''missing access_token'') (get_with json_as_str v ''access_token''))"

definition secret_url :: "string \<Rightarrow> string \<Rightarrow> string \<Rightarrow> string" where
  "secret_url project secret version = ''https://secretmanager.googleapis.com/v1/projects/'' @ project @
     ''/secrets/'' @ secret @ ''/versions/'' @ version @ '':access''"

definition fetch_gcp_secret :: "libs \<Rightarrow> boot_io \<Rightarrow> string \<Rightarrow> string \<Rightarrow> string \<Rightarrow> (boot_error, string) result" where
  "fetch_gcp_secret L io project secret version =
     res_bind (gcp_metadata_access_token L io) (\<lambda>token.
     case bio_secret io (secret_url project secret version) token of
       Inl e \<Rightarrow> Err (SecretManager e)
     | Inr (status, body) \<Rightarrow>
         if \<not> is_success status then Err (SecretManager body)
         else case json_from_slice L (as_bytes body) of
             Inl e \<Rightarrow> Err (SecretManager e)
           | Inr v \<Rightarrow>
               res_bind (ok_or (SecretManager ''missing payload.data'')
                 (Option.bind (json_get v ''payload'') (\<lambda>p. get_with json_as_str p ''data''))) (\<lambda>data_b64.
               res_bind (map_err SecretManager (bio_b64_decode io data_b64)) (\<lambda>raw.
                 if \<not> utf8_valid raw then Err (SecretManager ''not utf-8'')
                 else let seed = str_trim (string_of_bytes raw) in
                   if seed = [] then Err (SecretManager ''empty'') else Ok seed)))"

definition resolve_signing_key_b64 :: "libs \<Rightarrow> boot_io \<Rightarrow> settings \<Rightarrow> (boot_error, string) result" where
  "resolve_signing_key_b64 L io s =
     (case st_key_backend s of
        KbEnv \<Rightarrow> Ok (st_signing_key_b64 s)
      | KbGcp \<Rightarrow>
          res_bind (ok_or (MissingVar ''KERNEL_KEY_GCP_PROJECT'') (st_key_gcp_project s)) (\<lambda>project.
          res_bind (ok_or (MissingVar ''KERNEL_KEY_GCP_SECRET'') (st_key_gcp_secret s)) (\<lambda>secret.
            fetch_gcp_secret L io project secret (st_key_gcp_secret_version s)))
      | other \<Rightarrow> Err (KeyBackendNotImplemented other))"

section \<open>Boot\<close>

definition b64url_decode_padded_or_unpadded :: "libs \<Rightarrow> string \<Rightarrow> (string, bytes) result" where
  "b64url_decode_padded_or_unpadded L s = b64url_decode L (trim_end_matches (CHR ''='') (str_trim s))"

record tlog_client =
  tc_url :: string
  tc_api_key :: string
  tc_fingerprint :: string
  tc_timeout :: f64
  tc_client_identity :: "(string \<times> string) option"

definition build_optional_client :: "boot_io \<Rightarrow> bool \<Rightarrow> string option \<Rightarrow> string option \<Rightarrow> string \<Rightarrow> f64 \<Rightarrow> string option \<Rightarrow> string option \<Rightarrow>
    (boot_error, tlog_client option) result" where
  "build_optional_client io enabled url api_key fingerprint timeout cert key =
     (if \<not> enabled then Ok None
      else case url of None \<Rightarrow> Ok None
        | Some u \<Rightarrow>
            if unwrap_or_empty api_key = [] then Ok None
            else let client = (\<lambda>identity. \<lparr>tc_url = u, tc_api_key = unwrap_or_empty api_key, tc_fingerprint = fingerprint,
                   tc_timeout = timeout, tc_client_identity = identity\<rparr>) in
              case (cert, key) of
                (Some c, Some k) \<Rightarrow> res_bind (map_err ClientCertUnusable (bio_client_cert io c k)) (\<lambda>_. Ok (Some (client (Some (c, k)))))
              | _ \<Rightarrow> Ok (Some (client None)))"

record boot_state =
  bs_settings :: settings
  bs_config :: kernel_config
  bs_auth :: auth_settings
  bs_audit_pepper :: bytes
  bs_tlog :: "tlog_client option"

definition boot_tlog :: "boot_io \<Rightarrow> settings \<Rightarrow> string \<Rightarrow> (boot_error, tlog_client option) result" where
  "boot_tlog io s fingerprint =
     (if st_transparency_enabled s then
        if f64_le (Finite (2 ^ 64)) (st_transparency_log_timeout_seconds s) then Err BootPanic
        else
          res_bind (build_optional_client io True (st_transparency_log_url s) (st_transparency_log_api_key s) fingerprint
            (st_transparency_log_timeout_seconds s) (st_transparency_log_client_cert_path s) (st_transparency_log_client_key_path s)) (\<lambda>c.
            if settings_is_prod s \<and> c = None then Err ProdNoTransparencyClient else Ok c)
      else Ok None)"

definition boot_state_of :: "libs \<Rightarrow> settings \<Rightarrow> 256 word \<Rightarrow> bytes \<Rightarrow> tlog_client option \<Rightarrow> boot_state" where
  "boot_state_of L s signing_key pepper tlog =
     (let public_key_raw = be_bytes (verifying_key L signing_key) in
      \<lparr>bs_settings = s,
       bs_config = \<lparr>kc_signing_key = signing_key, kc_revoke_token_ttl_s = st_revoke_token_ttl_s s,
         kc_default_token_ttl_s = st_default_token_ttl_s s, kc_max_token_ttl_s = st_max_token_ttl_s s,
         kc_approval_token_ttl_s = st_approval_token_ttl_s s, kc_build_version = st_build_version s,
         kc_public_key_b64 = b64url_encode L public_key_raw, kc_public_key_fingerprint = sha256_hex L public_key_raw\<rparr>,
       bs_auth = \<lparr>as_env = st_env s, as_auth_mode = st_auth_mode s, as_api_key_worker = st_api_key_worker s,
         as_api_key_api = st_api_key_api s, as_api_key_operator = st_api_key_operator s, as_api_key_reaper = st_api_key_reaper s\<rparr>,
       bs_audit_pepper = pepper, bs_tlog = tlog\<rparr>)"

definition boot :: "libs \<Rightarrow> boot_io \<Rightarrow> environment \<Rightarrow> (boot_error, boot_state) result" where
  "boot L io e =
     res_bind (settings_from_env e) (\<lambda>s.
     res_bind (resolve_signing_key_b64 L io s) (\<lambda>signing_key_b64.
     res_bind (map_err (\<lambda>_. SeedNotBase64) (b64url_decode_padded_or_unpadded L signing_key_b64)) (\<lambda>seed.
       if length seed \<noteq> 32 then Err (SeedLength (length seed))
       else
         let signing_key = of_be_bytes seed :: 256 word in
         res_bind (map_err (\<lambda>_. PepperNotBase64) (b64url_decode_padded_or_unpadded L (st_audit_pepper_b64 s))) (\<lambda>pepper.
         res_bind (boot_tlog io s (sha256_hex L (be_bytes (verifying_key L signing_key)))) (\<lambda>tlog.
           if settings_is_prod s \<and> \<not> st_tls_enable s then Err ProdNoTls
           else Ok (boot_state_of L s signing_key pepper tlog))))))"

section \<open>Lemmas\<close>

lemma var_nonblank_Some: "var_nonblank e k = Some v \<Longrightarrow> str_trim v \<noteq> []"
  by (auto simp: var_nonblank_def split: option.splits if_splits)

lemma ttl_var_floor: "f \<le> ttl_var e k d f"
  by (simp add: ttl_var_def)

abbreviation boot_env :: "environment \<Rightarrow> string" where
  "boot_env e \<equiv> to_ascii_lowercase (str_trim (var_or e ''QORCH_ENV'' ''dev''))"

lemma settings_check_Ok:
  assumes "settings_check is_prod s = Ok s'"
  shows "s' = s" "is_prod \<Longrightarrow> st_api_key_operator s \<noteq> None"
    "is_prod \<Longrightarrow> st_transparency_enabled s \<Longrightarrow> st_transparency_log_client_cert_path s \<noteq> None"
    "is_prod \<Longrightarrow> st_transparency_enabled s \<Longrightarrow> st_transparency_log_client_key_path s \<noteq> None"
  using assms by (auto simp: settings_check_def check_api_keys_def check_transparency_def res_bind_Ok_iff split: if_splits)

lemma settings_from_env_Ok:
  "settings_from_env e = Ok s \<Longrightarrow> \<exists>backend signing_key pepper.
     signing_key_setting e (prod_env (boot_env e)) backend = Ok signing_key \<and>
     s = settings_of e (boot_env e) backend signing_key pepper \<and> settings_check (prod_env (boot_env e)) s = Ok s"
  unfolding settings_from_env_def Let_def res_bind_Ok_iff using settings_check_Ok(1) by metis

lemma settings_of_simps [simp]:
  "st_env (settings_of e env b k p) = env" "st_key_backend (settings_of e env b k p) = b"
  "st_api_key_operator (settings_of e env b k p) = var_nonblank e ''QORCH_KERNEL_API_KEY_OPERATOR''"
  "st_transparency_log_api_key (settings_of e env b k p) = var_nonblank e ''QORCH_KERNEL_TRANSPARENCY_API_KEY''"
  "st_default_token_ttl_s (settings_of e env b k p) = ttl_var e ''QORCH_KERNEL_TOKEN_TTL_S'' 60 1"
  "st_max_token_ttl_s (settings_of e env b k p) = ttl_var e ''QORCH_KERNEL_MAX_TOKEN_TTL_S'' 300 1"
  "st_approval_token_ttl_s (settings_of e env b k p) = ttl_var e ''QORCH_KERNEL_APPROVAL_TOKEN_TTL_S'' (365 * 24 * 60 * 60) 60"
  "st_revoke_token_ttl_s (settings_of e env b k p) = ttl_var e ''QORCH_KERNEL_REVOKE_TOKEN_TTL_S'' 120 30"
  by (simp_all add: settings_of_def Let_def)

lemma prod_backend: "signing_key_setting e True backend = Ok k \<Longrightarrow> backend = KbGcp"
  by (cases backend) (auto simp: signing_key_setting_def)

lemma boot_tlog_prod:
  assumes "boot_tlog io s fp = Ok c" "st_transparency_enabled s" "settings_is_prod s"
    and "st_transparency_log_client_cert_path s \<noteq> None" "st_transparency_log_client_key_path s \<noteq> None"
  shows "\<exists>client. c = Some client \<and> tc_client_identity client \<noteq> None"
  using assms by (auto simp: boot_tlog_def build_optional_client_def res_bind_Ok_iff Let_def split: if_splits option.splits)

lemma boot_Ok_iff: "boot L io e = Ok b \<longleftrightarrow>
    (\<exists>s seed_b64 seed pepper tlog. settings_from_env e = Ok s \<and> resolve_signing_key_b64 L io s = Ok seed_b64 \<and>
       b64url_decode_padded_or_unpadded L seed_b64 = Ok seed \<and> length seed = 32 \<and>
       b64url_decode_padded_or_unpadded L (st_audit_pepper_b64 s) = Ok pepper \<and>
       boot_tlog io s (sha256_hex L (be_bytes (verifying_key L (of_be_bytes seed)))) = Ok tlog \<and>
       (settings_is_prod s \<longrightarrow> st_tls_enable s) \<and> b = boot_state_of L s (of_be_bytes seed) pepper tlog)"
  unfolding boot_def Let_def res_bind_Ok_iff map_err_Ok_iff if_Err_Ok by auto

lemma boot_state_of_simps [simp]:
  "bs_settings (boot_state_of L s k p t) = s" "bs_tlog (boot_state_of L s k p t) = t"
  "as_api_key_operator (bs_auth (boot_state_of L s k p t)) = st_api_key_operator s"
  "kc_default_token_ttl_s (bs_config (boot_state_of L s k p t)) = st_default_token_ttl_s s"
  "kc_max_token_ttl_s (bs_config (boot_state_of L s k p t)) = st_max_token_ttl_s s"
  "kc_approval_token_ttl_s (bs_config (boot_state_of L s k p t)) = st_approval_token_ttl_s s"
  "kc_revoke_token_ttl_s (bs_config (boot_state_of L s k p t)) = st_revoke_token_ttl_s s"
  by (simp_all add: boot_state_of_def Let_def)

lemma boot_Ok:
  assumes "boot L io e = Ok b"
  shows "settings_from_env e = Ok (bs_settings b)" "\<exists>fp. boot_tlog io (bs_settings b) fp = Ok (bs_tlog b)"
    "settings_is_prod (bs_settings b) \<Longrightarrow> st_tls_enable (bs_settings b)"
    "as_api_key_operator (bs_auth b) = st_api_key_operator (bs_settings b)"
    "kc_default_token_ttl_s (bs_config b) = st_default_token_ttl_s (bs_settings b)"
    "kc_max_token_ttl_s (bs_config b) = st_max_token_ttl_s (bs_settings b)"
    "kc_approval_token_ttl_s (bs_config b) = st_approval_token_ttl_s (bs_settings b)"
    "kc_revoke_token_ttl_s (bs_config b) = st_revoke_token_ttl_s (bs_settings b)"
  using assms by (auto simp: boot_Ok_iff)

text \<open>No other variable is read through the variable of the raw seed.\<close>

lemma first_var_upd: "k \<notin> set ks \<Longrightarrow> first_var (e(k := v)) ks = first_var e ks"
  by (induction ks) (auto split: option.split)

lemma settings_ignore_seed_var:
  assumes "settings_from_env e = Ok s" "prod_env (boot_env e)"
  shows "settings_from_env (e(''QORCH_KERNEL_SIGNING_KEY_B64'' := v)) = Ok s"
proof -
  let ?e = "e(''QORCH_KERNEL_SIGNING_KEY_B64'' := v)"
  have vars: "var_or ?e ''QORCH_ENV'' d = var_or e ''QORCH_ENV'' d" "var_or ?e ''KERNEL_KEY_BACKEND'' d = var_or e ''KERNEL_KEY_BACKEND'' d"
    "required_secret ?e ''QORCH_KERNEL_AUDIT_PEPPER_B64'' = required_secret e ''QORCH_KERNEL_AUDIT_PEPPER_B64''" for d
    by (simp_all add: var_or_def required_secret_def)
  have "settings_of ?e env b k p = settings_of e env b k p" for env b k p
    by (simp add: settings_of_def first_var_upd del: first_var.simps) (simp add: var_or_def var_nonblank_def ttl_var_def transparency_flag_def log_timeout_def Let_def)
  moreover have "signing_key_setting ?e True backend = signing_key_setting e True backend" for backend
    by (cases backend) (simp_all add: signing_key_setting_def var_nonblank_def)
  ultimately show ?thesis using assms unfolding settings_from_env_def Let_def vars by simp
qed

section \<open>Properties\<close>

text \<open>C7: a kernel that starts in production (however the environment name is spelled or padded) starts only
  with its safeguards: the signing seed comes from the managed secret store and the raw seed
  variable has no influence at all, the operator key is set, TLS is on, every token lifetime has
  its floor, and when the transparency log is enabled there is a log client that presents a client certificate.\<close>

theorem production_boot_fails_closed:
  assumes "boot L io e = Ok b" "prod_env (to_ascii_lowercase (str_trim (var_or e ''QORCH_ENV'' ''dev'')))"
  shows "st_key_backend (bs_settings b) = KbGcp \<and> (\<forall>v. boot L io (e(''QORCH_KERNEL_SIGNING_KEY_B64'' := v)) = Ok b) \<and>
    (\<exists>k. as_api_key_operator (bs_auth b) = Some k \<and> str_trim k \<noteq> []) \<and> st_tls_enable (bs_settings b) \<and>
    1 \<le> kc_default_token_ttl_s (bs_config b) \<and> 1 \<le> kc_max_token_ttl_s (bs_config b) \<and>
    60 \<le> kc_approval_token_ttl_s (bs_config b) \<and> 30 \<le> kc_revoke_token_ttl_s (bs_config b) \<and>
    (st_transparency_enabled (bs_settings b) \<longrightarrow> (\<exists>client. bs_tlog b = Some client \<and> tc_client_identity client \<noteq> None))"
proof -
  let ?s = "bs_settings b"
  note b = boot_Ok[OF assms(1)]
  obtain backend key pepper where o: "signing_key_setting e (prod_env (boot_env e)) backend = Ok key"
      "?s = settings_of e (boot_env e) backend key pepper" "settings_check (prod_env (boot_env e)) ?s = Ok ?s"
    using settings_from_env_Ok[OF b(1)] by blast
  note c = settings_check_Ok(2-4)[OF o(3) assms(2)]
  have prod: "settings_is_prod ?s" using assms(2) by (simp add: settings_is_prod_def o(2))
  have "boot L io (e(''QORCH_KERNEL_SIGNING_KEY_B64'' := v)) = boot L io e" for v
    unfolding boot_def settings_ignore_seed_var[OF b(1) assms(2)] b(1) by (rule refl)
  moreover have "st_key_backend ?s = KbGcp" using o(1) assms(2) prod_backend by (simp add: o(2))
  moreover have "\<exists>k. st_api_key_operator ?s = Some k \<and> str_trim k \<noteq> []" using c(1) var_nonblank_Some by (auto simp: o(2))
  moreover have "1 \<le> st_default_token_ttl_s ?s" "1 \<le> st_max_token_ttl_s ?s" "60 \<le> st_approval_token_ttl_s ?s" "30 \<le> st_revoke_token_ttl_s ?s"
    by (simp_all only: o(2) settings_of_simps ttl_var_floor)
  moreover have "st_transparency_enabled ?s \<longrightarrow> (\<exists>client. bs_tlog b = Some client \<and> tc_client_identity client \<noteq> None)"
    using b(2) boot_tlog_prod prod c(2,3) by blast
  ultimately show ?thesis using assms(1) b(3)[OF prod] unfolding b(4-8) by simp
qed

abbreviation relaxed :: "environment \<Rightarrow> environment" where
  "relaxed e \<equiv> e(''QORCH_KERNEL_TRANSPARENCY_ENABLED'' := Some ''0'', ''QORCH_KERNEL_CLIENT_CA_PEM'' := None)"

lemma relaxed_settings:
  "settings_of (relaxed e) env b k p = (settings_of e env b k p)\<lparr>st_transparency_enabled := False, st_tls_client_ca_path := None\<rparr>"
proof -
  have "transparency_flag (relaxed e) x = False" for x
    by (simp add: transparency_flag_def str_trim_graphic graphic_def to_ascii_lowercase_def)
  then show ?thesis
    by (simp add: settings_of_def Let_def first_var_upd del: first_var.simps) (simp add: var_or_def var_nonblank_def ttl_var_def log_timeout_def)
qed

lemma relaxed_from_env:
  assumes "settings_from_env e = Ok s"
  shows "settings_from_env (relaxed e) = Ok (s\<lparr>st_transparency_enabled := False, st_tls_client_ca_path := None\<rparr>)"
proof -
  have vars: "var_or (relaxed e) ''QORCH_ENV'' d = var_or e ''QORCH_ENV'' d"
    "var_or (relaxed e) ''KERNEL_KEY_BACKEND'' d = var_or e ''KERNEL_KEY_BACKEND'' d"
    "required_secret (relaxed e) ''QORCH_KERNEL_AUDIT_PEPPER_B64'' = required_secret e ''QORCH_KERNEL_AUDIT_PEPPER_B64''"
    for d by (simp_all add: var_or_def required_secret_def)
  have key: "signing_key_setting (relaxed e) is_prod backend = signing_key_setting e is_prod backend" for is_prod backend
    by (cases backend) (simp_all add: signing_key_setting_def required_secret_def var_nonblank_def)
  have "settings_check is_prod s = Ok s' \<Longrightarrow>
      settings_check is_prod (s\<lparr>st_transparency_enabled := False, st_tls_client_ca_path := None\<rparr>) =
        Ok (s'\<lparr>st_transparency_enabled := False, st_tls_client_ca_path := None\<rparr>)" for is_prod s s'
    by (auto simp: settings_check_def check_api_keys_def check_transparency_def res_bind_Ok_iff split: if_splits)
  then show ?thesis
    using assms unfolding settings_from_env_def Let_def vars key relaxed_settings by (auto simp: res_bind_Ok_iff)
qed

text \<open>Production does not require the transparency log or client certificates, although the
  documentation of the settings says that start-up is refused without them: whatever starts in
  production also starts there with the log switched off and no client CA, and then has no log client,
  so authorisations and kills are signed without being recorded.\<close>

theorem production_boots_without_log:
  assumes "boot L io e = Ok b" "prod_env (st_env (bs_settings b))"
  shows "\<exists>b'. boot L io (e(''QORCH_KERNEL_TRANSPARENCY_ENABLED'' := Some ''0'', ''QORCH_KERNEL_CLIENT_CA_PEM'' := None)) = Ok b' \<and>
    prod_env (st_env (bs_settings b')) \<and> bs_tlog b' = None \<and> st_tls_client_ca_path (bs_settings b') = None"
proof -
  let ?r = "\<lambda>s. s\<lparr>st_transparency_enabled := False, st_tls_client_ca_path := None\<rparr>"
  have "resolve_signing_key_b64 L io (?r s) = resolve_signing_key_b64 L io s" "boot_tlog io (?r s) fp = Ok None"
    "settings_is_prod (?r s) = settings_is_prod s" for s fp
    by (simp_all add: resolve_signing_key_b64_def boot_tlog_def settings_is_prod_def split: key_backend_kind.split)
  note r = this
  obtain s seed_b64 seed pepper tlog where b: "settings_from_env e = Ok s" "resolve_signing_key_b64 L io s = Ok seed_b64"
      "b64url_decode_padded_or_unpadded L seed_b64 = Ok seed" "length seed = 32"
      "b64url_decode_padded_or_unpadded L (st_audit_pepper_b64 s) = Ok pepper"
      "settings_is_prod s \<longrightarrow> st_tls_enable s" "b = boot_state_of L s (of_be_bytes seed) pepper tlog"
    using assms(1) unfolding boot_Ok_iff by blast
  then have "boot L io (relaxed e) = Ok (boot_state_of L (?r s) (of_be_bytes seed) pepper None)"
    unfolding boot_Ok_iff relaxed_from_env[OF b(1)] using r by auto
  then show ?thesis using assms(2) b(7) by (intro exI conjI) auto
qed

section \<open>Witnesses\<close>

definition sample_vars :: environment where
  "sample_vars = map_of
     [(''QORCH_ENV'', ''PROD''), (''KERNEL_KEY_BACKEND'', ''gcp''), (''KERNEL_KEY_GCP_PROJECT'', ''p''), (''KERNEL_KEY_GCP_SECRET'', ''s''),
      (''QORCH_KERNEL_AUDIT_PEPPER_B64'', ''ab''), (''QORCH_KERNEL_API_KEY_WORKER'', ''w''), (''QORCH_KERNEL_API_KEY_API'', ''a''),
      (''QORCH_KERNEL_API_KEY_OPERATOR'', ''o''), (''QORCH_KERNEL_TLS_CERT'', ''c''), (''QORCH_KERNEL_TLS_KEY'', ''k''),
      (''QORCH_KERNEL_TRANSPARENCY_LOG_URL'', ''u''), (''QORCH_KERNEL_TRANSPARENCY_API_KEY'', ''t''),
      (''QORCH_KERNEL_TRANSPARENCY_CLIENT_CERT'', ''x''), (''QORCH_KERNEL_TRANSPARENCY_CLIENT_KEY'', ''y'')]"

definition boot_libs :: libs where
  "boot_libs = sample_libs (JObject (bt_of_list [(''access_token'', JString ''at''), (''payload'', JObject (bt_of_list [(''data'', JString ''d'')]))]))"

definition sample_boot_io :: boot_io where
  "sample_boot_io = \<lparr>bio_metadata = Ok (200, ''m''), bio_secret = (\<lambda>_ _. Ok (200, ''m'')),
     bio_b64_decode = (\<lambda>_. Ok (as_bytes (base16_encode (be_bytes (7 :: 256 word))))), bio_client_cert = (\<lambda>_ _. Ok ())\<rparr>"

lemma unat_of_char: "unat (of_char c :: u8) = of_char c"
proof -
  have "unat (of_nat (of_char c) :: u8) = of_char c" by (simp only: unsigned_of_nat) (simp add: take_bit_eq_mod)
  then show ?thesis by (simp only: of_nat_of_char)
qed

lemma string_of_as_bytes [simp]: "string_of_bytes (as_bytes s) = s"
  by (simp add: string_of_bytes_def as_bytes_def comp_def unat_of_char)

lemma utf8_ascii: "list_all graphic s \<Longrightarrow> utf8_valid (as_bytes s)"
  by (induction s) (simp_all add: as_bytes_def graphic_def word_le_nat_alt unat_of_char)

lemma sample_seed:
  "fetch_gcp_secret boot_libs sample_boot_io project secret version = Ok (base16_encode (be_bytes (7 :: 256 word)))"
proof -
  have "list_all graphic (base16_encode (be_bytes (7 :: 256 word)))" by (rule base16_graphic)
  moreover have "base16_encode (be_bytes (7 :: 256 word)) \<noteq> []"
    using length_base16_encode[of "be_bytes (7 :: 256 word)"] by (auto simp: be_bytes_def le_bytes_def)
  moreover have "is_success 200" by (simp add: is_success_def)
  ultimately show ?thesis
    by (simp add: fetch_gcp_secret_def gcp_metadata_access_token_def sample_boot_io_def boot_libs_def sample_libs_def res_bind_def
        ok_or_def bt_get_of_list map_err_def utf8_ascii str_trim_graphic)
qed

lemma sample_settings: "\<exists>s. settings_from_env sample_vars = Ok s \<and> st_env s = ''prod'' \<and> st_key_backend s = KbGcp \<and>
    st_key_gcp_project s = Some ''p'' \<and> st_key_gcp_secret s = Some ''s'' \<and> st_audit_pepper_b64 s = ''ab'' \<and> st_tls_enable s \<and>
    st_transparency_enabled s \<and> st_transparency_log_timeout_seconds s = Finite 2 \<and> st_transparency_log_url s = Some ''u'' \<and>
    st_transparency_log_api_key s = Some ''t'' \<and> st_transparency_log_client_cert_path s = Some ''x'' \<and>
    st_transparency_log_client_key_path s = Some ''y''"
proof -
  have low: "to_ascii_lowercase ''PROD'' = ''prod''" by code_simp
  have env: "to_ascii_lowercase (str_trim (var_or sample_vars ''QORCH_ENV'' ''dev'')) = ''prod''" "prod_env ''prod''"
    by (simp_all add: sample_vars_def var_or_def str_trim_graphic graphic_def prod_env_def low)
  have backend: "parse_key_backend (var_or sample_vars ''KERNEL_KEY_BACKEND'' []) = Ok KbGcp"
    by (simp add: sample_vars_def var_or_def str_trim_graphic graphic_def to_ascii_lowercase_def parse_key_backend_def)
  have key: "signing_key_setting sample_vars True KbGcp = Ok []"
    by (simp add: sample_vars_def signing_key_setting_def var_nonblank_def str_trim_graphic graphic_def)
  have pepper: "required_secret sample_vars ''QORCH_KERNEL_AUDIT_PEPPER_B64'' = Ok ''ab''"
    by (simp add: sample_vars_def required_secret_def str_trim_graphic graphic_def)
  let ?s = "settings_of sample_vars ''prod'' KbGcp [] ''ab''"
  have f: "st_api_key_worker ?s = Some ''w''" "st_api_key_api ?s = Some ''a''" "st_api_key_operator ?s = Some ''o''"
    "st_key_gcp_project ?s = Some ''p''" "st_key_gcp_secret ?s = Some ''s''" "st_audit_pepper_b64 ?s = ''ab''" "st_tls_enable ?s"
    "st_transparency_enabled ?s" "st_transparency_log_timeout_seconds ?s = Finite 2" "st_transparency_log_url ?s = Some ''u''"
    "st_transparency_log_api_key ?s = Some ''t''" "st_transparency_log_client_cert_path ?s = Some ''x''"
    "st_transparency_log_client_key_path ?s = Some ''y''"
    by (simp_all add: settings_of_def Let_def, simp_all add: sample_vars_def var_nonblank_def str_trim_graphic graphic_def
        transparency_flag_def env(2) log_timeout_def)
  then have "settings_check True ?s = Ok ?s" by (simp add: settings_check_def check_api_keys_def check_transparency_def res_bind_def)
  then have "settings_from_env sample_vars = Ok ?s"
    unfolding settings_from_env_def Let_def env backend pepper by (simp add: res_bind_def env(2) key)
  then show ?thesis using f by auto
qed

lemma sample_boot: "\<exists>b. boot boot_libs sample_boot_io sample_vars = Ok b \<and> prod_env (st_env (bs_settings b)) \<and> bs_tlog b \<noteq> None"
proof -
  obtain s where s: "settings_from_env sample_vars = Ok s" "st_env s = ''prod''" "st_key_backend s = KbGcp"
    "st_key_gcp_project s = Some ''p''" "st_key_gcp_secret s = Some ''s''" "st_audit_pepper_b64 s = ''ab''" "st_tls_enable s"
    "st_transparency_enabled s" "st_transparency_log_timeout_seconds s = Finite 2" "st_transparency_log_url s = Some ''u''"
    "st_transparency_log_api_key s = Some ''t''" "st_transparency_log_client_cert_path s = Some ''x''"
    "st_transparency_log_client_key_path s = Some ''y''"
    using sample_settings by blast
  let ?seed = "base16_encode (be_bytes (7 :: 256 word))"
  have r: "resolve_signing_key_b64 boot_libs sample_boot_io s = Ok ?seed"
    by (simp add: resolve_signing_key_b64_def s sample_seed res_bind_def ok_or_def)
  have "CHR ''='' \<notin> set ?seed" using base16_chars by blast
  then have "trim_end_matches (CHR ''='') ?seed = ?seed"
    unfolding trim_end_matches_def by (cases "rev ?seed") (auto simp: rev_swap dest: arg_cong[of _ _ set])
  then have d: "b64url_decode_padded_or_unpadded boot_libs ?seed = Ok (be_bytes (7 :: 256 word))"
    using base16_graphic by (simp add: b64url_decode_padded_or_unpadded_def str_trim_graphic boot_libs_def sample_libs_def base16_roundtrip)
  have p: "\<exists>x. b64url_decode_padded_or_unpadded boot_libs (st_audit_pepper_b64 s) = Ok x"
    by (simp add: s b64url_decode_padded_or_unpadded_def str_trim_graphic graphic_def boot_libs_def sample_libs_def trim_end_matches_def res_bind_def)
  have t: "\<exists>c. boot_tlog sample_boot_io s fp = Ok (Some c)" for fp
    by (simp add: boot_tlog_def s build_optional_client_def unwrap_or_empty_def sample_boot_io_def res_bind_def map_err_def)
  have l: "length (be_bytes (7 :: 256 word)) = 32" by (simp add: be_bytes_def le_bytes_def)
  from p obtain pepper where "b64url_decode_padded_or_unpadded boot_libs (st_audit_pepper_b64 s) = Ok pepper" by blast
  moreover from t[of "sha256_hex boot_libs (be_bytes (verifying_key boot_libs (of_be_bytes (be_bytes (7 :: 256 word)))))"] obtain c where
    "boot_tlog sample_boot_io s (sha256_hex boot_libs (be_bytes (verifying_key boot_libs (of_be_bytes (be_bytes (7 :: 256 word)))))) = Ok (Some c)" by blast
  ultimately have "boot boot_libs sample_boot_io sample_vars = Ok (boot_state_of boot_libs s (of_be_bytes (be_bytes (7 :: 256 word))) pepper (Some c))"
    unfolding boot_Ok_iff using s r d l by blast
  then show ?thesis by (auto simp: prod_env_def s)
qed

theorem production_boot_fails_closed_witness:
  "\<exists>b client. boot boot_libs sample_boot_io sample_vars = Ok b \<and> st_key_backend (bs_settings b) = KbGcp \<and> st_tls_enable (bs_settings b) \<and>
    boot boot_libs sample_boot_io (sample_vars(''QORCH_KERNEL_SIGNING_KEY_B64'' := Some ''leaked'')) = Ok b \<and>
    bs_tlog b = Some client"
proof -
  obtain b where b: "boot boot_libs sample_boot_io sample_vars = Ok b" "bs_tlog b \<noteq> None" using sample_boot by blast
  have "to_ascii_lowercase ''PROD'' = ''prod''" by code_simp
  then have "prod_env (to_ascii_lowercase (str_trim (var_or sample_vars ''QORCH_ENV'' ''dev'')))"
    by (simp add: sample_vars_def var_or_def str_trim_graphic graphic_def prod_env_def)
  from production_boot_fails_closed[OF b(1) this] b show ?thesis by auto
qed

theorem production_boots_without_log_witness:
  "\<exists>b'. boot boot_libs sample_boot_io (sample_vars(''QORCH_KERNEL_TRANSPARENCY_ENABLED'' := Some ''0'', ''QORCH_KERNEL_CLIENT_CA_PEM'' := None)) = Ok b' \<and>
    prod_env (st_env (bs_settings b')) \<and> bs_tlog b' = None"
  using sample_boot production_boots_without_log[of boot_libs sample_boot_io sample_vars] by blast

end
