(* ===== verification/SdkClient.thy ===== *)
theory SdkClient
  imports Breaker KernelSettings
begin

text \<open>
  The kernel client of \<^verbatim>\<open>src/crates/adapters/safety_kernel_client/src\<close>: \<^verbatim>\<open>client.rs\<close> with the types of
  \<^verbatim>\<open>types.rs\<close>, and the dispatcher's client \<^verbatim>\<open>reqwest_client.rs\<close> with the port of
  \<^verbatim>\<open>application/src/safety_kernel.rs\<close>.

  The HTTP library is the record \<open>http_lib\<close> (whether a string is a legal header value, how a status is
  printed); what the network does with one request is the function that maps the request to an
  \<open>sdk_response\<close>: an error of the send, or a status with the results of reading the body as text and
  of decoding it.  Each clock read of a call is a field of \<open>sdk_clock\<close>.  The audit ring and the breaker
  are the client's state.
\<close>

section \<open>Types\<close>

record sdk_authorize_request =
  sar_action :: string
  sar_params_fingerprint :: string
  sar_run_id :: string
  sar_subject :: string
  sar_traceparent :: "string option"

record sdk_authorize_response =
  sas_claims_hint :: "json btree option"
  sas_token :: string

record audit_entry =
  ae_outcome :: string
  ae_recorded_at :: f64
  ae_run_id :: string
  ae_subject :: string
  ae_traceparent :: "string option"

record http_lib =
  hl_header_value :: "string \<Rightarrow> (string, string) result"
  hl_status_text :: "nat \<Rightarrow> string"
  hl_to_str :: "bytes \<Rightarrow> string option"

record http_call =
  hc_url :: string
  hc_headers :: "(string \<times> string) list"
  hc_query :: "(string \<times> string) list"
  hc_body :: "json option"

datatype 'a sdk_response = SdkFailed string | SdkAnswer nat "(string, string) result" "(string, 'a) result"

record sdk_clock =
  sk_gate_at :: f64
  sk_outcome_at :: f64
  sk_verify_at :: f64
  sk_audit_at :: f64

record sdk_config =
  sk_base_url :: string
  sk_api_key :: string
  sk_breaker :: circuit_config
  sk_verifier :: pinned_key_verifier

record sdk_state =
  ss_breaker :: breaker_state
  ss_audit :: "audit_entry list"

definition sdk_state_new :: sdk_state where
  "sdk_state_new = \<lparr>ss_breaker = breaker_new, ss_audit = []\<rparr>"

definition audit_trail :: "sdk_state \<Rightarrow> audit_entry list" where
  "audit_trail st = ss_audit st"

definition record_audit :: "sdk_clock \<Rightarrow> sdk_authorize_request \<Rightarrow> string \<Rightarrow> sdk_state \<Rightarrow> sdk_state" where
  "record_audit clk req outcome st = st\<lparr>ss_audit := ss_audit st @
     [\<lparr>ae_outcome = outcome, ae_recorded_at = sk_audit_at clk, ae_run_id = sar_run_id req,
       ae_subject = sar_subject req, ae_traceparent = sar_traceparent req\<rparr>]\<rparr>"

section \<open>Requests\<close>

definition endpoint :: "sdk_config \<Rightarrow> string \<Rightarrow> string" where
  "endpoint c path = trim_end_matches (CHR ''/'') (sk_base_url c) @ path"

definition build_get_headers :: "http_lib \<Rightarrow> sdk_config \<Rightarrow> string option \<Rightarrow> (client_error, (string \<times> string) list) result" where
  "build_get_headers H c traceparent =
     res_bind (map_err (\<lambda>e. Transport (''bad api key header: '' @ e)) (hl_header_value H (sk_api_key c))) (\<lambda>v.
     Ok ([(''x-api-key'', v)] @
       (case traceparent of None \<Rightarrow> []
        | Some tp \<Rightarrow> (case hl_header_value H tp of Inl _ \<Rightarrow> [] | Inr w \<Rightarrow> [(''traceparent'', w)]))))"

definition authorize_body :: "sdk_authorize_request \<Rightarrow> json" where
  "authorize_body r = JObject (bt_of_list
     [(''action'', JString (sar_action r)), (''params_fingerprint'', JString (sar_params_fingerprint r)),
      (''run_id'', JString (sar_run_id r)), (''subject'', JString (sar_subject r))])"

section \<open>Authorize\<close>

text \<open>The steps after the gate let the call through: headers, send, classification, verification.\<close>

definition authorize_answer :: "libs \<Rightarrow> http_lib \<Rightarrow> sdk_config \<Rightarrow> sdk_clock \<Rightarrow> sdk_authorize_request \<Rightarrow>
    sdk_authorize_response sdk_response \<Rightarrow> sdk_state \<Rightarrow> (client_error, kernel_decision) result \<times> sdk_state" where
  "authorize_answer L H c clk req resp st =
     (let failed = st\<lparr>ss_breaker := record_failure (sk_breaker c) (sk_outcome_at clk) (ss_breaker st)\<rparr>;
          succeeded = st\<lparr>ss_breaker := record_success (sk_outcome_at clk) (ss_breaker st)\<rparr> in
      case resp of
        SdkFailed e \<Rightarrow>
          (Err (Decision (Unavailable (''kernel call failed: '' @ e))), record_audit clk req ''UNAVAILABLE'' failed)
      | SdkAnswer status body_text decoded \<Rightarrow>
          if is_server_error status then
            (Err (Decision (Unavailable (''kernel returned '' @ hl_status_text H status))),
             record_audit clk req ''UNAVAILABLE'' failed)
          else if status = 403 then
            (Ok (Deny (case body_text of Inl _ \<Rightarrow> ''(no body)'' | Inr t \<Rightarrow> t)), record_audit clk req ''DENY'' succeeded)
          else if \<not> is_success status then
            (Err (Transport (''unexpected status '' @ hl_status_text H status @ '': '' @
               (case body_text of Inl _ \<Rightarrow> [] | Inr t \<Rightarrow> t))), st)
          else
            (case decoded of
               Inl e \<Rightarrow> (Err (Decode (''response decode failed: '' @ e)), failed)
             | Inr body \<Rightarrow>
                 (case pk_verify L (sk_verifier c) (sas_token body) (sk_verify_at clk) of
                    Inl e \<Rightarrow> (Err (Verification e), record_audit clk req ''VERIFICATION_FAILED'' st)
                  | Inr verified \<Rightarrow>
                      (Ok (Allow (sas_token body) verified), record_audit clk req ''ALLOW'' succeeded))))"

definition client_authorize :: "libs \<Rightarrow> http_lib \<Rightarrow> sdk_config \<Rightarrow> (http_call \<Rightarrow> sdk_authorize_response sdk_response) \<Rightarrow>
    sdk_clock \<Rightarrow> sdk_authorize_request \<Rightarrow> sdk_state \<Rightarrow> (client_error, kernel_decision) result \<times> sdk_state" where
  "client_authorize L H c send clk req st =
     (case before_call (sk_breaker c) (sk_gate_at clk) (ss_breaker st) of
        (Inl e, b) \<Rightarrow> (Err e, record_audit clk req ''UNAVAILABLE'' (st\<lparr>ss_breaker := b\<rparr>))
      | (Inr _, b) \<Rightarrow>
          (case build_get_headers H c (sar_traceparent req) of
             Inl e \<Rightarrow> (Err e, st\<lparr>ss_breaker := b\<rparr>)
           | Inr headers \<Rightarrow>
               authorize_answer L H c clk req
                 (send \<lparr>hc_url = endpoint c ''/kernel/v1/authorize'', hc_headers = headers, hc_query = [],
                        hc_body = Some (authorize_body req)\<rparr>)
                 (st\<lparr>ss_breaker := b\<rparr>)))"

section \<open>The public endpoints\<close>

definition client_get :: "http_lib \<Rightarrow> sdk_config \<Rightarrow> (http_call \<Rightarrow> 'a sdk_response) \<Rightarrow> string \<Rightarrow> string \<Rightarrow> string option \<Rightarrow>
    (client_error, 'a) result" where
  "client_get H c send name path traceparent =
     res_bind (build_get_headers H c traceparent) (\<lambda>headers.
       case send \<lparr>hc_url = endpoint c path, hc_headers = headers, hc_query = [], hc_body = None\<rparr> of
         SdkFailed e \<Rightarrow> Err (Decision (Unavailable (''kernel '' @ name @ '' call failed: '' @ e)))
       | SdkAnswer status _ decoded \<Rightarrow>
           if \<not> is_success status
           then Err (Decision (Unavailable (''kernel '' @ name @ '' returned '' @ hl_status_text H status)))
           else map_err (\<lambda>e. Decode (name @ '' response decode failed: '' @ e)) decoded)"

definition client_health :: "http_lib \<Rightarrow> sdk_config \<Rightarrow> (http_call \<Rightarrow> health_response sdk_response) \<Rightarrow> string option \<Rightarrow>
    (client_error, health_response) result" where
  "client_health H c send = client_get H c send ''health'' ''/kernel/v1/health''"

definition client_public_key :: "http_lib \<Rightarrow> sdk_config \<Rightarrow> (http_call \<Rightarrow> public_key_response sdk_response) \<Rightarrow> string option \<Rightarrow>
    (client_error, public_key_response) result" where
  "client_public_key H c send = client_get H c send ''public_key'' ''/kernel/v1/public_key''"

section \<open>The revoke endpoints\<close>

definition revoke_classify :: "http_lib \<Rightarrow> circuit_config \<Rightarrow> f64 \<Rightarrow> 'a sdk_response \<Rightarrow> string \<Rightarrow> breaker_state \<Rightarrow>
    (client_error, nat \<times> (string, 'a) result) result \<times> breaker_state" where
  "revoke_classify H cfg now resp what b =
     (case resp of
        SdkFailed e \<Rightarrow> (Err (Decision (Unavailable (what @ '' call failed: '' @ e))), record_failure cfg now b)
      | SdkAnswer status body_text decoded \<Rightarrow>
          if is_server_error status
          then (Err (Decision (Unavailable (what @ '' returned '' @ hl_status_text H status))), record_failure cfg now b)
          else if \<not> is_success status
          then (Err (Transport (what @ '' unexpected status '' @ hl_status_text H status @ '': '' @
                  (case body_text of Inl _ \<Rightarrow> [] | Inr t \<Rightarrow> t))), record_success now b)
          else (Ok (status, decoded), record_success now b))"

text \<open>The part the four methods share: gate, headers, send, classification.\<close>

definition revoke_send :: "http_lib \<Rightarrow> sdk_config \<Rightarrow> (http_call \<Rightarrow> 'a sdk_response) \<Rightarrow> sdk_clock \<Rightarrow> string \<Rightarrow> string \<Rightarrow>
    (string \<times> string) list \<Rightarrow> json option \<Rightarrow> breaker_state \<Rightarrow> (client_error, nat \<times> (string, 'a) result) result \<times> breaker_state" where
  "revoke_send H c send clk path what query body b =
     (case before_call (sk_breaker c) (sk_gate_at clk) b of
        (Inl e, b1) \<Rightarrow> (Err e, b1)
      | (Inr _, b1) \<Rightarrow>
          (case build_get_headers H c None of
             Inl e \<Rightarrow> (Err e, b1)
           | Inr headers \<Rightarrow>
               revoke_classify H (sk_breaker c) (sk_outcome_at clk)
                 (send \<lparr>hc_url = endpoint c path, hc_headers = headers, hc_query = query, hc_body = body\<rparr>) what b1))"

definition client_mint_revoke :: "http_lib \<Rightarrow> sdk_config \<Rightarrow> (http_call \<Rightarrow> signed_revoke_response sdk_response) \<Rightarrow> sdk_clock \<Rightarrow>
    mint_revoke_request \<Rightarrow> breaker_state \<Rightarrow> (client_error, signed_revoke_response) result \<times> breaker_state" where
  "client_mint_revoke H c send clk req b =
     (let (r, b1) = revoke_send H c send clk ''/kernel/v1/revoke/compute'' ''revoke compute'' []
            (Some (JObject (bt_of_list [(''target'', target_to_value (mq_target req)), (''tier'', tier_to_value (mq_tier req)),
               (''trigger'', trigger_to_value (mq_trigger req)), (''reason'', json_from_opt_str (mq_reason req))]))) b in
      (res_bind r (\<lambda>(_, decoded). map_err (\<lambda>e. Decode (''revoke compute decode failed: '' @ e)) decoded), b1))"

definition client_pending_revoke :: "http_lib \<Rightarrow> sdk_config \<Rightarrow> (http_call \<Rightarrow> pending_revoke_response sdk_response) \<Rightarrow> sdk_clock \<Rightarrow>
    string \<Rightarrow> breaker_state \<Rightarrow> (client_error, pending_revoke_response) result \<times> breaker_state" where
  "client_pending_revoke H c send clk inst b =
     (let (r, b1) = revoke_send H c send clk ''/kernel/v1/revoke/pending'' ''revoke pending'' [(''instance'', inst)] None b in
      (res_bind r (\<lambda>(status, decoded).
         if status = 204 then Ok \<lparr>pr_ok = True, pr_pending = [], pr_current_grant_generation = 0\<rparr>
         else map_err (\<lambda>e. Decode (''revoke pending decode failed: '' @ e)) decoded), b1))"

definition client_ack_revoke :: "http_lib \<Rightarrow> sdk_config \<Rightarrow> (http_call \<Rightarrow> revoke_ack_response sdk_response) \<Rightarrow> sdk_clock \<Rightarrow>
    revoke_ack_request \<Rightarrow> breaker_state \<Rightarrow> (client_error, revoke_ack_response) result \<times> breaker_state" where
  "client_ack_revoke H c send clk req b =
     (let (r, b1) = revoke_send H c send clk ''/kernel/v1/revoke/ack'' ''revoke ack'' []
            (Some (JObject (bt_of_list [(''run_id'', JString (aq_run_id req)), (''outcome'', JString (aq_outcome req))]))) b in
      (res_bind r (\<lambda>(_, decoded). map_err (\<lambda>e. Decode (''revoke ack decode failed: '' @ e)) decoded), b1))"

definition client_restore_revoke :: "http_lib \<Rightarrow> sdk_config \<Rightarrow> (http_call \<Rightarrow> signed_revoke_response sdk_response) \<Rightarrow> sdk_clock \<Rightarrow>
    restore_request \<Rightarrow> breaker_state \<Rightarrow> (client_error, signed_revoke_response) result \<times> breaker_state" where
  "client_restore_revoke H c send clk req b =
     (let (r, b1) = revoke_send H c send clk ''/kernel/v1/revoke/restore'' ''revoke restore'' []
            (Some (JObject (bt_of_list [(''target'', target_to_value (rq_target req)), (''reason'', json_from_opt_str (rq_reason req))]))) b in
      (res_bind r (\<lambda>(_, decoded). map_err (\<lambda>e. Decode (''revoke restore decode failed: '' @ e)) decoded), b1))"

section \<open>The dispatcher's client\<close>

datatype safety_kernel_error =
    SkPolicyRejected nat string
  | SkUnreachable string
  | SkMalformedResponse string

record authorize_claims_request =
  cq_action :: string
  cq_run_id :: string
  cq_subject :: string
  cq_params_fingerprint :: string
  cq_params :: "json btree option"
  cq_ttl_s :: "int option"

definition claims_request_body :: "authorize_claims_request \<Rightarrow> json" where
  "claims_request_body r = JObject (bt_of_list
     ([(''action'', JString (cq_action r)), (''run_id'', JString (cq_run_id r)), (''subject'', JString (cq_subject r)),
       (''params_fingerprint'', JString (cq_params_fingerprint r))] @
      (case cq_params r of None \<Rightarrow> [] | Some p \<Rightarrow> [(''params'', JObject p)]) @
      (case cq_ttl_s r of None \<Rightarrow> [] | Some t \<Rightarrow> [(''ttl_s'', json_from_i64 t)])))"

record reqwest_config =
  rqc_base_url :: string
  rqc_api_key :: string
  rqc_timeout_ms :: nat

definition DEFAULT_TIMEOUT_MS :: nat where "DEFAULT_TIMEOUT_MS = 5000"

definition DEFAULT_BASE_URL :: string where "DEFAULT_BASE_URL = ''http://localhost:9000''"

definition reqwest_config_default :: reqwest_config where
  "reqwest_config_default = \<lparr>rqc_base_url = DEFAULT_BASE_URL, rqc_api_key = [], rqc_timeout_ms = DEFAULT_TIMEOUT_MS\<rparr>"

definition reqwest_config_from_env :: "(string \<Rightarrow> string option) \<Rightarrow> reqwest_config option" where
  "reqwest_config_from_env env =
     (case env ''QORCH_KERNEL_API_KEY_WORKER'' of
        None \<Rightarrow> None
      | Some api_key \<Rightarrow>
          if api_key = [] then None
          else Some \<lparr>
            rqc_base_url = (case env ''QORCH_SAFETY_KERNEL_URL'' of None \<Rightarrow> DEFAULT_BASE_URL | Some u \<Rightarrow> u),
            rqc_api_key = api_key,
            rqc_timeout_ms = (case Option.bind (env ''QORCH_SAFETY_KERNEL_TIMEOUT_MS'') parse_u64 of
              None \<Rightarrow> DEFAULT_TIMEOUT_MS | Some t \<Rightarrow> t)\<rparr>)"

record error_response_body =
  erb_detail :: "string option"
  erb_reason :: "string option"

text \<open>
  The reply of one call: an error of the send, or a status with the two decodings the code may try,
  of the outcome and of the error body.
\<close>

datatype reqwest_reply = ReqFailed string | ReqAnswer nat "(string, authorize_response) result" "error_response_body option"

definition is_client_error :: "nat \<Rightarrow> bool" where
  "is_client_error status \<longleftrightarrow> 400 \<le> status \<and> status < 500"

definition reqwest_authorize :: "reqwest_config \<Rightarrow> (http_call \<Rightarrow> reqwest_reply) \<Rightarrow> authorize_claims_request \<Rightarrow>
    (safety_kernel_error, authorize_response) result" where
  "reqwest_authorize cfg send claims =
     (case send \<lparr>hc_url = trim_end_matches (CHR ''/'') (rqc_base_url cfg) @ ''/kernel/v1/authorize'',
                hc_headers = [(''x-api-key'', rqc_api_key cfg)], hc_query = [], hc_body = Some (claims_request_body claims)\<rparr> of
        ReqFailed e \<Rightarrow> Err (SkUnreachable (truncate_chars e 300))
      | ReqAnswer status outcome error_body \<Rightarrow>
          if is_success status then map_err (\<lambda>e. SkMalformedResponse (truncate_chars e 300)) outcome
          else if is_client_error status then
            (let body = (case error_body of None \<Rightarrow> \<lparr>erb_detail = None, erb_reason = None\<rparr> | Some b \<Rightarrow> b);
                 detail = (case erb_reason body of Some r \<Rightarrow> r
                   | None \<Rightarrow> (case erb_detail body of Some d \<Rightarrow> d | None \<Rightarrow> ''HTTP '' @ dec_string status))
             in Err (SkPolicyRejected status (truncate_chars detail 300)))
          else Err (SkUnreachable (''unexpected status '' @ dec_string status)))"

section \<open>Mutual TLS\<close>

text \<open>
  The factory of \<^verbatim>\<open>mtls.rs\<close>.  The file system, the PEM parser and the TLS library are the record \<open>tls_lib\<close>;
  certificates, keys and configurations are what that library makes of them.
\<close>

datatype mtls_error =
    EmptyCertificateChain string
  | EmptyPrivateKey string
  | InvalidPem string string
  | ReadFile string string
  | RustlsConfig string

record ('cert, 'key, 'conf) tls_lib =
  tl_read :: "string \<Rightarrow> (string, bytes) result"
  tl_certs :: "bytes \<Rightarrow> (string, 'cert list) result"
  tl_private_key :: "bytes \<Rightarrow> (string, 'key option) result"
  tl_add :: "'cert list \<Rightarrow> 'cert \<Rightarrow> (string, 'cert list) result"
  tl_webpki_roots :: "'cert list"
  tl_client_config :: "'cert list \<Rightarrow> 'cert list \<Rightarrow> 'key \<Rightarrow> (string, 'conf) result"

definition read_pem :: "('cert, 'key, 'conf) tls_lib \<Rightarrow> string \<Rightarrow> (mtls_error, bytes) result" where
  "read_pem T path = map_err (ReadFile path) (tl_read T path)"

definition parse_cert_chain :: "('cert, 'key, 'conf) tls_lib \<Rightarrow> bytes \<Rightarrow> string \<Rightarrow> (mtls_error, 'cert list) result" where
  "parse_cert_chain T pem_bytes path =
     res_bind (map_err (\<lambda>e. InvalidPem path (''cert parse: '' @ e)) (tl_certs T pem_bytes)) (\<lambda>certs.
     if certs = [] then Err (EmptyCertificateChain path) else Ok certs)"

definition parse_private_key :: "('cert, 'key, 'conf) tls_lib \<Rightarrow> bytes \<Rightarrow> string \<Rightarrow> (mtls_error, 'key) result" where
  "parse_private_key T pem_bytes path =
     res_bind (map_err (\<lambda>e. InvalidPem path (''key parse: '' @ e)) (tl_private_key T pem_bytes)) (\<lambda>k.
     ok_or (EmptyPrivateKey path) k)"

fun add_roots :: "('cert, 'key, 'conf) tls_lib \<Rightarrow> 'cert list \<Rightarrow> 'cert list \<Rightarrow> (mtls_error, 'cert list) result" where
  "add_roots T store [] = Ok store"
| "add_roots T store (c # cs) =
     res_bind (map_err (\<lambda>e. RustlsConfig (''ca add: '' @ e)) (tl_add T store c)) (\<lambda>store'. add_roots T store' cs)"

definition load_roots :: "('cert, 'key, 'conf) tls_lib \<Rightarrow> string option \<Rightarrow> (mtls_error, 'cert list) result" where
  "load_roots T ca_path =
     (case ca_path of
        None \<Rightarrow> Ok (tl_webpki_roots T)
      | Some ca \<Rightarrow>
          res_bind (read_pem T ca) (\<lambda>ca_bytes.
          res_bind (map_err (\<lambda>e. InvalidPem ca (''CA parse: '' @ e)) (tl_certs T ca_bytes)) (\<lambda>added.
          if added = [] then Err (EmptyCertificateChain ca) else add_roots T [] added)))"

definition make_client_config :: "('cert, 'key, 'conf) tls_lib \<Rightarrow> string \<Rightarrow> string \<Rightarrow> string option \<Rightarrow> (mtls_error, 'conf) result" where
  "make_client_config T cert_path key_path ca_path =
     res_bind (read_pem T cert_path) (\<lambda>cert_bytes.
     res_bind (parse_cert_chain T cert_bytes cert_path) (\<lambda>cert_chain.
     res_bind (read_pem T key_path) (\<lambda>key_bytes.
     res_bind (parse_private_key T key_bytes key_path) (\<lambda>key.
     res_bind (load_roots T ca_path) (\<lambda>roots.
     map_err (\<lambda>e. RustlsConfig (''client_auth_cert: '' @ e)) (tl_client_config T roots cert_chain key))))))"

lemma make_client_config_Ok:
  assumes "make_client_config T cert_path key_path ca_path = Ok conf"
  shows "\<exists>roots chain key. chain \<noteq> [] \<and> load_roots T ca_path = Ok roots \<and> tl_client_config T roots chain key = Ok conf"
  using assms unfolding make_client_config_def parse_cert_chain_def res_bind_Ok_iff map_err_Ok_iff if_Err_Ok by auto

section \<open>Lemmas: calls of the client\<close>

text \<open>One call of any method that uses the breaker, with the payload of its result dropped.\<close>

datatype sdk_op =
    OpAuthorize "http_call \<Rightarrow> sdk_authorize_response sdk_response" sdk_clock sdk_authorize_request
  | OpMint "http_call \<Rightarrow> signed_revoke_response sdk_response" sdk_clock mint_revoke_request
  | OpPending "http_call \<Rightarrow> pending_revoke_response sdk_response" sdk_clock string
  | OpAck "http_call \<Rightarrow> revoke_ack_response sdk_response" sdk_clock revoke_ack_request
  | OpRestore "http_call \<Rightarrow> signed_revoke_response sdk_response" sdk_clock restore_request

definition erase :: "(client_error, 'a) result \<times> breaker_state \<Rightarrow> sdk_state \<Rightarrow> (client_error, unit) result \<times> sdk_state" where
  "erase r st = (map_sum id (\<lambda>_. ()) (fst r), st\<lparr>ss_breaker := snd r\<rparr>)"

fun sdk_step :: "libs \<Rightarrow> http_lib \<Rightarrow> sdk_config \<Rightarrow> sdk_op \<Rightarrow> sdk_state \<Rightarrow> (client_error, unit) result \<times> sdk_state" where
  "sdk_step L H c (OpAuthorize send clk req) st = apfst (map_sum id (\<lambda>_. ())) (client_authorize L H c send clk req st)"
| "sdk_step L H c (OpMint send clk req) st = erase (client_mint_revoke H c send clk req (ss_breaker st)) st"
| "sdk_step L H c (OpPending send clk inst) st = erase (client_pending_revoke H c send clk inst (ss_breaker st)) st"
| "sdk_step L H c (OpAck send clk req) st = erase (client_ack_revoke H c send clk req (ss_breaker st)) st"
| "sdk_step L H c (OpRestore send clk req) st = erase (client_restore_revoke H c send clk req (ss_breaker st)) st"

fun sdk_run :: "libs \<Rightarrow> http_lib \<Rightarrow> sdk_config \<Rightarrow> sdk_op list \<Rightarrow> sdk_state \<Rightarrow> (client_error, unit) result list" where
  "sdk_run L H c [] st = []"
| "sdk_run L H c (op # ops) st = (let (r, st1) = sdk_step L H c op st in r # sdk_run L H c ops st1)"

lemma record_audit_breaker [simp]: "ss_breaker (record_audit clk req outcome st) = ss_breaker st"
  by (simp add: record_audit_def)

definition wedged :: "sdk_state \<Rightarrow> bool" where
  "wedged st \<longleftrightarrow> bs_current (ss_breaker st) = CbHalfOpen \<and> bs_probe_in_flight (ss_breaker st)"

lemma wedged_step:
  assumes "wedged st"
  shows "fst (sdk_step L H c op st) = Err (Decision (Unavailable ''circuit half-open probe in flight'')) \<and>
    ss_breaker (snd (sdk_step L H c op st)) = ss_breaker st"
proof -
  note r = half_open_refuses[OF assms[unfolded wedged_def, THEN conjunct1] assms[unfolded wedged_def, THEN conjunct2]]
  show ?thesis
    by (cases op)
      (simp_all add: client_authorize_def r erase_def client_mint_revoke_def client_pending_revoke_def client_ack_revoke_def
        client_restore_revoke_def revoke_send_def)
qed

lemma wedged_run:
  "wedged st \<Longrightarrow> list_all (\<lambda>r. r = Err (Decision (Unavailable ''circuit half-open probe in flight''))) (sdk_run L H c ops st)"
proof (induction ops arbitrary: st)
  case (Cons op ops)
  have "wedged (snd (sdk_step L H c op st))" using wedged_step[OF Cons.prems] Cons.prems by (simp add: wedged_def)
  from Cons.IH[OF this] wedged_step[OF Cons.prems] show ?case by (simp add: case_prod_beta)
qed simp

lemma client_allow_verified:
  assumes "client_authorize L H c send clk req st = (Ok (Allow token vc), st')"
  shows "pk_verify L (sk_verifier c) token (sk_verify_at clk) = Ok vc"
  using assms
  by (auto simp: client_authorize_def authorize_answer_def Let_def
      split: sum.splits prod.splits sdk_response.splits if_splits)

lemma probe_opens_half:
  assumes "bs_current b = CbOpen" "cooldown_elapsed cfg now b" "before_call cfg now b = (r, b')"
  shows "r = Ok () \<and> bs_current b' = CbHalfOpen \<and> bs_probe_in_flight b'"
  using assms by (auto simp: before_call_def)

text \<open>What the probe met: an unusable API key header, a status that is neither a success nor 403 nor a
  server error, or a token that the pinned key rejects.\<close>

definition outcome_unrecorded :: "libs \<Rightarrow> http_lib \<Rightarrow> sdk_config \<Rightarrow> sdk_clock \<Rightarrow> sdk_authorize_response sdk_response \<Rightarrow> bool" where
  "outcome_unrecorded L H c clk resp \<longleftrightarrow>
     \<not> is_ok (hl_header_value H (sk_api_key c)) \<or>
     (case resp of
        SdkFailed e \<Rightarrow> False
      | SdkAnswer status body_text decoded \<Rightarrow>
          \<not> is_server_error status \<and> status \<noteq> 403 \<and>
          (is_success status \<longrightarrow> (case decoded of
              Inl e \<Rightarrow> False | Inr body \<Rightarrow> \<not> is_ok (pk_verify L (sk_verifier c) (sas_token body) (sk_verify_at clk)))))"

lemma unrecorded_keeps_breaker:
  assumes "outcome_unrecorded L H c clk resp" "is_ok (hl_header_value H (sk_api_key c))"
  shows "ss_breaker (snd (authorize_answer L H c clk req resp st)) = ss_breaker st"
proof (cases resp)
  case (SdkAnswer status body_text decoded)
  with assms show ?thesis
    by (cases decoded) (auto simp: outcome_unrecorded_def authorize_answer_def Let_def is_ok_def split: sum.splits)
qed (use assms in \<open>simp add: outcome_unrecorded_def\<close>)

lemma build_headers_ok: "is_ok (build_get_headers H c tp) \<longleftrightarrow> is_ok (hl_header_value H (sk_api_key c))"
  by (simp add: build_get_headers_def is_ok_def res_bind_def map_err_def split: sum.splits)

text \<open>C28: a probe whose outcome is not recorded blocks the client for good.  When the breaker is open and
  its cooldown has elapsed, and the probing authorize call meets an unusable key header, an
  unexpected status such as 401 or 422, or a token that fails verification, then every later call
  of every method is refused as long as the client lives, at whatever time and however healthy the
  kernel is.\<close>

theorem leaked_probe_wedges_client:
  assumes "bs_current (ss_breaker st) = CbOpen" "cooldown_elapsed (sk_breaker c) (sk_gate_at clk) (ss_breaker st)"
    and "\<And>call. outcome_unrecorded L H c clk (send call)"
  shows "list_all (\<lambda>r. r = Err (Decision (Unavailable ''circuit half-open probe in flight'')))
    (sdk_run L H c ops (snd (client_authorize L H c send clk req st)))"
proof (rule wedged_run)
  obtain r b where b: "before_call (sk_breaker c) (sk_gate_at clk) (ss_breaker st) = (r, b)"
    by (cases "before_call (sk_breaker c) (sk_gate_at clk) (ss_breaker st)") auto
  note h = probe_opens_half[OF assms(1,2) b]
  show "wedged (snd (client_authorize L H c send clk req st))"
  proof (cases "build_get_headers H c (sar_traceparent req)")
    case (Inl e)
    then show ?thesis using b h by (simp add: client_authorize_def wedged_def)
  next
    case (Inr hs)
    then have "is_ok (hl_header_value H (sk_api_key c))"
      using build_headers_ok[of H c "sar_traceparent req"] by (simp add: is_ok_def)
    from unrecorded_keeps_breaker[OF assms(3) this] show ?thesis
      using b h Inr by (simp add: client_authorize_def wedged_def)
  qed
qed

definition sample_http :: http_lib where
  "sample_http = \<lparr>hl_header_value = Inr, hl_status_text = dec_string, hl_to_str = (\<lambda>bs. Some (string_of_bytes bs))\<rparr>"

definition sample_sdk :: "libs \<Rightarrow> sdk_config" where
  "sample_sdk L = \<lparr>sk_base_url = ''http://kernel'', sk_api_key = ''w-key'', sk_breaker = circuit_config_default,
     sk_verifier = from_pubkey_bytes L 7\<rparr>"

definition clock_at :: "rat \<Rightarrow> sdk_clock" where
  "clock_at t = \<lparr>sk_gate_at = Finite t, sk_outcome_at = Finite t, sk_verify_at = Finite t, sk_audit_at = Finite t\<rparr>"

definition sample_sdk_request :: sdk_authorize_request where
  "sample_sdk_request = \<lparr>sar_action = ''deploy'', sar_params_fingerprint = ''f00d'', sar_run_id = ''run-1'',
     sar_subject = ''svc'', sar_traceparent = None\<rparr>"

definition open_breaker :: breaker_state where
  "open_breaker = snd (breaker_run circuit_config_default (map (\<lambda>t. EvFailure (Finite t)) [1, 2, 3]) breaker_new)"

lemma open_breaker_fields: "bs_current open_breaker = CbOpen" "bs_opened_at open_breaker = Some (Finite 3)"
  by (simp_all add: open_breaker_def breaker_new_def record_failure_def saturating_succ32_def circuit_config_default_def Let_def word_le_nat_alt)

theorem leaked_probe_wedges_client_witness:
  "sdk_run (sample_libs JNull) sample_http (sample_sdk (sample_libs JNull))
     [OpPending (\<lambda>_. SdkAnswer 204 (Ok []) (Err [])) (clock_at 1000) ''vm'',
      OpAuthorize (\<lambda>_. SdkAnswer 403 (Ok []) (Err [])) (clock_at 2000) sample_sdk_request]
     (snd (client_authorize (sample_libs JNull) sample_http (sample_sdk (sample_libs JNull))
        (\<lambda>_. SdkAnswer 401 (Ok []) (Err [])) (clock_at 40) sample_sdk_request
        \<lparr>ss_breaker = open_breaker, ss_audit = []\<rparr>)) =
   replicate 2 (Err (Decision (Unavailable ''circuit half-open probe in flight'')))"
  (is "sdk_run ?L ?H ?c ?ops (snd (client_authorize ?L ?H ?c ?send ?clk ?req ?st)) = _")
proof -
  have "bs_current (ss_breaker ?st) = CbOpen" by (simp add: open_breaker_fields)
  moreover have "cooldown_elapsed (sk_breaker ?c) (sk_gate_at ?clk) (ss_breaker ?st)"
    using f64_add_int[of 40 "- 3"]
    by (simp add: cooldown_elapsed_def open_breaker_fields clock_at_def sample_sdk_def circuit_config_default_def f64_sub_def)
  moreover have "outcome_unrecorded ?L ?H ?c ?clk (?send call)" for call
    by (simp add: outcome_unrecorded_def is_server_error_def is_success_def)
  ultimately have "list_all (\<lambda>r. r = Err (Decision (Unavailable ''circuit half-open probe in flight'')))
      (sdk_run ?L ?H ?c ?ops (snd (client_authorize ?L ?H ?c ?send ?clk ?req ?st)))"
    by (rule leaked_probe_wedges_client)
  then show ?thesis by (simp add: case_prod_beta numeral_2_eq_2)
qed

end
