(* ===== verification/Middleware.thy ===== *)
theory Middleware
  imports SdkClient
begin

text \<open>
  The HTTP middleware of \<^verbatim>\<open>src/crates/adapters/safety_kernel_middleware/src\<close>: the policy tiers (\<^verbatim>\<open>policy.rs\<close>),
  the claims extractor (\<^verbatim>\<open>extractor.rs\<close>), the error taxonomy (\<^verbatim>\<open>error.rs\<close>), the token attached to a
  forwarded request (\<^verbatim>\<open>token.rs\<close>) and the request handler (\<^verbatim>\<open>service.rs\<close>).

  The wrapped application is represented by what reaches it: the result \<open>Forwarded r\<close> says that it is
  called with the request \<open>r\<close> and that its response is returned.  The kernel client is the trait of
  \<^verbatim>\<open>client_trait.rs\<close>, a function on a state of its own; a call that is spawned without being awaited is
  listed in the result.  The locale \<open>kernel_client\<close> states what a client promises; the SDK client is
  its interpretation.
\<close>

section \<open>Policy tiers\<close>

datatype middleware_policy = Unrestricted | Supervised | Gated

type_synonym static_policy = "((string \<times> string) \<times> middleware_policy) list"

definition from_routes :: "(string \<times> string \<times> middleware_policy) list \<Rightarrow> static_policy" where
  "from_routes routes = foldl (\<lambda>table (m, p, pol). AList.update (m, p) pol table) [] routes"

definition policy_resolve :: "static_policy \<Rightarrow> string \<Rightarrow> string \<Rightarrow> middleware_policy" where
  "policy_resolve table method path = (case map_of table (method, path) of None \<Rightarrow> Unrestricted | Some pol \<Rightarrow> pol)"

section \<open>Errors\<close>

datatype middleware_error =
    MwKernelUnavailable string
  | MwDenied string
  | MwForged string
  | MwBadRequest string

fun mw_kind_str :: "middleware_error \<Rightarrow> string" where
  "mw_kind_str (MwKernelUnavailable _) = ''kernel_unavailable''"
| "mw_kind_str (MwDenied _) = ''denied''"
| "mw_kind_str (MwForged _) = ''forged''"
| "mw_kind_str (MwBadRequest _) = ''bad_request''"

fun mw_status :: "middleware_error \<Rightarrow> nat \<times> string" where
  "mw_status (MwKernelUnavailable reason) = (503, reason)"
| "mw_status (MwDenied reason) = (403, reason)"
| "mw_status (MwForged reason) = (403, reason)"
| "mw_status (MwBadRequest reason) = (400, reason)"

section \<open>Requests and the extractor\<close>

record safety_token =
  st_token :: string
  st_claims :: verified_claims

record mw_request =
  mw_method :: string
  mw_path :: string
  mw_headers :: "(string \<times> bytes) list"
  mw_body :: "(string, bytes) result"
  mw_safety_token :: "safety_token option"

definition header_str :: "http_lib \<Rightarrow> (string \<times> bytes) list \<Rightarrow> string \<Rightarrow> string option" where
  "header_str H headers key = Option.bind (map_of headers key) (hl_to_str H)"

definition body_fingerprint :: "libs \<Rightarrow> bytes option \<Rightarrow> string" where
  "body_fingerprint L body_bytes =
     (case body_bytes of
        Some b \<Rightarrow> if b \<noteq> [] then sha256_hex L b else replicate 64 (CHR ''0'')
      | None \<Rightarrow> replicate 64 (CHR ''0''))"

definition default_extract :: "libs \<Rightarrow> http_lib \<Rightarrow> string \<Rightarrow> string \<Rightarrow> (string \<times> bytes) list \<Rightarrow> bytes option \<Rightarrow>
    (middleware_error, sdk_authorize_request) result" where
  "default_extract L H method path headers body_bytes =
     (let action = method @ '':'' @ path in
      res_bind (ok_or (MwBadRequest ''missing required header: x-run-id'') (header_str H headers ''x-run-id'')) (\<lambda>run_id.
      res_bind (ok_or (MwBadRequest ''missing required header: x-subject'') (header_str H headers ''x-subject'')) (\<lambda>subject.
      Ok \<lparr>sar_action = action, sar_params_fingerprint = body_fingerprint L body_bytes, sar_run_id = run_id,
          sar_subject = subject, sar_traceparent = header_str H headers ''traceparent''\<rparr>)))"

section \<open>The handler\<close>

datatype mw_result = Refused nat json | Forwarded mw_request

definition mw_refuse :: "middleware_error \<Rightarrow> mw_result" where
  "mw_refuse e = Refused (fst (mw_status e)) (JObject (bt_of_list
     [(''ok'', JBool False), (''error'', JString (mw_kind_str e)), (''reason'', JString (snd (mw_status e)))]))"

fun token_error_to_string :: "kernel_token_error \<Rightarrow> string" where
  "token_error_to_string (TokFormat s) = s"
| "token_error_to_string (TokSignature s) = s"
| "token_error_to_string (TokClaims s) = s"
| "token_error_to_string (TokExpired s) = s"

fun gated_outcome :: "(client_error, kernel_decision) result \<Rightarrow> mw_request \<Rightarrow> mw_result" where
  "gated_outcome (Inr (Allow token vc)) req = Forwarded (req\<lparr>mw_safety_token := Some \<lparr>st_token = token, st_claims = vc\<rparr>\<rparr>)"
| "gated_outcome (Inr (Deny reason)) req = mw_refuse (MwDenied reason)"
| "gated_outcome (Inl (Decision (Denied reason))) req = mw_refuse (MwDenied reason)"
| "gated_outcome (Inl (Verification e)) req = mw_refuse (MwForged (token_error_to_string e))"
| "gated_outcome (Inl (Decision (Unavailable reason))) req = mw_refuse (MwKernelUnavailable reason)"
| "gated_outcome (Inl (Transport reason)) req = mw_refuse (MwKernelUnavailable reason)"
| "gated_outcome (Inl (Decode reason)) req = mw_refuse (MwKernelUnavailable reason)"

definition mw_handle :: "(string \<Rightarrow> string \<Rightarrow> middleware_policy) \<Rightarrow>
    (string \<Rightarrow> string \<Rightarrow> (string \<times> bytes) list \<Rightarrow> bytes option \<Rightarrow> (middleware_error, sdk_authorize_request) result) \<Rightarrow>
    (sdk_authorize_request \<Rightarrow> 's \<Rightarrow> (client_error, kernel_decision) result \<times> 's) \<Rightarrow> mw_request \<Rightarrow> 's \<Rightarrow>
    mw_result \<times> 's \<times> sdk_authorize_request list" where
  "mw_handle policy extract client req s =
     (case policy (mw_method req) (mw_path req) of
        Unrestricted \<Rightarrow> (Forwarded req, s, [])
      | Supervised \<Rightarrow>
          (case mw_body req of
             Inl e \<Rightarrow> (mw_refuse (MwKernelUnavailable (''body collection failed: '' @ e)), s, [])
           | Inr bs \<Rightarrow>
               (case extract (mw_method req) (mw_path req) (mw_headers req) (Some bs) of
                  Inl _ \<Rightarrow> (Forwarded req, s, [])
                | Inr claims \<Rightarrow> (Forwarded req, s, [claims])))
      | Gated \<Rightarrow>
          (case mw_body req of
             Inl e \<Rightarrow> (mw_refuse (MwKernelUnavailable (''body collection failed: '' @ e)), s, [])
           | Inr bs \<Rightarrow>
               (case extract (mw_method req) (mw_path req) (mw_headers req) (Some bs) of
                  Inl e \<Rightarrow> (mw_refuse e, s, [])
                | Inr claims \<Rightarrow>
                    (let (decision, s') = client claims s in (gated_outcome decision req, s', [])))))"

section \<open>What a client promises\<close>

locale kernel_client =
  fixes authorize :: "sdk_authorize_request \<Rightarrow> 's \<Rightarrow> (client_error, kernel_decision) result \<times> 's"
    and authentic :: "sdk_authorize_request \<Rightarrow> 's \<Rightarrow> string \<Rightarrow> verified_claims \<Rightarrow> bool"
  assumes allow_authentic: "authorize req s = (Ok (Allow token vc), s') \<Longrightarrow> authentic req s token vc"
begin

lemma gated_forwards_authentic:
  assumes "policy (mw_method req) (mw_path req) = Gated"
    and "mw_handle policy extract authorize req s = (Forwarded r, s', spawned)"
  shows "\<exists>bs claims token vc. mw_body req = Ok bs \<and>
    extract (mw_method req) (mw_path req) (mw_headers req) (Some bs) = Ok claims \<and>
    authorize claims s = (Ok (Allow token vc), s') \<and> authentic claims s token vc \<and>
    r = req\<lparr>mw_safety_token := Some \<lparr>st_token = token, st_claims = vc\<rparr>\<rparr> \<and> spawned = []"
proof (cases "mw_body req")
  case (Inl e)
  then show ?thesis using assms by (simp add: mw_handle_def mw_refuse_def)
next
  case (Inr bs)
  show ?thesis
  proof (cases "extract (mw_method req) (mw_path req) (mw_headers req) (Some bs)")
    case (Inl e)
    then show ?thesis using assms Inr by (simp add: mw_handle_def mw_refuse_def)
  next
    case (Inr claims)
    obtain d s1 where d: "authorize claims s = (d, s1)" by (cases "authorize claims s") auto
    then have g: "gated_outcome d req = Forwarded r" "s1 = s'" "spawned = []"
      using assms Inr \<open>mw_body req = _\<close> by (simp_all add: mw_handle_def)
    then obtain token vc where "d = Ok (Allow token vc)"
      "r = req\<lparr>mw_safety_token := Some \<lparr>st_token = token, st_claims = vc\<rparr>\<rparr>"
      by (cases "(d, req)" rule: gated_outcome.cases) (auto simp: mw_refuse_def)
    then show ?thesis using d g Inr \<open>mw_body req = _\<close> allow_authentic by blast
  qed
qed

lemma gated_refusal_status:
  assumes "policy (mw_method req) (mw_path req) = Gated"
    and "mw_handle policy extract authorize req s = (Refused status body, s', spawned)"
  shows "status \<in> {400, 403, 503}"
proof -
  have r: "mw_refuse e = Refused status body \<Longrightarrow> status \<in> {400, 403, 503}" for e
    by (cases e) (auto simp: mw_refuse_def)
  have "gated_outcome d req = Refused status body \<Longrightarrow> status \<in> {400, 403, 503}" for d
    by (cases "(d, req)" rule: gated_outcome.cases) (auto dest: r)
  then show ?thesis using assms r by (auto simp: mw_handle_def Let_def split: sum.splits prod.splits)
qed

end

interpretation sdk_client: kernel_client "client_authorize L H c send clk"
  "\<lambda>req st token vc. pk_verify L (sk_verifier c) token (sk_verify_at clk) = Ok vc" for L H c send clk
  by unfold_locales (rule client_allow_verified)

section \<open>The kernel behind the client\<close>

fun de_opt_object :: "json \<Rightarrow> json btree option option" where
  "de_opt_object JNull = Some None"
| "de_opt_object (JObject m) = Some (Some m)"
| "de_opt_object _ = None"

fun de_opt_i64 :: "json \<Rightarrow> int option option" where
  "de_opt_i64 JNull = Some None"
| "de_opt_i64 v = (case json_as_i64 v of None \<Rightarrow> None | Some i \<Rightarrow> Some (Some i))"

definition de_default :: "json btree \<Rightarrow> string \<Rightarrow> (json \<Rightarrow> 'a option option) \<Rightarrow> 'a option option" where
  "de_default m k f = (case bt_get m k of None \<Rightarrow> Some None | Some v \<Rightarrow> f v)"

fun de_authorize_request :: "json \<Rightarrow> authorize_request option" where
  "de_authorize_request (JObject m) =
     (if \<not> set (map fst m) \<subseteq> {''action'', ''run_id'', ''subject'', ''params_fingerprint'', ''params'', ''ttl_s'', ''metadata''} then None
      else do {
        action \<leftarrow> de_field m ''action'' json_as_str;
        run_id \<leftarrow> de_field m ''run_id'' json_as_str;
        subject \<leftarrow> de_field m ''subject'' json_as_str;
        params_fp \<leftarrow> de_field m ''params_fingerprint'' json_as_str;
        params \<leftarrow> de_default m ''params'' de_opt_object;
        ttl_s \<leftarrow> de_default m ''ttl_s'' de_opt_i64;
        metadata \<leftarrow> de_default m ''metadata'' de_opt_object;
        Some \<lparr>arq_action = action, arq_run_id = run_id, arq_subject = subject, arq_params_fingerprint = params_fp,
              arq_params = params, arq_ttl_s = ttl_s, arq_metadata = metadata\<rparr> })"
| "de_authorize_request _ = None"

text \<open>
  What the framework does between the two: the text of an answer, the failed decoding of an answer
  that is no authorisation, and the reply to a request it rejects before the handlers.
\<close>

record wire =
  wi_render :: "kernel_answer \<Rightarrow> string"
  wi_undecodable :: "kernel_answer \<Rightarrow> string"
  wi_rejection :: "http_call \<Rightarrow> sdk_authorize_response sdk_response"
  wi_missing_role_status :: nat

fun deliver_authorize :: "wire \<Rightarrow> kernel_answer \<Rightarrow> sdk_authorize_response sdk_response" where
  "deliver_authorize W (AnsAuthorize (KJson r)) =
     SdkAnswer 200 (Ok (wi_render W (AnsAuthorize (KJson r)))) (Ok \<lparr>sas_claims_hint = None, sas_token = ar_token r\<rparr>)"
| "deliver_authorize W (AnsAuthorize (KDeny status e)) =
     SdkAnswer status (Ok (wi_render W (AnsAuthorize (KDeny status e)))) (Err (wi_undecodable W (AnsAuthorize (KDeny status e))))"
| "deliver_authorize W (AnsDenied status e) =
     SdkAnswer status (Ok (wi_render W (AnsDenied status e))) (Err (wi_undecodable W (AnsDenied status e)))"
| "deliver_authorize W a = SdkAnswer (wi_missing_role_status W) (Ok (wi_render W a)) (Err (wi_undecodable W a))"

definition kernel_side :: "kernel_app \<Rightarrow> kernel_env \<Rightarrow> ipc_channel \<Rightarrow> wire \<Rightarrow> kernel_state \<Rightarrow> http_call \<Rightarrow>
    sdk_authorize_response sdk_response" where
  "kernel_side app env ch W kst call =
     (case Option.bind (hc_body call) de_authorize_request of
        None \<Rightarrow> wi_rejection W call
      | Some body \<Rightarrow>
          deliver_authorize W (fst (kernel_service app
            \<lparr>call_env = env, call_channel = ch, call_header = map_of (hc_headers call) ''x-api-key'',
             call_request = RqAuthorize body\<rparr> kst)))"

lemma de_authorize_body:
  "de_authorize_request (authorize_body r) = Some \<lparr>arq_action = sar_action r, arq_run_id = sar_run_id r,
     arq_subject = sar_subject r, arq_params_fingerprint = sar_params_fingerprint r, arq_params = None, arq_ttl_s = None,
     arq_metadata = None\<rparr>"
proof -
  have "set (map fst (bt_of_list [(''action'', JString a), (''params_fingerprint'', JString f), (''run_id'', JString i), (''subject'', JString s)]))
      \<subseteq> {''action'', ''run_id'', ''subject'', ''params_fingerprint'', ''params'', ''ttl_s'', ''metadata''}" for a f i s
    by (simp add: bt_of_list_def)
  then show ?thesis
    by (simp add: authorize_body_def de_field_def de_default_def bt_get_of_list del: insert_subset)
qed

lemma client_allow_sent:
  assumes "client_authorize L H c send clk req st = (Ok (Allow token vc), st')"
  shows "\<exists>headers status body_text body. build_get_headers H c (sar_traceparent req) = Ok headers \<and>
    send \<lparr>hc_url = endpoint c ''/kernel/v1/authorize'', hc_headers = headers, hc_query = [], hc_body = Some (authorize_body req)\<rparr> =
      SdkAnswer status body_text (Ok body) \<and> sas_token body = token"
  using assms
  by (auto simp: client_authorize_def authorize_answer_def Let_def
      split: sum.splits prod.splits sdk_response.splits if_splits)

lemma build_headers_key:
  assumes "\<And>s v. hl_header_value H s = Ok v \<Longrightarrow> v = s" "build_get_headers H c tp = Ok headers"
  shows "map_of headers ''x-api-key'' = Some (sk_api_key c)"
  using assms(2) assms(1)[of "sk_api_key c"]
  by (auto simp: build_get_headers_def res_bind_def map_err_def split: sum.splits)

lemma deliver_authorize_Ok:
  "deliver_authorize W a = SdkAnswer status t (Ok body) \<Longrightarrow> \<exists>r. a = AnsAuthorize (KJson r) \<and> sas_token body = ar_token r"
  by (cases "(W, a)" rule: deliver_authorize.cases) auto

lemma service_authorize:
  assumes "fst (kernel_service app \<lparr>call_env = env, call_channel = ch, call_header = Some k, call_request = RqAuthorize body\<rparr> kst) =
    AnsAuthorize (KJson r)"
  shows "\<exists>role. role_key (app_auth app) role = Some k \<and>
    fst (authorize (app_libs app) (app_config app) env ch role body kst) = KJson r"
proof (cases "auth_layer (app_auth app) ''/kernel/v1/authorize'' (Some k)")
  case (AuthCaller role)
  with assms auth_layer_caller[OF AuthCaller] show ?thesis by (auto simp: kernel_service_def)
qed (use assms in \<open>simp_all add: kernel_service_def\<close>)

text \<open>C2: a handler behind a gated route runs only for requests the kernel has authorised.  With the
  middleware's default extractor, the SDK client and the kernel composed, a forwarded request means
  that the client's API key belongs to a role, that the kernel's authorize handler answered for
  exactly this method, path, run id and body hash, that the policy sidecar allowed it, and that the
  token handed to the handler is the one the kernel issued and verifies under the pinned key.\<close>

theorem gated_request_authorised:
  assumes "policy (mw_method req) (mw_path req) = Gated"
    and "\<And>s v. hl_header_value H s = Ok v \<Longrightarrow> v = s" "ch_request_id ch \<noteq> []"
    and "mw_handle policy (default_extract L H) (client_authorize L H c (kernel_side app env ch W kst) clk) req st =
      (Forwarded r, st', spawned)"
  shows "\<exists>role bs body resp vc. role_key (app_auth app) role = Some (sk_api_key c) \<and> mw_body req = Ok bs \<and>
    arq_action body = mw_method req @ '':'' @ mw_path req \<and> header_str H (mw_headers req) ''x-run-id'' = Some (arq_run_id body) \<and>
    arq_params_fingerprint body = body_fingerprint L (Some bs) \<and>
    fst (authorize (app_libs app) (app_config app) env ch role body kst) = KJson resp \<and>
    sidecar_allows (app_libs app) ch (policy_request env role body) \<and>
    mw_safety_token r = Some \<lparr>st_token = ar_token resp, st_claims = vc\<rparr> \<and>
    pk_verify L (sk_verifier c) (ar_token resp) (sk_verify_at clk) = Ok vc"
proof -
  obtain bs claims token vc where f: "mw_body req = Ok bs"
      "default_extract L H (mw_method req) (mw_path req) (mw_headers req) (Some bs) = Ok claims"
      "client_authorize L H c (kernel_side app env ch W kst) clk claims st = (Ok (Allow token vc), st')"
      "pk_verify L (sk_verifier c) token (sk_verify_at clk) = Ok vc"
      "r = req\<lparr>mw_safety_token := Some \<lparr>st_token = token, st_claims = vc\<rparr>\<rparr>"
    using sdk_client.gated_forwards_authentic[OF assms(1,4)] by blast
  obtain headers status body_text sent where h: "build_get_headers H c (sar_traceparent claims) = Ok headers"
      "kernel_side app env ch W kst \<lparr>hc_url = endpoint c ''/kernel/v1/authorize'', hc_headers = headers, hc_query = [],
         hc_body = Some (authorize_body claims)\<rparr> = SdkAnswer status body_text (Ok sent)" "sas_token sent = token"
    using client_allow_sent[OF f(3)] by blast
  let ?body = "\<lparr>arq_action = sar_action claims, arq_run_id = sar_run_id claims, arq_subject = sar_subject claims,
    arq_params_fingerprint = sar_params_fingerprint claims, arq_params = None, arq_ttl_s = None, arq_metadata = None\<rparr>"
  note k = build_headers_key[OF assms(2) h(1)]
  have "deliver_authorize W (fst (kernel_service app \<lparr>call_env = env, call_channel = ch, call_header = Some (sk_api_key c),
      call_request = RqAuthorize ?body\<rparr> kst)) = SdkAnswer status body_text (Ok sent)"
    using h(2) by (simp add: kernel_side_def de_authorize_body k)
  from deliver_authorize_Ok[OF this] obtain resp where a: "fst (kernel_service app \<lparr>call_env = env, call_channel = ch,
      call_header = Some (sk_api_key c), call_request = RqAuthorize ?body\<rparr> kst) = AnsAuthorize (KJson resp)" "token = ar_token resp"
    using h(3) by blast
  from service_authorize[OF a(1)] obtain role where role: "role_key (app_auth app) role = Some (sk_api_key c)"
    "fst (authorize (app_libs app) (app_config app) env ch role ?body kst) = KJson resp" by blast
  have "sidecar_allows (app_libs app) ch (policy_request env role ?body)"
    using role(2) unfolding authorize_reply[OF assms(3)] by blast
  moreover have "sar_action claims = mw_method req @ '':'' @ mw_path req"
    "header_str H (mw_headers req) ''x-run-id'' = Some (sar_run_id claims)" "sar_params_fingerprint claims = body_fingerprint L (Some bs)"
    using f(2) by (auto simp: default_extract_def Let_def res_bind_def ok_or_def split: option.splits sum.splits)
  ultimately show ?thesis
    using f role a(2) by (intro exI[of _ role] exI[of _ bs] exI[of _ ?body] exI[of _ resp] exI[of _ vc]) simp
qed

definition mw_claims :: authorize_claims where
  "mw_claims = \<lparr>ac_action = ''POST:/run'', ac_aud = KERNEL_AUTHORIZE_AUD, ac_run_id = ''run-1'', ac_subject = ''worker'',
     ac_params_fingerprint = replicate 64 (CHR ''0''), ac_issued_at = Finite 100, ac_expires_at = Finite 160, ac_nonce = ''n1''\<rparr>"

definition mw_libs :: libs where
  "mw_libs = (sample_libs (JObject (authorize_claims_map mw_claims)))
     \<lparr>json_from_slice := (\<lambda>bs. Ok (if bs = as_bytes ''ok'' then sample_policy_reply else JObject (authorize_claims_map mw_claims)))\<rparr>"

definition mw_app :: kernel_app where
  "mw_app = sample_app\<lparr>app_libs := mw_libs\<rparr>"

definition mw_sample :: mw_request where
  "mw_sample = \<lparr>mw_method = ''POST'', mw_path = ''/run'', mw_headers = [(''x-run-id'', as_bytes ''run-1''), (''x-subject'', as_bytes ''svc'')],
     mw_body = Ok [], mw_safety_token = None\<rparr>"

definition mw_policy :: "string \<Rightarrow> string \<Rightarrow> middleware_policy" where
  "mw_policy = policy_resolve (from_routes [(''GET'', ''/run'', Unrestricted), (''POST'', ''/run'', Gated)])"

definition mw_wire :: wire where
  "mw_wire = \<lparr>wi_render = (\<lambda>_. []), wi_undecodable = (\<lambda>_. []), wi_rejection = (\<lambda>_. SdkFailed []), wi_missing_role_status = 500\<rparr>"

lemma mw_policy_gated: "mw_policy (mw_method mw_sample) (mw_path mw_sample) = Gated"
  by (simp add: mw_policy_def policy_resolve_def from_routes_def mw_sample_def)

lemma mw_libs_contracts:
  "b64_contract mw_libs" "ed25519_contract mw_libs" "json_contract mw_libs (JObject (authorize_claims_map mw_claims))"
  using sample_libs_contracts[of "JObject (authorize_claims_map mw_claims)"]
  by (simp_all add: mw_libs_def b64_contract_def ed25519_contract_def json_contract_def, simp add: sample_libs_def as_bytes_def)

lemma mw_window: "in_window (Finite 120) (Finite 5) (Finite 100) (Finite 160)"
  using f64_add_int[of 120 5] f64_add_int[of 120 "- 5"] by (simp add: in_window_def Let_def f64_max_def f64_sub_def)

lemma mw_expiry: "f64_add (Finite 100) (f64_of_int 60) = Finite 160"
  using f64_of_rat_int[of 60] f64_add_int[of 100 60] by (simp add: f64_of_int_def)

abbreviation "mw_token \<equiv> sign_kernel_token mw_libs authorize_claims_map mw_claims 7"

abbreviation "mw_body_dto \<equiv> \<lparr>arq_action = ''POST:/run'', arq_run_id = ''run-1'', arq_subject = ''svc'',
  arq_params_fingerprint = replicate 64 (CHR ''0''), arq_params = None, arq_ttl_s = None, arq_metadata = None\<rparr>"

lemma mw_token_verifies: "\<exists>vc. pk_verify mw_libs (sk_verifier (sample_sdk mw_libs)) mw_token (Finite 120) = Ok vc"
proof -
  have "authorize_set.well_formed mw_claims" "in_window (Finite 120) (Finite 5) (ac_issued_at mw_claims) (ac_expires_at mw_claims)"
    by (simp_all add: authorize_set.well_formed_def mw_claims_def graphic_def str_trim_graphic mw_window list_all_iff)
  then have "\<exists>vc. verify_kernel_token mw_libs mw_token (verifying_key mw_libs 7) (Finite 120) (Finite 5) None = Ok vc"
    using authorize_set.sign_verify[OF mw_libs_contracts, of "Finite 120" "Finite 5" None 7] by fastforce
  then show ?thesis by (simp add: pk_verify_def sample_sdk_def from_pubkey_bytes_def mw_libs_def sample_libs_def)
qed

lemma mw_authorized:
  "\<exists>resp. fst (authorize mw_libs sample_config sample_env sample_channel ''worker'' mw_body_dto kernel_state_init) = KJson resp \<and>
    ar_token resp = mw_token"
proof -
  have c: "authorize_token_claims sample_env ''worker'' mw_body_dto 60 = mw_claims"
    by (simp add: authorize_token_claims_def mw_claims_def mw_expiry)
  have "ch_request_id sample_channel \<noteq> []" by (simp add: sample_channel_def)
  moreover have "is_ok (authorize_precheck mw_libs ''worker'' mw_body_dto)" by (simp add: authorize_precheck_def is_ok_def)
  moreover have "sidecar_allows mw_libs sample_channel req" for req
    by (simp add: sidecar_allows_def Let_def sample_channel_def sample_policy_reply_def bt_get_of_list mw_libs_def trim_line_end_def)
  moreover have "issued_ttl sample_config mw_body_dto = (60, 60)" "kc_signing_key sample_config = 7"
    by (simp_all add: issued_ttl_def sample_config_def)
  ultimately show ?thesis
    by (intro exI[of _ "\<lparr>ar_ok = True, ar_token = mw_token, ar_token_sha256 = token_sha256 mw_libs mw_token,
        ar_claims = authorize_claims_map mw_claims\<rparr>"]) (simp add: authorize_reply c authorize_tlog_def is_ok_def)
qed

lemma mw_served:
  assumes "map_of (hc_headers call) ''x-api-key'' = Some ''w-key''" "Option.bind (hc_body call) de_authorize_request = Some mw_body_dto"
  shows "\<exists>body_text. kernel_side mw_app sample_env sample_channel mw_wire kernel_state_init call =
    SdkAnswer 200 body_text (Ok \<lparr>sas_claims_hint = None, sas_token = mw_token\<rparr>)"
proof -
  obtain resp where resp: "fst (authorize mw_libs sample_config sample_env sample_channel ''worker'' mw_body_dto kernel_state_init) = KJson resp"
    "ar_token resp = mw_token" using mw_authorized by blast
  have a: "auth_layer (app_auth mw_app) ''/kernel/v1/authorize'' (Some ''w-key'') = AuthCaller ''worker''"
    by (simp add: auth_layer_def mw_app_def sample_app_def is_public_path_def unwrap_or_empty_def auth_role_def constant_time_eq_iff)
  have "app_libs mw_app = mw_libs" "app_config mw_app = sample_config" by (simp_all add: mw_app_def sample_app_def)
  then have "fst (kernel_service mw_app \<lparr>call_env = sample_env, call_channel = sample_channel, call_header = Some ''w-key'',
      call_request = RqAuthorize mw_body_dto\<rparr> kernel_state_init) = AnsAuthorize (KJson resp)"
    using resp a by (simp add: kernel_service_def)
  then show ?thesis using assms resp by (simp add: kernel_side_def)
qed

lemma mw_extracted:
  "default_extract mw_libs sample_http (mw_method mw_sample) (mw_path mw_sample) (mw_headers mw_sample) (Some []) =
    Ok \<lparr>sar_action = ''POST:/run'', sar_params_fingerprint = replicate 64 (CHR ''0''), sar_run_id = ''run-1'', sar_subject = ''svc'',
      sar_traceparent = None\<rparr>"
  by (simp add: default_extract_def mw_sample_def header_str_def sample_http_def ok_or_def body_fingerprint_def)

lemma mw_client_allows:
  assumes "send \<lparr>hc_url = endpoint c ''/kernel/v1/authorize'', hc_headers = [(''x-api-key'', sk_api_key c)], hc_query = [],
      hc_body = Some (authorize_body req)\<rparr> = SdkAnswer 200 body_text (Ok body)"
    and "hl_header_value H = Inr" "sar_traceparent req = None" "pk_verify L (sk_verifier c) (sas_token body) (sk_verify_at clk) = Ok vc"
  shows "\<exists>st'. client_authorize L H c send clk req sdk_state_new = (Ok (Allow (sas_token body) vc), st')"
  using assms
  by (simp add: client_authorize_def build_get_headers_def sdk_state_new_def before_call_def breaker_new_def authorize_answer_def Let_def
      is_server_error_def is_success_def)

theorem gated_request_authorised_witness:
  "\<exists>r st' role body vc. mw_handle mw_policy (default_extract mw_libs sample_http)
      (client_authorize mw_libs sample_http (sample_sdk mw_libs)
        (kernel_side mw_app sample_env sample_channel mw_wire kernel_state_init) (clock_at 120)) mw_sample sdk_state_new =
      (Forwarded r, st', []) \<and>
    role_key (app_auth mw_app) role = Some ''w-key'' \<and> arq_action body = ''POST:/run'' \<and>
    sidecar_allows mw_libs sample_channel (policy_request sample_env role body) \<and>
    pk_verify mw_libs (sk_verifier (sample_sdk mw_libs)) mw_token (Finite 120) = Ok vc"
proof -
  let ?req = "\<lparr>sar_action = ''POST:/run'', sar_params_fingerprint = replicate 64 (CHR ''0''), sar_run_id = ''run-1'',
    sar_subject = ''svc'', sar_traceparent = None\<rparr>"
  let ?c = "sample_sdk mw_libs"
  let ?send = "kernel_side mw_app sample_env sample_channel mw_wire kernel_state_init"
  obtain vc where vc: "pk_verify mw_libs (sk_verifier ?c) mw_token (Finite 120) = Ok vc" using mw_token_verifies by blast
  have key: "sk_api_key ?c = ''w-key''" by (simp add: sample_sdk_def)
  have H: "hl_header_value sample_http = Inr" by (simp add: sample_http_def)
  obtain body_text where "?send \<lparr>hc_url = endpoint ?c ''/kernel/v1/authorize'', hc_headers = [(''x-api-key'', sk_api_key ?c)], hc_query = [],
      hc_body = Some (authorize_body ?req)\<rparr> = SdkAnswer 200 body_text (Ok \<lparr>sas_claims_hint = None, sas_token = mw_token\<rparr>)"
    using mw_served key by (fastforce simp: de_authorize_body)
  from mw_client_allows[where send = ?send and c = ?c and req = ?req, OF this H, of mw_libs "clock_at 120"] vc obtain st' where
    "client_authorize mw_libs sample_http ?c ?send (clock_at 120) ?req sdk_state_new = (Ok (Allow mw_token vc), st')"
    by (auto simp: clock_at_def)
  then have f: "mw_handle mw_policy (default_extract mw_libs sample_http) (client_authorize mw_libs sample_http ?c ?send (clock_at 120))
      mw_sample sdk_state_new = (Forwarded (mw_sample\<lparr>mw_safety_token := Some \<lparr>st_token = mw_token, st_claims = vc\<rparr>\<rparr>), st', [])"
    using mw_policy_gated mw_extracted by (simp add: mw_handle_def, simp add: mw_sample_def)
  have "app_libs mw_app = mw_libs" by (simp add: mw_app_def)
  with gated_request_authorised[OF mw_policy_gated _ _ f] f vc key show ?thesis
    by (fastforce simp: H sample_channel_def mw_sample_def)
qed

end
