(* ===== verification/PyHook.thy ===== *)
theory PyHook
  imports Middleware
begin

text \<open>
  The Python audit hook, \<^verbatim>\<open>src/py-defense/safety_kernel_defense/_wire.py\<close> and \<^verbatim>\<open>install_audit_hook.py\<close>: the
  fingerprint of an event, the callback that CPython runs for every audit event, and the installation.

  A Python \<^verbatim>\<open>str\<close> is the byte sequence of its UTF-8 encoding, in which a lone surrogate has its three-byte
  form; encoding such a string raises.  \<^verbatim>\<open>json.dumps\<close> with \<^verbatim>\<open>ensure_ascii\<close> is written out, because the
  fingerprint depends on it.  A request body is the JSON value that the kernel decodes from it.  The
  outcome of the HTTP call, the value of \<^verbatim>\<open>uuid4\<close> and what CPython answers to \<^verbatim>\<open>addaudithook\<close> are inputs.
  Documented behaviour of the latter: a hook that is already there can refuse the new one, and the
  refusal is not reported to the caller.
\<close>

section \<open>Python strings and JSON text\<close>

fun code_points :: "string \<Rightarrow> nat list" where
  "code_points [] = []"
| "code_points (a # s) =
     (let n = of_char a :: nat; low = (\<lambda>c. of_char c mod 64 :: nat) in
      if n < 0x80 then n # code_points s
      else if n < 0xE0 then (case s of b # s' \<Rightarrow> (n mod 32 * 64 + low b) # code_points s' | _ \<Rightarrow> [n])
      else if n < 0xF0 then (case s of b # c # s' \<Rightarrow> (n mod 16 * 4096 + low b * 64 + low c) # code_points s' | _ \<Rightarrow> [n])
      else (case s of b # c # d # s' \<Rightarrow> (n mod 8 * 262144 + low b * 4096 + low c * 64 + low d) # code_points s' | _ \<Rightarrow> [n]))"

definition hex4 :: "nat \<Rightarrow> string" where
  "hex4 n = map (\<lambda>i. hex_digit (n div 16 ^ i mod 16)) [3, 2, 1, 0]"

definition short_escape :: "nat \<Rightarrow> char option" where
  "short_escape = map_of [(0x22, CHR 0x22), (0x5C, CHR 0x5C), (8, CHR ''b''), (12, CHR ''f''), (10, CHR ''n''), (13, CHR ''r''), (9, CHR ''t'')]"

definition py_escape :: "nat \<Rightarrow> string" where
  "py_escape n =
     (case short_escape n of
        Some c \<Rightarrow> [CHR 0x5C, c]
      | None \<Rightarrow>
          if 0x20 \<le> n \<and> n \<le> 0x7E then [char_of n]
          else if n < 0x10000 then CHR 0x5C # CHR ''u'' # hex4 n
          else CHR 0x5C # CHR ''u'' # hex4 (0xD800 + (n - 0x10000) div 1024) @ CHR 0x5C # CHR ''u'' # hex4 (0xDC00 + (n - 0x10000) mod 1024))"

fun comma_join :: "string list \<Rightarrow> string" where
  "comma_join [] = []"
| "comma_join [x] = x"
| "comma_join (x # xs) = x @ '','' @ comma_join xs"

definition json_text :: "(string \<Rightarrow> string) \<Rightarrow> string btree \<Rightarrow> string" where
  "json_text str_text kvs = ''{'' @ comma_join (map (\<lambda>(k, v). str_text k @ '':'' @ str_text v) kvs) @ ''}''"

definition py_json_str :: "string \<Rightarrow> string" where
  "py_json_str s = CHR 0x22 # concat (map py_escape (code_points s)) @ [CHR 0x22]"

definition canonical_json :: "(string \<times> string) list \<Rightarrow> string" where
  "canonical_json payload = json_text py_json_str (bt_of_list payload)"

definition compute_event_fingerprint :: "libs \<Rightarrow> string \<Rightarrow> string \<Rightarrow> string \<Rightarrow> string \<Rightarrow> string" where
  "compute_event_fingerprint L event_kind module_path caller_subject caller_run_id =
     sha256_hex L (as_bytes (canonical_json
       [(''event_kind'', event_kind), (''module_path'', module_path), (''caller_subject'', caller_subject), (''caller_run_id'', caller_run_id)]))"

text \<open>The kernel prints the same object with its JSON library, which escapes control characters only.\<close>

definition serde_escape :: "char \<Rightarrow> string" where
  "serde_escape c =
     (case short_escape (of_char c) of
        Some d \<Rightarrow> [CHR 0x5C, d]
      | None \<Rightarrow> if (of_char c :: nat) < 0x20 then CHR 0x5C # CHR ''u'' # hex4 (of_char c) else [c])"

definition serde_str :: "string \<Rightarrow> string" where
  "serde_str s = CHR 0x22 # concat (map serde_escape s) @ [CHR 0x22]"

definition serde_flat :: "libs \<Rightarrow> bool" where
  "serde_flat L \<longleftrightarrow> (\<forall>kvs. json_to_string L (JObject (map (\<lambda>(k, v). (k, JString v)) kvs)) = json_text serde_str kvs)"

section \<open>Events\<close>

text \<open>An argument of an audit event.  Objects other than strings carry what \<^verbatim>\<open>repr\<close> (and \<^verbatim>\<open>str\<close>) give for them.\<close>

datatype py_obj = PyStr string | PyBytes bytes string | PyCode bytes string | PyObj string string

fun py_str :: "py_obj \<Rightarrow> string" where
  "py_str (PyStr s) = s"
| "py_str (PyBytes _ r) = r"
| "py_str (PyCode _ r) = r"
| "py_str (PyObj s _) = s"

fun has_surrogate :: "string \<Rightarrow> bool" where
  "has_surrogate (a # b # s) \<longleftrightarrow> (of_char a :: nat) = 0xED \<and> 0xA0 \<le> (of_char b :: nat) \<or> has_surrogate (b # s)"
| "has_surrogate _ \<longleftrightarrow> False"

definition encode_utf8 :: "string \<Rightarrow> (string, bytes) result" where
  "encode_utf8 s = (if has_surrogate s then Err ''surrogates not allowed'' else Ok (as_bytes s))"

definition derive_module_path :: "libs \<Rightarrow> string \<Rightarrow> py_obj list \<Rightarrow> (string, string) result" where
  "derive_module_path L event args =
     (if event = ''import'' then
        (case args of [] \<Rightarrow> Err ''import audit event with empty args'' | x # _ \<Rightarrow> Ok (py_str x))
      else if event = ''exec'' then
        (case args of
           [] \<Rightarrow> Err ''exec audit event with empty args''
         | code_obj # _ \<Rightarrow>
             res_bind (case code_obj of
                 PyStr s \<Rightarrow> encode_utf8 s | PyCode co_code _ \<Rightarrow> Ok co_code | PyBytes _ r \<Rightarrow> encode_utf8 r | PyObj _ r \<Rightarrow> encode_utf8 r)
               (\<lambda>data. Ok (sha256_hex L data)))
      else if event = ''compile'' then
        (case args of
           [] \<Rightarrow> Err ''compile audit event with empty args''
         | src # _ \<Rightarrow>
             res_bind (case src of PyBytes bs _ \<Rightarrow> Ok bs | _ \<Rightarrow> encode_utf8 (py_str src)) (\<lambda>data. Ok (sha256_hex L data)))
      else Err (''unknown audit event kind: '' @ event))"

section \<open>State of the hook\<close>

record hook_config =
  hk_kernel_url :: string
  hk_worker_api_key :: string
  hk_caller_subject :: string
  hk_caller_run_id :: string
  hk_fail_closed_on_unreachable :: bool
  hk_timeout_seconds :: f64
  hk_audited_event_kinds :: "string list"
  hk_event_metadata_max_bytes :: int

datatype hook_log =
    AlreadyInstalled
  | KillSwitch string
  | HookArmed string string
  | FailOpen string string
  | DeriveFailed string string
  | AuditEventLost json

text \<open>\<open>hs_registered\<close> counts the registrations of the callback that CPython accepted.\<close>

record hook_state =
  hs_config :: "hook_config option"
  hs_armed :: bool
  hs_in_hook :: bool
  hs_registered :: nat
  hs_log :: "hook_log list"

definition hook_state_init :: hook_state where
  "hook_state_init = \<lparr>hs_config = None, hs_armed = False, hs_in_hook = False, hs_registered = 0, hs_log = []\<rparr>"

definition hook_logged :: "hook_log \<Rightarrow> hook_state \<Rightarrow> hook_state" where
  "hook_logged l st = st\<lparr>hs_log := hs_log st @ [l]\<rparr>"

datatype post_outcome = PostAnswered nat bytes | PostUnreachable string | PostRaised string

type_synonym hook_post = "string \<Rightarrow> json \<Rightarrow> string \<Rightarrow> post_outcome"

section \<open>The callback\<close>

datatype hook_verdict = Proceed | RaiseImportError string | RaiseRuntimeError string | RaiseOther string

definition abort_event :: "string \<Rightarrow> string \<Rightarrow> hook_verdict" where
  "abort_event event msg = (if event = ''import'' then RaiseImportError msg else RaiseRuntimeError msg)"

definition hook_payload :: "libs \<Rightarrow> hook_config \<Rightarrow> string \<Rightarrow> string \<Rightarrow> json" where
  "hook_payload L cfg event module_path = JObject (bt_of_list
     [(''event_kind'', JString event), (''module_path'', JString module_path), (''caller_subject'', JString (hk_caller_subject cfg)),
      (''caller_run_id'', JString (hk_caller_run_id cfg)),
      (''event_fingerprint'', JString (compute_event_fingerprint L event module_path (hk_caller_subject cfg) (hk_caller_run_id cfg))),
      (''expected_required_patterns'', JNull), (''metadata'', JNull)])"

definition parse_reason :: "libs \<Rightarrow> bytes \<Rightarrow> string option" where
  "parse_reason L body =
     (case json_from_slice L body of Inr (JObject m) \<Rightarrow> Option.bind (bt_get m ''reason'') json_as_str | _ \<Rightarrow> None)"

definition hook_answer :: "libs \<Rightarrow> string \<Rightarrow> nat \<Rightarrow> bytes \<Rightarrow> hook_verdict" where
  "hook_answer L event status body =
     (if status = 200 then Proceed
      else if status = 403 then
        abort_event event (''policy denied: '' @ (case parse_reason L body of Some (c # r) \<Rightarrow> c # r | _ \<Rightarrow> ''policy_denied''))
      else if status = 400 then abort_event event ''audit hook fingerprint mismatch - internal bug''
      else abort_event event (''policy decision failed: HTTP '' @ dec_string status))"

definition audit_callback :: "libs \<Rightarrow> hook_post \<Rightarrow> string \<Rightarrow> py_obj list \<Rightarrow> hook_state \<Rightarrow> hook_verdict \<times> hook_state" where
  "audit_callback L post event args st =
     (case hs_config st of
        None \<Rightarrow> (Proceed, st)
      | Some cfg \<Rightarrow>
          if \<not> hs_armed st \<or> hs_in_hook st \<or> event \<notin> set (hk_audited_event_kinds cfg) then (Proceed, st)
          else
            (case derive_module_path L event args of
               Inl e \<Rightarrow> (abort_event event (''safety-kernel hook internal error: '' @ e), hook_logged (DeriveFailed event e) st)
             | Inr module_path \<Rightarrow>
                 (case post (hk_kernel_url cfg @ ''/policy/module/authorize'') (hook_payload L cfg event module_path) (hk_worker_api_key cfg) of
                    PostAnswered status body \<Rightarrow> (hook_answer L event status body, st\<lparr>hs_in_hook := False\<rparr>)
                  | PostUnreachable e \<Rightarrow>
                      if hk_fail_closed_on_unreachable cfg
                      then (abort_event event (''safety-kernel unreachable: '' @ e), st\<lparr>hs_in_hook := False\<rparr>)
                      else (Proceed, (hook_logged (FailOpen event module_path) st)\<lparr>hs_in_hook := False\<rparr>)
                  | PostRaised e \<Rightarrow> (RaiseOther e, st\<lparr>hs_in_hook := False\<rparr>))))"

section \<open>Installation\<close>

record install_args =
  ia_kernel_url :: string
  ia_worker_api_key :: string
  ia_caller_subject :: string
  ia_caller_run_id :: "string option"
  ia_fail_closed_on_unreachable :: bool
  ia_timeout_seconds :: f64
  ia_kill_switch_env_var :: string
  ia_audited_event_kinds :: "string list"
  ia_event_metadata_max_bytes :: int
  ia_report_preloaded_modules :: bool

text \<open>What an installation reads from the interpreter.\<close>

record py_host =
  ph_uuid4_hex :: string
  ph_environ :: "string \<Rightarrow> string option"
  ph_sys_modules :: "string list"
  ph_hostname :: "string option"
  ph_process_id :: nat
  ph_python_version :: string
  ph_hook_refused :: bool

definition clamp_timeout :: "f64 \<Rightarrow> f64" where
  "clamp_timeout t =
     (let five = Finite 5; low = f64_of_rat (1 / 20);
          m = (if f64_lt t five then t else five) in
      if f64_lt low m then m else low)"

definition validate_kernel_url :: "string \<Rightarrow> bool" where
  "validate_kernel_url url \<longleftrightarrow>
     prefix ''https://'' url \<or>
     prefix ''http://'' url \<and>
       fst (splitn2 (CHR '':'') (fst (splitn2 (CHR ''/'') (drop (length ''http://'') url)))) \<in> {''127.0.0.1'', ''localhost'', ''[::1]'', ''::1''}"

definition PRELOADED_MODULES_CAP :: nat where "PRELOADED_MODULES_CAP = 256"

definition enumerate_preloaded_modules :: "py_host \<Rightarrow> nat \<Rightarrow> string list \<times> bool" where
  "enumerate_preloaded_modules h cap = (take cap (sort (ph_sys_modules h)), cap < length (ph_sys_modules h))"

definition diagnostics_metadata :: "py_host \<Rightarrow> (string \<times> json) list" where
  "diagnostics_metadata h =
     [(''hostname'', JString (case ph_hostname h of Some n \<Rightarrow> n | None \<Rightarrow> ''<unknown>'')),
      (''process_id'', JNumber (PosInt (ph_process_id h))), (''python_version'', JString (ph_python_version h))]"

definition post_install_audit_event :: "hook_post \<Rightarrow> hook_config \<Rightarrow> json \<Rightarrow> hook_state \<Rightarrow> hook_state" where
  "post_install_audit_event post cfg metadata st =
     (case post (hk_kernel_url cfg @ ''/policy/audit-event'')
            (JObject (bt_of_list [(''event_kind'', JString ''hook_install_violation''), (''subject'', JString (hk_caller_subject cfg)),
               (''metadata'', metadata)])) (hk_worker_api_key cfg) of
        PostAnswered status _ \<Rightarrow> if status < 200 \<or> 300 \<le> status then hook_logged (AuditEventLost metadata) st else st
      | PostUnreachable _ \<Rightarrow> hook_logged (AuditEventLost metadata) st
      | PostRaised _ \<Rightarrow> hook_logged (AuditEventLost metadata) st)"

definition emit_preloaded_modules_audit_event :: "hook_post \<Rightarrow> py_host \<Rightarrow> hook_config \<Rightarrow> hook_state \<Rightarrow> hook_state" where
  "emit_preloaded_modules_audit_event post h cfg st =
     (let (modules, truncated) = enumerate_preloaded_modules h PRELOADED_MODULES_CAP in
      post_install_audit_event post cfg
        (JObject (bt_of_list ([(''reason'', JString ''preloaded_modules_at_install''), (''preloaded_module_count'', JNumber (PosInt (length modules))),
           (''preloaded_modules'', JArray (map JString modules)), (''truncated'', JBool truncated)] @ diagnostics_metadata h))) st)"

definition hook_config_of :: "py_host \<Rightarrow> install_args \<Rightarrow> hook_config" where
  "hook_config_of h a =
     \<lparr>hk_kernel_url = trim_end_matches (CHR ''/'') (ia_kernel_url a), hk_worker_api_key = ia_worker_api_key a,
      hk_caller_subject = ia_caller_subject a,
      hk_caller_run_id = (case ia_caller_run_id a of None \<Rightarrow> ph_uuid4_hex h | Some r \<Rightarrow> r),
      hk_fail_closed_on_unreachable = ia_fail_closed_on_unreachable a, hk_timeout_seconds = clamp_timeout (ia_timeout_seconds a),
      hk_audited_event_kinds = ia_audited_event_kinds a, hk_event_metadata_max_bytes = ia_event_metadata_max_bytes a\<rparr>"

definition install_audit_hook :: "hook_post \<Rightarrow> py_host \<Rightarrow> install_args \<Rightarrow> hook_state \<Rightarrow> (string, unit) result \<times> hook_state" where
  "install_audit_hook post h a st =
     (let cfg = hook_config_of h a;
          report = (if ia_report_preloaded_modules a then emit_preloaded_modules_audit_event post h cfg else id) in
      if \<not> validate_kernel_url (hk_kernel_url cfg)
      then (Err (''kernel_url must be https:// or http://localhost; got '' @ hk_kernel_url cfg), st)
      else if hs_armed st then
        (if hs_config st = Some cfg then (Ok (), hook_logged AlreadyInstalled st)
         else (Err ''audit hook already installed with different config'', st))
      else if ph_environ h (ia_kill_switch_env_var a) = Some ''1'' then
        let st1 = (hook_logged (KillSwitch (ia_kill_switch_env_var a)) st)\<lparr>hs_config := Some cfg, hs_armed := False\<rparr>;
            metadata = JObject (bt_of_list ([(''reason'', JString ''kill_switch_engaged''),
              (''kill_switch_env_var'', JString (ia_kill_switch_env_var a)), (''kill_switch_present'', JBool True)] @ diagnostics_metadata h)) in
        (Ok (), report (post_install_audit_event post cfg metadata st1))
      else
        let st1 = st\<lparr>hs_config := Some cfg, hs_registered := (if ph_hook_refused h then hs_registered st else Suc (hs_registered st)),
              hs_armed := True\<rparr> in
        (Ok (), report (hook_logged (HookArmed (hk_caller_subject cfg) (hk_caller_run_id cfg)) st1)))"

text \<open>CPython runs the callback of every registration before the operation; the first one that raises aborts it.\<close>

fun interpreter_event :: "nat \<Rightarrow> libs \<Rightarrow> hook_post \<Rightarrow> string \<Rightarrow> py_obj list \<Rightarrow> hook_state \<Rightarrow> hook_verdict \<times> hook_state" where
  "interpreter_event 0 L post event args st = (Proceed, st)"
| "interpreter_event (Suc n) L post event args st =
     (case audit_callback L post event args st of
        (Proceed, st') \<Rightarrow> interpreter_event n L post event args st'
      | refused \<Rightarrow> refused)"

definition audited_operation :: "libs \<Rightarrow> hook_post \<Rightarrow> string \<Rightarrow> py_obj list \<Rightarrow> hook_state \<Rightarrow> hook_verdict \<times> hook_state" where
  "audited_operation L post event args st = interpreter_event (hs_registered st) L post event args st"

section \<open>The kernel at the other end\<close>

definition de_event_kind :: "json \<Rightarrow> module_event_kind option" where
  "de_event_kind v = Option.bind (json_as_str v) (\<lambda>s. find (\<lambda>k. event_kind_to_wire k = s) [EvImport, EvExec, EvCompile])"

definition de_opt_strings :: "json \<Rightarrow> string list option option" where
  "de_opt_strings v = (if v = JNull then Some None else map_option Some (de_strings v))"

fun de_module_authorize_request :: "json \<Rightarrow> module_authorize_request option" where
  "de_module_authorize_request (JObject m) =
     (if \<not> set (map fst m) \<subseteq> {''event_kind'', ''module_path'', ''caller_subject'', ''caller_run_id'', ''event_fingerprint'',
          ''expected_required_patterns'', ''metadata''} then None
      else do {
        event_kind \<leftarrow> de_field m ''event_kind'' de_event_kind;
        module_path \<leftarrow> de_field m ''module_path'' json_as_str;
        caller_subject \<leftarrow> de_field m ''caller_subject'' json_as_str;
        caller_run_id \<leftarrow> de_field m ''caller_run_id'' json_as_str;
        event_fingerprint \<leftarrow> de_field m ''event_fingerprint'' json_as_str;
        patterns \<leftarrow> de_default m ''expected_required_patterns'' de_opt_strings;
        metadata \<leftarrow> de_default m ''metadata'' de_opt_object;
        Some \<lparr>maq_event_kind = event_kind, maq_module_path = module_path, maq_caller_subject = caller_subject,
              maq_caller_run_id = caller_run_id, maq_event_fingerprint = event_fingerprint,
              maq_expected_required_patterns = patterns, maq_metadata = metadata\<rparr> })"
| "de_module_authorize_request _ = None"

fun policy_answer_status :: "wire \<Rightarrow> kernel_answer \<Rightarrow> nat" where
  "policy_answer_status W (AnsPolicy (KJson (status, _))) = status"
| "policy_answer_status W (AnsPolicy (KDeny status _)) = status"
| "policy_answer_status W (AnsDenied status _) = status"
| "policy_answer_status W _ = wi_missing_role_status W"

definition kernel_policy_status :: "kernel_app \<Rightarrow> kernel_env \<Rightarrow> ipc_channel \<Rightarrow> wire \<Rightarrow> (json \<Rightarrow> nat) \<Rightarrow> kernel_state \<Rightarrow> json \<Rightarrow> string \<Rightarrow> nat" where
  "kernel_policy_status app env ch W undecodable kst body key =
     (case de_module_authorize_request body of
        None \<Rightarrow> undecodable body
      | Some req \<Rightarrow> policy_answer_status W (fst (kernel_service app
          \<lparr>call_env = env, call_channel = ch, call_header = Some key, call_request = RqModuleAuthorize req\<rparr> kst)))"

definition hook_request :: "libs \<Rightarrow> hook_config \<Rightarrow> module_event_kind \<Rightarrow> string \<Rightarrow> module_authorize_request" where
  "hook_request L cfg kind module_path =
     \<lparr>maq_event_kind = kind, maq_module_path = module_path, maq_caller_subject = hk_caller_subject cfg,
      maq_caller_run_id = hk_caller_run_id cfg,
      maq_event_fingerprint = compute_event_fingerprint L (event_kind_to_wire kind) module_path (hk_caller_subject cfg) (hk_caller_run_id cfg),
      maq_expected_required_patterns = None, maq_metadata = None\<rparr>"

section \<open>Fingerprints\<close>

definition plain_ascii :: "string \<Rightarrow> bool" where
  "plain_ascii s \<longleftrightarrow> list_all (\<lambda>c. (of_char c :: nat) < 0x7F) s"

lemma escapes_agree: "(of_char c :: nat) < 0x7F \<Longrightarrow> py_escape (of_char c) = serde_escape c"
  by (auto simp: py_escape_def serde_escape_def short_escape_def)

lemma code_points_ascii: "plain_ascii s \<Longrightarrow> code_points s = map of_char s"
  by (induction s) (simp_all add: plain_ascii_def Let_def)

lemma json_str_agree: "plain_ascii s \<Longrightarrow> py_json_str s = serde_str s"
proof -
  assume p: "plain_ascii s"
  then have "map (py_escape \<circ> of_char) s = map serde_escape s"
    by (auto simp: plain_ascii_def list_all_iff escapes_agree)
  then show ?thesis by (simp only: py_json_str_def serde_str_def code_points_ascii[OF p] map_map)
qed

lemma hex4_chars: "c \<in> set (hex4 n) \<Longrightarrow> (of_char c :: nat) < 0x7F"
proof -
  have "(of_char (hex_digit d) :: nat) < 0x7F" if "d < 16" for d
    using hex_digit_facts(2)[OF that] by (auto simp: graphic_def)
  then show "c \<in> set (hex4 n) \<Longrightarrow> (of_char c :: nat) < 0x7F" by (auto simp: hex4_def)
qed

lemma py_escape_chars: "c \<in> set (py_escape n) \<Longrightarrow> (of_char c :: nat) < 0x7F"
  by (auto simp: py_escape_def short_escape_def dest: hex4_chars split: if_splits option.splits)

lemma py_json_str_chars: "c \<in> set (py_json_str s) \<Longrightarrow> (of_char c :: nat) < 0x7F"
  by (auto simp: py_json_str_def dest: py_escape_chars)

lemma serde_str_keeps: "c \<in> set s \<Longrightarrow> 0x7F \<le> (of_char c :: nat) \<Longrightarrow> c \<in> set (serde_str s)"
proof -
  assume c: "c \<in> set s" "0x7F \<le> (of_char c :: nat)"
  then have "serde_escape c = [c]" by (auto simp: serde_escape_def short_escape_def)
  then show ?thesis using c(1) by (auto simp: serde_str_def intro!: bexI[of _ c])
qed

lemma set_comma_join: "set (comma_join xs) \<subseteq> {CHR '',''} \<union> (\<Union>x\<in>set xs. set x)"
  by (induction xs rule: comma_join.induct) auto

lemma comma_join_keeps: "x \<in> set xs \<Longrightarrow> c \<in> set x \<Longrightarrow> c \<in> set (comma_join xs)"
  by (induction xs rule: comma_join.induct) auto

lemma json_text_py_chars: "c \<in> set (json_text py_json_str kvs) \<Longrightarrow> (of_char c :: nat) < 0x7F"
  using set_comma_join[of "map (\<lambda>(k, v). py_json_str k @ '':'' @ py_json_str v) kvs"]
  by (auto simp: json_text_def dest!: subsetD dest: py_json_str_chars)

lemma json_text_serde_keeps: "(k, v) \<in> set kvs \<Longrightarrow> c \<in> set v \<Longrightarrow> 0x7F \<le> (of_char c :: nat) \<Longrightarrow> c \<in> set (json_text serde_str kvs)"
proof -
  assume c: "(k, v) \<in> set kvs" "c \<in> set v" "0x7F \<le> (of_char c :: nat)"
  then have "c \<in> set (comma_join (map (\<lambda>(k, v). serde_str k @ '':'' @ serde_str v) kvs))"
    using serde_str_keeps[OF c(2,3)] by (intro comma_join_keeps[of "serde_str k @ '':'' @ serde_str v"]) force+
  then show ?thesis by (simp add: json_text_def)
qed

lemma json_texts_agree_iff:
  assumes "\<And>k v. (k, v) \<in> set kvs \<Longrightarrow> plain_ascii k"
  shows "json_text py_json_str kvs = json_text serde_str kvs \<longleftrightarrow> (\<forall>(k, v)\<in>set kvs. plain_ascii v)"
proof
  assume "json_text py_json_str kvs = json_text serde_str kvs"
  then show "\<forall>(k, v)\<in>set kvs. plain_ascii v"
    using json_text_py_chars[of _ kvs] json_text_serde_keeps[of _ _ kvs]
    by (fastforce simp: plain_ascii_def list_all_iff not_less[symmetric])
next
  assume "\<forall>(k, v)\<in>set kvs. plain_ascii v"
  then have "map (\<lambda>(k, v). py_json_str k @ '':'' @ py_json_str v) kvs = map (\<lambda>(k, v). serde_str k @ '':'' @ serde_str v) kvs"
    using assms by (auto simp: json_str_agree)
  then show "json_text py_json_str kvs = json_text serde_str kvs" by (simp only: json_text_def)
qed

definition fingerprint_fields :: "string \<Rightarrow> string \<Rightarrow> string \<Rightarrow> string \<Rightarrow> (string \<times> string) list" where
  "fingerprint_fields kind path subj run = [(''event_kind'', kind), (''module_path'', path), (''caller_subject'', subj), (''caller_run_id'', run)]"

lemma bt_insert_map: "bt_insert k (f v) (map (\<lambda>(k, v). (k, f v)) m) = map (\<lambda>(k, v). (k, f v)) (bt_insert k v m)"
  by (induction k v m rule: bt_insert.induct) auto

lemma bt_of_list_map: "bt_of_list (map (\<lambda>(k, v). (k, f v)) kvs) = map (\<lambda>(k, v). (k, f v)) (bt_of_list kvs)"
proof (induction kvs rule: rev_induct)
  case (snoc kv kvs)
  then show ?case using bt_insert_map[of "fst kv" f "snd kv" "bt_of_list kvs"] by (cases kv) (simp add: bt_of_list_snoc)
qed (simp add: bt_of_list_def)

lemma set_bt_of_distinct:
  assumes "distinct (map fst kvs)"
  shows "set (bt_of_list kvs) = set kvs"
proof -
  have "map_of (bt_of_list kvs) = map_of (rev kvs)" using bt_get_of_list[of kvs] by (auto simp: bt_get_def)
  moreover have "map_of (rev kvs) k = Some v" if "(k, v) \<in> set kvs" for k v
    using that assms by (intro map_of_is_SomeI) (auto simp: rev_map[symmetric])
  ultimately have "(k, v) \<in> set (bt_of_list kvs)" if "(k, v) \<in> set kvs" for k v using that by (intro map_of_SomeD) simp
  then show ?thesis using set_bt_of_list[of kvs] by auto
qed

lemma sort_string_object:
  "sort_value (JObject (bt_of_list (map (\<lambda>(k, v). (k, JString v)) kvs))) = JObject (map (\<lambda>(k, v). (k, JString v)) (bt_of_list kvs))"
proof -
  have "json_wf (JObject (bt_of_list (map (\<lambda>(k, v). (k, JString v)) kvs)))" by (rule json_wf_bt_of_list) auto
  from sort_value_wf[OF this] show ?thesis unfolding bt_of_list_map .
qed

lemma kernel_fingerprint_text:
  assumes "serde_flat L"
  shows "recompute_event_fingerprint L req = sha256_hex L (as_bytes (json_text serde_str (bt_of_list
    (fingerprint_fields (event_kind_to_wire (maq_event_kind req)) (maq_module_path req) (maq_caller_subject req) (maq_caller_run_id req)))))"
  using assms sort_string_object[of "fingerprint_fields (event_kind_to_wire (maq_event_kind req)) (maq_module_path req) (maq_caller_subject req) (maq_caller_run_id req)"]
  by (simp add: recompute_event_fingerprint_def params_fingerprint_def serde_flat_def fingerprint_fields_def del: sort_value.simps)

lemma fingerprint_values:
  "(\<forall>(k, v)\<in>set (bt_of_list (fingerprint_fields kind path subj run)). P v) \<longleftrightarrow> P kind \<and> P path \<and> P subj \<and> P run"
  by (subst set_bt_of_distinct) (simp_all add: fingerprint_fields_def)

lemma event_kind_ascii: "plain_ascii (event_kind_to_wire k)"
  by (cases k) (simp_all add: plain_ascii_def)

text \<open>C36: the hook and the kernel compute the same fingerprint exactly when the module path, the caller
  subject and the run id consist of ASCII characters below DEL.  For any other identity the printed
  forms differ (one side escapes, the other does not), and unless SHA-256 collides on the two texts
  the kernel finds a mismatch.\<close>

theorem hook_fingerprint_agrees_iff:
  assumes "serde_flat L"
    and "inj_on (\<lambda>t. sha256_hex L (as_bytes t)) {canonical_json kvs, json_text serde_str (bt_of_list kvs)}"
    and "kvs = fingerprint_fields (event_kind_to_wire (maq_event_kind req)) (maq_module_path req) (maq_caller_subject req) (maq_caller_run_id req)"
  shows "recompute_event_fingerprint L req =
      compute_event_fingerprint L (event_kind_to_wire (maq_event_kind req)) (maq_module_path req) (maq_caller_subject req) (maq_caller_run_id req) \<longleftrightarrow>
    plain_ascii (maq_module_path req) \<and> plain_ascii (maq_caller_subject req) \<and> plain_ascii (maq_caller_run_id req)"
proof -
  have "plain_ascii k" if "(k, v) \<in> set (bt_of_list kvs)" for k v
    using that set_bt_of_list[of kvs] unfolding assms(3) by (auto simp: fingerprint_fields_def plain_ascii_def dest!: subsetD)
  note texts = json_texts_agree_iff[of "bt_of_list kvs", OF this]
  have "recompute_event_fingerprint L req =
      compute_event_fingerprint L (event_kind_to_wire (maq_event_kind req)) (maq_module_path req) (maq_caller_subject req) (maq_caller_run_id req) \<longleftrightarrow>
      canonical_json kvs = json_text serde_str (bt_of_list kvs)"
    using inj_onD[OF assms(2), of "canonical_json kvs" "json_text serde_str (bt_of_list kvs)"]
    unfolding kernel_fingerprint_text[OF assms(1)] compute_event_fingerprint_def fingerprint_fields_def[symmetric] assms(3)[symmetric]
    by fastforce
  also have "\<dots> \<longleftrightarrow> (\<forall>(k, v)\<in>set (bt_of_list kvs). plain_ascii v)" unfolding canonical_json_def by (rule texts)
  also have "\<dots> \<longleftrightarrow> plain_ascii (maq_module_path req) \<and> plain_ascii (maq_caller_subject req) \<and> plain_ascii (maq_caller_run_id req)"
    unfolding assms(3) fingerprint_values by (simp add: event_kind_ascii)
  finally show ?thesis .
qed

section \<open>What an event needs to proceed\<close>

lemma callback_proceeds:
  assumes "audit_callback L post event args st = (Proceed, st')" "hs_config st = Some cfg" "hs_armed st" "\<not> hs_in_hook st"
    and "event \<in> set (hk_audited_event_kinds cfg)" "hk_fail_closed_on_unreachable cfg"
  obtains module_path body where "derive_module_path L event args = Ok module_path"
    "post (hk_kernel_url cfg @ ''/policy/module/authorize'') (hook_payload L cfg event module_path) (hk_worker_api_key cfg) = PostAnswered 200 body"
  using assms
  by (auto simp: audit_callback_def hook_answer_def abort_event_def split: sum.splits post_outcome.splits if_splits)

lemma derived_event_kind: "derive_module_path L event args = Ok p \<Longrightarrow> \<exists>k. event = event_kind_to_wire k"
  by (auto simp: derive_module_path_def split: if_splits intro: exI[of _ EvImport] exI[of _ EvExec] exI[of _ EvCompile])

lemma hook_payload_decodes:
  "de_module_authorize_request (hook_payload L cfg (event_kind_to_wire k) p) = Some (hook_request L cfg k p)"
proof -
  have "set (map fst (bt_of_list [(''event_kind'', a), (''module_path'', b), (''caller_subject'', c), (''caller_run_id'', d), (''event_fingerprint'', e),
      (''expected_required_patterns'', f), (''metadata'', g)])) \<subseteq> {''event_kind'', ''module_path'', ''caller_subject'', ''caller_run_id'',
      ''event_fingerprint'', ''expected_required_patterns'', ''metadata''}" for a b c d e f g :: json
    by (auto dest!: subsetD[OF set_bt_of_list])
  moreover have "de_event_kind (JString (event_kind_to_wire k)) = Some k" by (cases k) (simp_all add: de_event_kind_def)
  ultimately show ?thesis
    unfolding hook_payload_def de_module_authorize_request.simps
    by (simp add: de_field_def de_default_def de_opt_strings_def bt_get_of_list hook_request_def del: set_map)
qed

lemma policy_200:
  assumes "policy_answer_status W (fst (kernel_service app
      \<lparr>call_env = env, call_channel = ch, call_header = Some key, call_request = RqModuleAuthorize req\<rparr> kst)) = 200"
    and "wi_missing_role_status W \<noteq> 200"
  shows "role_key (app_auth app) ''worker'' = Some key \<and> (\<exists>resp. ipc_policy_authorize (app_libs app) (ch_client ch) (ch_sidecar ch) (ch_request_id ch)
      (module_ipc_request (maq_event_fingerprint req) req) = Ok resp \<and> mas_decision resp = ''allow'')"
proof (cases "auth_layer (app_auth app) ''/policy/module/authorize'' (Some key)")
  case AuthPublic
  then show ?thesis using assms by (simp add: kernel_service_def)
next
  case (AuthDeny s e)
  moreover from AuthDeny have "s \<in> {401, 503}" by (auto simp: auth_layer_def Let_def split: if_splits option.splits)
  ultimately show ?thesis using assms(1) by (auto simp: kernel_service_def)
next
  case (AuthCaller role)
  then have "auth_role (app_auth app) key = Some role"
    by (auto simp: auth_layer_def unwrap_or_empty_def[of "Some key"] Let_def split: if_splits option.splits)
  note key = auth_role_key[OF this]
  let ?r = "fst (policy_authorize (app_libs app) (app_config app) env ch role req kst)"
  have r: "policy_answer_status W (AnsPolicy ?r) = 200" using assms(1) AuthCaller by (simp add: kernel_service_def)
  then obtain body where "?r = KJson (200, body)"
    by (auto simp: policy_authorize_def invalid_request_def policy_unavailable_def Let_def split: if_splits sum.splits)
  then show ?thesis using key
    by (auto simp: policy_authorize_def invalid_request_def policy_unavailable_def Let_def split: if_splits sum.splits)
qed

text \<open>What the hook tells the kernel about an event.  An import is known by its name and a compilation by
  the hash of its source.  An exec is known by the hash of the bytecode alone, or of the text of what
  is executed: code objects that differ in their constants or names only are one and the same.\<close>

fun event_identity :: "libs \<Rightarrow> module_event_kind \<Rightarrow> py_obj list \<Rightarrow> string \<Rightarrow> bool" where
  "event_identity L EvImport (x # _) p \<longleftrightarrow> p = py_str x"
| "event_identity L EvExec (PyCode bytecode _ # _) p \<longleftrightarrow> p = sha256_hex L bytecode"
| "event_identity L EvExec (PyStr s # _) p \<longleftrightarrow> p = sha256_hex L (as_bytes s)"
| "event_identity L EvExec (PyBytes _ r # _) p \<longleftrightarrow> p = sha256_hex L (as_bytes r)"
| "event_identity L EvExec (PyObj _ r # _) p \<longleftrightarrow> p = sha256_hex L (as_bytes r)"
| "event_identity L EvCompile (PyBytes bs _ # _) p \<longleftrightarrow> p = sha256_hex L bs"
| "event_identity L EvCompile (x # _) p \<longleftrightarrow> p = sha256_hex L (as_bytes (py_str x))"
| "event_identity L _ [] p \<longleftrightarrow> False"

lemma derived_identity:
  assumes "derive_module_path L (event_kind_to_wire k) args = Ok p"
  shows "event_identity L k args p"
proof (cases args)
  case (Cons x rest)
  then show ?thesis using assms
    by (cases k; cases x) (auto simp: derive_module_path_def encode_utf8_def split: if_splits)
qed (use assms in \<open>cases k; simp add: derive_module_path_def\<close>)

text \<open>C35: under a hook that CPython accepted, that is armed and fails closed, an audited import, exec or
  compile goes ahead only if the kernel decided so for what the hook reports of it: the key of the
  hook is the kernel's worker key, and the policy sidecar answered allow to the event kind, the
  subject and run of the hook and the identity of the event, which is the name of an import, the hash
  of the source of a compilation and, for an exec, the hash of the bytecode or text without the
  constants.  The hook is assumed to reach this kernel's policy route under its configured URL.\<close>

theorem hooked_event_authorised:
  assumes "audited_operation L post event args st = (Proceed, st')" "0 < hs_registered st"
    and "hs_config st = Some cfg" "hs_armed st" "\<not> hs_in_hook st" "event \<in> set (hk_audited_event_kinds cfg)" "hk_fail_closed_on_unreachable cfg"
    and "\<And>body status reply. post (hk_kernel_url cfg @ ''/policy/module/authorize'') body (hk_worker_api_key cfg) = PostAnswered status reply \<Longrightarrow>
      status = kernel_policy_status app env ch W undecodable kst body (hk_worker_api_key cfg)"
    and "wi_missing_role_status W \<noteq> 200"
  shows "\<exists>kind module_path resp. event = event_kind_to_wire kind \<and> event_identity L kind args module_path \<and>
    role_key (app_auth app) ''worker'' = Some (hk_worker_api_key cfg) \<and>
    ipc_policy_authorize (app_libs app) (ch_client ch) (ch_sidecar ch) (ch_request_id ch)
      (module_ipc_request (maq_event_fingerprint (hook_request L cfg kind module_path)) (hook_request L cfg kind module_path)) = Ok resp \<and>
    mas_decision resp = ''allow''"
proof -
  from assms(2) obtain n where "hs_registered st = Suc n" by (cases "hs_registered st") auto
  then obtain st1 where "audit_callback L post event args st = (Proceed, st1)"
    using assms(1) by (auto simp: audited_operation_def split: prod.splits hook_verdict.splits)
  from callback_proceeds[OF this assms(3-7)] obtain p reply where p: "derive_module_path L event args = Ok p"
    "post (hk_kernel_url cfg @ ''/policy/module/authorize'') (hook_payload L cfg event p) (hk_worker_api_key cfg) = PostAnswered 200 reply" .
  from derived_event_kind[OF p(1)] obtain k where k: "event = event_kind_to_wire k" ..
  from assms(8)[OF p(2)] have "policy_answer_status W (fst (kernel_service app \<lparr>call_env = env, call_channel = ch,
      call_header = Some (hk_worker_api_key cfg), call_request = RqModuleAuthorize (hook_request L cfg k p)\<rparr> kst)) = 200"
    by (simp add: kernel_policy_status_def k hook_payload_decodes)
  from policy_200[OF this assms(9)] derived_identity[OF p(1)[unfolded k]] k show ?thesis by blast
qed

section \<open>Installing\<close>

lemma post_install_fields [simp]:
  "hs_config (post_install_audit_event post cfg m st) = hs_config st" "hs_armed (post_install_audit_event post cfg m st) = hs_armed st"
  "hs_registered (post_install_audit_event post cfg m st) = hs_registered st" "hs_in_hook (post_install_audit_event post cfg m st) = hs_in_hook st"
  by (simp_all add: post_install_audit_event_def hook_logged_def split: post_outcome.split)

lemma emit_fields [simp]:
  "hs_config (emit_preloaded_modules_audit_event post h cfg st) = hs_config st" "hs_armed (emit_preloaded_modules_audit_event post h cfg st) = hs_armed st"
  "hs_registered (emit_preloaded_modules_audit_event post h cfg st) = hs_registered st" "hs_in_hook (emit_preloaded_modules_audit_event post h cfg st) = hs_in_hook st"
  by (simp_all add: emit_preloaded_modules_audit_event_def split: prod.split)

lemma logged_fields [simp]:
  "hs_config (hook_logged l st) = hs_config st" "hs_armed (hook_logged l st) = hs_armed st"
  "hs_registered (hook_logged l st) = hs_registered st" "hs_in_hook (hook_logged l st) = hs_in_hook st"
  by (simp_all add: hook_logged_def)

text \<open>Along any sequence of installations at most one callback is registered, and only for an armed hook.\<close>

definition hook_inv :: "hook_state \<Rightarrow> bool" where
  "hook_inv st \<longleftrightarrow> hs_registered st \<le> 1 \<and> (hs_registered st = 1 \<longrightarrow> hs_armed st) \<and> (hs_armed st \<longrightarrow> hs_config st \<noteq> None)"

lemma install_keeps_inv: "hook_inv st \<Longrightarrow> hook_inv (snd (install_audit_hook post h a st))"
  by (auto simp: hook_inv_def install_audit_hook_def Let_def)

lemma callback_fields:
  "audit_callback L post event args st = (v, st') \<Longrightarrow> hs_config st' = hs_config st \<and> hs_armed st' = hs_armed st \<and> hs_registered st' = hs_registered st"
  by (auto simp: audit_callback_def split: option.splits sum.splits post_outcome.splits if_splits)

text \<open>An installation that CPython refuses looks like one that succeeded.  When a hook that is
  already present refuses the new one, the call returns normally and the module counts the hook as
  armed; every audited operation then goes ahead without the kernel being asked, and installing
  again with the same configuration reports that the hook is already there.\<close>

theorem refused_hook_looks_armed:
  assumes "install_audit_hook post h a st = (r, st')" "hs_registered st = 0" "\<not> hs_armed st" "ph_hook_refused h"
    and "validate_kernel_url (hk_kernel_url (hook_config_of h a))" "ph_environ h (ia_kill_switch_env_var a) \<noteq> Some ''1''"
    and "hook_config_of h' a' = hook_config_of h a"
  shows "r = Ok () \<and> hs_armed st' \<and> audited_operation L post' event args st' = (Proceed, st') \<and>
    install_audit_hook post'' h' a' st' = (Ok (), hook_logged AlreadyInstalled st')"
  using assms by (cases "ia_report_preloaded_modules a") (auto simp: install_audit_hook_def Let_def audited_operation_def)

section \<open>Witnesses\<close>

fun flat_printer :: "json \<Rightarrow> string" where
  "flat_printer (JObject m) =
     (if list_all (\<lambda>(k, v). json_as_str v \<noteq> None) m then json_text serde_str (map (\<lambda>(k, v). (k, the (json_as_str v))) m) else ''{}'')"
| "flat_printer _ = ''{}''"

definition hook_libs :: libs where
  "hook_libs = module_libs\<lparr>json_to_string := flat_printer\<rparr>"

lemma hook_libs_flat: "serde_flat hook_libs"
proof -
  have "map ((\<lambda>(k, v). (k, the (json_as_str v))) \<circ> (\<lambda>(k, v). (k, JString v))) kvs = kvs" for kvs :: "string btree"
    by (induction kvs) auto
  then show ?thesis by (auto simp: serde_flat_def hook_libs_def list_all_iff)
qed

theorem hook_fingerprint_agrees_iff_witness:
  "recompute_event_fingerprint hook_libs sample_module_request = compute_event_fingerprint hook_libs ''import'' ''pkg.mod'' ''w'' ''run-1''"
proof -
  let ?kvs = "fingerprint_fields ''import'' ''pkg.mod'' ''w'' ''run-1''"
  have f: "event_kind_to_wire (maq_event_kind sample_module_request) = ''import''" "maq_module_path sample_module_request = ''pkg.mod''"
    "maq_caller_subject sample_module_request = ''w''" "maq_caller_run_id sample_module_request = ''run-1''"
    by (simp_all add: sample_module_request_def)
  have "canonical_json ?kvs = json_text serde_str (bt_of_list ?kvs)"
    unfolding canonical_json_def fingerprint_fields_def by code_simp
  then have "inj_on (\<lambda>t. sha256_hex hook_libs (as_bytes t)) {canonical_json ?kvs, json_text serde_str (bt_of_list ?kvs)}" by simp
  from hook_fingerprint_agrees_iff[OF hook_libs_flat this, of sample_module_request] show ?thesis
    by (simp add: f plain_ascii_def)
qed

definition sample_install :: install_args where
  "sample_install = \<lparr>ia_kernel_url = ''https://k'', ia_worker_api_key = ''w-key'', ia_caller_subject = ''w'', ia_caller_run_id = Some ''run-1'',
     ia_fail_closed_on_unreachable = True, ia_timeout_seconds = Finite 1, ia_kill_switch_env_var = ''OFF'',
     ia_audited_event_kinds = [''import'', ''exec'', ''compile''], ia_event_metadata_max_bytes = 1024, ia_report_preloaded_modules = False\<rparr>"

definition sample_host :: "bool \<Rightarrow> py_host" where
  "sample_host refused = \<lparr>ph_uuid4_hex = ''u'', ph_environ = Map.empty, ph_sys_modules = [''sys''], ph_hostname = None, ph_process_id = 1,
     ph_python_version = ''3.12'', ph_hook_refused = refused\<rparr>"

definition hook_app :: kernel_app where
  "hook_app = sample_app\<lparr>app_libs := hook_libs\<rparr>"

definition sample_hook_config :: hook_config where
  "sample_hook_config = \<lparr>hk_kernel_url = ''https://k'', hk_worker_api_key = ''w-key'', hk_caller_subject = ''w'', hk_caller_run_id = ''run-1'',
     hk_fail_closed_on_unreachable = True, hk_timeout_seconds = Finite 1, hk_audited_event_kinds = [''import''], hk_event_metadata_max_bytes = 1024\<rparr>"

definition sample_hook_state :: hook_state where
  "sample_hook_state = \<lparr>hs_config = Some sample_hook_config, hs_armed = True, hs_in_hook = False, hs_registered = 1, hs_log = []\<rparr>"

definition sample_hook_post :: hook_post where
  "sample_hook_post = (\<lambda>url body key. PostAnswered (kernel_policy_status hook_app sample_env sample_channel mw_wire (\<lambda>_. 422) kernel_state_init body key) [])"

lemma sample_hook_ipc:
  "ipc_policy_authorize hook_libs (ch_client sample_channel) (ch_sidecar sample_channel) (ch_request_id sample_channel) req =
     Ok \<lparr>mas_decision = ''allow'', mas_reason = None, mas_registered_at_unix_ms = None\<rparr>"
proof -
  have "json_from_slice hook_libs (as_bytes (trim_line_end ''ok'')) = Ok sample_module_reply"
    by (simp add: hook_libs_def module_libs_def trim_line_end_def)
  then show ?thesis
    by (simp add: ipc_policy_authorize_def round_trip_def sample_channel_def res_bind_def sample_module_reply_def
        parse_policy_authorize_response_def validate_envelope_def check_envelope_def ok_or_def Let_def bt_get_of_list)
qed

lemma sample_event_answered:
  "kernel_policy_status hook_app sample_env sample_channel mw_wire (\<lambda>_. 422) kernel_state_init (hook_payload hook_libs sample_hook_config ''import'' ''pkg.mod'') ''w-key'' = 200"
proof -
  let ?req = "hook_request hook_libs sample_hook_config EvImport ''pkg.mod''"
  have d: "de_module_authorize_request (hook_payload hook_libs sample_hook_config ''import'' ''pkg.mod'') = Some ?req"
    using hook_payload_decodes[of hook_libs sample_hook_config EvImport "''pkg.mod''"] by simp
  have "canonical_json (fingerprint_fields ''import'' ''pkg.mod'' ''w'' ''run-1'') =
      json_text serde_str (bt_of_list (fingerprint_fields ''import'' ''pkg.mod'' ''w'' ''run-1''))"
    unfolding canonical_json_def fingerprint_fields_def by code_simp
  then have fp: "recompute_event_fingerprint hook_libs ?req = maq_event_fingerprint ?req"
    by (simp add: kernel_fingerprint_text[OF hook_libs_flat] hook_request_def compute_event_fingerprint_def
        fingerprint_fields_def[symmetric] sample_hook_config_def)
  have ok: "is_valid_module_path (maq_module_path ?req)" "is_64_lowercase_hex (maq_event_fingerprint ?req)"
    by (simp_all add: hook_request_def is_valid_module_path_def MAX_MODULE_PATH_LEN_def dotted_char_def byte_in_def is_64_lowercase_hex_def
        compute_event_fingerprint_def sha256_hex_def hook_libs_def module_libs_def sample_libs_def base16_lower_hex length_base16_encode)
  have auth: "auth_layer (app_auth hook_app) ''/policy/module/authorize'' (Some ''w-key'') = AuthCaller ''worker''"
    by (simp add: auth_layer_def hook_app_def sample_app_def is_public_path_def unwrap_or_empty_def auth_role_def constant_time_eq_iff)
  show ?thesis
    using ok fp by (simp add: kernel_policy_status_def d kernel_service_def auth)
      (simp add: hook_app_def policy_authorize_def sample_hook_ipc Let_def)
qed

theorem hooked_event_authorised_witness:
  "fst (audited_operation hook_libs sample_hook_post ''import'' [PyStr ''pkg.mod''] sample_hook_state) = Proceed \<and>
   role_key (app_auth hook_app) ''worker'' = Some ''w-key''"
proof -
  have "hk_worker_api_key sample_hook_config = ''w-key''" by (simp add: sample_hook_config_def)
  then have "audit_callback hook_libs sample_hook_post ''import'' [PyStr ''pkg.mod''] sample_hook_state = (Proceed, sample_hook_state)"
    using sample_event_answered
    by (simp add: audit_callback_def sample_hook_state_def derive_module_path_def sample_hook_post_def hook_answer_def
        sample_hook_config_def[THEN arg_cong[of _ _ hk_audited_event_kinds]])
  then have op: "audited_operation hook_libs sample_hook_post ''import'' [PyStr ''pkg.mod''] sample_hook_state = (Proceed, sample_hook_state)"
    by (simp add: audited_operation_def sample_hook_state_def[THEN arg_cong[of _ _ hs_registered]])
  have st: "hs_config sample_hook_state = Some sample_hook_config" "hs_armed sample_hook_state" "\<not> hs_in_hook sample_hook_state" "0 < hs_registered sample_hook_state"
    by (simp_all add: sample_hook_state_def)
  have cfg: "''import'' \<in> set (hk_audited_event_kinds sample_hook_config)" "hk_fail_closed_on_unreachable sample_hook_config" "wi_missing_role_status mw_wire \<noteq> 200"
    by (simp_all add: sample_hook_config_def mw_wire_def)
  have post: "sample_hook_post url body key = PostAnswered s reply \<Longrightarrow>
      s = kernel_policy_status hook_app sample_env sample_channel mw_wire (\<lambda>_. 422) kernel_state_init body key" for url body key s reply
    by (simp add: sample_hook_post_def)
  have "role_key (app_auth hook_app) ''worker'' = Some (hk_worker_api_key sample_hook_config)"
    using hooked_event_authorised[where app = hook_app and env = sample_env and ch = sample_channel and undecodable = "\<lambda>_. 422" and
        kst = kernel_state_init, OF op st(4) st(1-3) cfg(1,2) _ cfg(3)] post by blast
  then show ?thesis using op by (simp add: sample_hook_config_def)
qed

theorem refused_hook_looks_armed_witness:
  "\<exists>st. install_audit_hook (\<lambda>_ _ _. PostUnreachable ''x'') (sample_host True) sample_install hook_state_init = (Ok (), st) \<and> hs_armed st \<and>
     audited_operation hook_libs (\<lambda>_ _ _. PostUnreachable ''x'') ''import'' [PyStr ''os''] st = (Proceed, st)"
proof -
  let ?h = "sample_host True" and ?p = "\<lambda>_ _ _. PostUnreachable ''x''"
  obtain r st where i: "install_audit_hook ?p ?h sample_install hook_state_init = (r, st)" by fastforce
  have "validate_kernel_url (hk_kernel_url (hook_config_of ?h sample_install))"
    by (simp add: hook_config_of_def sample_install_def trim_end_matches_def validate_kernel_url_def)
  from refused_hook_looks_armed[OF i _ _ _ this _ refl, of hook_libs ?p "''import''" "[PyStr ''os'']" ?p] i show ?thesis
    by (simp add: hook_state_init_def sample_host_def)
qed

end
