(* ===== verification/PyGate.thy ===== *)
theory PyGate
  imports PyHook
begin

text \<open>
  The Python request gate and revoke client, \<^verbatim>\<open>src/py-defense/safety_kernel_defense/middleware.py\<close> and
  \<^verbatim>\<open>revoke_client.py\<close>.

  The gate is a function of the request, the clock readings it takes, the outcome of its HTTP call and
  the state of its circuit breaker.  \<open>py_lib\<close> has the base64 decoder and the JSON reader of Python;
  Ed25519 is that of the kernel's libraries.  An exception that no handler of the gate catches is the
  outcome \<open>GateRaise\<close>, with the state it leaves behind.
\<close>

section \<open>The circuit breaker\<close>

datatype py_circuit = PbClosed | PbOpen | PbHalfOpen

record py_breaker =
  pb_failure_threshold :: int
  pb_open_duration_s :: f64
  pb_state :: py_circuit
  pb_consecutive_failures :: nat
  pb_opened_at :: "f64 option"
  pb_probe_in_flight :: bool

definition py_breaker_new :: "int \<Rightarrow> f64 \<Rightarrow> py_breaker" where
  "py_breaker_new failure_threshold open_duration_s =
     \<lparr>pb_failure_threshold = max 1 failure_threshold,
      pb_open_duration_s = (if f64_lt (Finite 0) open_duration_s then open_duration_s else Finite 0),
      pb_state = PbClosed, pb_consecutive_failures = 0, pb_opened_at = None, pb_probe_in_flight = False\<rparr>"

definition allow_call :: "f64 \<Rightarrow> py_breaker \<Rightarrow> bool \<times> py_breaker" where
  "allow_call now b =
     (case pb_state b of
        PbClosed \<Rightarrow> (True, b)
      | PbOpen \<Rightarrow>
          let opened = (case pb_opened_at b of None \<Rightarrow> now | Some t \<Rightarrow> t) in
          if f64_le (pb_open_duration_s b) (f64_sub now opened)
          then (True, b\<lparr>pb_state := PbHalfOpen, pb_probe_in_flight := True\<rparr>)
          else (False, b)
      | PbHalfOpen \<Rightarrow> if pb_probe_in_flight b then (False, b) else (True, b\<lparr>pb_probe_in_flight := True\<rparr>))"

definition py_record_success :: "py_breaker \<Rightarrow> py_breaker" where
  "py_record_success b = b\<lparr>pb_consecutive_failures := 0, pb_probe_in_flight := False, pb_state := PbClosed, pb_opened_at := None\<rparr>"

definition py_open :: "f64 \<Rightarrow> py_breaker \<Rightarrow> py_breaker" where
  "py_open now b = b\<lparr>pb_state := PbOpen, pb_opened_at := Some now\<rparr>"

definition py_record_failure :: "f64 \<Rightarrow> py_breaker \<Rightarrow> py_breaker" where
  "py_record_failure now b =
     (let was_probe = pb_probe_in_flight b;
          b1 = b\<lparr>pb_consecutive_failures := Suc (pb_consecutive_failures b), pb_probe_in_flight := False\<rparr> in
      if pb_state b1 = PbHalfOpen \<and> was_probe then py_open now b1
      else if pb_state b1 = PbClosed \<and> pb_failure_threshold b1 \<le> int (pb_consecutive_failures b1) then py_open now b1
      else b1)"

section \<open>Checking an answer\<close>

record py_lib =
  pl_fromhex :: "string \<Rightarrow> (string, bytes) result"
  pl_b64decode :: "string \<Rightarrow> (string, bytes) result"
  pl_json_loads :: "bytes \<Rightarrow> (string, json) result"

definition py_b64url_decode :: "py_lib \<Rightarrow> string \<Rightarrow> (string, bytes) result" where
  "py_b64url_decode P s = pl_b64decode P (s @ replicate ((4 - length s mod 4) mod 4) (CHR ''=''))"

datatype allow_error = SignatureInvalid string | AnswerUnusable string | AnswerRaised string

definition EXP_LEEWAY_S :: f64 where "EXP_LEEWAY_S = Finite 60"

fun py_float :: "jnum \<Rightarrow> f64 option" where
  "py_float (PosInt n) = (case f64_of_nat n of Finite q \<Rightarrow> Some (Finite q) | _ \<Rightarrow> None)"
| "py_float (NegInt n) = (case f64_of_int n of Finite q \<Rightarrow> Some (Finite q) | _ \<Rightarrow> None)"
| "py_float (Float x) = Some x"

definition reject_if_expired :: "py_lib \<Rightarrow> f64 \<Rightarrow> string \<Rightarrow> (allow_error, unit) result" where
  "reject_if_expired P now payload_b64 =
     (case res_bind (py_b64url_decode P payload_b64) (pl_json_loads P) of
        Inr (JObject claims) \<Rightarrow>
          (case bt_get claims ''expires_at'' of
             Some (JNumber n) \<Rightarrow>
               (case py_float n of
                  None \<Rightarrow> Err (AnswerRaised ''int too large to convert to float'')
                | Some t \<Rightarrow> if f64_lt t (f64_sub now EXP_LEEWAY_S) then Err (SignatureInvalid ''token_expired'') else Ok ())
           | _ \<Rightarrow> Ok ())
      | _ \<Rightarrow> Ok ())"

definition check_token :: "libs \<Rightarrow> py_lib \<Rightarrow> 256 word \<Rightarrow> f64 \<Rightarrow> string \<Rightarrow> (allow_error, unit) result" where
  "check_token L P public_key now token =
     (case split_on (CHR ''.'') token of
        [payload_b64, sig_b64] \<Rightarrow>
          if payload_b64 = [] \<or> sig_b64 = [] then Err (SignatureInvalid ''malformed_token'')
          else
            (case py_b64url_decode P sig_b64 of
               Inl _ \<Rightarrow> Err (SignatureInvalid ''malformed_token'')
             | Inr signature \<Rightarrow>
                 if \<not> list_all (\<lambda>c. (of_char c :: nat) < 0x80) payload_b64 then Err (AnswerRaised ''ordinal not in range(128)'')
                 else
                   (case ed25519_verify L public_key (as_bytes payload_b64) signature of
                      Inl _ \<Rightarrow> Err (SignatureInvalid ''bad_signature'')
                    | Inr _ \<Rightarrow> reject_if_expired P now payload_b64))
      | _ \<Rightarrow> Err (SignatureInvalid ''malformed_token''))"

definition verify_allow :: "libs \<Rightarrow> py_lib \<Rightarrow> 256 word \<Rightarrow> f64 \<Rightarrow> bytes \<Rightarrow> (allow_error, unit) result" where
  "verify_allow L P public_key now body =
     (case pl_json_loads P body of
        Inl e \<Rightarrow> Err (AnswerUnusable (''unparseable authorize response: '' @ e))
      | Inr (JObject parsed) \<Rightarrow>
          if bt_get parsed ''ok'' \<noteq> Some (JBool True) then Err (AnswerUnusable ''authorize response not an ok=true envelope'')
          else
            (case bt_get parsed ''token'' of
               Some (JString token) \<Rightarrow>
                 if token = [] then Err (AnswerUnusable ''authorize response missing token'') else check_token L P public_key now token
             | _ \<Rightarrow> Err (AnswerUnusable ''authorize response missing token''))
      | _ \<Rightarrow> Err (AnswerUnusable ''authorize response not an ok=true envelope''))"

section \<open>The gate\<close>

record py_request =
  yq_method :: string
  yq_path :: string
  yq_query :: string
  yq_headers :: "string \<Rightarrow> string option"

record py_gate =
  yg_kernel_url :: string
  yg_worker_api_key :: string
  yg_public_key :: "256 word"
  yg_gated_prefixes :: "string list"
  yg_opt_out :: "(py_request \<Rightarrow> bool option) option"

datatype gate_io = GateAnswered nat bytes | GateTransport string | GateRaised string

datatype gate_outcome = GateForward | GateDeny nat string string | GateRaise string

record gate_clock =
  gc_mono_call :: f64
  gc_mono_result :: f64
  gc_wall :: f64

definition load_public_key :: "py_lib \<Rightarrow> string \<Rightarrow> (string, 256 word) result" where
  "load_public_key P operator_pubkey_hex =
     res_bind (map_err (\<lambda>_. ''operator_pubkey_hex must be hex-encoded (64 chars to 32 bytes)'') (pl_fromhex P (str_trim operator_pubkey_hex))) (\<lambda>raw.
     if length raw \<noteq> 32 then Err (''operator_pubkey_hex must decode to 32 bytes; got '' @ dec_string (length raw))
     else Ok (of_be_bytes raw))"

definition py_gate_new :: "py_lib \<Rightarrow> string \<Rightarrow> string \<Rightarrow> string \<Rightarrow> string list \<Rightarrow> (py_request \<Rightarrow> bool option) option \<Rightarrow> int \<Rightarrow> f64 \<Rightarrow>
    (string, py_gate \<times> py_breaker) result" where
  "py_gate_new P kernel_url worker_api_key operator_pubkey_hex gated_path_prefixes opt_out failure_threshold open_duration_s =
     res_bind (load_public_key P operator_pubkey_hex) (\<lambda>public_key.
     if gated_path_prefixes = [] then Err ''gated_path_prefixes must be a non-empty tuple''
     else Ok (\<lparr>yg_kernel_url = trim_end_matches (CHR ''/'') kernel_url, yg_worker_api_key = worker_api_key, yg_public_key = public_key,
                yg_gated_prefixes = gated_path_prefixes, yg_opt_out = opt_out\<rparr>,
              py_breaker_new failure_threshold open_duration_s))"

definition is_gated :: "py_gate \<Rightarrow> string \<Rightarrow> bool" where
  "is_gated g path \<longleftrightarrow> list_ex (\<lambda>p. prefix p path) (yg_gated_prefixes g)"

definition is_opted_out :: "py_gate \<Rightarrow> py_request \<Rightarrow> bool" where
  "is_opted_out g rq = (case yg_opt_out g of None \<Rightarrow> False | Some f \<Rightarrow> f rq = Some True)"

definition py_params_fingerprint :: "libs \<Rightarrow> string \<Rightarrow> string \<Rightarrow> string \<Rightarrow> string" where
  "py_params_fingerprint L m path query =
     sha256_hex L (as_bytes (canonical_json [(''method'', m), (''path'', path), (''query'', query)]))"

definition header_or :: "py_request \<Rightarrow> string \<Rightarrow> string \<Rightarrow> string" where
  "header_or rq name dflt = (case yq_headers rq name of Some (c # s) \<Rightarrow> c # s | _ \<Rightarrow> dflt)"

definition gate_payload :: "libs \<Rightarrow> string \<Rightarrow> py_request \<Rightarrow> json" where
  "gate_payload L uuid rq = JObject (bt_of_list
     [(''action'', JString (''http.'' @ to_ascii_lowercase (yq_method rq) @ '':'' @ yq_path rq)),
      (''run_id'', JString (header_or rq ''x-run-id'' uuid)), (''subject'', JString (header_or rq ''x-subject'' ''anonymous'')),
      (''params_fingerprint'', JString (py_params_fingerprint L (yq_method rq) (yq_path rq) (yq_query rq)))])"

type_synonym gate_post = "string \<Rightarrow> json \<Rightarrow> string \<Rightarrow> gate_io"

definition gate_call :: "libs \<Rightarrow> py_gate \<Rightarrow> gate_post \<Rightarrow> string \<Rightarrow> py_request \<Rightarrow> gate_io" where
  "gate_call L g post uuid rq = post (yg_kernel_url g @ ''/kernel/v1/authorize'') (gate_payload L uuid rq) (yg_worker_api_key g)"

definition py_dispatch :: "libs \<Rightarrow> py_lib \<Rightarrow> py_gate \<Rightarrow> gate_post \<Rightarrow> string \<Rightarrow> gate_clock \<Rightarrow> py_request \<Rightarrow> py_breaker \<Rightarrow> gate_outcome \<times> py_breaker" where
  "py_dispatch L P g post uuid t rq b =
     (if \<not> is_gated g (yq_path rq) \<or> is_opted_out g rq then (GateForward, b)
      else
        let (allowed, b1) = allow_call (gc_mono_call t) b in
        if \<not> allowed then (GateDeny 503 ''kernel_unavailable'' ''circuit breaker open - kernel treated as unavailable'', b1)
        else
          (case gate_call L g post uuid rq of
             GateTransport e \<Rightarrow> (GateDeny 503 ''kernel_unavailable'' (''safety-kernel unreachable: '' @ e), py_record_failure (gc_mono_result t) b1)
           | GateRaised e \<Rightarrow> (GateRaise e, b1)
           | GateAnswered status body \<Rightarrow>
               if status = 200 then
                 (case verify_allow L P (yg_public_key g) (gc_wall t) body of
                    Inr _ \<Rightarrow> (GateForward, py_record_success b1)
                  | Inl (SignatureInvalid d) \<Rightarrow>
                      (GateDeny 503 ''signature_invalid'' (''safety-kernel signature verification failed: '' @ d), py_record_failure (gc_mono_result t) b1)
                  | Inl (AnswerUnusable d) \<Rightarrow>
                      (GateDeny 503 ''kernel_unavailable'' (''safety-kernel unreachable: '' @ d), py_record_failure (gc_mono_result t) b1)
                  | Inl (AnswerRaised d) \<Rightarrow> (GateRaise d, b1))
               else if status = 403 then (GateDeny 403 ''policy_denied'' ''safety kernel denied the action'', py_record_success b1)
               else (GateDeny 503 ''kernel_unavailable'' (''kernel returned HTTP '' @ dec_string status), py_record_failure (gc_mono_result t) b1)))"

section \<open>The revoke client\<close>

datatype revoke_exn = ValueError string | RevKernelUnavailable string | RevokeError nat "string option" "string option"

datatype rev_io = RevResponse nat bytes | RevTransport string

text \<open>A call of the client with its base URL and key: method, path, query parameters and body.\<close>

type_synonym rev_send = "string \<Rightarrow> string \<Rightarrow> (string \<times> string) list \<Rightarrow> json option \<Rightarrow> rev_io"

definition VALID_TIERS :: "string list" where "VALID_TIERS = [''sigterm'', ''sigkill'', ''cgroup_kill'', ''vm_stop'']"

definition VALID_TRIGGERS :: "string list" where "VALID_TRIGGERS = [''operator_emergency_stop'', ''rogue_determination'']"

definition py_instance_target :: "string \<Rightarrow> string \<Rightarrow> string \<Rightarrow> (revoke_exn, json) result" where
  "py_instance_target project zone inst =
     (case find (\<lambda>(name, val). val = []) [(''project'', project), (''zone'', zone), (''instance'', inst)] of
        Some (name, _) \<Rightarrow> Err (ValueError (''InstanceTarget.'' @ name @ '' must be a non-empty string''))
      | None \<Rightarrow> Ok (JObject (bt_of_list [(''project'', JString project), (''zone'', JString zone), (''instance'', JString inst)])))"

definition parse_ok_envelope :: "py_lib \<Rightarrow> nat \<Rightarrow> bytes \<Rightarrow> (revoke_exn, json btree) result" where
  "parse_ok_envelope P status body =
     (case pl_json_loads P body of
        Inl _ \<Rightarrow> Err (RevokeError status (Some ''unparseable_response'') None)
      | Inr (JObject m) \<Rightarrow> if bt_get m ''ok'' = Some (JBool True) then Ok m else Err (RevokeError status (Some ''not_ok_envelope'') None)
      | Inr _ \<Rightarrow> Err (RevokeError status (Some ''not_ok_envelope'') None))"

definition error_for :: "py_lib \<Rightarrow> nat \<Rightarrow> bytes \<Rightarrow> revoke_exn" where
  "error_for P status body =
     (case pl_json_loads P body of
        Inr (JObject m) \<Rightarrow> RevokeError status (Option.bind (bt_get m ''error'') json_as_str) (Option.bind (bt_get m ''reason'') json_as_str)
      | _ \<Rightarrow> RevokeError status None None)"

definition post_json :: "py_lib \<Rightarrow> rev_send \<Rightarrow> string \<Rightarrow> json \<Rightarrow> (revoke_exn, json btree) result" where
  "post_json P send path body =
     (case send ''POST'' path [] (Some body) of
        RevTransport e \<Rightarrow> Err (RevKernelUnavailable e)
      | RevResponse status reply \<Rightarrow> if status \<noteq> 200 then Err (error_for P status reply) else parse_ok_envelope P status reply)"

definition py_mint_revoke :: "py_lib \<Rightarrow> rev_send \<Rightarrow> json \<Rightarrow> string \<Rightarrow> string \<Rightarrow> string option \<Rightarrow> (revoke_exn, json btree) result" where
  "py_mint_revoke P send target tier trigger reason =
     (if tier \<notin> set VALID_TIERS then Err (ValueError (''tier must be one of the valid tiers; got '' @ tier))
      else if trigger \<notin> set VALID_TRIGGERS then Err (ValueError (''trigger must be one of the valid triggers; got '' @ trigger))
      else post_json P send ''/kernel/v1/revoke/compute''
        (JObject (bt_of_list ([(''target'', target), (''tier'', JString tier), (''trigger'', JString trigger)] @
           (case reason of None \<Rightarrow> [] | Some r \<Rightarrow> [(''reason'', JString r)])))))"

definition py_pull_pending :: "py_lib \<Rightarrow> rev_send \<Rightarrow> string \<Rightarrow> (revoke_exn, string list) result" where
  "py_pull_pending P send inst =
     (if inst = [] then Err (ValueError ''instance must be a non-empty string'')
      else
        (case send ''GET'' ''/kernel/v1/revoke/pending'' [(''instance'', inst)] None of
           RevTransport e \<Rightarrow> Err (RevKernelUnavailable e)
         | RevResponse status reply \<Rightarrow>
             if status = 204 then Ok []
             else if status \<noteq> 200 then Err (error_for P status reply)
             else res_bind (parse_ok_envelope P status reply) (\<lambda>parsed.
               case bt_get parsed ''pending'' of
                 Some (JArray vs) \<Rightarrow> Ok (List.map_filter json_as_str vs)
               | _ \<Rightarrow> Err (RevokeError 200 (Some ''malformed_pending_response'') None))))"

definition py_ack :: "py_lib \<Rightarrow> rev_send \<Rightarrow> string \<Rightarrow> string \<Rightarrow> (revoke_exn, json btree) result" where
  "py_ack P send run_id outcome =
     (if run_id = [] then Err (ValueError ''run_id must be a non-empty string'')
      else if outcome = [] then Err (ValueError ''outcome must be a non-empty string'')
      else post_json P send ''/kernel/v1/revoke/ack'' (JObject (bt_of_list [(''run_id'', JString run_id), (''outcome'', JString outcome)])))"

definition py_restore :: "py_lib \<Rightarrow> rev_send \<Rightarrow> json \<Rightarrow> string option \<Rightarrow> (revoke_exn, json btree) result" where
  "py_restore P send target reason =
     post_json P send ''/kernel/v1/revoke/restore''
       (JObject (bt_of_list ([(''target'', target)] @ (case reason of None \<Rightarrow> [] | Some r \<Rightarrow> [(''reason'', JString r)]))))"

section \<open>No false success of the revoke client\<close>

lemma parse_ok_envelope_ok: "parse_ok_envelope P status body = Ok m \<Longrightarrow> pl_json_loads P body = Ok (JObject m) \<and> bt_get m ''ok'' = Some (JBool True)"
  by (auto simp: parse_ok_envelope_def split: sum.splits json.splits if_splits)

lemma post_json_ok:
  assumes "post_json P send path body = Ok m"
  obtains reply where "send ''POST'' path [] (Some body) = RevResponse 200 reply" "pl_json_loads P reply = Ok (JObject m)" "bt_get m ''ok'' = Some (JBool True)"
  using assms by (auto simp: post_json_def split: rev_io.splits if_splits dest: parse_ok_envelope_ok)

text \<open>A mint that returns was answered 200 with an ok envelope by the compute route, for a valid tier and trigger.\<close>

lemma py_mint_ok:
  assumes "py_mint_revoke P send target tier trigger reason = Ok m"
  shows "tier \<in> set VALID_TIERS \<and> trigger \<in> set VALID_TRIGGERS \<and> bt_get m ''ok'' = Some (JBool True) \<and>
    (\<exists>body reply. send ''POST'' ''/kernel/v1/revoke/compute'' [] (Some body) = RevResponse 200 reply \<and> pl_json_loads P reply = Ok (JObject m))"
  using assms by (auto simp: py_mint_revoke_def split: if_splits elim!: post_json_ok)

text \<open>An empty list of pending orders is never an error in disguise: the kernel answered 204, or 200 with
  an envelope whose list has no string.\<close>

lemma py_pull_empty:
  assumes "py_pull_pending P send inst = Ok []"
  shows "\<exists>reply. send ''GET'' ''/kernel/v1/revoke/pending'' [(''instance'', inst)] None = RevResponse 204 reply \<or>
    (\<exists>m vs. send ''GET'' ''/kernel/v1/revoke/pending'' [(''instance'', inst)] None = RevResponse 200 reply \<and> pl_json_loads P reply = Ok (JObject m) \<and>
      bt_get m ''ok'' = Some (JBool True) \<and> bt_get m ''pending'' = Some (JArray vs) \<and> List.map_filter json_as_str vs = [])"
proof (cases "send ''GET'' ''/kernel/v1/revoke/pending'' [(''instance'', inst)] None")
  case (RevResponse status reply)
  show ?thesis
  proof (cases "status = 204")
    case False
    with assms RevResponse have s: "status = 200" by (auto simp: py_pull_pending_def split: if_splits)
    with assms RevResponse obtain m where m: "parse_ok_envelope P 200 reply = Ok m"
      by (cases "parse_ok_envelope P 200 reply") (auto simp: py_pull_pending_def split: if_splits)
    with assms RevResponse s have "\<exists>vs. bt_get m ''pending'' = Some (JArray vs) \<and> List.map_filter json_as_str vs = []"
      by (auto simp: py_pull_pending_def split: if_splits option.splits json.splits)
    with parse_ok_envelope_ok[OF m] RevResponse s show ?thesis by auto
  qed (use RevResponse in auto)
qed (use assms in \<open>auto simp: py_pull_pending_def split: if_splits\<close>)

section \<open>What the gate lets through\<close>

text \<open>A payload that states an expiry more than a minute in the past, or one that does not fit a float.  A
  payload that is not a JSON object or has no numeric expiry states none.\<close>

definition expiry_passed :: "py_lib \<Rightarrow> f64 \<Rightarrow> string \<Rightarrow> bool" where
  "expiry_passed P now p \<longleftrightarrow>
     (\<exists>bs claims n. py_b64url_decode P p = Ok bs \<and> pl_json_loads P bs = Ok (JObject claims) \<and> bt_get claims ''expires_at'' = Some (JNumber n) \<and>
        (case py_float n of None \<Rightarrow> True | Some t \<Rightarrow> f64_lt t (f64_sub now (Finite 60))))"

text \<open>The gate's notion of an allow: an envelope with a token of two parts, the second the signature over the
  first under the pinned key.\<close>

definition signed_allow :: "libs \<Rightarrow> py_lib \<Rightarrow> 256 word \<Rightarrow> bytes \<Rightarrow> string \<Rightarrow> bool" where
  "signed_allow L P pk body p \<longleftrightarrow>
     (\<exists>m s signature. pl_json_loads P body = Ok (JObject m) \<and> bt_get m ''ok'' = Some (JBool True) \<and> bt_get m ''token'' = Some (JString (p @ ''.'' @ s)) \<and>
        CHR ''.'' \<notin> set (p @ s) \<and> p \<noteq> [] \<and> s \<noteq> [] \<and> list_all (\<lambda>c. (of_char c :: nat) < 0x80) p \<and> py_b64url_decode P s = Ok signature \<and>
        ed25519_verify L pk (as_bytes p) signature = Ok ())"

lemma reject_if_expired_iff: "reject_if_expired P now p = Ok () \<longleftrightarrow> \<not> expiry_passed P now p"
proof (cases "res_bind (py_b64url_decode P p) (pl_json_loads P)")
  case (Inl e)
  then have "\<not> expiry_passed P now p" by (auto simp: expiry_passed_def)
  then show ?thesis by (simp add: reject_if_expired_def Inl)
next
  case (Inr v)
  then obtain bs where bs: "py_b64url_decode P p = Ok bs" "pl_json_loads P bs = Ok v" by (auto simp: res_bind_Ok_iff)
  show ?thesis
    by (cases v) (auto simp: reject_if_expired_def expiry_passed_def bs EXP_LEEWAY_S_def split: option.splits json.splits)
qed

lemma split_on_single: "split_on c t = [s] \<longleftrightarrow> t = s \<and> c \<notin> set s"
proof
  show "split_on c t = [s] \<Longrightarrow> t = s \<and> c \<notin> set s"
  proof (induction t arbitrary: s)
    case (Cons x t)
    obtain p ps where t: "split_on c t = p # ps" using split_on_ne[of c t] by (cases "split_on c t") auto
    then have "x \<noteq> c" "s = x # p" "ps = []" using Cons.prems by (auto split: if_splits)
    then show ?case using Cons.IH[of p] t by simp
  qed simp
qed (simp add: split_on_none)

lemma split_on_pair: "split_on c t = [p, s] \<longleftrightarrow> t = p @ [c] @ s \<and> c \<notin> set (p @ s)"
proof (induction t arbitrary: p)
  case (Cons x t)
  show ?case
  proof (cases "x = c")
    case True
    then show ?thesis using split_on_single[of c t s] by (cases p) auto
  next
    case False
    then show ?thesis using Cons[of "tl p"] split_on_ne[of c t] by (cases p) (auto split: list.splits)
  qed
qed auto

lemma check_token_iff:
  "check_token L P pk now token = Ok () \<longleftrightarrow>
     (\<exists>p s signature. token = p @ ''.'' @ s \<and> CHR ''.'' \<notin> set (p @ s) \<and> p \<noteq> [] \<and> s \<noteq> [] \<and> list_all (\<lambda>c. (of_char c :: nat) < 0x80) p \<and>
        py_b64url_decode P s = Ok signature \<and> ed25519_verify L pk (as_bytes p) signature = Ok () \<and> reject_if_expired P now p = Ok ())"
proof (cases "\<exists>p s. split_on (CHR ''.'') token = [p, s]")
  case True
  then obtain p s where ps: "split_on (CHR ''.'') token = [p, s]" by blast
  then have t: "token = p @ ''.'' @ s" "CHR ''.'' \<notin> set (p @ s)" using split_on_pair by fastforce+
  have "p' = p \<and> s' = s" if "token = p' @ ''.'' @ s'" "CHR ''.'' \<notin> set (p' @ s')" for p' s'
    using that split_on_pair[of "CHR ''.''" token p' s'] ps by simp
  then show ?thesis using ps t by (auto simp: check_token_def split: sum.splits if_splits)
next
  case False
  then have "check_token L P pk now token = Err (SignatureInvalid ''malformed_token'')"
    by (auto simp: check_token_def split: list.splits)
  then show ?thesis using False split_on_pair[of "CHR ''.''" token] by auto
qed

lemma verify_allow_iff:
  "verify_allow L P pk now body = Ok () \<longleftrightarrow> (\<exists>p. signed_allow L P pk body p \<and> \<not> expiry_passed P now p)"
proof (cases "\<exists>m token. pl_json_loads P body = Ok (JObject m) \<and> bt_get m ''ok'' = Some (JBool True) \<and> bt_get m ''token'' = Some (JString token) \<and> token \<noteq> []")
  case True
  then obtain m token where m: "pl_json_loads P body = Ok (JObject m)" "bt_get m ''ok'' = Some (JBool True)" "bt_get m ''token'' = Some (JString token)"
    "token \<noteq> []" by blast
  then have v: "verify_allow L P pk now body = check_token L P pk now token" by (simp add: verify_allow_def)
  show ?thesis unfolding v check_token_iff signed_allow_def reject_if_expired_iff using m by auto
next
  case False
  then show ?thesis by (auto simp: verify_allow_def signed_allow_def split: sum.splits json.splits option.splits if_splits)
qed

lemma allow_call_iff:
  "fst (allow_call now b) \<longleftrightarrow>
     pb_state b = PbClosed \<or> pb_state b = PbHalfOpen \<and> \<not> pb_probe_in_flight b \<or>
     pb_state b = PbOpen \<and> f64_le (pb_open_duration_s b) (f64_sub now (case pb_opened_at b of None \<Rightarrow> now | Some t \<Rightarrow> t))"
  by (cases "pb_state b") (auto simp: allow_call_def Let_def)

text \<open>C37: the Python gate forwards a request exactly when no gated prefix begins its path, or the opt-out
  accepts it, or both of the following hold.  The breaker is closed, half-open with no probe under
  way, or open since at least its cooldown; and the kernel answers 200 with an ok envelope whose
  token is signed under the pinned key, with a payload that does not state an expiry more than 60
  seconds in the past.  Transport errors, other statuses, unusable bodies and bad signatures never
  let a request through; a signed payload whose expiry cannot be read does.\<close>

theorem py_gate_forwards_iff:
  "fst (py_dispatch L P g post uuid t rq b) = GateForward \<longleftrightarrow>
     (if (\<exists>p. p \<in> set (yg_gated_prefixes g) \<and> prefix p (yq_path rq)) \<and> \<not> (\<exists>f. yg_opt_out g = Some f \<and> f rq = Some True)
      then (pb_state b = PbClosed \<or> pb_state b = PbHalfOpen \<and> \<not> pb_probe_in_flight b \<or>
          pb_state b = PbOpen \<and>
            f64_le (pb_open_duration_s b) (f64_sub (gc_mono_call t) (case pb_opened_at b of None \<Rightarrow> gc_mono_call t | Some u \<Rightarrow> u))) \<and>
        (\<exists>body p. post (yg_kernel_url g @ ''/kernel/v1/authorize'') (gate_payload L uuid rq) (yg_worker_api_key g) = GateAnswered 200 body \<and>
           signed_allow L P (yg_public_key g) body p \<and> \<not> expiry_passed P (gc_wall t) p)
      else True)"
proof -
  let ?ok = "\<lambda>body. \<exists>p. signed_allow L P (yg_public_key g) body p \<and> \<not> expiry_passed P (gc_wall t) p"
  have good: "?ok body" if "verify_allow L P (yg_public_key g) (gc_wall t) body = Inr ()" for body
    using that by (simp add: verify_allow_iff)
  have bad: "\<not> ?ok body" if "verify_allow L P (yg_public_key g) (gc_wall t) body = Inl e" for body e
    using that by (simp flip: verify_allow_iff)
  have gated: "is_gated g (yq_path rq) \<and> \<not> is_opted_out g rq \<longleftrightarrow>
      (\<exists>p. p \<in> set (yg_gated_prefixes g) \<and> prefix p (yq_path rq)) \<and> \<not> (\<exists>f. yg_opt_out g = Some f \<and> f rq = Some True)"
    by (auto simp: is_gated_def is_opted_out_def list_ex_iff split: option.splits)
  have "fst (py_dispatch L P g post uuid t rq b) = GateForward \<longleftrightarrow>
     (if is_gated g (yq_path rq) \<and> \<not> is_opted_out g rq
      then fst (allow_call (gc_mono_call t) b) \<and> (\<exists>body. gate_call L g post uuid rq = GateAnswered 200 body \<and> ?ok body) else True)"
    using good bad by (auto simp: py_dispatch_def split: prod.splits gate_io.splits sum.splits allow_error.splits if_splits)
  then show ?thesis unfolding gated allow_call_iff gate_call_def by (simp only: ex_simps)
qed

section \<open>Any token of the kernel opens the gate\<close>

definition py_contract :: "libs \<Rightarrow> py_lib \<Rightarrow> bool" where
  "py_contract L P \<longleftrightarrow> (\<forall>bs. py_b64url_decode P (b64url_encode L bs) = Ok bs)"

lemma kernel_token_accepted:
  assumes "b64_contract L" "ed25519_contract L" "py_contract L P" "stable_json L (f claims) \<noteq> []"
    and "pl_json_loads P (as_bytes (stable_json L (f claims))) = Ok (JObject m)" "bt_get m ''expires_at'' = Some (JNumber (Float t))"
    and "\<not> f64_lt t (f64_sub now EXP_LEEWAY_S)"
  shows "check_token L P (verifying_key L sk) now (sign_kernel_token L f claims sk) = Ok ()"
proof -
  let ?p = "b64url_encode L (as_bytes (stable_json L (f claims)))"
  let ?sig = "ed25519_sign L sk (as_bytes ?p)"
  have sig: "length ?sig = SIGNATURE_LENGTH" "ed25519_verify L (verifying_key L sk) (as_bytes ?p) ?sig = Ok ()"
    using assms(2) by (simp_all add: ed25519_contract_def)
  then have "?sig \<noteq> []" by (auto simp: SIGNATURE_LENGTH_def)
  have ne: "?p \<noteq> []" "b64url_encode L ?sig \<noteq> []" "CHR ''.'' \<notin> set (?p @ b64url_encode L ?sig)"
    using assms(1,4) \<open>?sig \<noteq> []\<close> unfolding b64_contract_def by (auto simp: as_bytes_def)
  have ascii: "list_all (\<lambda>c. (of_char c :: nat) < 0x80) ?p"
    using assms(1) by (fastforce simp: b64_contract_def graphic_def list_all_iff)
  have "reject_if_expired P now ?p = Ok ()"
    using assms(3,5,6,7) by (simp add: reject_if_expired_def py_contract_def)
  then show ?thesis
    unfolding check_token_iff sign_kernel_token_def Let_def
    using ne ascii sig(2) assms(3) by (intro exI[of _ ?p] exI[of _ "b64url_encode L ?sig"] exI[of _ ?sig]) (simp add: py_contract_def)
qed

text \<open>C38: the gate checks who signed a token, not what the token says.  The answer of the kernel to an
  operator who rejects a proposal is an ok envelope with a signed token; delivered to the gate within
  its lifetime, it lets any gated request through.\<close>

theorem rejection_opens_gate:
  assumes "b64_contract L" "ed25519_contract L" "py_contract L P" "yg_public_key g = verifying_key L (kc_signing_key cfg)"
    and "fst (reject L cfg env ''operator'' item_id rbody kst) = KJson resp"
    and "gate_call L g post uuid rq = GateAnswered 200 reply" "pl_json_loads P reply = Ok (JObject m)"
    and "bt_get m ''ok'' = Some (JBool (sd_ok resp))" "bt_get m ''token'' = Some (JString (sd_token resp))"
    and "stable_json L (sd_claims resp) \<noteq> []" "pl_json_loads P (as_bytes (stable_json L (sd_claims resp))) = Ok (JObject (sd_claims resp))"
    and "f64_is_finite expiry" "expiry = f64_add (ke_now env) (f64_of_int (max (kc_approval_token_ttl_s cfg) 60))"
    and "\<not> f64_lt expiry (f64_sub (gc_wall t) EXP_LEEWAY_S)" "fst (allow_call (gc_mono_call t) b)"
  shows "sd_decision resp = ''rejected'' \<and> fst (py_dispatch L P g post uuid t rq b) = GateForward"
proof -
  let ?c = "decision_claims L cfg env item_id ''rejected'' (jq_approver rbody) (jq_reason rbody) (jq_proposal_fingerprint rbody)"
  have r: "sd_ok resp" "sd_decision resp = ''rejected''" "sd_token resp = sign_kernel_token L approval_claims_map ?c (kc_signing_key cfg)"
    "sd_claims resp = approval_claims_map ?c"
    using assms(5) by (auto simp: reject_def sign_decision_def Let_def)
  have "bt_get (approval_claims_map ?c) ''expires_at'' = Some (JNumber (Float expiry))"
    using assms(12,13) by (simp add: approval_claims_map_def decision_claims_def json_from_f64_def bt_get_of_list)
  from kernel_token_accepted[where f = approval_claims_map and claims = ?c, OF assms(1-3) assms(10)[unfolded r(4)] assms(11)[unfolded r(4)] this assms(14)]
  have tok: "check_token L P (yg_public_key g) (gc_wall t) (sd_token resp) = Ok ()" by (simp add: r(3) assms(4))
  have "sd_token resp \<noteq> []" by (simp add: r(3) sign_kernel_token_def Let_def)
  then have "verify_allow L P (yg_public_key g) (gc_wall t) reply = Ok ()"
    using assms(7-9) r(1) tok by (simp add: verify_allow_def)
  then show ?thesis using assms(6,15) r(2) by (auto simp: py_dispatch_def split: prod.split)
qed

definition gate_py :: "json btree \<Rightarrow> json btree \<Rightarrow> py_lib" where
  "gate_py envelope claims =
     \<lparr>pl_fromhex = base16_decode, pl_b64decode = (\<lambda>s. base16_decode (takeWhile (\<lambda>c. c \<noteq> CHR ''='') s)),
      pl_json_loads = (\<lambda>bs. Ok (JObject (if bs = [1] then envelope else claims)))\<rparr>"

lemma gate_py_contract: "py_contract (sample_libs v) (gate_py e c)"
proof -
  have "takeWhile (\<lambda>c. c \<noteq> CHR ''='') (base16_encode bs @ replicate n (CHR ''='')) = base16_encode bs" for bs n
    using base16_chars by (subst takeWhile_append2) (auto simp: takeWhile_replicate)
  then show ?thesis by (simp add: py_contract_def py_b64url_decode_def gate_py_def sample_libs_def base16_roundtrip)
qed

definition sample_gate :: py_gate where
  "sample_gate = \<lparr>yg_kernel_url = ''https://kernel'', yg_worker_api_key = ''k'', yg_public_key = 7, yg_gated_prefixes = [''/''], yg_opt_out = None\<rparr>"

definition sample_gate_request :: py_request where
  "sample_gate_request = \<lparr>yq_method = ''POST'', yq_path = ''/run'', yq_query = [], yq_headers = (\<lambda>_. None)\<rparr>"

definition sample_gate_clock :: gate_clock where
  "sample_gate_clock = \<lparr>gc_mono_call = Finite 1, gc_mono_result = Finite 1, gc_wall = Finite 100\<rparr>"

theorem rejection_opens_gate_witness:
  "\<exists>resp P. fst (reject (sample_libs JNull) sample_config
      \<lparr>ke_now = Finite 100, ke_ended_at = Finite 100, ke_nonce = ''n'', ke_uuid = ''u'', ke_tlog = None\<rparr> ''operator'' ''item''
      \<lparr>jq_approver = ''a'', jq_proposal_fingerprint = ''f'', jq_reason = None, jq_metadata = None\<rparr> kernel_state_init) = KJson resp \<and>
    sd_decision resp = ''rejected'' \<and>
    fst (py_dispatch (sample_libs JNull) P sample_gate (\<lambda>_ _ _. GateAnswered 200 [1]) ''u'' sample_gate_clock sample_gate_request
      (py_breaker_new 3 (Finite 10))) = GateForward"
proof -
  let ?L = "sample_libs JNull" and ?env = "\<lparr>ke_now = Finite 100, ke_ended_at = Finite 100, ke_nonce = ''n'', ke_uuid = ''u'', ke_tlog = None\<rparr>"
  let ?body = "\<lparr>jq_approver = ''a'', jq_proposal_fingerprint = ''f'', jq_reason = None, jq_metadata = None\<rparr>"
  obtain resp where resp: "fst (reject ?L sample_config ?env ''operator'' ''item'' ?body kernel_state_init) = KJson resp"
    by (simp add: reject_def sign_decision_def Let_def)
  define envelope where "envelope = [(''ok'', JBool (sd_ok resp)), (''token'', JString (sd_token resp))]"
  define P where "P = gate_py envelope (sd_claims resp)"
  have printed: "stable_json ?L m = ''{}''" for m by (simp add: stable_json_def sample_libs_def)
  have parsed: "pl_json_loads P [1] = Ok (JObject envelope)" "pl_json_loads P (as_bytes (stable_json ?L (sd_claims resp))) = Ok (JObject (sd_claims resp))"
    unfolding printed by (simp_all add: P_def gate_py_def as_bytes_def)
  have fields: "bt_get envelope ''ok'' = Some (JBool (sd_ok resp))" "bt_get envelope ''token'' = Some (JString (sd_token resp))"
    by (simp_all add: envelope_def bt_get_def)
  have contracts: "b64_contract ?L" "ed25519_contract ?L" "py_contract ?L P"
    by (simp_all add: sample_libs_contracts gate_py_contract P_def)
  have key: "yg_public_key sample_gate = verifying_key ?L (kc_signing_key sample_config)"
    by (simp add: sample_gate_def sample_config_def sample_libs_def)
  have expiry: "f64_is_finite (Finite 160)" "Finite 160 = f64_add (ke_now ?env) (f64_of_int (max (kc_approval_token_ttl_s sample_config) 60))"
    "\<not> f64_lt (Finite 160) (f64_sub (gc_wall sample_gate_clock) EXP_LEEWAY_S)"
    using f64_of_rat_int[of 60] f64_add_int[of 100 60] f64_add_int[of 100 "- 60"]
    by (simp_all add: f64_of_int_def sample_config_def sample_gate_clock_def EXP_LEEWAY_S_def f64_sub_def)
  have "gate_call ?L sample_gate (\<lambda>_ _ _. GateAnswered 200 [1]) ''u'' sample_gate_request = GateAnswered 200 [1]" by (simp add: gate_call_def)
  moreover have "fst (allow_call (gc_mono_call sample_gate_clock) (py_breaker_new 3 (Finite 10)))" by (simp add: py_breaker_new_def allow_call_def)
  moreover have "stable_json ?L (sd_claims resp) \<noteq> []" by (simp add: printed)
  ultimately have "sd_decision resp = ''rejected'' \<and>
    fst (py_dispatch ?L P sample_gate (\<lambda>_ _ _. GateAnswered 200 [1]) ''u'' sample_gate_clock sample_gate_request (py_breaker_new 3 (Finite 10))) = GateForward"
    by (intro rejection_opens_gate[OF contracts key resp _ parsed(1) fields _ parsed(2) expiry])
  with resp show ?thesis by blast
qed

section \<open>A lost probe\<close>

lemma lost_probe_stays:
  assumes "pb_state b = PbHalfOpen" "pb_probe_in_flight b" "is_gated g (yq_path rq)" "\<not> is_opted_out g rq"
  shows "py_dispatch L P g post uuid t rq b =
    (GateDeny 503 ''kernel_unavailable'' ''circuit breaker open - kernel treated as unavailable'', b)"
  using assms by (simp add: py_dispatch_def allow_call_def)

definition gate_run :: "libs \<Rightarrow> py_lib \<Rightarrow> py_gate \<Rightarrow> (gate_post \<times> string \<times> gate_clock \<times> py_request) list \<Rightarrow> py_breaker \<Rightarrow> py_breaker" where
  "gate_run L P g rqs b = foldl (\<lambda>b (post, uuid, t, rq). snd (py_dispatch L P g post uuid t rq b)) b rqs"

lemma lost_probe_run:
  assumes "pb_state b = PbHalfOpen" "pb_probe_in_flight b"
  shows "gate_run L P g rqs b = b"
  using assms
proof (induction rqs)
  case (Cons r rqs)
  obtain post uuid t rq where r: "r = (post, uuid, t, rq)" by (cases r)
  have "snd (py_dispatch L P g post uuid t rq b) = b"
    using lost_probe_stays[OF Cons.prems, of g rq] by (cases "is_gated g (yq_path rq) \<and> \<not> is_opted_out g rq") (auto simp: py_dispatch_def)
  then show ?case using Cons by (simp add: gate_run_def r)
qed (simp add: gate_run_def)

text \<open>An exception that the gate does not catch can close it for good.  When the probe of an open
  breaker ends in such an exception (a cancelled task, a token with a character outside ASCII), the
  breaker keeps the probe marked as in flight, and from then on every gated request is refused
  without a call, whatever the kernel would answer and however much time passes.\<close>

theorem lost_probe_closes_gate:
  assumes "pb_state b = PbOpen" "fst (py_dispatch L P g post uuid t rq b) = GateRaise e" "b1 = snd (py_dispatch L P g post uuid t rq b)"
    and "is_gated g (yq_path rq')" "\<not> is_opted_out g rq'"
  shows "py_dispatch L P g post' uuid' t' rq' (gate_run L P g rqs b1) =
    (GateDeny 503 ''kernel_unavailable'' ''circuit breaker open - kernel treated as unavailable'', b1)"
proof -
  have b1: "pb_state b1 = PbHalfOpen \<and> pb_probe_in_flight b1"
    using assms(1-3)
    by (auto simp: py_dispatch_def allow_call_def Let_def split: if_splits gate_io.splits sum.splits allow_error.splits)
  then have "gate_run L P g rqs b1 = b1" by (intro lost_probe_run) simp_all
  then show ?thesis using b1 lost_probe_stays assms(4,5) by simp
qed

theorem lost_probe_closes_gate_witness:
  "let b1 = snd (py_dispatch (sample_libs JNull) (gate_py [] []) sample_gate (\<lambda>_ _ _. GateRaised ''cancelled'') ''u'' sample_gate_clock
      sample_gate_request (py_open (Finite 0) (py_breaker_new 1 (Finite 1)))) in
   py_dispatch (sample_libs JNull) (gate_py [] []) sample_gate (\<lambda>_ _ _. GateAnswered 403 []) ''v'' (sample_gate_clock\<lparr>gc_mono_call := Finite 1000000\<rparr>)
      sample_gate_request b1 =
    (GateDeny 503 ''kernel_unavailable'' ''circuit breaker open - kernel treated as unavailable'', b1)"
proof -
  let ?b = "py_open (Finite 0) (py_breaker_new 1 (Finite 1))" and ?post = "\<lambda>_ _ _. GateRaised ''cancelled''"
  have elapsed: "f64_le (Finite 1) (f64_sub (Finite 1) (Finite 0))" "f64_lt (Finite 0) (Finite 1)"
    using f64_add_int[of 1 0] by (simp_all add: f64_sub_def)
  have gated: "is_gated sample_gate (yq_path sample_gate_request)" "\<not> is_opted_out sample_gate sample_gate_request"
    by (simp_all add: is_gated_def is_opted_out_def sample_gate_def sample_gate_request_def)
  have "pb_state ?b = PbOpen" by (simp add: py_open_def)
  moreover have "fst (py_dispatch (sample_libs JNull) (gate_py [] []) sample_gate ?post ''u'' sample_gate_clock sample_gate_request ?b) = GateRaise ''cancelled''"
    using gated elapsed
    by (simp add: py_dispatch_def allow_call_def py_open_def py_breaker_new_def sample_gate_clock_def gate_call_def Let_def)
  ultimately show ?thesis
    using lost_probe_closes_gate[of ?b "sample_libs JNull" "gate_py [] []" sample_gate ?post "''u''" sample_gate_clock sample_gate_request _ _
        sample_gate_request _ _ _ "[]"] gated
    by (simp add: gate_run_def Let_def)
qed

end
