(* ===== verification/PySpawn.thy ===== *)
theory PySpawn
  imports PyHook
begin

text \<open>
  Propagation of the audit hook to child processes,
  \<^verbatim>\<open>src/py-defense/safety_kernel_defense/subprocess_propagation.py\<close>: the replacement of \<^verbatim>\<open>subprocess.Popen\<close> and the patch of
  \<^verbatim>\<open>multiprocessing.Process.run\<close>.

  An argument list is a list of Python objects.  The result of a spawn is the command line and the
  environment that \<^verbatim>\<open>Popen\<close> receives, with the audit events that were posted before.  \<open>python_cli\<close> is the
  documented reading of a command line by the interpreter: what the child runs first.
\<close>

section \<open>The child's environment\<close>

type_synonym environ = "string \<Rightarrow> string option"

record spawn_host =
  sw_executable :: string
  sw_environ :: environ
  sw_first_word :: "string \<Rightarrow> string option"
  sw_repr :: "string \<Rightarrow> string"

definition ENV_KERNEL_URL :: string where "ENV_KERNEL_URL = ''SAFETY_KERNEL_URL''"
definition ENV_WORKER_API_KEY :: string where "ENV_WORKER_API_KEY = ''SAFETY_KERNEL_WORKER_API_KEY''"
definition ENV_CALLER_SUBJECT :: string where "ENV_CALLER_SUBJECT = ''SAFETY_KERNEL_CALLER_SUBJECT''"
definition ENV_FAIL_CLOSED :: string where "ENV_FAIL_CLOSED = ''SAFETY_KERNEL_FAIL_CLOSED''"

definition REQUIRED_PROPAGATION_VARS :: "string list" where
  "REQUIRED_PROPAGATION_VARS = [ENV_KERNEL_URL, ENV_WORKER_API_KEY, ENV_CALLER_SUBJECT]"

definition is_python_executable :: "spawn_host \<Rightarrow> string \<Rightarrow> bool" where
  "is_python_executable h arg0 \<longleftrightarrow> prefix ''python'' (last (split_on (CHR ''/'') arg0)) \<or> arg0 = sw_executable h"

definition setdefault :: "string \<Rightarrow> string \<Rightarrow> environ \<Rightarrow> environ" where
  "setdefault k v env = (if env k = None then env(k \<mapsto> v) else env)"

definition build_propagation_env :: "spawn_host \<Rightarrow> hook_config option \<Rightarrow> environ option \<Rightarrow> environ" where
  "build_propagation_env h cfg base_env =
     (let new_env = (case base_env of None \<Rightarrow> sw_environ h | Some env \<Rightarrow> env) in
      case cfg of
        None \<Rightarrow> new_env
      | Some c \<Rightarrow>
          setdefault ENV_FAIL_CLOSED (if hk_fail_closed_on_unreachable c then ''1'' else ''0'')
            (setdefault ENV_CALLER_SUBJECT (hk_caller_subject c)
              (setdefault ENV_WORKER_API_KEY (hk_worker_api_key c)
                (setdefault ENV_KERNEL_URL (hk_kernel_url c) new_env))))"

section \<open>The prologue\<close>

definition prologue :: string where
  "prologue =
     ''import safety_kernel_defense as _skd, os as _os; _skd.install_audit_hook('' @
     ''kernel_url=_os.environ['' @ [CHR 0x27] @ ENV_KERNEL_URL @ [CHR 0x27] @ ''], '' @
     ''worker_api_key=_os.environ['' @ [CHR 0x27] @ ENV_WORKER_API_KEY @ [CHR 0x27] @ ''], '' @
     ''caller_subject=_os.environ['' @ [CHR 0x27] @ ENV_CALLER_SUBJECT @ [CHR 0x27] @ ''], '' @
     ''fail_closed_on_unreachable=_os.environ.get('' @ [CHR 0x27] @ ENV_FAIL_CLOSED @ [CHR 0x27] @ '', '' @
     [CHR 0x27] @ ''1'' @ [CHR 0x27] @ '') != '' @ [CHR 0x27] @ ''0'' @ [CHR 0x27] @ '',)''"

fun script_index :: "nat \<Rightarrow> py_obj list \<Rightarrow> nat" where
  "script_index i (PyStr s # rest) =
     (if prefix ''-'' s then (if s \<in> {''-X'', ''-W''} then script_index (i + 2) (tl rest) else script_index (i + 1) rest) else i)"
| "script_index i _ = i"

definition index_of :: "py_obj \<Rightarrow> py_obj list \<Rightarrow> nat" where
  "index_of x xs = length (takeWhile (\<lambda>y. y \<noteq> x) xs)"

definition inject_python_prologue :: "spawn_host \<Rightarrow> py_obj list \<Rightarrow> py_obj list" where
  "inject_python_prologue h args =
     (if length args < 2 then args
      else
        let idx = index_of (PyStr ''-c'') args in
        if PyStr ''-c'' \<in> set (tl args) \<and> idx + 1 < length args
        then args[idx + 1 := PyStr (prologue @ ''; '' @ py_str (args ! (idx + 1)))]
        else
          let script_idx = script_index 1 (tl args) in
          if length args \<le> script_idx then args
          else
            (case args ! script_idx of
               PyStr script \<Rightarrow>
                 take script_idx args @ [PyStr ''-c'', PyStr (prologue @ ''; exec(open('' @ sw_repr h script @ '').read())'')] @
                 drop (script_idx + 1) args
             | _ \<Rightarrow> args))"

section \<open>Spawning\<close>

definition propagation_event :: "hook_config \<Rightarrow> string \<Rightarrow> string \<Rightarrow> json" where
  "propagation_event cfg reason argv0 = JObject (bt_of_list
     [(''event_kind'', JString ''subprocess_propagation_failed''), (''subject'', JString (hk_caller_subject cfg)),
      (''metadata'', JObject (bt_of_list [(''argv0'', JString argv0), (''reason'', JString reason)]))])"

definition emit_propagation_failure_event :: "hook_post \<Rightarrow> hook_config option \<Rightarrow> string \<Rightarrow> string \<Rightarrow> (string, unit) result \<times> json list" where
  "emit_propagation_failure_event post cfg reason argv0 =
     (case cfg of
        None \<Rightarrow> (Ok (), [])
      | Some c \<Rightarrow>
          (case post (hk_kernel_url c @ ''/policy/audit-event'') (propagation_event c reason argv0) (hk_worker_api_key c) of
             PostRaised e \<Rightarrow> (Err e, [propagation_event c reason argv0])
           | _ \<Rightarrow> (Ok (), [propagation_event c reason argv0])))"

datatype popen_args = ShellForm string | ArgList "py_obj list"

datatype spawn = SpawnShell string "environ option" | SpawnArgs "py_obj list" environ

fun join_with :: "string \<Rightarrow> string list \<Rightarrow> string" where
  "join_with sep [] = []"
| "join_with sep [x] = x"
| "join_with sep (x # xs) = x @ sep @ join_with sep xs"

definition wrap_subprocess :: "spawn_host \<Rightarrow> hook_post \<Rightarrow> hook_config option \<Rightarrow> popen_args \<Rightarrow> environ option \<Rightarrow>
    (string, spawn) result \<times> json list" where
  "wrap_subprocess h post cfg args caller_env =
     (case args of
        ShellForm text \<Rightarrow>
          (case if text = [] then Some [] else sw_first_word h text of
             None \<Rightarrow> (Err ''list index out of range'', [])
           | Some argv0 \<Rightarrow>
               apfst (\<lambda>r. res_bind r (\<lambda>_. Ok (SpawnShell text caller_env)))
                 (emit_propagation_failure_event post cfg ''shell_form_invocation'' argv0))
      | ArgList args \<Rightarrow>
          let argv0 = (case args of [] \<Rightarrow> [] | a # _ \<Rightarrow> py_str a);
              missing = (case caller_env of None \<Rightarrow> [] | Some env \<Rightarrow> filter (\<lambda>v. env v = None) REQUIRED_PROPAGATION_VARS);
              (r1, ev1) = (if missing \<noteq> [] then emit_propagation_failure_event post cfg (''env_var_stripped:'' @ join_with '','' missing) argv0
                           else (Ok (), [])) in
          (case r1 of
             Inl e \<Rightarrow> (Err e, ev1)
           | Inr _ \<Rightarrow>
               if is_python_executable h argv0
               then (Ok (SpawnArgs (inject_python_prologue h args) (build_propagation_env h cfg caller_env)), ev1)
               else
                 let (r2, ev2) = emit_propagation_failure_event post cfg ''non_python_child'' argv0 in
                 (res_bind r2 (\<lambda>_. Ok (SpawnArgs args (build_propagation_env h cfg caller_env))), ev1 @ ev2)))"

section \<open>What the child runs\<close>

text \<open>
  The command line of CPython.  Options are read one argument at a time; short options may be written
  together, \<^verbatim>\<open>-c\<close>, \<^verbatim>\<open>-m\<close>, \<^verbatim>\<open>-W\<close> and \<^verbatim>\<open>-X\<close> take the rest of their argument or the next one, and \<^verbatim>\<open>-c\<close> and \<^verbatim>\<open>-m\<close> end the
  options.  Help, the version and an unknown option run no program.
\<close>

datatype child_run = RunSource string | RunFile string | RunModule string | RunStdin | RunNothing

fun arg_text :: "py_obj \<Rightarrow> string" where
  "arg_text (PyBytes bs _) = map (\<lambda>b. char_of (unat b)) bs"
| "arg_text x = py_str x"

definition run_path :: "string list \<Rightarrow> child_run" where
  "run_path args = (case args of [] \<Rightarrow> RunStdin | a # _ \<Rightarrow> if a = ''-'' then RunStdin else RunFile a)"

datatype option_kind = OptCommand | OptModule | OptArgument | OptFlag | OptNone

definition option_kind_of :: "char \<Rightarrow> option_kind" where
  "option_kind_of c =
     (if c = CHR ''c'' then OptCommand else if c = CHR ''m'' then OptModule else if c = CHR ''W'' \<or> c = CHR ''X'' then OptArgument
      else if c \<in> set ''bBdEiIOPqRsStuvx'' then OptFlag else OptNone)"

datatype argument_kind = ArgPath | ArgEnd | ArgLong | ArgExit | ArgShort

definition argument_kind_of :: "string \<Rightarrow> argument_kind" where
  "argument_kind_of a =
     (if a = ''-'' \<or> \<not> prefix ''-'' a then ArgPath else if a = ''--'' then ArgEnd else if a = ''--check-hash-based-pycs'' then ArgLong
      else if prefix ''--'' a then ArgExit else ArgShort)"

fun python_cli :: "string list \<Rightarrow> child_run" and short_options :: "string \<Rightarrow> string list \<Rightarrow> child_run" where
  "python_cli [] = RunStdin"
| "python_cli (a # rest) =
     (case argument_kind_of a of
        ArgPath \<Rightarrow> run_path (a # rest)
      | ArgEnd \<Rightarrow> run_path rest
      | ArgLong \<Rightarrow> python_cli (tl rest)
      | ArgExit \<Rightarrow> RunNothing
      | ArgShort \<Rightarrow> short_options (tl a) rest)"
| "short_options [] rest = python_cli rest"
| "short_options (c # cs) rest =
     (case option_kind_of c of
        OptCommand \<Rightarrow> if cs \<noteq> [] then RunSource cs else if rest = [] then RunNothing else RunSource (hd rest)
      | OptModule \<Rightarrow> if cs \<noteq> [] then RunModule cs else if rest = [] then RunNothing else RunModule (hd rest)
      | OptArgument \<Rightarrow> if cs \<noteq> [] then python_cli rest else if rest = [] then RunNothing else python_cli (tl rest)
      | OptFlag \<Rightarrow> short_options cs rest
      | OptNone \<Rightarrow> RunNothing)"

definition child_run_of :: "py_obj list \<Rightarrow> child_run" where
  "child_run_of args = python_cli (map arg_text (tl args))"

definition child_hooked :: "py_obj list \<Rightarrow> bool" where
  "child_hooked args \<longleftrightarrow> (case child_run_of args of RunSource s \<Rightarrow> prefix prologue s | _ \<Rightarrow> False)"

section \<open>Multiprocessing\<close>

record mp_patch =
  mp_count :: int
  mp_original :: "string option"
  mp_run :: string

definition mp_enter :: "mp_patch \<Rightarrow> mp_patch" where
  "mp_enter p =
     (let p1 = (if mp_count p = 0 then p\<lparr>mp_original := Some (mp_run p), mp_run := ''_patched_run''\<rparr> else p) in
      p1\<lparr>mp_count := mp_count p1 + 1\<rparr>)"

definition mp_exit :: "mp_patch \<Rightarrow> mp_patch" where
  "mp_exit p =
     (let p1 = p\<lparr>mp_count := mp_count p - 1\<rparr> in
      if mp_count p1 = 0 then
        (case mp_original p1 of None \<Rightarrow> p1 | Some run \<Rightarrow> p1\<lparr>mp_run := run\<rparr>)\<lparr>mp_original := None\<rparr>
      else p1)"

definition DEFAULT_KILL_SWITCH_ENV_VAR :: string where "DEFAULT_KILL_SWITCH_ENV_VAR = ''ARYA_AUDIT_HOOK_DISABLED''"

definition patched_run :: "hook_post \<Rightarrow> py_host \<Rightarrow> hook_state \<Rightarrow> hook_state" where
  "patched_run post h st =
     (case hs_config st of
        None \<Rightarrow> st
      | Some cfg \<Rightarrow>
          snd (install_audit_hook post h
            \<lparr>ia_kernel_url = hk_kernel_url cfg, ia_worker_api_key = hk_worker_api_key cfg, ia_caller_subject = hk_caller_subject cfg,
             ia_caller_run_id = None, ia_fail_closed_on_unreachable = hk_fail_closed_on_unreachable cfg,
             ia_timeout_seconds = hk_timeout_seconds cfg, ia_kill_switch_env_var = DEFAULT_KILL_SWITCH_ENV_VAR,
             ia_audited_event_kinds = hk_audited_event_kinds cfg, ia_event_metadata_max_bytes = hk_event_metadata_max_bytes cfg,
             ia_report_preloaded_modules = False\<rparr> st))"

section \<open>Environment\<close>

lemma setdefault_keeps: "env v = Some x \<Longrightarrow> setdefault k d env v = Some x"
  by (auto simp: setdefault_def)

lemma setdefault_other: "v \<noteq> k \<Longrightarrow> setdefault k d env v = env v"
  by (simp add: setdefault_def)

lemma env_names_distinct:
  "distinct [ENV_KERNEL_URL, ENV_WORKER_API_KEY, ENV_CALLER_SUBJECT, ENV_FAIL_CLOSED]"
  by (simp add: ENV_KERNEL_URL_def ENV_WORKER_API_KEY_def ENV_CALLER_SUBJECT_def ENV_FAIL_CLOSED_def)

lemma propagation_env_keeps:
  "(case base_env of None \<Rightarrow> sw_environ h | Some env \<Rightarrow> env) v = Some x \<Longrightarrow> build_propagation_env h cfg base_env v = Some x"
  by (auto simp: build_propagation_env_def Let_def setdefault_keeps split: option.split)

lemma propagation_env_other:
  "v \<notin> {ENV_KERNEL_URL, ENV_WORKER_API_KEY, ENV_CALLER_SUBJECT, ENV_FAIL_CLOSED} \<Longrightarrow>
    build_propagation_env h cfg base_env v = (case base_env of None \<Rightarrow> sw_environ h | Some env \<Rightarrow> env) v"
  by (auto simp: build_propagation_env_def Let_def setdefault_other split: option.split)

lemma propagation_env_complete:
  "v \<in> set REQUIRED_PROPAGATION_VARS \<Longrightarrow> build_propagation_env h (Some c) base_env v \<noteq> None"
  using env_names_distinct by (auto simp: REQUIRED_PROPAGATION_VARS_def build_propagation_env_def Let_def setdefault_def)

section \<open>Children that run the hook\<close>

text \<open>Flags that change neither what the interpreter runs nor what it can import.\<close>

definition plain_flag :: "string \<Rightarrow> bool" where
  "plain_flag a \<longleftrightarrow> a \<in> set [''-b'', ''-B'', ''-d'', ''-O'', ''-OO'', ''-q'', ''-u'', ''-v'']"

lemma script_index_flags:
  "list_all plain_flag opts \<Longrightarrow> script_index i (map PyStr opts @ rest) = script_index (i + length opts) rest"
  by (induction opts arbitrary: i) (auto simp: plain_flag_def)

lemma python_cli_flags: "list_all plain_flag opts \<Longrightarrow> python_cli (opts @ rest) = python_cli rest"
proof (induction opts)
  case (Cons a opts)
  then have "argument_kind_of a = ArgShort" "short_options (tl a) (opts @ rest) = python_cli (opts @ rest)"
    by (auto simp: plain_flag_def argument_kind_of_def option_kind_of_def)
  then show ?case using Cons by simp
qed simp

lemma flags_not_c:
  assumes "list_all plain_flag opts"
  shows "PyStr ''-c'' \<notin> set (map PyStr opts)"
proof
  assume "PyStr ''-c'' \<in> set (map PyStr opts)"
  then have "''-c'' \<in> set opts" by (simp add: image_iff)
  then have "plain_flag ''-c''" using assms unfolding list_all_iff by (rule bspec[rotated])
  then show False unfolding plain_flag_def by simp
qed

lemma inject_script:
  assumes "list_all plain_flag opts" "\<not> prefix ''-'' script" "PyStr ''-c'' \<notin> set rest"
  shows "inject_python_prologue h (py # map PyStr opts @ PyStr script # rest) =
    py # map PyStr opts @ [PyStr ''-c'', PyStr (prologue @ ''; exec(open('' @ sw_repr h script @ '').read())'')] @ rest"
proof -
  have "script_index 1 (map PyStr opts @ PyStr script # rest) = Suc (length opts)"
    using assms(1,2) by (simp add: script_index_flags)
  moreover have "PyStr ''-c'' \<notin> set (map PyStr opts @ PyStr script # rest)"
    using flags_not_c[OF assms(1)] assms(2,3) by auto
  ultimately show ?thesis by (simp add: inject_python_prologue_def Let_def nth_append del: set_map)
qed

lemma wrap_python:
  assumes "is_python_executable h (py_str py)"
  shows "wrap_subprocess h post cfg (ArgList (py # args)) None =
    (Ok (SpawnArgs (inject_python_prologue h (py # args)) (build_propagation_env h cfg None)), [])"
  using assms by (simp add: wrap_subprocess_def Let_def)


section \<open>Children that do not\<close>


section \<open>The caller's environment\<close>

text \<open>The configuration of the hook does not win over the environment.  A caller that passes its own
  values for the three variables starts a child whose hook asks the caller's kernel, and no event is
  posted.\<close>

theorem caller_env_redirects_child:
  assumes "is_python_executable h (py_str py)" "env ENV_KERNEL_URL = Some url" "env ENV_WORKER_API_KEY = Some key" "env ENV_CALLER_SUBJECT = Some sub"
    and "env ENV_FAIL_CLOSED = Some flag"
  shows "\<exists>args' env'. wrap_subprocess h post (Some c) (ArgList (py # args)) (Some env) = (Ok (SpawnArgs args' env'), []) \<and> env' = env"
proof -
  have "build_propagation_env h (Some c) (Some env) = env"
    using assms(2-5) by (simp add: build_propagation_env_def setdefault_def)
  then show ?thesis using assms by (simp add: wrap_subprocess_def Let_def REQUIRED_PROPAGATION_VARS_def)
qed

section \<open>Multiprocessing\<close>

lemma mp_enter_nested:
  assumes "mp_count p = 0"
  shows "mp_run ((mp_enter ^^ Suc n) p) = ''_patched_run'' \<and> mp_original ((mp_enter ^^ Suc n) p) = Some (mp_run p) \<and>
    mp_count ((mp_enter ^^ Suc n) p) = int (Suc n)"
  using assms by (induction n) (auto simp: mp_enter_def Let_def)

lemma mp_exit_nested:
  "mp_count p = int (Suc n) \<Longrightarrow> mp_original p = Some run \<Longrightarrow> mp_run ((mp_exit ^^ Suc n) p) = run \<and> mp_count ((mp_exit ^^ Suc n) p) = 0"
proof (induction n arbitrary: p)
  case (Suc n)
  have "mp_count (mp_exit p) = int (Suc n)" "mp_original (mp_exit p) = Some run"
    using Suc.prems by (auto simp: mp_exit_def Let_def)
  from Suc.IH[OF this] show ?case by (simp add: funpow_swap1)
qed (auto simp: mp_exit_def Let_def)

lemma mp_patch_restored:
  assumes "mp_count p = 0"
  shows "mp_run ((mp_exit ^^ Suc n) ((mp_enter ^^ Suc n) p)) = mp_run p"
  using mp_exit_nested mp_enter_nested[OF assms] by blast

text \<open>In a forked child the hook is armed, so the installation with a fresh run identifier fails and the
  child keeps the configuration of its parent.\<close>

lemma patched_run_keeps_run_id:
  assumes "hs_armed st" "hs_config st = Some cfg" "ph_uuid4_hex h \<noteq> hk_caller_run_id cfg"
  shows "patched_run post h st = st"
proof -
  have "cfg \<noteq> hook_config_of h a" if "ia_caller_run_id a = None" for a
    using that assms(3) by (auto simp: hook_config_of_def)
  then show ?thesis using assms(1,2) by (simp add: patched_run_def install_audit_hook_def Let_def)
qed

section \<open>Examples\<close>

definition sample_spawn_host :: spawn_host where
  "sample_spawn_host = \<lparr>sw_executable = ''/usr/bin/python3'', sw_environ = (\<lambda>_. None), sw_first_word = (\<lambda>s. Some s), sw_repr = (\<lambda>s. CHR 0x27 # s @ [CHR 0x27])\<rparr>"

definition sample_spawn_config :: hook_config where
  "sample_spawn_config = \<lparr>hk_kernel_url = ''https://kernel'', hk_worker_api_key = ''k'', hk_caller_subject = ''w'', hk_caller_run_id = ''r'',
     hk_fail_closed_on_unreachable = True, hk_timeout_seconds = Finite 1, hk_audited_event_kinds = [''import''], hk_event_metadata_max_bytes = 100\<rparr>"

lemma sample_python: "is_python_executable sample_spawn_host (py_str (PyStr ''/usr/bin/python3''))"
  by (simp add: is_python_executable_def sample_spawn_host_def)



theorem caller_env_redirects_child_witness:
  "\<exists>args' env'. wrap_subprocess sample_spawn_host (\<lambda>_ _ _. PostUnreachable []) (Some sample_spawn_config)
      (ArgList [PyStr ''/usr/bin/python3'', PyStr ''job.py'']) (Some (\<lambda>_. Some ''mine'')) = (Ok (SpawnArgs args' env'), []) \<and>
    env' ENV_KERNEL_URL = Some ''mine''"
  using caller_env_redirects_child[OF sample_python, of "\<lambda>_. Some ''mine''" "''mine''" "''mine''" "''mine''" "''mine''"] by fastforce

end
