(* ===== verification/Reconciler.thy ===== *)
theory Reconciler
  imports Middleware
begin

text \<open>
  The image-drift reconciler, \<^verbatim>\<open>src/crates/services/safety-kernel-reconciler/src/reconciler.rs\<close>, and the
  configuration its \<^verbatim>\<open>main.rs\<close> reads.

  What one tick meets outside (registry, manifest server, clock reads, audit sink) is the record
  \<open>reconciler_tick\<close>; the state is the local audit trail and the list of events handed to the
  transparency-log client.  The standard base64 codec, the key decoder and the text of a decoding
  error are the record \<open>reconciler_lib\<close>.
\<close>

section \<open>Configuration and data\<close>

definition DEFAULT_MANIFEST_STALENESS_SECONDS :: nat where
  "DEFAULT_MANIFEST_STALENESS_SECONDS = 7 * 24 * 60 * 60"

definition DEFAULT_INTERVAL_SECONDS :: nat where
  "DEFAULT_INTERVAL_SECONDS = 900"

record reconciler_config =
  rcf_image_repository :: string
  rcf_interval_seconds :: nat
  rcf_manifest_url :: string
  rcf_release_verifying_key :: "256 word"
  rcf_manifest_staleness_seconds :: nat
  rcf_transparency_log_url :: string

record reconciler_lib =
  rl_libs :: libs
  rl_b64_decode :: "string \<Rightarrow> (string, bytes) result"
  rl_key_from_bytes :: "256 word \<Rightarrow> (string, unit) result"
  rl_decode_error :: "json \<Rightarrow> string"

datatype tick_outcome = TickMatch | TickDrift string string

record release_manifest =
  rm_image :: string
  rm_digest :: string
  rm_version :: string
  rm_issued_at :: nat
  rm_signature :: string

definition canonical_signed_bytes :: "libs \<Rightarrow> release_manifest \<Rightarrow> bytes" where
  "canonical_signed_bytes L m = as_bytes (json_to_string L (JObject (bt_of_list
     [(''digest'', JString (rm_digest m)), (''image'', JString (rm_image m)),
      (''issued_at'', JNumber (PosInt (rm_issued_at m))), (''version'', JString (rm_version m))])))"

fun de_release_manifest :: "json \<Rightarrow> release_manifest option" where
  "de_release_manifest (JObject m) = do {
     img \<leftarrow> de_field m ''image'' json_as_str;
     digest \<leftarrow> de_field m ''digest'' json_as_str;
     version \<leftarrow> de_field m ''version'' json_as_str;
     issued_at \<leftarrow> de_field m ''issued_at'' json_as_u64;
     signature \<leftarrow> de_field m ''signature'' json_as_str;
     Some \<lparr>rm_image = img, rm_digest = digest, rm_version = version, rm_issued_at = issued_at, rm_signature = signature\<rparr> }"
| "de_release_manifest (JArray [JString img, JString digest, JString version, JNumber (PosInt issued_at), JString signature]) =
     Some \<lparr>rm_image = img, rm_digest = digest, rm_version = version, rm_issued_at = issued_at, rm_signature = signature\<rparr>"
| "de_release_manifest _ = None"

datatype reconcile_error =
    RegistryError string
  | ManifestFetch string
  | ManifestParse string
  | BadSignature
  | ExpiredManifest nat nat nat
  | ImageMismatch string string

record drift_audit_event =
  de_running_digest :: string
  de_expected_digest :: string
  de_detected_at_epoch_seconds :: nat
  de_image_repository :: string
  de_manifest_version :: string

section \<open>Transports\<close>

text \<open>The request that the HTTP client is given: the endpoint, the headers and the JSON body.\<close>

record drift_request =
  dq_url :: string
  dq_headers :: "(string \<times> string) list"
  dq_body :: json

definition drift_event_json :: "drift_audit_event \<Rightarrow> json" where
  "drift_event_json e = JObject (bt_of_list
     [(''running_digest'', JString (de_running_digest e)), (''expected_digest'', JString (de_expected_digest e)),
      (''detected_at_epoch_seconds'', JNumber (PosInt (de_detected_at_epoch_seconds e))),
      (''image_repository'', JString (de_image_repository e)), (''manifest_version'', JString (de_manifest_version e))])"

definition drift_request_of :: "string \<Rightarrow> drift_audit_event \<Rightarrow> drift_request" where
  "drift_request_of url e =
     \<lparr>dq_url = url, dq_headers = [(''content-type'', ''application/json'')], dq_body = drift_event_json e\<rparr>"

definition post_drift_event :: "(nat \<Rightarrow> string) \<Rightarrow> string \<Rightarrow> (drift_request \<Rightarrow> 'a send_result) \<Rightarrow> drift_audit_event \<Rightarrow> (string, unit) result" where
  "post_drift_event status_text url send event =
     (case send (drift_request_of url event) of
        SendError e \<Rightarrow> Err (''transparency-log POST failed: '' @ e)
      | Response status _ _ \<Rightarrow>
          if \<not> is_success status then Err (''transparency-log returned non-success: '' @ status_text status) else Ok ())"

fun manifest_fetch :: "(nat \<Rightarrow> string) \<Rightarrow> bytes send_result \<Rightarrow> (string, bytes) result" where
  "manifest_fetch status_text (SendError e) = Err (''manifest GET failed: '' @ e)"
| "manifest_fetch status_text (Response status body _) =
     (if \<not> is_success status then Err (''manifest GET returned '' @ status_text status)
      else map_err (\<lambda>e. ''manifest body read failed: '' @ e) body)"

definition fetch_running_digest :: "(string \<Rightarrow> (string, 'r) result) \<Rightarrow> ('r \<Rightarrow> (string, string) result) \<Rightarrow> string \<Rightarrow> (string, string) result" where
  "fetch_running_digest parse_reference fetch_manifest_digest image_ref =
     res_bind (map_err (\<lambda>e. ''invalid image reference '' @ image_ref @ '': '' @ e) (parse_reference image_ref)) (\<lambda>reference.
     map_err (\<lambda>e. ''oci fetch_manifest_digest failed: '' @ e) (fetch_manifest_digest reference))"

section \<open>One tick\<close>

definition strip_tag :: "string \<Rightarrow> string" where
  "strip_tag img = fst (splitn2 (CHR '':'') img)"

definition now_epoch_seconds_u64 :: "f64 \<Rightarrow> nat" where
  "now_epoch_seconds_u64 now =
     (let max_as_f64 = f64_of_nat (2 ^ 64 - 1) in
      if \<not> f64_is_finite now \<or> f64_le now (Finite 0) then 0
      else if f64_le max_as_f64 now then 2 ^ 64 - 1
      else f64_as_u64 now)"

definition verify_manifest :: "reconciler_lib \<Rightarrow> reconciler_config \<Rightarrow> release_manifest \<Rightarrow> (reconcile_error, unit) result" where
  "verify_manifest R cfg m =
     (let canonical = canonical_signed_bytes (rl_libs R) m in
      res_bind (map_err (\<lambda>_. BadSignature) (rl_b64_decode R (rm_signature m))) (\<lambda>sig_bytes.
      if length sig_bytes \<noteq> 64 then Err BadSignature
      else map_err (\<lambda>_. BadSignature) (ed25519_verify (rl_libs R) (rcf_release_verifying_key cfg) canonical sig_bytes)))"

definition check_freshness :: "reconciler_config \<Rightarrow> f64 \<Rightarrow> release_manifest \<Rightarrow> (reconcile_error, unit) result" where
  "check_freshness cfg clock_now m =
     (let now = now_epoch_seconds_u64 clock_now in
      if rm_issued_at m \<le> now \<and> rcf_manifest_staleness_seconds cfg < now - rm_issued_at m
      then Err (ExpiredManifest (rm_issued_at m) now (rcf_manifest_staleness_seconds cfg))
      else Ok ())"

definition check_image :: "reconciler_config \<Rightarrow> release_manifest \<Rightarrow> (reconcile_error, unit) result" where
  "check_image cfg m =
     (let manifest_image = strip_tag (rm_image m); configured = strip_tag (rcf_image_repository cfg) in
      if manifest_image = configured then Ok () else Err (ImageMismatch manifest_image configured))"

record reconciler_tick =
  rt_running :: "(string, string) result"
  rt_manifest :: "(string, bytes) result"
  rt_fresh_at :: f64
  rt_detected_at :: f64
  rt_audit :: "(string, unit) result"

record reconciler_state =
  rcs_audit :: "drift_audit_event list"
  rcs_posted :: "drift_audit_event list"

definition parse_manifest :: "reconciler_lib \<Rightarrow> bytes \<Rightarrow> (reconcile_error, release_manifest) result" where
  "parse_manifest R bs =
     res_bind (map_err ManifestParse (json_from_slice (rl_libs R) bs)) (\<lambda>v.
     ok_or (ManifestParse (rl_decode_error R v)) (de_release_manifest v))"

definition tick_manifest :: "reconciler_lib \<Rightarrow> reconciler_config \<Rightarrow> reconciler_tick \<Rightarrow> (reconcile_error, string \<times> release_manifest) result" where
  "tick_manifest R cfg t =
     res_bind (map_err RegistryError (rt_running t)) (\<lambda>running.
     res_bind (map_err ManifestFetch (rt_manifest t)) (\<lambda>manifest_bytes.
     res_bind (parse_manifest R manifest_bytes) (\<lambda>m.
     res_bind (verify_manifest R cfg m) (\<lambda>_.
     res_bind (check_freshness cfg (rt_fresh_at t) m) (\<lambda>_.
     res_bind (check_image cfg m) (\<lambda>_. Ok (running, m)))))))"

definition drift_event :: "reconciler_tick \<Rightarrow> string \<Rightarrow> release_manifest \<Rightarrow> drift_audit_event" where
  "drift_event t running m =
     \<lparr>de_running_digest = running, de_expected_digest = rm_digest m,
      de_detected_at_epoch_seconds = now_epoch_seconds_u64 (rt_detected_at t),
      de_image_repository = rm_image m, de_manifest_version = rm_version m\<rparr>"

definition tick_once :: "reconciler_lib \<Rightarrow> reconciler_config \<Rightarrow> reconciler_tick \<Rightarrow> reconciler_state \<Rightarrow>
    (reconcile_error, tick_outcome) result \<times> reconciler_state" where
  "tick_once R cfg t st =
     (case tick_manifest R cfg t of
        Inl e \<Rightarrow> (Err e, st)
      | Inr (running, m) \<Rightarrow>
          if running = rm_digest m then (Ok TickMatch, st)
          else
            let event = drift_event t running m in
            (Ok (TickDrift running (rm_digest m)),
             \<lparr>rcs_audit = (case rt_audit t of Inl _ \<Rightarrow> rcs_audit st | Inr _ \<Rightarrow> rcs_audit st @ [event]),
              rcs_posted = rcs_posted st @ [event]\<rparr>))"

text \<open>The loop: each interval runs one tick and continues whatever it returned.\<close>

fun run_ticks :: "reconciler_lib \<Rightarrow> reconciler_config \<Rightarrow> reconciler_tick list \<Rightarrow> reconciler_state \<Rightarrow> reconciler_state" where
  "run_ticks R cfg [] st = st"
| "run_ticks R cfg (t # ts) st = run_ticks R cfg ts (snd (tick_once R cfg t st))"

section \<open>Environment\<close>

definition read_env_or_err :: "(string \<Rightarrow> string option) \<Rightarrow> string \<Rightarrow> (string, string) result" where
  "read_env_or_err env key = ok_or (''missing required env var '' @ key) (env key)"

definition parse_u64_error :: "string \<Rightarrow> string" where
  "parse_u64_error s =
     (let digits = (case s of c # cs \<Rightarrow> if c = CHR ''+'' \<and> cs \<noteq> [] then cs else s | [] \<Rightarrow> s) in
      if s = [] then ''cannot parse integer from empty string''
      else if list_all is_digit digits then ''number too large to fit in target type''
      else ''invalid digit found in string'')"

definition read_env_or_default :: "(string \<Rightarrow> string option) \<Rightarrow> string \<Rightarrow> nat \<Rightarrow> (string, nat) result" where
  "read_env_or_default env key default_value =
     (case env key of
        Some v \<Rightarrow> ok_or (''env '' @ key @ '' must be u64: '' @ parse_u64_error v) (parse_u64 v)
      | None \<Rightarrow> Ok default_value)"

definition load_verifying_key :: "reconciler_lib \<Rightarrow> (string \<Rightarrow> string option) \<Rightarrow> (string, 256 word) result" where
  "load_verifying_key R env =
     res_bind (read_env_or_err env ''QORCH_RECONCILER_RELEASE_KEY_B64'') (\<lambda>b64.
     res_bind (map_err (\<lambda>_. ''QORCH_RECONCILER_RELEASE_KEY_B64 must be base64'') (rl_b64_decode R (str_trim b64))) (\<lambda>bs.
     if length bs \<noteq> 32 then Err ''QORCH_RECONCILER_RELEASE_KEY_B64 must decode to 32 bytes''
     else res_bind (map_err (\<lambda>e. ''invalid Ed25519 verifying key: '' @ e) (rl_key_from_bytes R (of_be_bytes bs))) (\<lambda>_.
       Ok (of_be_bytes bs))))"

definition reconciler_config_from_env :: "reconciler_lib \<Rightarrow> (string \<Rightarrow> string option) \<Rightarrow> (string, reconciler_config) result" where
  "reconciler_config_from_env R env =
     res_bind (read_env_or_err env ''QORCH_RECONCILER_IMAGE'') (\<lambda>img.
     res_bind (read_env_or_default env ''QORCH_RECONCILER_INTERVAL_SECONDS'' DEFAULT_INTERVAL_SECONDS) (\<lambda>interval.
     res_bind (read_env_or_err env ''QORCH_RECONCILER_MANIFEST_URL'') (\<lambda>manifest_url.
     res_bind (load_verifying_key R env) (\<lambda>key.
     res_bind (read_env_or_default env ''QORCH_RECONCILER_MANIFEST_MAX_AGE_SECONDS'' DEFAULT_MANIFEST_STALENESS_SECONDS) (\<lambda>max_age.
     res_bind (read_env_or_err env ''QORCH_RECONCILER_TRANSPARENCY_LOG_URL'') (\<lambda>url.
     Ok \<lparr>rcf_image_repository = img, rcf_interval_seconds = interval, rcf_manifest_url = manifest_url,
         rcf_release_verifying_key = key, rcf_manifest_staleness_seconds = max_age, rcf_transparency_log_url = url\<rparr>))))))"

section \<open>Lemmas\<close>

definition manifest_authentic :: "reconciler_lib \<Rightarrow> reconciler_config \<Rightarrow> release_manifest \<Rightarrow> bool" where
  "manifest_authentic R cfg m \<longleftrightarrow>
     (\<exists>sig. rl_b64_decode R (rm_signature m) = Ok sig \<and> length sig = 64 \<and>
        ed25519_verify (rl_libs R) (rcf_release_verifying_key cfg) (canonical_signed_bytes (rl_libs R) m) sig = Ok ())"

lemma verify_manifest_Ok: "verify_manifest R cfg m = Ok u \<longleftrightarrow> manifest_authentic R cfg m"
  unfolding verify_manifest_def Let_def res_bind_Ok_iff map_err_Ok_iff if_Err_Ok manifest_authentic_def by auto

lemma check_freshness_Ok: "check_freshness cfg now m = Ok u \<longleftrightarrow>
    now_epoch_seconds_u64 now \<le> rm_issued_at m + rcf_manifest_staleness_seconds cfg"
  by (auto simp: check_freshness_def Let_def)

lemma check_image_Ok: "check_image cfg m = Ok u \<longleftrightarrow> strip_tag (rm_image m) = strip_tag (rcf_image_repository cfg)"
  by (simp add: check_image_def Let_def)

lemma tick_manifest_Ok: "tick_manifest R cfg t = Ok (running, m) \<longleftrightarrow>
    rt_running t = Ok running \<and> (\<exists>bs. rt_manifest t = Ok bs \<and> parse_manifest R bs = Ok m) \<and> manifest_authentic R cfg m \<and>
    now_epoch_seconds_u64 (rt_fresh_at t) \<le> rm_issued_at m + rcf_manifest_staleness_seconds cfg \<and>
    strip_tag (rm_image m) = strip_tag (rcf_image_repository cfg)"
  unfolding tick_manifest_def res_bind_Ok_iff map_err_Ok_iff verify_manifest_Ok check_freshness_Ok check_image_Ok by auto

text \<open>A tick reports a match or a drift exactly when the registry and the manifest server answered and the
  manifest parses, carries a signature of the pinned release key over its canonical bytes, is not
  older than the staleness bound and passes the image check.\<close>

lemma tick_decides:
  "fst (tick_once R cfg t st) = Ok out \<longleftrightarrow>
     (\<exists>running m. tick_manifest R cfg t = Ok (running, m) \<and> out = (if running = rm_digest m then TickMatch else TickDrift running (rm_digest m)))"
  by (auto simp: tick_once_def Let_def split: sum.splits)

text \<open>Every event of the trail was detected against an authentic manifest.\<close>

lemma run_ticks_posted:
  "e \<in> set (rcs_posted (run_ticks R cfg ts st)) \<Longrightarrow> e \<in> set (rcs_posted st) \<or>
     (\<exists>t running m. t \<in> set ts \<and> tick_manifest R cfg t = Ok (running, m) \<and> running \<noteq> rm_digest m \<and> e = drift_event t running m)"
proof (induction ts arbitrary: st)
  case (Cons t ts)
  then consider "e \<in> set (rcs_posted (snd (tick_once R cfg t st)))"
    | "\<exists>t running m. t \<in> set ts \<and> tick_manifest R cfg t = Ok (running, m) \<and> running \<noteq> rm_digest m \<and> e = drift_event t running m"
    by auto
  then show ?case
  proof cases
    case 1
    then show ?thesis
      by (auto simp: tick_once_def Let_def split: sum.splits if_splits)
  qed auto
qed simp

lemma strip_tag_port: "CHR '':'' \<notin> set host \<Longrightarrow> strip_tag (host @ CHR '':'' # rest) = host"
  unfolding strip_tag_def by (induction host) (auto simp: case_prod_beta)

text \<open>C29: behind a registry that is addressed with a port, the reconciler judges one image by the manifest of
  another.  The image check cuts both names at the first colon, which is the one before the port, so
  a fresh manifest that the release key signed for any other image of that host is accepted: the
  watched image is reported as matching when its digest is the one of the other image, and as
  drifted otherwise.\<close>

theorem port_registry_accepts_other_image:
  assumes "CHR '':'' \<notin> set host" "rcf_image_repository cfg = host @ '':'' @ watched" "rm_image m = host @ '':'' @ other"
    and "rt_running t = Ok running" "rt_manifest t = Ok bs" "parse_manifest R bs = Ok m"
    and "rl_b64_decode R (rm_signature m) = Ok signature" "length signature = 64"
    and "ed25519_verify (rl_libs R) (rcf_release_verifying_key cfg) (canonical_signed_bytes (rl_libs R) m) signature = Ok ()"
    and "now_epoch_seconds_u64 (rt_fresh_at t) \<le> rm_issued_at m + rcf_manifest_staleness_seconds cfg"
  shows "fst (tick_once R cfg t st) = Ok (if running = rm_digest m then TickMatch else TickDrift running (rm_digest m))"
proof -
  have "manifest_authentic R cfg m" using assms(7-9) by (auto simp: manifest_authentic_def)
  moreover have "strip_tag (rm_image m) = strip_tag (rcf_image_repository cfg)"
    using strip_tag_port[OF assms(1)] by (simp add: assms(2,3))
  ultimately have "tick_manifest R cfg t = Ok (running, m)" using assms(4-6,10) by (auto simp: tick_manifest_Ok)
  then show ?thesis by (auto simp: tick_decides)
qed

definition sample_manifest :: release_manifest where
  "sample_manifest = \<lparr>rm_image = ''registry:5000/other'', rm_digest = ''sha256:aa'', rm_version = ''v1'', rm_issued_at = 100,
     rm_signature = base16_encode (be_bytes (7 :: 256 word) @ be_bytes (7 :: 256 word))\<rparr>"

definition sample_reconciler_lib :: reconciler_lib where
  "sample_reconciler_lib =
     \<lparr>rl_libs = sample_libs (JObject [(''digest'', JString (rm_digest sample_manifest)), (''image'', JString (rm_image sample_manifest)),
        (''issued_at'', JNumber (PosInt 100)), (''signature'', JString (rm_signature sample_manifest)), (''version'', JString ''v1'')]),
      rl_b64_decode = base16_decode, rl_key_from_bytes = (\<lambda>_. Ok ()), rl_decode_error = (\<lambda>_. [])\<rparr>"

definition sample_reconciler_config :: reconciler_config where
  "sample_reconciler_config = \<lparr>rcf_image_repository = ''registry:5000/kernel'', rcf_interval_seconds = 900, rcf_manifest_url = ''https://m'',
     rcf_release_verifying_key = 7, rcf_manifest_staleness_seconds = 604800, rcf_transparency_log_url = ''http://log:9100/v1/append''\<rparr>"

definition sample_reconciler_tick :: reconciler_tick where
  "sample_reconciler_tick = \<lparr>rt_running = Ok ''sha256:aa'', rt_manifest = Ok [], rt_fresh_at = Finite 0, rt_detected_at = Finite 0, rt_audit = Ok ()\<rparr>"

lemma sample_manifest_parsed: "parse_manifest sample_reconciler_lib bs = Ok sample_manifest"
  by (simp add: parse_manifest_def sample_reconciler_lib_def sample_libs_def de_field_def bt_get_def, simp add: sample_manifest_def)

theorem port_registry_accepts_other_image_witness:
  "rcf_image_repository sample_reconciler_config = ''registry:5000/kernel'' \<and> rm_image sample_manifest = ''registry:5000/other'' \<and>
   fst (tick_once sample_reconciler_lib sample_reconciler_config sample_reconciler_tick \<lparr>rcs_audit = [], rcs_posted = []\<rparr>) = Ok TickMatch"
proof -
  have "fst (tick_once sample_reconciler_lib sample_reconciler_config sample_reconciler_tick \<lparr>rcs_audit = [], rcs_posted = []\<rparr>) =
      Ok (if ''sha256:aa'' = rm_digest sample_manifest then TickMatch else TickDrift ''sha256:aa'' (rm_digest sample_manifest))"
    by (rule port_registry_accepts_other_image[OF _ _ _ _ _ sample_manifest_parsed, where host = "''registry''" and watched = "''5000/kernel''" and other = "''5000/other''" and bs = "[]"
          and signature = "be_bytes (7 :: 256 word) @ be_bytes (7 :: 256 word)"])
      (simp_all add: sample_reconciler_config_def sample_reconciler_tick_def sample_reconciler_lib_def sample_libs_def sample_manifest_def
        base16_roundtrip now_epoch_seconds_u64_def)
  then show ?thesis by (simp add: sample_reconciler_config_def sample_manifest_def)
qed

section \<open>The log at the other end\<close>

text \<open>
  The log's key layer (\<^verbatim>\<open>services/transparency-log/src/auth.rs\<close>) in front of any handler, on the request as it was
  sent: the layer reads the path of the URL and the header \<^verbatim>\<open>x-api-key\<close>.  The URL parser is the argument \<open>path_of\<close>.
\<close>

definition log_serves :: "string \<Rightarrow> (string \<Rightarrow> string) \<Rightarrow> (drift_request \<Rightarrow> 's \<Rightarrow> 'a http_reply \<times> 's) \<Rightarrow> drift_request \<Rightarrow> 's \<Rightarrow> 'a http_reply \<times> 's" where
  "log_serves service_key path_of handler rq store =
     tlog_auth_layer service_key (path_of (dq_url rq)) (map_of (dq_headers rq) ''x-api-key'') store (handler rq)"

text \<open>The events of a run, posted in order.\<close>

fun post_events :: "(nat \<Rightarrow> string) \<Rightarrow> string \<Rightarrow> (tlog_error_response + 'a \<Rightarrow> string) \<Rightarrow> (drift_request \<Rightarrow> 's \<Rightarrow> 'a http_reply \<times> 's) \<Rightarrow>
    drift_audit_event list \<Rightarrow> 's \<Rightarrow> (string, unit) result list \<times> 's" where
  "post_events status_text url txt serve [] store = ([], store)"
| "post_events status_text url txt serve (e # es) store =
     (let (reply, store1) = serve (drift_request_of url e) store;
          (rs, store2) = post_events status_text url txt serve es store1 in
      (post_drift_event status_text url (\<lambda>_. deliver txt reply) e # rs, store2))"

text \<open>C30: the drift events never enter the ledger.  The reconciler posts an event without an API key, so for
  an endpoint on any path that the log does not serve publicly, whatever key the log is configured
  with and whatever its handler would do, after any ticks every posted event is refused, the client
  reports an error for each, and the state of the log stays as it was.\<close>

theorem drift_events_always_refused:
  assumes "\<not> tlog_is_public_path (path_of (rcf_transparency_log_url cfg))"
  shows "post_events status_text (rcf_transparency_log_url cfg) txt (log_serves service_key path_of handler) (rcs_posted (run_ticks R cfg ts st)) store =
     (map (\<lambda>_. Err (''transparency-log returned non-success: '' @ status_text (if service_key = [] then 503 else 401)))
        (rcs_posted (run_ticks R cfg ts st)), store)"
proof -
  have refused: "log_serves service_key path_of handler (drift_request_of (rcf_transparency_log_url cfg) e) store =
      (Reply (if service_key = [] then 503 else 401) (Inl (te_simple (if service_key = [] then ''auth_misconfigured'' else ''unauthorized''))), store)" for e
    using assms by (simp add: log_serves_def drift_request_of_def tlog_auth_layer_passes)
  have "post_events status_text (rcf_transparency_log_url cfg) txt (log_serves service_key path_of handler) es store =
     (map (\<lambda>_. Err (''transparency-log returned non-success: '' @ status_text (if service_key = [] then 503 else 401))) es, store)" for es
    by (induction es) (simp_all add: refused post_drift_event_def is_success_def)
  then show ?thesis .
qed

lemma sample_drift:
  "\<exists>e. rcs_posted (run_ticks sample_reconciler_lib sample_reconciler_config [sample_reconciler_tick\<lparr>rt_running := Ok ''sha256:bb''\<rparr>]
     \<lparr>rcs_audit = [], rcs_posted = []\<rparr>) = [e]"
proof -
  have "manifest_authentic sample_reconciler_lib sample_reconciler_config sample_manifest"
    by (simp add: manifest_authentic_def sample_reconciler_lib_def sample_reconciler_config_def sample_manifest_def sample_libs_def base16_roundtrip)
  moreover have "strip_tag (rm_image sample_manifest) = strip_tag (rcf_image_repository sample_reconciler_config)"
    by (simp add: sample_manifest_def sample_reconciler_config_def strip_tag_def)
  moreover have "now_epoch_seconds_u64 (Finite 0) = 0" by (simp add: now_epoch_seconds_u64_def)
  ultimately have "tick_manifest sample_reconciler_lib sample_reconciler_config (sample_reconciler_tick\<lparr>rt_running := Ok ''sha256:bb''\<rparr>) =
      Ok (''sha256:bb'', sample_manifest)"
    using sample_manifest_parsed by (simp add: tick_manifest_Ok sample_reconciler_tick_def)
  moreover have "rm_digest sample_manifest = ''sha256:aa''" by (simp add: sample_manifest_def)
  ultimately show ?thesis by (simp add: tick_once_def Let_def)
qed

theorem drift_events_always_refused_witness:
  "post_events dec_string (rcf_transparency_log_url sample_reconciler_config) (\<lambda>_. [])
     (log_serves ''key'' (\<lambda>_. ''/v1/append'') (\<lambda>_ n. (Reply 200 (Inr ()), n + 1 :: nat)))
     (rcs_posted (run_ticks sample_reconciler_lib sample_reconciler_config [sample_reconciler_tick\<lparr>rt_running := Ok ''sha256:bb''\<rparr>] \<lparr>rcs_audit = [], rcs_posted = []\<rparr>)) 0 =
   ([Err (''transparency-log returned non-success: '' @ dec_string 401)], 0)"
proof -
  obtain e where "rcs_posted (run_ticks sample_reconciler_lib sample_reconciler_config [sample_reconciler_tick\<lparr>rt_running := Ok ''sha256:bb''\<rparr>]
     \<lparr>rcs_audit = [], rcs_posted = []\<rparr>) = [e]" using sample_drift by blast
  with drift_events_always_refused[of "\<lambda>_. ''/v1/append''" sample_reconciler_config dec_string "\<lambda>_. []" "''key''"
      "\<lambda>_ n. (Reply 200 (Inr ()), n + 1 :: nat)" sample_reconciler_lib "[sample_reconciler_tick\<lparr>rt_running := Ok ''sha256:bb''\<rparr>]" "\<lparr>rcs_audit = [], rcs_posted = []\<rparr>" 0]
  show ?thesis by (simp add: tlog_is_public_path_def)
qed

end
