(* ===== verification/Wave.thy ===== *)
theory Wave
  imports TlogClient
begin

text \<open>
  The release ceremony of \<^verbatim>\<open>src/crates/domain/src/wave\<close>: stages and outcomes (\<^verbatim>\<open>stage.rs\<close>), gate surfaces
  (\<^verbatim>\<open>gate_surface.rs\<close>), the data of a wave (\<^verbatim>\<open>context.rs\<close>), roles (\<^verbatim>\<open>roles.rs\<close>), the type-state
  \<^verbatim>\<open>Wave<S>\<close> with its transitions and its checked deserialisation (\<^verbatim>\<open>mod.rs\<close>, \<^verbatim>\<open>verifier.rs\<close>), the learning
  record of a closeout (\<^verbatim>\<open>learning.rs\<close>) and the session records of the transparency log
  (\<^verbatim>\<open>session_record.rs\<close>).

  A \<^verbatim>\<open>Wave<S>\<close> is its fields; that a value has the type \<^verbatim>\<open>Wave<S>\<close> is the inductive predicate \<open>wave_at\<close>,
  with one rule per source of such values: \<^verbatim>\<open>new\<close>, the transition methods, \<^verbatim>\<open>Deserialize\<close> and, for programs that
  make them, assignments to the public fields.  A hash set is a set; where the code iterates over one, the order is a parameter.
\<close>

section \<open>Stages\<close>

datatype wave_stage = Planned | Decomposed | Tested | PurpleTeamed | Accepted | Closed

definition wave_stage_all :: "wave_stage list" where
  "wave_stage_all = [Planned, Decomposed, Tested, PurpleTeamed, Accepted, Closed]"

definition unconditionally_required :: "wave_stage list" where
  "unconditionally_required = [Tested, Accepted, Closed]"

fun stage_rank :: "wave_stage \<Rightarrow> nat" where
  "stage_rank Planned = 0"
| "stage_rank Decomposed = 1"
| "stage_rank Tested = 2"
| "stage_rank PurpleTeamed = 3"
| "stage_rank Accepted = 4"
| "stage_rank Closed = 5"

lemma stage_rank_inj: "stage_rank a = stage_rank b \<longleftrightarrow> a = b"
  by (cases a; cases b) simp_all

instantiation wave_stage :: linorder
begin

definition less_eq_wave_stage :: "wave_stage \<Rightarrow> wave_stage \<Rightarrow> bool" where
  "less_eq_wave_stage a b \<longleftrightarrow> stage_rank a \<le> stage_rank b"

definition less_wave_stage :: "wave_stage \<Rightarrow> wave_stage \<Rightarrow> bool" where
  "less_wave_stage a b \<longleftrightarrow> stage_rank a < stage_rank b"

instance
  by standard (auto simp: less_eq_wave_stage_def less_wave_stage_def stage_rank_inj)

end

fun stage_wire :: "wave_stage \<Rightarrow> string" where
  "stage_wire Planned = ''PLANNED''"
| "stage_wire Decomposed = ''DECOMPOSED''"
| "stage_wire Tested = ''TESTED''"
| "stage_wire PurpleTeamed = ''PURPLE_TEAMED''"
| "stage_wire Accepted = ''ACCEPTED''"
| "stage_wire Closed = ''CLOSED''"

datatype session_outcome = SoPass | SoFail | SoPartial | SoNotTested

fun session_outcome_wire :: "session_outcome \<Rightarrow> string" where
  "session_outcome_wire SoPass = ''PASS''"
| "session_outcome_wire SoFail = ''FAIL''"
| "session_outcome_wire SoPartial = ''PARTIAL''"
| "session_outcome_wire SoNotTested = ''NOT_TESTED''"

section \<open>Gate surfaces\<close>

datatype gate_surface =
  SafetyKernel | Dispatcher | McpBridge | GitHooks | TransparencyLog | CogcoreLanes | PersistenceSchema

fun path_prefixes :: "gate_surface \<Rightarrow> string list" where
  "path_prefixes SafetyKernel = [''crates/safety-kernel/'', ''crates/domain/src/safety'', ''python/safety_kernel/'']"
| "path_prefixes Dispatcher = [''packages/aara/dispatch'', ''crates/application/src/dispatch'']"
| "path_prefixes McpBridge = [''packages/mcp/'', ''crates/adapters/src/mcp'']"
| "path_prefixes GitHooks = [''.claude/hooks/'', ''.githooks/'']"
| "path_prefixes TransparencyLog = [''crates/domain/src/transparency'', ''crates/adapters/src/transparency'']"
| "path_prefixes CogcoreLanes = [''packages/autonomy/cogcore/'', ''crates/application/src/lanes'']"
| "path_prefixes PersistenceSchema = [''alembic/'']"

fun path_suffixes :: "gate_surface \<Rightarrow> string list" where
  "path_suffixes PersistenceSchema = [''_store.py'']"
| "path_suffixes _ = []"

definition gate_surface_all :: "gate_surface list" where
  "gate_surface_all = [SafetyKernel, Dispatcher, McpBridge, GitHooks, TransparencyLog, CogcoreLanes, PersistenceSchema]"

fun wire_name :: "gate_surface \<Rightarrow> string" where
  "wire_name SafetyKernel = ''SafetyKernel''"
| "wire_name Dispatcher = ''Dispatcher''"
| "wire_name McpBridge = ''McpBridge''"
| "wire_name GitHooks = ''GitHooks''"
| "wire_name TransparencyLog = ''TransparencyLog''"
| "wire_name CogcoreLanes = ''CogcoreLanes''"
| "wire_name PersistenceSchema = ''PersistenceSchema''"

text \<open>A \<^verbatim>\<open>BTreeSet<GateSurface>\<close> iterates in declaration order.\<close>

definition surfaces_in_order :: "gate_surface set \<Rightarrow> gate_surface list" where
  "surfaces_in_order S = filter (\<lambda>s. s \<in> S) gate_surface_all"

definition path_touches :: "string \<Rightarrow> gate_surface \<Rightarrow> bool" where
  "path_touches path surface \<longleftrightarrow>
     list_ex (\<lambda>p. prefix p path) (path_prefixes surface) \<or> list_ex (\<lambda>s. suffix s path) (path_suffixes surface)"

definition detect_gate_surfaces :: "string list \<Rightarrow> gate_surface set" where
  "detect_gate_surfaces paths =
     foldl (\<lambda>out raw.
       let path = map (\<lambda>c. if c = CHR 0x5C then CHR ''/'' else c) raw in
       foldl (\<lambda>out surface. if path_touches path surface then insert surface out else out) out gate_surface_all) {} paths"

section \<open>The data of a wave\<close>

datatype uat_outcome = UatPass | UatFail | UatPartial | UatNotTested

record uat_verdict =
  uv_criterion_id :: string
  uv_outcome :: uat_outcome
  uv_evidence :: string

datatype wave_domain =
  Biotech | Telco | OilGas | PharmaManufacturing | Defense | Regulatory | DrugEfficacy | Platform

record wave_phase =
  wp_id :: string
  wp_summary :: string

record wave_context =
  wc_wave_id :: string
  wc_linear_issue :: string
  wc_domain :: wave_domain
  wc_goal_summary :: string
  wc_phases :: "wave_phase list"
  wc_gate_surfaces :: "gate_surface set"
  wc_created_at_epoch :: nat

definition requires_purple_team :: "wave_context \<Rightarrow> bool" where
  "requires_purple_team ctx \<longleftrightarrow> wc_gate_surfaces ctx \<noteq> {}"

datatype wave_role = PLANNER | DECOMPOSER | DEVELOPER | TESTER | PURPLE_TEAMER | UAT_REVIEWER | RELEASER

fun tool_allow_list :: "wave_role \<Rightarrow> string list" where
  "tool_allow_list PLANNER = [''aara.plan'', ''aara.read_doc'', ''aara.search_code'']"
| "tool_allow_list DECOMPOSER = [''aara.team_decompose'', ''aara.role_assign'', ''aara.read_doc'']"
| "tool_allow_list DEVELOPER = [''aara.edit_file'', ''aara.write_file'', ''aara.run_cargo'', ''aara.run_pytest'',
     ''aara.search_code'', ''aara.read_doc'']"
| "tool_allow_list TESTER = [''aara.run_cargo_test'', ''aara.run_pytest'', ''aara.write_fixture'', ''aara.sign_adversarial_record'']"
| "tool_allow_list PURPLE_TEAMER = [''aara.threat_model'', ''aara.run_attack'', ''aara.read_doc'', ''aara.sign_purple_team_record'']"
| "tool_allow_list UAT_REVIEWER = [''aara.read_acceptance_criteria'', ''aara.rederive_evidence'', ''aara.sign_uat_record'']"
| "tool_allow_list RELEASER = [''aara.compose_release_commit'', ''aara.sign_closeout_record'', ''aara.run_release_gate'']"

definition wave_role_all :: "wave_role list" where
  "wave_role_all = [PLANNER, DECOMPOSER, DEVELOPER, TESTER, PURPLE_TEAMER, UAT_REVIEWER, RELEASER]"

record wave_role_assignment =
  ra_role :: wave_role
  ra_agent_id :: string

record wave =
  wv_ctx :: wave_context
  wv_role_assignments :: "wave_role_assignment list"
  wv_adversarial_session :: "string option"
  wv_purple_team_session :: "string option"
  wv_uat_verdicts :: "uat_verdict list option"

section \<open>The audit fields of a state\<close>

datatype wave_audit_fields_error = MissingAdversarialSession | MissingPurpleTeamSession | MissingUatVerdicts

fun finding_code :: "wave_audit_fields_error \<Rightarrow> string" where
  "finding_code MissingAdversarialSession = ''FINDING-D3''"
| "finding_code MissingPurpleTeamSession = ''FINDING-D1''"
| "finding_code MissingUatVerdicts = ''FINDING-D4''"

definition require_adversarial_session :: "wave \<Rightarrow> (wave_audit_fields_error, unit) result" where
  "require_adversarial_session w = (if wv_adversarial_session w = None then Err MissingAdversarialSession else Ok ())"

definition require_purple_team_if_gate_surface :: "wave \<Rightarrow> (wave_audit_fields_error, unit) result" where
  "require_purple_team_if_gate_surface w =
     (if requires_purple_team (wv_ctx w) \<and> wv_purple_team_session w = None then Err MissingPurpleTeamSession else Ok ())"

definition require_uat_verdicts :: "wave \<Rightarrow> (wave_audit_fields_error, unit) result" where
  "require_uat_verdicts w = (if wv_uat_verdicts w = None then Err MissingUatVerdicts else Ok ())"

fun validate_wire_fields :: "wave_stage \<Rightarrow> wave \<Rightarrow> (wave_audit_fields_error, unit) result" where
  "validate_wire_fields Planned w = Ok ()"
| "validate_wire_fields Decomposed w = Ok ()"
| "validate_wire_fields Tested w = require_adversarial_session w"
| "validate_wire_fields PurpleTeamed w =
     res_bind (require_adversarial_session w) (\<lambda>_. require_purple_team_if_gate_surface w)"
| "validate_wire_fields Accepted w =
     res_bind (require_adversarial_session w) (\<lambda>_.
     res_bind (require_purple_team_if_gate_surface w) (\<lambda>_. require_uat_verdicts w))"
| "validate_wire_fields Closed w =
     res_bind (require_adversarial_session w) (\<lambda>_.
     res_bind (require_purple_team_if_gate_surface w) (\<lambda>_. require_uat_verdicts w))"

definition verify_wave_audit_fields :: "wave_stage \<Rightarrow> wave \<Rightarrow> (wave_audit_fields_error, unit) result" where
  "verify_wave_audit_fields s w = validate_wire_fields s w"

definition wave_deserialize :: "wave_stage \<Rightarrow> wave \<Rightarrow> (wave_audit_fields_error, wave) result" where
  "wave_deserialize s wire = res_bind (validate_wire_fields s wire) (\<lambda>_. Ok wire)"

section \<open>Transitions\<close>

definition wave_new :: "wave_context \<Rightarrow> wave" where
  "wave_new ctx = \<lparr>wv_ctx = ctx, wv_role_assignments = [], wv_adversarial_session = None,
     wv_purple_team_session = None, wv_uat_verdicts = None\<rparr>"

definition decompose :: "wave_role_assignment list \<Rightarrow> wave \<Rightarrow> wave" where
  "decompose roles w = w\<lparr>wv_role_assignments := roles\<rparr>"

definition run_adversarial_suite :: "string \<Rightarrow> wave \<Rightarrow> wave" where
  "run_adversarial_suite sid w = w\<lparr>wv_adversarial_session := Some sid\<rparr>"

definition run_purple_team :: "string \<Rightarrow> wave \<Rightarrow> wave" where
  "run_purple_team sid w = w\<lparr>wv_purple_team_session := Some sid\<rparr>"

definition skip_purple_team_if_no_gate_surface :: "wave \<Rightarrow> (wave, wave) result" where
  "skip_purple_team_if_no_gate_surface w =
     (if requires_purple_team (wv_ctx w) then Err w else Ok (w\<lparr>wv_purple_team_session := None\<rparr>))"

definition run_user_acceptance :: "uat_verdict list \<Rightarrow> wave \<Rightarrow> wave" where
  "run_user_acceptance verdicts w = w\<lparr>wv_uat_verdicts := Some verdicts\<rparr>"

section \<open>The learning record\<close>

record wave_phase_record =
  wpr_phase_id :: string
  wpr_summary :: string
  wpr_nano_model_ids :: "string list"
  wpr_duration_seconds :: nat

datatype adversarial_severity = SevLow | SevMedium | SevHigh | SevCritical

record adversarial_finding =
  af_fixture_id :: string
  af_description :: string
  af_gate_id :: string
  af_gate_rejected :: bool
  af_severity :: adversarial_severity
  af_responsible_model_ids :: "string list"

datatype purple_team_verdict = PtPass | PtFinding | PtBlocker

record purple_team_finding =
  ptf_finding_id :: string
  ptf_surface :: string
  ptf_verdict :: purple_team_verdict
  ptf_description :: string

record gate_verdict_summary =
  gv_passed :: nat
  gv_findings :: nat
  gv_blockers :: nat
  gv_gate_ids_fired :: "string list"

record constraint_layer_result =
  clr_accepted :: bool
  clr_constraints_checked :: "string list"
  clr_constraints_violated :: "string list"
  clr_note :: string

datatype wave_outcome = WavePass | WavePartial | WaveFail

fun to_fsrs_u8 :: "wave_outcome \<Rightarrow> nat" where
  "to_fsrs_u8 WavePass = 2"
| "to_fsrs_u8 WavePartial = 1"
| "to_fsrs_u8 WaveFail = 0"

record wave_learning_record =
  wl_wave_id :: string
  wl_linear_issue :: string
  wl_domain :: wave_domain
  wl_goal_summary :: string
  wl_adversarial_session :: string
  wl_purple_team_session :: "string option"
  wl_phases_executed :: "wave_phase_record list"
  wl_gate_verdicts :: gate_verdict_summary
  wl_adversarial_findings :: "adversarial_finding list"
  wl_purple_team_findings :: "purple_team_finding list"
  wl_uat_verdicts :: "uat_verdict list"
  wl_constraint_layer_result :: constraint_layer_result
  wl_outcome :: wave_outcome
  wl_duration_seconds :: nat
  wl_closed_at_epoch :: nat

definition LTP_SUMMARY_MAX_CHARS :: nat where "LTP_SUMMARY_MAX_CHARS = 200"

definition all_nano_model_ids :: "wave_learning_record \<Rightarrow> string list" where
  "all_nano_model_ids r =
     foldl (\<lambda>out i. if i \<in> set out then out else out @ [i]) [] (concat (map wpr_nano_model_ids (wl_phases_executed r)))"

text \<open>The code points that the function folds, on the UTF-8 bytes of the string.\<close>

fun sanitize_inline :: "string \<Rightarrow> string" where
  "sanitize_inline [] = []"
| "sanitize_inline (c # cs) =
     (if c \<in> {CHR 0x0A, CHR 0x0D, CHR 0x0B, CHR 0x0C} then CHR '' '' # sanitize_inline cs
      else if c = CHR 0xC2 \<and> take 1 cs = [CHR 0x85] then CHR '' '' # sanitize_inline (drop 1 cs)
      else if c = CHR 0xE2 \<and> (take 2 cs = [CHR 0x80, CHR 0xA8] \<or> take 2 cs = [CHR 0x80, CHR 0xA9])
      then CHR '' '' # sanitize_inline (drop 2 cs)
      else c # sanitize_inline cs)"

fun wave_domain_debug :: "wave_domain \<Rightarrow> string" where
  "wave_domain_debug Biotech = ''Biotech''"
| "wave_domain_debug Telco = ''Telco''"
| "wave_domain_debug OilGas = ''OilGas''"
| "wave_domain_debug PharmaManufacturing = ''PharmaManufacturing''"
| "wave_domain_debug Defense = ''Defense''"
| "wave_domain_debug Regulatory = ''Regulatory''"
| "wave_domain_debug DrugEfficacy = ''DrugEfficacy''"
| "wave_domain_debug Platform = ''Platform''"

fun wave_outcome_label :: "wave_outcome \<Rightarrow> string" where
  "wave_outcome_label WavePass = ''PASS''"
| "wave_outcome_label WavePartial = ''PARTIAL''"
| "wave_outcome_label WaveFail = ''FAIL''"

definition to_ltp_summary :: "wave_learning_record \<Rightarrow> string" where
  "to_ltp_summary r =
     truncate_chars (''- '' @ wl_wave_id r @ '' ['' @ wave_domain_debug (wl_domain r) @ ''] '' @ wave_outcome_label (wl_outcome r) @
       '': '' @ sanitize_inline (wl_goal_summary r) @ '' (gates p/f/b='' @ dec_string (gv_passed (wl_gate_verdicts r)) @ ''/'' @
       dec_string (gv_findings (wl_gate_verdicts r)) @ ''/'' @ dec_string (gv_blockers (wl_gate_verdicts r)) @ '')'')
       LTP_SUMMARY_MAX_CHARS"

definition closeout_outcome :: "gate_verdict_summary \<Rightarrow> purple_team_finding list \<Rightarrow> uat_verdict list \<Rightarrow> constraint_layer_result \<Rightarrow> wave_outcome" where
  "closeout_outcome gv ptf uat clr =
     (let has_blocker = (0 < gv_blockers gv \<or> list_ex (\<lambda>f. ptf_verdict f = PtBlocker) ptf \<or> \<not> clr_accepted clr);
          has_uat_fail = list_ex (\<lambda>v. uv_outcome v = UatFail) uat;
          has_partial = (0 < gv_findings gv \<or> list_ex (\<lambda>v. uv_outcome v = UatPartial) uat) in
      if has_blocker \<or> has_uat_fail then WaveFail else if has_partial then WavePartial else WavePass)"

definition closeout :: "(gate_surface set \<Rightarrow> gate_surface list) \<Rightarrow> nat \<Rightarrow> wave \<Rightarrow> wave \<times> wave_learning_record" where
  "closeout iteration closed_at_epoch w =
     (let adversarial_session = (case wv_adversarial_session w of None \<Rightarrow> [] | Some s \<Rightarrow> s);
          phases_executed = map (\<lambda>p. \<lparr>wpr_phase_id = wp_id p, wpr_summary = wp_summary p, wpr_nano_model_ids = [],
            wpr_duration_seconds = 0\<rparr>) (wc_phases (wv_ctx w));
          gate_verdicts = \<lparr>gv_passed = min (card (wc_gate_surfaces (wv_ctx w))) (2 ^ 32 - 1), gv_findings = 0, gv_blockers = 0,
            gv_gate_ids_fired = map wire_name (iteration (wc_gate_surfaces (wv_ctx w)))\<rparr>;
          constraints = \<lparr>clr_accepted = True, clr_constraints_checked = [], clr_constraints_violated = [],
            clr_note = ''domain-layer closeout; constraints evaluated by adapter''\<rparr>;
          uat = (case wv_uat_verdicts w of None \<Rightarrow> [] | Some vs \<Rightarrow> vs);
          learned = \<lparr>wl_wave_id = wc_wave_id (wv_ctx w), wl_linear_issue = wc_linear_issue (wv_ctx w), wl_domain = wc_domain (wv_ctx w),
            wl_goal_summary = wc_goal_summary (wv_ctx w), wl_adversarial_session = adversarial_session,
            wl_purple_team_session = wv_purple_team_session w, wl_phases_executed = phases_executed, wl_gate_verdicts = gate_verdicts,
            wl_adversarial_findings = [], wl_purple_team_findings = [], wl_uat_verdicts = uat,
            wl_constraint_layer_result = constraints, wl_outcome = closeout_outcome gate_verdicts [] uat constraints,
            wl_duration_seconds = closed_at_epoch - wc_created_at_epoch (wv_ctx w), wl_closed_at_epoch = closed_at_epoch\<rparr>
      in (w, learned))"

section \<open>The type-state\<close>

text \<open>
  The values of type \<^verbatim>\<open>Wave<S>\<close> that a program can hold.  The data fields of \<^verbatim>\<open>Wave<S>\<close> and of its context are
  public: only the marker of the state is private.  The flag says whether the program also assigns
  to fields; without it, values come from the constructor, the transition methods and the
  deserialisation alone.
\<close>

inductive wave_at :: "bool \<Rightarrow> wave_stage \<Rightarrow> wave \<Rightarrow> bool" for assigns where
  at_new: "wave_at assigns Planned (wave_new ctx)"
| at_decompose: "wave_at assigns Planned w \<Longrightarrow> wave_at assigns Decomposed (decompose roles w)"
| at_test: "wave_at assigns Decomposed w \<Longrightarrow> wave_at assigns Tested (run_adversarial_suite sid w)"
| at_purple_team: "wave_at assigns Tested w \<Longrightarrow> wave_at assigns PurpleTeamed (run_purple_team sid w)"
| at_skip: "wave_at assigns Tested w \<Longrightarrow> skip_purple_team_if_no_gate_surface w = Ok w' \<Longrightarrow> wave_at assigns PurpleTeamed w'"
| at_skip_refused: "wave_at assigns Tested w \<Longrightarrow> skip_purple_team_if_no_gate_surface w = Err w' \<Longrightarrow> wave_at assigns Tested w'"
| at_accept: "wave_at assigns PurpleTeamed w \<Longrightarrow> wave_at assigns Accepted (run_user_acceptance verdicts w)"
| at_close: "wave_at assigns Accepted w \<Longrightarrow> wave_at assigns Closed (fst (closeout iteration closed_at w))"
| at_deserialize: "wave_deserialize s wire = Ok w \<Longrightarrow> wave_at assigns s w"
| at_assign: "assigns \<Longrightarrow> wave_at assigns s w \<Longrightarrow>
    wave_at assigns s \<lparr>wv_ctx = ctx, wv_role_assignments = roles, wv_adversarial_session = adv, wv_purple_team_session = pt, wv_uat_verdicts = uat\<rparr>"

inductive_cases wave_atE: "wave_at assigns s w"

section \<open>Session records\<close>

record wave_session_record =
  wr_evidence :: string
  wr_gate_surfaces :: "gate_surface set"
  wr_linear_issue :: string
  wr_occurred_at_epoch_seconds :: nat
  wr_outcome :: session_outcome
  wr_session_id :: string
  wr_stage :: wave_stage
  wr_wave_id :: string
  wr_written_by :: string

definition session_record_json :: "wave_session_record \<Rightarrow> json" where
  "session_record_json r = JObject (bt_of_list
     [(''evidence'', JString (wr_evidence r)),
      (''gate_surfaces'', JArray (map (JString \<circ> wire_name) (surfaces_in_order (wr_gate_surfaces r)))),
      (''linear_issue'', JString (wr_linear_issue r)),
      (''occurred_at_epoch_seconds'', JNumber (PosInt (wr_occurred_at_epoch_seconds r))),
      (''outcome'', JString (session_outcome_wire (wr_outcome r))), (''session_id'', JString (wr_session_id r)),
      (''stage'', JString (stage_wire (wr_stage r))), (''wave_id'', JString (wr_wave_id r)),
      (''written_by'', JString (wr_written_by r))])"

definition canonical_bytes :: "libs \<Rightarrow> wave_session_record \<Rightarrow> bytes" where
  "canonical_bytes L r = as_bytes (json_to_string L (session_record_json r))"

definition idempotency_preimage :: "string \<Rightarrow> wave_stage \<Rightarrow> string \<Rightarrow> bytes" where
  "idempotency_preimage wave_id stage session_id =
     as_bytes wave_id @ [0x1F] @ as_bytes (stage_wire stage) @ [0x1F] @ as_bytes session_id"

definition idempotency_key :: "libs \<Rightarrow> string \<Rightarrow> wave_stage \<Rightarrow> string \<Rightarrow> hash32" where
  "idempotency_key L wave_id stage session_id = sha256 L (idempotency_preimage wave_id stage session_id)"

definition record_idempotency_key :: "libs \<Rightarrow> wave_session_record \<Rightarrow> hash32" where
  "record_idempotency_key L r = idempotency_key L (wr_wave_id r) (wr_stage r) (wr_session_id r)"

definition all_required_stages_present :: "wave_session_record list \<Rightarrow> bool" where
  "all_required_stages_present records =
     (let present = set (map wr_stage records) in
      if \<not> list_all (\<lambda>s. s \<in> present) unconditionally_required then False
      else if list_ex (\<lambda>r. wr_gate_surfaces r \<noteq> {}) records \<and> PurpleTeamed \<notin> present then False
      else True)"

text \<open>The derived decoding, with unknown fields denied.\<close>

definition de_enum :: "('a \<Rightarrow> string) \<Rightarrow> 'a list \<Rightarrow> json \<Rightarrow> 'a option" where
  "de_enum wire variants v = Option.bind (de_variant v) (\<lambda>s. find (\<lambda>x. wire x = s) variants)"

fun de_list :: "(json \<Rightarrow> 'a option) \<Rightarrow> json list \<Rightarrow> 'a list option" where
  "de_list f [] = Some []"
| "de_list f (v # vs) = Option.bind (f v) (\<lambda>x. Option.bind (de_list f vs) (\<lambda>xs. Some (x # xs)))"

fun de_surfaces :: "json \<Rightarrow> gate_surface set option" where
  "de_surfaces (JArray vs) = map_option set (de_list (de_enum wire_name gate_surface_all) vs)"
| "de_surfaces _ = None"

definition SESSION_FIELDS :: "string list" where
  "SESSION_FIELDS = [''evidence'', ''gate_surfaces'', ''linear_issue'', ''occurred_at_epoch_seconds'', ''outcome'', ''session_id'',
     ''stage'', ''wave_id'', ''written_by'']"

definition de_session_fields :: "json btree \<Rightarrow> wave_session_record option" where
  "de_session_fields m = do {
     evidence \<leftarrow> de_field m ''evidence'' json_as_str;
     surfaces \<leftarrow> de_field m ''gate_surfaces'' de_surfaces;
     issue \<leftarrow> de_field m ''linear_issue'' json_as_str;
     occurred \<leftarrow> de_field m ''occurred_at_epoch_seconds'' json_as_u64;
     outcome \<leftarrow> de_field m ''outcome'' (de_enum session_outcome_wire [SoPass, SoFail, SoPartial, SoNotTested]);
     session \<leftarrow> de_field m ''session_id'' json_as_str;
     stage \<leftarrow> de_field m ''stage'' (de_enum stage_wire wave_stage_all);
     wave_id \<leftarrow> de_field m ''wave_id'' json_as_str;
     written_by \<leftarrow> de_field m ''written_by'' json_as_str;
     Some \<lparr>wr_evidence = evidence, wr_gate_surfaces = surfaces, wr_linear_issue = issue, wr_occurred_at_epoch_seconds = occurred,
       wr_outcome = outcome, wr_session_id = session, wr_stage = stage, wr_wave_id = wave_id, wr_written_by = written_by\<rparr> }"

fun de_session_record :: "json \<Rightarrow> wave_session_record option" where
  "de_session_record (JObject m) = (if set (map fst m) \<subseteq> set SESSION_FIELDS then de_session_fields m else None)"
| "de_session_record (JArray vs) =
     (if length vs = length SESSION_FIELDS then de_session_fields (bt_of_list (zip SESSION_FIELDS vs)) else None)"
| "de_session_record _ = None"

section \<open>Lemmas: stages and surfaces\<close>

lemma stage_less [simp]:
  "Tested \<le> s \<longleftrightarrow> s \<in> {Tested, PurpleTeamed, Accepted, Closed}" "PurpleTeamed \<le> s \<longleftrightarrow> s \<in> {PurpleTeamed, Accepted, Closed}"
  "Accepted \<le> s \<longleftrightarrow> s \<in> {Accepted, Closed}"
  by (cases s; simp add: less_eq_wave_stage_def)+

lemma gate_surface_all_complete [simp]: "s \<in> set gate_surface_all"
  by (cases s) (simp_all add: gate_surface_all_def)

lemma set_surfaces_in_order [simp]: "set (surfaces_in_order S) = S"
  by (auto simp: surfaces_in_order_def)

lemma detect_step:
  "foldl (\<lambda>out surface. if P surface then insert surface out else out) out xs = out \<union> {s \<in> set xs. P s}"
  by (induction xs arbitrary: out) auto

definition forward_slashes :: "string \<Rightarrow> string" where
  "forward_slashes raw = map (\<lambda>c. if c = CHR 0x5C then CHR ''/'' else c) raw"

lemma detect_gate_surfaces_iff:
  "s \<in> detect_gate_surfaces paths \<longleftrightarrow> (\<exists>raw\<in>set paths. path_touches (forward_slashes raw) s)"
proof -
  have "foldl (\<lambda>out raw. let path = forward_slashes raw in
      foldl (\<lambda>out surface. if path_touches path surface then insert surface out else out) out gate_surface_all) out paths =
    out \<union> {s. \<exists>raw\<in>set paths. path_touches (forward_slashes raw) s}" for out
    by (induction paths arbitrary: out) (auto simp: detect_step Let_def)
  from this[of "{}"] show ?thesis by (simp add: detect_gate_surfaces_def forward_slashes_def)
qed

lemma detect_monotone: "set ps \<subseteq> set qs \<Longrightarrow> detect_gate_surfaces ps \<subseteq> detect_gate_surfaces qs"
  by (simp add: subset_iff detect_gate_surfaces_iff) blast

text \<open>The kernel and the log of this repository live under \<^verbatim>\<open>crates/services\<close>, which no prefix covers.\<close>

lemma services_not_detected:
  "detect_gate_surfaces [''crates/services/safety-kernel/src/main.rs'', ''crates/services/transparency-log/src/auth.rs'',
     ''crates/services/safety-kernel-reaper/src/reaper.rs'', ''crates/adapters/transparency_store/src/memory.rs''] = {}"
proof -
  have "\<not> path_touches (forward_slashes raw) s"
    if "raw \<in> {''crates/services/safety-kernel/src/main.rs'', ''crates/services/transparency-log/src/auth.rs'',
      ''crates/services/safety-kernel-reaper/src/reaper.rs'', ''crates/adapters/transparency_store/src/memory.rs''}" for raw s
    using that by (cases s) (auto simp: path_touches_def forward_slashes_def suffix_to_prefix)
  then show ?thesis by (simp add: set_eq_iff detect_gate_surfaces_iff)
qed

section \<open>Lemmas: the type-state\<close>

definition audited :: "wave_stage \<Rightarrow> wave \<Rightarrow> bool" where
  "audited s w \<longleftrightarrow> (Tested \<le> s \<longrightarrow> wv_adversarial_session w \<noteq> None) \<and>
     (PurpleTeamed \<le> s \<and> wc_gate_surfaces (wv_ctx w) \<noteq> {} \<longrightarrow> wv_purple_team_session w \<noteq> None) \<and>
     (Accepted \<le> s \<longrightarrow> wv_uat_verdicts w \<noteq> None)"

lemma validate_iff: "validate_wire_fields s w = Ok u \<longleftrightarrow> audited s w"
  by (cases s) (auto simp: audited_def require_adversarial_session_def require_purple_team_if_gate_surface_def
      require_uat_verdicts_def requires_purple_team_def)

lemma deserialize_iff: "wave_deserialize s wire = Ok w \<longleftrightarrow> audited s wire \<and> w = wire"
  unfolding wave_deserialize_def res_bind_Ok_iff validate_iff by auto

lemma wave_at_audited: "wave_at False s w \<Longrightarrow> audited s w"
proof (induction rule: wave_at.induct)
  case (at_deserialize s wire w)
  then show ?case by (simp add: deserialize_iff)
qed (auto simp: audited_def wave_new_def decompose_def run_adversarial_suite_def run_purple_team_def run_user_acceptance_def
    skip_purple_team_if_no_gate_surface_def requires_purple_team_def closeout_def Let_def split: if_splits)

lemma every_stage_inhabited: "\<exists>w. wave_at assigns s w"
proof -
  have "\<exists>w. audited s w"
    by (rule exI[of _ "\<lparr>wv_ctx = ctx, wv_role_assignments = [], wv_adversarial_session = Some [], wv_purple_team_session = Some [], wv_uat_verdicts = Some []\<rparr>" for ctx])
      (simp add: audited_def)
  then show ?thesis using at_deserialize[of s _ _ assigns] by (auto simp: deserialize_iff)
qed

text \<open>C31: what the type-state guarantees.  The values of type Wave<S> that the constructor, the transition
  methods and the checked deserialisation can produce, in any order, are exactly those whose audit
  fields fit the state: an adversarial session from Tested on, a purple-team session from
  PurpleTeamed on when a gate surface is touched, verdicts from Accepted on; they are also exactly
  the values that survive being written and read back at their own state.  This holds only for
  programs that do not assign to the public fields: with such assignments every combination of
  fields is a value of every state, a closed wave without verdicts included, although it cannot be
  read back.\<close>

theorem typestate_audited:
  "(wave_at False s w \<longleftrightarrow>
     (Tested \<le> s \<longrightarrow> wv_adversarial_session w \<noteq> None) \<and>
     (PurpleTeamed \<le> s \<and> wc_gate_surfaces (wv_ctx w) \<noteq> {} \<longrightarrow> wv_purple_team_session w \<noteq> None) \<and>
     (Accepted \<le> s \<longrightarrow> wv_uat_verdicts w \<noteq> None)) \<and>
   (wave_at False s w \<longleftrightarrow> wave_deserialize s w = Ok w) \<and> wave_at True s w"
proof -
  have "wave_at False s w \<longleftrightarrow> audited s w"
    using wave_at_audited at_deserialize[of s w w] by (auto simp: deserialize_iff)
  moreover obtain w0 where "wave_at True s w0" using every_stage_inhabited by blast
  then have "wave_at True s w"
    using at_assign[of True s w0 "wv_ctx w" "wv_role_assignments w" "wv_adversarial_session w" "wv_purple_team_session w" "wv_uat_verdicts w"]
    by (cases w) simp
  ultimately show ?thesis by (simp only: audited_def[symmetric] deserialize_iff simp_thms)
qed

definition sample_wave_context :: wave_context where
  "sample_wave_context = \<lparr>wc_wave_id = ''wave-1'', wc_linear_issue = ''X-1'', wc_domain = Platform, wc_goal_summary = ''demo'',
     wc_phases = [], wc_gate_surfaces = {SafetyKernel}, wc_created_at_epoch = 10\<rparr>"

definition sample_closed_wave :: wave where
  "sample_closed_wave = fst (closeout surfaces_in_order 20 (run_user_acceptance []
     (run_purple_team ''pt-1'' (run_adversarial_suite ''adv-1'' (decompose [] (wave_new sample_wave_context))))))"

theorem typestate_audited_witness:
  "wave_at False Closed sample_closed_wave \<and> wave_deserialize Closed sample_closed_wave = Ok sample_closed_wave \<and>
   wv_purple_team_session sample_closed_wave \<noteq> None \<and> \<not> wave_at False Tested (wave_new sample_wave_context) \<and>
   \<not> wave_at False Closed (sample_closed_wave\<lparr>wv_uat_verdicts := None\<rparr>) \<and> wave_at True Closed (sample_closed_wave\<lparr>wv_uat_verdicts := None\<rparr>)"
proof -
  have "wave_at False Closed sample_closed_wave"
    unfolding sample_closed_wave_def by (intro wave_at.intros)
  then show ?thesis
    using typestate_audited[of Closed sample_closed_wave] typestate_audited[of Closed "sample_closed_wave\<lparr>wv_uat_verdicts := None\<rparr>"]
      typestate_audited[of Tested "wave_new sample_wave_context"]
    by (auto simp: wave_new_def sample_closed_wave_def closeout_def sample_wave_context_def Let_def decompose_def
        run_adversarial_suite_def run_purple_team_def run_user_acceptance_def)
qed

section \<open>Lemmas: the learning record\<close>

lemma closeout_outcome_simple:
  "wl_outcome (snd (closeout iteration t w)) =
     (let uat = (case wv_uat_verdicts w of None \<Rightarrow> [] | Some vs \<Rightarrow> vs) in
      if list_ex (\<lambda>v. uv_outcome v = UatFail) uat then WaveFail
      else if list_ex (\<lambda>v. uv_outcome v = UatPartial) uat then WavePartial else WavePass)"
  by (simp add: closeout_def closeout_outcome_def Let_def)

text \<open>Criteria that were never attempted do not keep a wave from passing.\<close>

lemma untested_wave_passes:
  assumes "wv_uat_verdicts w = Some vs" "list_all (\<lambda>v. uv_outcome v = UatNotTested) vs"
  shows "wl_outcome (snd (closeout iteration t w)) = WavePass"
  using assms by (auto simp: closeout_outcome_simple Let_def list_ex_iff list_all_iff)

lemma all_nano_model_ids_spec:
  "distinct (all_nano_model_ids r) \<and>
   set (all_nano_model_ids r) = (\<Union>p\<in>set (wl_phases_executed r). set (wpr_nano_model_ids p))"
proof -
  have "distinct out \<Longrightarrow> distinct (foldl (\<lambda>out i. if i \<in> set out then out else out @ [i]) out xs) \<and>
      set (foldl (\<lambda>out i. if i \<in> set out then out else out @ [i]) out xs) = set out \<union> set xs" for out xs :: "string list"
    by (induction xs arbitrary: out) auto
  from this[of "[]"] show ?thesis by (auto simp: all_nano_model_ids_def)
qed

abbreviation "LF \<equiv> CHR 0x0A"

lemma sanitize_no_LF: "LF \<notin> set (sanitize_inline s)"
  by (induction s rule: sanitize_inline.induct) auto

lemma take_chars_append_LF:
  assumes "LF \<notin> set rest"
  shows "LF \<in> set (take_chars n (s @ rest)) \<longleftrightarrow> LF \<in> set (take_chars n s)"
  using assms
proof (induction n s rule: take_chars.induct)
  case (1 n)
  have "set (take_chars n rest) \<subseteq> set rest" by (induction n rest rule: take_chars.induct) auto
  with 1 show ?case by auto
qed auto

lemma dec_string_no_LF: "LF \<notin> set (dec_string n)"
proof -
  have "c \<in> set (dec_string n) \<Longrightarrow> is_digit c" for c
    using dec_string_digits[of n] by (auto simp: list_all_iff)
  then show ?thesis by (force simp: is_digit_def)
qed

lemma take_chars_all: "length (filter is_char_start s) \<le> n \<Longrightarrow> take_chars n s = s"
  by (induction n s rule: take_chars.induct) (auto simp: Suc_le_eq)

lemma take_chars_count: "length (filter is_char_start (take_chars n s)) \<le> n"
  by (induction n s rule: take_chars.induct) auto

lemma truncate_is_take: "truncate_chars s n = take_chars n s"
  by (simp add: truncate_chars_def take_chars_all)

lemma take_chars_dash: "take_chars 200 (''- '' @ xs) = ''- '' @ take_chars 198 xs"
  by (simp add: is_char_start_def)

text \<open>The summary line of the memory index has at most 200 characters, and it contains a line break
  exactly when the wave identifier has one among its first 198 characters: the goal is sanitised,
  the identifier is not.\<close>

theorem ltp_summary_line:
  "length (filter is_char_start (to_ltp_summary r)) \<le> 200 \<and>
   (LF \<in> set (to_ltp_summary r) \<longleftrightarrow> LF \<in> set (take_chars 198 (wl_wave_id r)))"
proof -
  define rest where "rest = '' ['' @ wave_domain_debug (wl_domain r) @ ''] '' @ wave_outcome_label (wl_outcome r) @
       '': '' @ sanitize_inline (wl_goal_summary r) @ '' (gates p/f/b='' @ dec_string (gv_passed (wl_gate_verdicts r)) @ ''/'' @
       dec_string (gv_findings (wl_gate_verdicts r)) @ ''/'' @ dec_string (gv_blockers (wl_gate_verdicts r)) @ '')''"
  have "LF \<notin> set (wave_domain_debug (wl_domain r))" "LF \<notin> set (wave_outcome_label (wl_outcome r))"
    by (cases "wl_domain r"; simp) (cases "wl_outcome r"; simp)
  then have rest: "LF \<notin> set rest" by (simp add: rest_def sanitize_no_LF dec_string_no_LF)
  have "to_ltp_summary r = truncate_chars (''- '' @ wl_wave_id r @ rest) 200"
    unfolding to_ltp_summary_def LTP_SUMMARY_MAX_CHARS_def rest_def by (simp only: append_assoc)
  then have s: "to_ltp_summary r = ''- '' @ take_chars 198 (wl_wave_id r @ rest)"
    by (simp only: truncate_is_take take_chars_dash)
  have "length (filter is_char_start (to_ltp_summary r)) \<le> 200"
    unfolding \<open>to_ltp_summary r = truncate_chars _ 200\<close> truncate_is_take by (rule take_chars_count)
  then show ?thesis unfolding s using take_chars_append_LF[OF rest, of 198 "wl_wave_id r"] by simp
qed

section \<open>Lemmas: session records\<close>

lemma stage_wire_inj: "stage_wire a = stage_wire b \<longleftrightarrow> a = b"
  by (cases a; cases b) simp_all

lemma stage_wire_no_US: "0x1F \<notin> set (as_bytes (stage_wire s))"
  by (cases s) (simp_all add: as_bytes_def)

lemma append_separator_inj:
  "x \<notin> set a \<Longrightarrow> x \<notin> set b \<Longrightarrow> a @ x # c = b @ x # d \<longleftrightarrow> a = b \<and> c = d"
proof (induction a arbitrary: b)
  case Nil
  then show ?case by (cases b) auto
next
  case (Cons y a)
  then show ?case by (cases b) auto
qed

text \<open>Keys of different records have different preimages as long as no wave identifier contains the separator.\<close>

lemma idempotency_preimage_inj:
  assumes "0x1F \<notin> set (as_bytes w)" "0x1F \<notin> set (as_bytes w')"
  shows "idempotency_preimage w s i = idempotency_preimage w' s' i' \<longleftrightarrow> w = w' \<and> s = s' \<and> i = i'"
  using assms stage_wire_no_US[of s] stage_wire_no_US[of s']
  by (simp add: idempotency_preimage_def append_separator_inj as_bytes_inj stage_wire_inj)

lemma idempotency_preimage_collision:
  "idempotency_preimage ''w'' Tested (''s'' @ [CHR 0x1F] @ ''CLOSED'' @ [CHR 0x1F] @ ''z'') =
   idempotency_preimage (''w'' @ [CHR 0x1F] @ ''TESTED'' @ [CHR 0x1F] @ ''s'') Closed ''z''"
  by (simp add: idempotency_preimage_def as_bytes_def)

lemma all_required_stages_present_iff:
  "all_required_stages_present records \<longleftrightarrow>
     {Tested, Accepted, Closed} \<subseteq> wr_stage ` set records \<and>
     ((\<exists>r\<in>set records. wr_gate_surfaces r \<noteq> {}) \<longrightarrow> PurpleTeamed \<in> wr_stage ` set records)"
  by (auto simp: all_required_stages_present_def Let_def unconditionally_required_def list_ex_iff)

lemma de_list_map: "(\<And>x. x \<in> set xs \<Longrightarrow> f (g x) = Some x) \<Longrightarrow> de_list f (map g xs) = Some xs"
  by (induction xs) auto

lemma de_surfaces_wire: "de_enum wire_name gate_surface_all (JString (wire_name s)) = Some s"
  by (cases s) (simp_all add: de_enum_def gate_surface_all_def)

text \<open>The canonical form of a session record decodes to the record itself.\<close>

lemma session_record_roundtrip: "de_session_record (session_record_json r) = Some r"
proof -
  have "de_list (de_enum wire_name gate_surface_all) (map (JString \<circ> wire_name) (surfaces_in_order S)) = Some (surfaces_in_order S)" for S
    by (rule de_list_map) (simp add: de_surfaces_wire)
  moreover have "de_enum stage_wire wave_stage_all (JString (stage_wire s)) = Some s" for s
    by (cases s) (simp_all add: de_enum_def wave_stage_all_def)
  moreover have "de_enum session_outcome_wire [SoPass, SoFail, SoPartial, SoNotTested] (JString (session_outcome_wire x)) = Some x" for x
    by (cases x) (simp_all add: de_enum_def)
  moreover have "set (map fst (bt_of_list kvs)) \<subseteq> set (map fst kvs)" for kvs :: "(string \<times> json) list"
    using set_bt_of_list[of kvs] by auto
  note this[of "[(''evidence'', a), (''gate_surfaces'', b), (''linear_issue'', c), (''occurred_at_epoch_seconds'', d), (''outcome'', e),
    (''session_id'', f), (''stage'', g), (''wave_id'', h), (''written_by'', i)]" for a b c d e f g h i]
  ultimately show ?thesis
    unfolding session_record_json_def de_session_record.simps
    by (simp add: SESSION_FIELDS_def de_session_fields_def de_field_def bt_get_of_list del: insert_subset set_simps)
qed

end
