(* ===== verification/WaveDetail.thy ===== *)
theory WaveDetail
  imports Wave
begin

text \<open>
  The state of the transparency-log service and the side table of wave-session details:
  \<^verbatim>\<open>src/crates/services/transparency-log/src/state.rs\<close>, \<^verbatim>\<open>wave_session_detail.rs\<close>, \<^verbatim>\<open>per_skill_keys.rs\<close> and the
  wave-session types of \<^verbatim>\<open>dto.rs\<close>.

  \<^verbatim>\<open>AppState\<close> is split into the fields that never change after start, \<open>app_config\<close>, and those behind a
  mutex, \<open>app_state\<close>.  The LRU cache of the \<^verbatim>\<open>lru\<close> crate is the record \<open>lru\<close> of its operations with the
  documented laws \<open>lru_contract\<close>.  The sqlite table is the list of its rows, or nothing when it does not
  exist; every statement may fail, with the error the parameter \<open>fault\<close> gives, and the texts of
  library errors are the record \<open>tlog_lib\<close>.
\<close>

section \<open>Types\<close>

datatype signature_type = Hmac | Ed25519

fun as_wire :: "signature_type \<Rightarrow> string" where
  "as_wire Hmac = ''hmac''"
| "as_wire Ed25519 = ''ed25519''"

record wave_session_leaf_side =
  ls_record :: wave_session_record
  ls_kernel_hmac :: hash32
  ls_ed25519_signature :: "512 word option"
  ls_signature_type :: signature_type
  ls_key_fingerprint_hex :: string

record 'c lru =
  lru_new :: "nat \<Rightarrow> 'c"
  lru_get :: "'c \<Rightarrow> nat \<Rightarrow> wave_session_leaf_side option \<times> 'c"
  lru_put :: "'c \<Rightarrow> nat \<Rightarrow> wave_session_leaf_side \<Rightarrow> 'c"

record tlog_lib =
  tl_hmac_new :: "bytes \<Rightarrow> (string, bytes \<Rightarrow> hash32) result"
  tl_vk_from_bytes :: "bytes \<Rightarrow> 256 word option"
  tl_no_table :: string
  tl_sum_overflow :: string
  tl_decode_error :: "json \<Rightarrow> string"

section \<open>The per-skill keys\<close>

type_synonym per_skill_keys = "wave_stage \<Rightarrow> string option"

definition STAGES_WITH_KEYS :: "wave_stage list" where
  "STAGES_WITH_KEYS = [Tested, PurpleTeamed, Accepted, Closed]"

definition per_skill_keys_new :: per_skill_keys where
  "per_skill_keys_new = Map.empty"

definition with_key :: "per_skill_keys \<Rightarrow> wave_stage \<Rightarrow> string \<Rightarrow> per_skill_keys" where
  "with_key keys stage key = keys(stage \<mapsto> key)"

definition per_skill_entries :: "per_skill_keys \<Rightarrow> (wave_stage \<times> string) list" where
  "per_skill_entries keys = concat (map (\<lambda>s. case keys s of None \<Rightarrow> [] | Some k \<Rightarrow> [(s, k)]) wave_stage_all)"

definition per_skill_is_empty :: "per_skill_keys \<Rightarrow> bool" where
  "per_skill_is_empty keys \<longleftrightarrow> per_skill_entries keys = []"

definition per_skill_len :: "per_skill_keys \<Rightarrow> nat" where
  "per_skill_len keys = length (per_skill_entries keys)"

definition has_stage :: "per_skill_keys \<Rightarrow> wave_stage \<Rightarrow> bool" where
  "has_stage keys stage \<longleftrightarrow> keys stage \<noteq> None"

definition per_skill_matches :: "per_skill_keys \<Rightarrow> wave_stage \<Rightarrow> string \<Rightarrow> bool" where
  "per_skill_matches keys stage supplied =
     (case keys stage of None \<Rightarrow> False | Some expected \<Rightarrow> constant_time_eq (as_bytes expected) (as_bytes supplied))"

definition fingerprint_hex :: "libs \<Rightarrow> bytes \<Rightarrow> string" where
  "fingerprint_hex L key = hex_encode L (be_bytes (sha256 L key))"

definition public_fingerprints :: "libs \<Rightarrow> per_skill_keys \<Rightarrow> string btree" where
  "public_fingerprints L keys =
     bt_of_list (map (\<lambda>(stage, key). (stage_wire stage, fingerprint_hex L (as_bytes key))) (per_skill_entries keys))"

section \<open>The side table\<close>

definition detail_json :: "libs \<Rightarrow> wave_session_leaf_side \<Rightarrow> json" where
  "detail_json L side = JObject
     [(''kernel_hmac_hex'', JString (hex_encode L (be_bytes (ls_kernel_hmac side)))),
      (''ed25519_signature_hex'', json_from_opt_str (map_option (\<lambda>s. hex_encode L (be_bytes s)) (ls_ed25519_signature side))),
      (''signature_type'', JString (as_wire (ls_signature_type side))),
      (''key_fingerprint_hex'', JString (ls_key_fingerprint_hex side)),
      (''record'', session_record_json (ls_record side))]"

datatype side_table_error = StBackend string | StIntegrityMismatch string

record detail_payload =
  dp_kernel_hmac_hex :: string
  dp_ed25519_signature_hex :: "string option"
  dp_signature_type :: string
  dp_key_fingerprint_hex :: string
  dp_record :: json

definition de_detail_fields :: "json btree \<Rightarrow> detail_payload option" where
  "de_detail_fields m = do {
     hmac \<leftarrow> de_field m ''kernel_hmac_hex'' json_as_str;
     signature \<leftarrow> de_opt_field m ''ed25519_signature_hex'';
     sigtype \<leftarrow> de_field m ''signature_type'' json_as_str;
     fpr \<leftarrow> de_field m ''key_fingerprint_hex'' json_as_str;
     rec \<leftarrow> de_field m ''record'' Some;
     Some \<lparr>dp_kernel_hmac_hex = hmac, dp_ed25519_signature_hex = signature, dp_signature_type = sigtype,
       dp_key_fingerprint_hex = fpr, dp_record = rec\<rparr> }"

definition DETAIL_FIELDS :: "string list" where
  "DETAIL_FIELDS = [''kernel_hmac_hex'', ''ed25519_signature_hex'', ''signature_type'', ''key_fingerprint_hex'', ''record'']"

fun de_detail :: "json \<Rightarrow> detail_payload option" where
  "de_detail (JObject m) = de_detail_fields m"
| "de_detail (JArray vs) =
     (if length vs = length DETAIL_FIELDS then de_detail_fields (bt_of_list (zip DETAIL_FIELDS vs)) else None)"
| "de_detail _ = None"

definition hex_exact :: "libs \<Rightarrow> nat \<Rightarrow> string \<Rightarrow> string \<Rightarrow> string \<Rightarrow> (side_table_error, bytes) result" where
  "hex_exact L n decode_msg length_msg s =
     res_bind (map_err (\<lambda>e. StBackend (decode_msg @ e)) (hex_decode L (str_trim s))) (\<lambda>raw.
       if length raw \<noteq> n then Err (StBackend (length_msg @ dec_string (length raw))) else Ok raw)"

definition into_side :: "libs \<Rightarrow> tlog_lib \<Rightarrow> detail_payload \<Rightarrow> (side_table_error, wave_session_leaf_side) result" where
  "into_side L lib p =
     res_bind (hex_exact L 32 ''hmac hex decode: '' ''hmac must be 32 bytes, got '' (dp_kernel_hmac_hex p)) (\<lambda>hmac.
     res_bind (case dp_ed25519_signature_hex p of
         None \<Rightarrow> Ok None
       | Some hex_s \<Rightarrow> res_bind (hex_exact L 64 ''ed25519 hex: '' ''ed25519 sig must be 64 bytes, got '' hex_s) (\<lambda>raw.
           Ok (Some (of_be_bytes raw)))) (\<lambda>signature.
     res_bind (if dp_signature_type p = ''hmac'' then Ok Hmac
       else if dp_signature_type p = ''ed25519'' then Ok Ed25519
       else Err (StBackend (''unknown signature_type: '' @ dp_signature_type p))) (\<lambda>sigtype.
     res_bind (ok_or (StBackend (''record decode: '' @ tl_decode_error lib (dp_record p))) (de_session_record (dp_record p))) (\<lambda>rec.
     Ok \<lparr>ls_record = rec, ls_kernel_hmac = of_be_bytes hmac, ls_ed25519_signature = signature,
         ls_signature_type = sigtype, ls_key_fingerprint_hex = dp_key_fingerprint_hex p\<rparr>))))"

record side_row =
  sr_leaf_hash_sha256 :: string
  sr_detail_json :: string
  sr_detail_size_bytes :: int
  sr_created_at_unix_ms :: int

type_synonym side_table = "side_row list option"

definition ensure_schema :: "string option \<Rightarrow> side_table \<Rightarrow> (side_table_error, unit) result \<times> side_table" where
  "ensure_schema fault t =
     (case fault of Some e \<Rightarrow> (Err (StBackend e), t)
      | None \<Rightarrow> (Ok (), case t of None \<Rightarrow> Some [] | Some rows \<Rightarrow> Some rows))"

definition drop_schema :: "string option \<Rightarrow> side_table \<Rightarrow> (side_table_error, unit) result \<times> side_table" where
  "drop_schema fault t = (case fault of Some e \<Rightarrow> (Err (StBackend e), t) | None \<Rightarrow> (Ok (), None))"

definition side_table_open :: "string option \<Rightarrow> string option \<Rightarrow> side_table \<Rightarrow> (side_table_error, side_table) result" where
  "side_table_open open_fault fault file =
     (case open_fault of Some e \<Rightarrow> Err (StBackend e)
      | None \<Rightarrow> (case ensure_schema fault file of (Inl e, _) \<Rightarrow> Err e | (Inr _, t) \<Rightarrow> Ok t))"

definition side_table_in_memory :: "(side_table_error, side_table) result" where
  "side_table_in_memory = side_table_open None None None"

definition sql_rows :: "tlog_lib \<Rightarrow> string option \<Rightarrow> side_table \<Rightarrow> (side_table_error, side_row list) result" where
  "sql_rows lib fault t =
     (case fault of Some e \<Rightarrow> Err (StBackend e) | None \<Rightarrow> ok_or (StBackend (tl_no_table lib)) t)"

definition side_insert :: "libs \<Rightarrow> tlog_lib \<Rightarrow> string option \<Rightarrow> string \<Rightarrow> wave_session_leaf_side \<Rightarrow> int \<Rightarrow> side_table \<Rightarrow>
    (side_table_error, unit) result \<times> side_table" where
  "side_insert L lib fault leaf_hash_hex side created_at_unix_ms t =
     (let json = json_to_string L (detail_json L side);
          size_bytes = (if length json < 2 ^ 63 then int (length json) else 2 ^ 63 - 1) in
      case sql_rows lib fault t of
        Inl e \<Rightarrow> (Err e, t)
      | Inr rows \<Rightarrow>
          (Ok (), Some (if \<exists>row\<in>set rows. sr_leaf_hash_sha256 row = leaf_hash_hex then rows
             else rows @ [\<lparr>sr_leaf_hash_sha256 = leaf_hash_hex, sr_detail_json = json,
               sr_detail_size_bytes = size_bytes, sr_created_at_unix_ms = created_at_unix_ms\<rparr>])))"

definition decode_row :: "libs \<Rightarrow> tlog_lib \<Rightarrow> side_row \<Rightarrow> (side_table_error, wave_session_leaf_side) result" where
  "decode_row L lib row =
     res_bind (map_err (\<lambda>e. StBackend (''row decode: '' @ e)) (json_from_slice L (as_bytes (sr_detail_json row)))) (\<lambda>v.
     res_bind (ok_or (StBackend (''row decode: '' @ tl_decode_error lib v)) (de_detail v)) (into_side L lib))"

definition side_lookup :: "libs \<Rightarrow> tlog_lib \<Rightarrow> string option \<Rightarrow> string \<Rightarrow> side_table \<Rightarrow>
    (side_table_error, wave_session_leaf_side option) result" where
  "side_lookup L lib fault leaf_hash_hex t =
     res_bind (sql_rows lib fault t) (\<lambda>rows.
       case find (\<lambda>row. sr_leaf_hash_sha256 row = leaf_hash_hex) rows of
         None \<Rightarrow> Ok None
       | Some row \<Rightarrow> res_bind (decode_row L lib row) (\<lambda>side. Ok (Some side)))"

definition constant_time_str_eq :: "string \<Rightarrow> string \<Rightarrow> bool" where
  "constant_time_str_eq a b = constant_time_eq (as_bytes a) (as_bytes b)"

definition lookup_with_integrity_check :: "libs \<Rightarrow> tlog_lib \<Rightarrow> string option \<Rightarrow> string \<Rightarrow> string \<Rightarrow> side_table \<Rightarrow>
    (side_table_error, wave_session_leaf_side option) result" where
  "lookup_with_integrity_check L lib fault leaf_hash_hex expected_record_sha256_hex t =
     res_bind (side_lookup L lib fault leaf_hash_hex t) (\<lambda>found.
       case found of
         None \<Rightarrow> Ok None
       | Some side \<Rightarrow>
           let derived = hex_encode L (be_bytes (sha256 L (canonical_bytes L (ls_record side)))) in
           if \<not> constant_time_str_eq derived expected_record_sha256_hex
           then Err (StIntegrityMismatch leaf_hash_hex) else Ok (Some side))"

definition row_count :: "tlog_lib \<Rightarrow> string option \<Rightarrow> side_table \<Rightarrow> (side_table_error, nat) result" where
  "row_count lib fault t = res_bind (sql_rows lib fault t) (\<lambda>rows. Ok (length rows))"

definition total_bytes :: "tlog_lib \<Rightarrow> string option \<Rightarrow> side_table \<Rightarrow> (side_table_error, nat) result" where
  "total_bytes lib fault t =
     res_bind (sql_rows lib fault t) (\<lambda>rows.
       let n = sum_list (map sr_detail_size_bytes rows) in
       if 2 ^ 63 \<le> n \<or> n < - (2 ^ 63) then Err (StBackend (tl_sum_overflow lib)) else Ok (nat n))"

section \<open>The service state\<close>

record app_config =
  ap_signing_key :: "256 word"
  ap_signing_key_fingerprint_hex :: string
  ap_kernel_key_fingerprint_hex :: string
  ap_api_key :: string
  ap_kernel_hmac_key :: bytes
  ap_transparency_ed25519_signing_key :: "256 word option"
  ap_transparency_ed25519_public_key_hex :: "string option"
  ap_transparency_ed25519_key_fingerprint_hex :: "string option"
  ap_transparency_ed25519_generated_at_epoch_s :: nat
  ap_per_skill_keys :: "per_skill_keys option"
  ap_mcp_audit_ed25519_key_fingerprint_hex :: "string option"
  ap_reconciler_drift_ed25519_key_fingerprint_hex :: "string option"

record 'c app_state =
  ap_store :: mem_store
  ap_consistency_tree :: hash_tree
  ap_wave_session_index :: "string \<Rightarrow> nat list option"
  ap_unreadable_wave_index :: "string \<Rightarrow> nat list option"
  ap_wave_session_payloads :: 'c
  ap_wave_session_leaf_hashes :: "nat \<Rightarrow> string option"
  ap_wave_session_detail_store :: "side_table option"

definition DEFAULT_PAYLOAD_LRU_CAPACITY :: nat where
  "DEFAULT_PAYLOAD_LRU_CAPACITY = 1024"

definition app_config_new :: "256 word \<Rightarrow> string \<Rightarrow> string \<Rightarrow> string \<Rightarrow> app_config" where
  "app_config_new signing_key signing_fpr kernel_fpr api_key =
     \<lparr>ap_signing_key = signing_key, ap_signing_key_fingerprint_hex = signing_fpr,
      ap_kernel_key_fingerprint_hex = kernel_fpr, ap_api_key = api_key, ap_kernel_hmac_key = [],
      ap_transparency_ed25519_signing_key = None, ap_transparency_ed25519_public_key_hex = None,
      ap_transparency_ed25519_key_fingerprint_hex = None, ap_transparency_ed25519_generated_at_epoch_s = 0,
      ap_per_skill_keys = None, ap_mcp_audit_ed25519_key_fingerprint_hex = None,
      ap_reconciler_drift_ed25519_key_fingerprint_hex = None\<rparr>"

definition app_state_new :: "'c lru \<Rightarrow> mem_store \<Rightarrow> 'c app_state" where
  "app_state_new C store =
     \<lparr>ap_store = store, ap_consistency_tree = ht_new, ap_wave_session_index = Map.empty,
      ap_unreadable_wave_index = Map.empty, ap_wave_session_payloads = lru_new C DEFAULT_PAYLOAD_LRU_CAPACITY,
      ap_wave_session_leaf_hashes = Map.empty, ap_wave_session_detail_store = None\<rparr>"

definition with_transparency_ed25519_keypair :: "libs \<Rightarrow> 256 word \<Rightarrow> nat \<Rightarrow> app_config \<Rightarrow> app_config" where
  "with_transparency_ed25519_keypair L signing_key generated_at cfg =
     (let pk_bytes = be_bytes (verifying_key L signing_key) in
      cfg\<lparr>ap_transparency_ed25519_signing_key := Some signing_key,
          ap_transparency_ed25519_public_key_hex := Some (hex_encode L pk_bytes),
          ap_transparency_ed25519_key_fingerprint_hex := Some (hex_encode L (be_bytes (sha256 L pk_bytes))),
          ap_transparency_ed25519_generated_at_epoch_s := generated_at\<rparr>)"

definition with_payload_cache_capacity :: "'c lru \<Rightarrow> nat \<Rightarrow> 'c app_state \<Rightarrow> 'c app_state" where
  "with_payload_cache_capacity C capacity st = st\<lparr>ap_wave_session_payloads := lru_new C capacity\<rparr>"

definition with_wave_session_detail_store :: "side_table \<Rightarrow> 'c app_state \<Rightarrow> 'c app_state" where
  "with_wave_session_detail_store t st = st\<lparr>ap_wave_session_detail_store := Some t\<rparr>"

definition push_leaf :: "(string \<Rightarrow> nat list option) \<Rightarrow> string \<Rightarrow> nat \<Rightarrow> string \<Rightarrow> nat list option" where
  "push_leaf idx wave_id leaf_index =
     (let entry = (case idx wave_id of None \<Rightarrow> [] | Some e \<Rightarrow> e) in
      idx(wave_id \<mapsto> (if leaf_index \<in> set entry then entry else entry @ [leaf_index])))"

definition record_wave_session_leaf :: "string \<Rightarrow> nat \<Rightarrow> 'c app_state \<Rightarrow> 'c app_state" where
  "record_wave_session_leaf wave_id leaf_index st =
     st\<lparr>ap_wave_session_index := push_leaf (ap_wave_session_index st) wave_id leaf_index\<rparr>"

definition wave_session_leaves :: "'c app_state \<Rightarrow> string \<Rightarrow> nat list" where
  "wave_session_leaves st wave_id = (case ap_wave_session_index st wave_id of None \<Rightarrow> [] | Some e \<Rightarrow> e)"

definition record_unreadable_wave_leaf :: "string \<Rightarrow> nat \<Rightarrow> 'c app_state \<Rightarrow> 'c app_state" where
  "record_unreadable_wave_leaf wave_id leaf_index st =
     st\<lparr>ap_unreadable_wave_index := push_leaf (ap_unreadable_wave_index st) wave_id leaf_index\<rparr>"

definition unreadable_wave_leaves :: "'c app_state \<Rightarrow> string \<Rightarrow> nat list" where
  "unreadable_wave_leaves st wave_id = (case ap_unreadable_wave_index st wave_id of None \<Rightarrow> [] | Some e \<Rightarrow> e)"

fun f64_mul :: "f64 \<Rightarrow> f64 \<Rightarrow> f64" where
  "f64_mul NaN _ = NaN"
| "f64_mul _ NaN = NaN"
| "f64_mul (Infinity s) (Infinity t) = Infinity (s \<noteq> t)"
| "f64_mul (Infinity s) (Finite q) = (if q = 0 then NaN else Infinity (s \<noteq> (q < 0)))"
| "f64_mul (Finite p) (Infinity t) = (if p = 0 then NaN else Infinity ((p < 0) \<noteq> t))"
| "f64_mul (Finite p) (Finite q) = f64_of_rat (p * q)"

definition now_unix_ms :: "f64 \<Rightarrow> int" where
  "now_unix_ms now =
     (case f64_mul now (Finite 1000) of
        Finite ms \<Rightarrow> if 0 \<le> ms \<and> ms < 2 ^ 63 then \<lfloor>ms\<rfloor> else 2 ^ 63 - 1
      | _ \<Rightarrow> 2 ^ 63 - 1)"

definition or_insert :: "(nat \<Rightarrow> string option) \<Rightarrow> nat \<Rightarrow> string \<Rightarrow> nat \<Rightarrow> string option" where
  "or_insert m k v = (case m k of None \<Rightarrow> m(k \<mapsto> v) | Some _ \<Rightarrow> m)"

definition record_wave_session_payload :: "libs \<Rightarrow> tlog_lib \<Rightarrow> 'c lru \<Rightarrow> f64 \<Rightarrow> string option \<Rightarrow>
    nat \<Rightarrow> string \<Rightarrow> wave_session_leaf_side \<Rightarrow> 'c app_state \<Rightarrow> 'c app_state" where
  "record_wave_session_payload L lib C now fault leaf_index leaf_hash_hex side st =
     (let (hit, p) = lru_get C (ap_wave_session_payloads st) leaf_index;
          p' = (if hit = None then lru_put C p leaf_index side else p) in
      st\<lparr>ap_wave_session_payloads := p',
         ap_wave_session_leaf_hashes := or_insert (ap_wave_session_leaf_hashes st) leaf_index leaf_hash_hex,
         ap_wave_session_detail_store :=
           map_option (\<lambda>t. snd (side_insert L lib fault leaf_hash_hex side (now_unix_ms now) t))
             (ap_wave_session_detail_store st)\<rparr>)"

definition register_wave_session_leaf_hash :: "nat \<Rightarrow> string \<Rightarrow> 'c app_state \<Rightarrow> 'c app_state" where
  "register_wave_session_leaf_hash leaf_index leaf_hash_hex st =
     st\<lparr>ap_wave_session_leaf_hashes := or_insert (ap_wave_session_leaf_hashes st) leaf_index leaf_hash_hex\<rparr>"

definition lookup_wave_session_payload :: "libs \<Rightarrow> tlog_lib \<Rightarrow> 'c lru \<Rightarrow> string option \<Rightarrow> nat \<Rightarrow> 'c app_state \<Rightarrow>
    wave_session_leaf_side option \<times> 'c app_state" where
  "lookup_wave_session_payload L lib C fault leaf_index st =
     (let (hit, p) = lru_get C (ap_wave_session_payloads st) leaf_index;
          st1 = st\<lparr>ap_wave_session_payloads := p\<rparr> in
      case hit of
        Some side \<Rightarrow> (Some side, st1)
      | None \<Rightarrow>
          (case ap_wave_session_detail_store st1 of
             None \<Rightarrow> (None, st1)
           | Some store \<Rightarrow>
               (case ap_wave_session_leaf_hashes st1 leaf_index of
                  None \<Rightarrow> (None, st1)
                | Some leaf_hash_hex \<Rightarrow>
                    (case side_lookup L lib fault leaf_hash_hex store of
                       Inr (Some side) \<Rightarrow> (Some side, st1\<lparr>ap_wave_session_payloads := lru_put C p leaf_index side\<rparr>)
                     | _ \<Rightarrow> (None, st1)))))"

section \<open>Contracts\<close>

text \<open>
  The documented laws of the cache: a read changes only the recency order, a write is visible at
  once, and it evicts other entries but never alters them.  \<open>json_prints\<close> is what the JSON library
  promises of a text it printed itself: it parses, to the same value with its keys in order.
\<close>

definition lru_contract :: "'c lru \<Rightarrow> bool" where
  "lru_contract C \<longleftrightarrow>
     (\<forall>n k. fst (lru_get C (lru_new C n) k) = None) \<and>
     (\<forall>c j k. fst (lru_get C (snd (lru_get C c k)) j) = fst (lru_get C c j)) \<and>
     (\<forall>c k v. fst (lru_get C (lru_put C c k v) k) = Some v) \<and>
     (\<forall>c j k v. j \<noteq> k \<longrightarrow> fst (lru_get C (lru_put C c k v) j) \<in> {None, fst (lru_get C c j)})"

definition json_prints :: "libs \<Rightarrow> json \<Rightarrow> bool" where
  "json_prints L v \<longleftrightarrow> json_from_slice L (as_bytes (json_to_string L v)) = Ok (sort_value v)"

section \<open>The row codec\<close>

lemma json_wf_session_record: "json_wf (session_record_json r)"
  unfolding session_record_json_def json_wf.simps by (auto dest!: subsetD[OF set_bt_of_list])

lemma trim_hex: "hex_contract L \<Longrightarrow> str_trim (hex_encode L bs) = hex_encode L bs"
  by (rule str_trim_graphic) (auto simp: hex_contract_def list_all_iff)

lemma hex_exact_encode: "hex_contract L \<Longrightarrow> hex_exact L n d m (hex_encode L bs) =
    (if length bs = n then Ok bs else Err (StBackend (m @ dec_string (length bs))))"
  by (simp add: hex_exact_def trim_hex) (simp add: hex_contract_def)

text \<open>Every stored detail is read back as it was written.\<close>

lemma detail_roundtrip:
  assumes "hex_contract L" "json_prints L (detail_json L side)" "sr_detail_json row = json_to_string L (detail_json L side)"
  shows "decode_row L lib row = Ok side"
proof -
  let ?p = "\<lparr>dp_kernel_hmac_hex = hex_encode L (be_bytes (ls_kernel_hmac side)),
    dp_ed25519_signature_hex = map_option (\<lambda>s. hex_encode L (be_bytes s)) (ls_ed25519_signature side),
    dp_signature_type = as_wire (ls_signature_type side), dp_key_fingerprint_hex = ls_key_fingerprint_hex side,
    dp_record = session_record_json (ls_record side)\<rparr>"
  have "de_detail (sort_value (detail_json L side)) = Some ?p"
    by (simp add: detail_json_def de_detail_fields_def de_field_def de_opt_field_def bt_get_of_list
        sort_value_wf json_wf_session_record json_from_opt_str_def split: option.split)
  moreover have "into_side L lib ?p = Ok side"
    by (cases "ls_signature_type side")
      (simp_all add: into_side_def hex_exact_encode[OF assms(1)] session_record_roundtrip split: option.split)
  ultimately show ?thesis using assms(2,3) by (simp add: decode_row_def json_prints_def)
qed

text \<open>
  The comparison with the fingerprint of the committed record accepts a row exactly when the
  canonical bytes of its record have that fingerprint.
\<close>

lemma integrity_check_iff:
  "lookup_with_integrity_check L lib fault h fpr t = Ok (Some side) \<longleftrightarrow>
   side_lookup L lib fault h t = Ok (Some side) \<and> sha256_hex L (canonical_bytes L (ls_record side)) = fpr"
  by (auto simp: lookup_with_integrity_check_def res_bind_Ok_iff constant_time_str_eq_def constant_time_eq_iff sha256_hex_def
      Let_def split: option.splits if_splits)

lemma drop_rebuild_empty: "snd (ensure_schema None (snd (drop_schema None t))) = Some []"
  by (simp add: drop_schema_def ensure_schema_def)

section \<open>Cache and side table together\<close>

text \<open>
  What the wave-session routes rely on: a detail that is held is found whatever was read or recorded
  in between, as long as sqlite executes its statements.
\<close>

locale detail_store =
  fixes lookup :: "nat \<Rightarrow> 's \<Rightarrow> wave_session_leaf_side option \<times> 's"
    and holds :: "'s \<Rightarrow> nat \<Rightarrow> (wave_session_leaf_side \<Rightarrow> bool) \<Rightarrow> bool"
  assumes lookup_holds: "holds s i P \<Longrightarrow> \<exists>side. fst (lookup i s) = Some side \<and> P side"
    and lookup_keeps: "holds s j P \<Longrightarrow> holds (snd (lookup i s)) j P"

definition holds_detail :: "libs \<Rightarrow> tlog_lib \<Rightarrow> 'c lru \<Rightarrow> 'c app_state \<Rightarrow> nat \<Rightarrow> (wave_session_leaf_side \<Rightarrow> bool) \<Rightarrow> bool" where
  "holds_detail L lib C st i P \<longleftrightarrow>
     lru_contract C \<and>
     (\<forall>side. fst (lru_get C (ap_wave_session_payloads st) i) = Some side \<longrightarrow> P side) \<and>
     (\<exists>rows h row side. ap_wave_session_detail_store st = Some (Some rows) \<and> ap_wave_session_leaf_hashes st i = Some h \<and>
        find (\<lambda>row. sr_leaf_hash_sha256 row = h) rows = Some row \<and> decode_row L lib row = Ok side \<and> P side)"

lemma lru_laws:
  assumes "lru_contract C"
  shows "fst (lru_get C (lru_new C n) k) = None"
    "fst (lru_get C (snd (lru_get C c k)) j) = fst (lru_get C c j)"
    "fst (lru_get C (lru_put C c k v) k) = Some v"
    "j \<noteq> k \<Longrightarrow> fst (lru_get C (lru_put C c k v) j) = Some w \<Longrightarrow> fst (lru_get C c j) = Some w"
  using assms by (auto simp: lru_contract_def) (metis insertE option.distinct(1) singletonD)

lemma lru_put_get:
  assumes "lru_contract C" "fst (lru_get C (lru_put C (snd (lru_get C c k)) k v) j) = Some w"
  shows "j = k \<and> w = v \<or> fst (lru_get C c j) = Some w"
  using assms(2) lru_laws(3)[OF assms(1)] lru_laws(4)[OF assms(1) _ assms(2)] lru_laws(2)[OF assms(1), of c k j]
  by (cases "j = k") auto

lemma side_lookup_found:
  "find (\<lambda>row. sr_leaf_hash_sha256 row = h) rows = Some row \<Longrightarrow> decode_row L lib row = Ok side \<Longrightarrow>
   side_lookup L lib None h (Some rows) = Ok (Some side)"
  by (simp add: side_lookup_def sql_rows_def)

lemma lookup_state:
  "snd (lookup_wave_session_payload L lib C fault i st) =
   st\<lparr>ap_wave_session_payloads := ap_wave_session_payloads (snd (lookup_wave_session_payload L lib C fault i st))\<rparr>"
  by (simp add: lookup_wave_session_payload_def split_beta Let_def split: option.split sum.split)

lemma lookup_detail_holds:
  assumes "holds_detail L lib C st i P"
  shows "\<exists>side. fst (lookup_wave_session_payload L lib C None i st) = Some side \<and> P side"
proof -
  from assms obtain rows h row side where d: "ap_wave_session_detail_store st = Some (Some rows)"
    "ap_wave_session_leaf_hashes st i = Some h" "find (\<lambda>row. sr_leaf_hash_sha256 row = h) rows = Some row"
    "decode_row L lib row = Ok side" "P side"
    and c: "\<And>side. fst (lru_get C (ap_wave_session_payloads st) i) = Some side \<Longrightarrow> P side"
    unfolding holds_detail_def by blast
  show ?thesis
    using d c side_lookup_found[OF d(3,4)]
    by (cases "fst (lru_get C (ap_wave_session_payloads st) i)")
      (simp_all add: lookup_wave_session_payload_def split_beta Let_def)
qed

lemma lookup_cache:
  assumes "lru_contract C"
    and "fst (lru_get C (ap_wave_session_payloads (snd (lookup_wave_session_payload L lib C None i st))) j) = Some side"
  shows "fst (lru_get C (ap_wave_session_payloads st) j) = Some side \<or>
    (j = i \<and> fst (lookup_wave_session_payload L lib C None i st) = Some side)"
  using assms(2)
  by (auto simp: lookup_wave_session_payload_def split_beta Let_def lru_laws(2)[OF assms(1)] split: option.splits sum.splits
      dest: lru_put_get[OF assms(1)])

lemma lookup_detail_keeps:
  assumes "holds_detail L lib C st j P"
  shows "holds_detail L lib C (snd (lookup_wave_session_payload L lib C None i st)) j P"
proof -
  let ?st' = "snd (lookup_wave_session_payload L lib C None i st)"
  have lru: "lru_contract C" using assms by (simp add: holds_detail_def)
  have "P side" if "fst (lru_get C (ap_wave_session_payloads ?st') j) = Some side" for side
    using lookup_cache[OF lru that] lookup_detail_holds[OF assms] assms
    by (auto simp: holds_detail_def)
  moreover have "ap_wave_session_detail_store ?st' = ap_wave_session_detail_store st"
    "ap_wave_session_leaf_hashes ?st' = ap_wave_session_leaf_hashes st"
    by (subst lookup_state, simp)+
  ultimately show ?thesis using assms by (simp add: holds_detail_def)
qed

interpretation details: detail_store "lookup_wave_session_payload L lib C None" "holds_detail L lib C"
  for L lib C
  by unfold_locales (rule lookup_detail_holds lookup_detail_keeps, assumption)+

end
