(* ===== verification/AuditRoutes.thy ===== *)
theory AuditRoutes
  imports WaveDetail
begin

text \<open>
  The framing of ledger leaves and the two audit routes of the transparency log:
  \<^verbatim>\<open>build_leaf_payload\<close> and \<^verbatim>\<open>split_leaf_payload\<close> of \<^verbatim>\<open>src/crates/services/transparency-log/src/routes/wave_session.rs\<close>,
  \<^verbatim>\<open>routes/audit_mcp.rs\<close> and \<^verbatim>\<open>routes/drift.rs\<close>.

  A wave-session leaf ends in a 32-byte HMAC, an audit leaf in a 64-byte signature; the lemmas show
  that the decoder of the first never accepts the second.  Lengths are the 64-bit words of the
  framing, and the sum the decoder compares wraps as it does in the release build.
\<close>

section \<open>The leaf framing\<close>

definition u64_len :: "bytes \<Rightarrow> u64" where
  "u64_len bs = (if length bs < 2 ^ 64 then of_nat (length bs) else - 1)"

definition build_leaf_payload :: "bytes \<Rightarrow> hash32 \<Rightarrow> bytes" where
  "build_leaf_payload record_bytes hmac = be_bytes (u64_len record_bytes) @ record_bytes @ be_bytes hmac"

definition split_leaf_payload :: "bytes \<Rightarrow> (service_error, bytes \<times> hash32) result" where
  "split_leaf_payload payload =
     (if length payload < 8 + 32 then Err (SvcBackend ''wave-session leaf payload too short'')
      else let n = (of_be_bytes (take 8 payload) :: u64) in
        if unat (8 + n + 32) \<noteq> length payload then Err (SvcBackend ''wave-session leaf payload length mismatch'')
        else Ok (take (unat n) (drop 8 payload), of_be_bytes (drop (8 + unat n) payload)))"

section \<open>Audit leaves\<close>

definition build_audit_leaf_payload :: "bytes \<Rightarrow> 512 word \<Rightarrow> bytes" where
  "build_audit_leaf_payload record_bytes sig = be_bytes (u64_len record_bytes) @ record_bytes @ be_bytes sig"

record append_audit_request =
  uq_canonical_bytes_hex :: string
  uq_ed25519_public_key_hex :: string
  uq_ed25519_signature_hex :: string
  uq_idempotency_key_hex :: string
  uq_occurred_at_epoch_seconds :: nat

record append_audit_response =
  us_idempotent_replay :: bool
  us_leaf_hash_hex :: string
  us_leaf_index :: nat
  us_ok :: bool

definition audit_checks :: "libs \<Rightarrow> tlog_lib \<Rightarrow> string option \<Rightarrow> append_audit_request \<Rightarrow> (service_error, append_input) result" where
  "audit_checks L lib configured body =
     res_bind (ok_or Ed25519NotConfigured configured) (\<lambda>expected_fpr.
     res_bind (map_err (\<lambda>e. BadRequest (''ed25519 pk hex decode: '' @ e)) (hex_decode L (str_trim (uq_ed25519_public_key_hex body)))) (\<lambda>pk_raw.
     if length pk_raw \<noteq> 32 then Err (BadRequest (''ed25519 public key must be 32 bytes, got '' @ dec_string (length pk_raw)))
     else let announced_fpr = hex_encode L (be_bytes (sha256 L pk_raw)) in
     if \<not> constant_time_str_eq announced_fpr (to_ascii_lowercase expected_fpr) then Err Ed25519KeyFingerprintMismatch
     else res_bind (map_err (\<lambda>e. BadRequest (''canonical_bytes hex decode: '' @ e)) (hex_decode L (str_trim (uq_canonical_bytes_hex body)))) (\<lambda>record_bytes.
     if record_bytes = [] then Err (BadRequest ''canonical_bytes empty'')
     else res_bind (map_err (\<lambda>e. BadRequest (''ed25519 sig hex decode: '' @ e)) (hex_decode L (str_trim (uq_ed25519_signature_hex body)))) (\<lambda>sig_raw.
     if length sig_raw \<noteq> SIGNATURE_LENGTH
     then Err (BadRequest (''ed25519 signature must be 64 bytes, got '' @ dec_string (length sig_raw)))
     else res_bind (ok_or Ed25519SignatureMismatch (tl_vk_from_bytes lib pk_raw)) (\<lambda>vk.
     res_bind (map_err (\<lambda>_. Ed25519SignatureMismatch) (ed25519_verify L vk record_bytes sig_raw)) (\<lambda>_.
     res_bind (hex_to_32 L (uq_idempotency_key_hex body)) (\<lambda>idempotency_key.
     Ok \<lparr>ai_idempotency_key = idempotency_key, ai_payload = build_audit_leaf_payload record_bytes (of_be_bytes sig_raw),
         ai_occurred_at_epoch_seconds = uq_occurred_at_epoch_seconds body\<rparr>)))))))"

definition audit_leaf_append :: "libs \<Rightarrow> tlog_lib \<Rightarrow> string option \<Rightarrow> append_audit_request \<Rightarrow> mem_store \<Rightarrow>
    append_audit_response http_reply \<times> mem_store" where
  "audit_leaf_append L lib configured body store =
     (case audit_checks L lib configured body of
        Inl e \<Rightarrow> (service_error_response e, store)
      | Inr payload \<Rightarrow>
          (case store_append (sha256 L) store payload of
             (Inl e, store') \<Rightarrow> (service_error_response (service_error_from e), store')
           | (Inr outcome, store') \<Rightarrow>
               let idempotent_replay = \<not> ao_created outcome;
                   status = (if idempotent_replay then 200 else 201) in
               (Reply status (Inr \<lparr>us_idempotent_replay = idempotent_replay,
                  us_leaf_hash_hex = hex_encode L (be_bytes (ao_leaf_hash outcome)),
                  us_leaf_index = ao_leaf_index outcome, us_ok = True\<rparr>), store')))"

definition append_mcp_audit :: "libs \<Rightarrow> tlog_lib \<Rightarrow> app_config \<Rightarrow> append_audit_request \<Rightarrow> mem_store \<Rightarrow>
    append_audit_response http_reply \<times> mem_store" where
  "append_mcp_audit L lib cfg = audit_leaf_append L lib (ap_mcp_audit_ed25519_key_fingerprint_hex cfg)"

definition append_reconciler_drift :: "libs \<Rightarrow> tlog_lib \<Rightarrow> app_config \<Rightarrow> append_audit_request \<Rightarrow> mem_store \<Rightarrow>
    append_audit_response http_reply \<times> mem_store" where
  "append_reconciler_drift L lib cfg = audit_leaf_append L lib (ap_reconciler_drift_ed25519_key_fingerprint_hex cfg)"

section \<open>Lemmas: the framing\<close>

lemma be_bytes_of_be_bytes:
  assumes "length bs = LENGTH('a) div 8" "LENGTH('a) mod 8 = 0"
  shows "be_bytes (of_be_bytes bs :: 'a::len word) = bs"
proof (rule nth_equalityI)
  show "length (be_bytes (of_be_bytes bs :: 'a word)) = length bs" using assms by simp
  fix i assume "i < length (be_bytes (of_be_bytes bs :: 'a word))"
  then have i: "i < length bs" using assms by simp
  let ?j = "length bs - Suc i"
  have j: "?j < length bs" and r: "rev bs ! ?j = bs ! i" using i by (simp_all add: rev_nth)
  have "be_bytes (of_be_bytes bs :: 'a word) ! i = ucast (drop_bit (8 * ?j) (of_le_bytes (rev bs) :: 'a word))"
    using i assms by (simp add: be_bytes_def le_bytes_def rev_nth of_be_bytes_def)
  also have "\<dots> = bs ! i"
  proof (rule bit_word_eqI)
    fix n assume n: "n < LENGTH(8)"
    then have n8: "n < 8" by simp
    have "8 * ?j + n < 8 * length bs" using j n8 by linarith
    then have "8 * ?j + n < LENGTH('a)" using assms by linarith
    moreover have "(8 * ?j + n) div 8 = ?j" "(8 * ?j + n) mod 8 = n" using n8 by simp_all
    ultimately show "bit (ucast (drop_bit (8 * ?j) (of_le_bytes (rev bs) :: 'a word)) :: 8 word) n = bit (bs ! i) n"
      using n j r by (simp add: bit_unsigned_iff bit_drop_bit_eq bit_of_le_bytes)
  qed
  finally show "be_bytes (of_be_bytes bs :: 'a word) ! i = bs ! i" .
qed

lemma frame_length_unique:
  assumes "40 \<le> m" "m < 2 ^ 64" "unat (8 + n + 32 :: u64) = m"
  shows "unat n = m - 40"
proof -
  have "8 + n + 32 = (of_nat m :: u64)" using assms(3) by (metis of_nat_unat ucast_id)
  then have "n = of_nat m - 40" by (simp add: algebra_simps)
  also have "\<dots> = (of_nat (m - 40) :: u64)" using assms(1) by (simp add: of_nat_diff)
  finally show ?thesis using assms(2) by (simp add: unat_of_nat take_bit_nat_eq_self)
qed

lemma unat_u64_len: "length bs < 2 ^ 64 \<Longrightarrow> unat (u64_len bs) = length bs"
  by (simp add: u64_len_def unat_of_nat take_bit_nat_eq_self)

lemma unat_frame: "m + 40 < 2 ^ 64 \<Longrightarrow> unat (8 + (of_nat m :: u64) + 32) = m + 40"
proof -
  assume "m + 40 < 2 ^ 64"
  moreover have "8 + (of_nat m :: u64) + 32 = of_nat (m + 40)" by simp
  ultimately show ?thesis by (simp only: unat_of_nat) (simp add: take_bit_nat_eq_self)
qed

lemma split_build_leaf:
  assumes "length rb + 40 < 2 ^ 64"
  shows "split_leaf_payload (build_leaf_payload rb h) = Ok (rb, h)"
proof -
  have len: "length rb < 2 ^ 64" using assms by simp
  have n: "(of_be_bytes (be_bytes (u64_len rb)) :: u64) = of_nat (length rb)"
    using len by (simp add: u64_len_def)
  have u: "unat (of_nat (length rb) :: u64) = length rb" using unat_u64_len[OF len] len by (simp add: u64_len_def)
  have "take 8 (build_leaf_payload rb h) = be_bytes (u64_len rb)" "drop 8 (build_leaf_payload rb h) = rb @ be_bytes h"
    "length (build_leaf_payload rb h) = length rb + 40" "drop (8 + length rb) (build_leaf_payload rb h) = be_bytes h"
    by (simp_all add: build_leaf_payload_def)
  then show ?thesis using unat_frame[OF assms]
    by (simp only: split_leaf_payload_def Let_def n u) simp
qed

lemma split_leaf_Ok:
  assumes "split_leaf_payload p = Ok (rb, h)" "length p < 2 ^ 64"
  shows "p = build_leaf_payload rb h \<and> length p = length rb + 40"
proof -
  let ?n = "of_be_bytes (take 8 p) :: u64"
  from assms(1) have l: "40 \<le> length p" and e: "unat (8 + ?n + 32) = length p"
    and rb: "rb = take (unat ?n) (drop 8 p)" and h: "h = of_be_bytes (drop (8 + unat ?n) p)"
    by (auto simp: split_leaf_payload_def Let_def split: if_splits)
  note n = frame_length_unique[OF l assms(2) e]
  have lr: "length rb = length p - 40" using rb n l by simp
  have "length rb < 2 ^ 64" "length rb = unat ?n" using lr n assms(2) by linarith+
  then have "u64_len rb = of_nat (unat ?n)" by (simp only: u64_len_def if_True)
  then have "u64_len rb = ?n" by (simp only: of_nat_unat ucast_id)
  then have "be_bytes (u64_len rb) = take 8 p" using l by (simp add: be_bytes_of_be_bytes)
  moreover have "be_bytes h = drop (8 + unat ?n) p" unfolding h using l n by (intro be_bytes_of_be_bytes) simp_all
  moreover have "take 8 p @ take (unat ?n) (drop 8 p) @ drop (8 + unat ?n) p = p"
    by (metis add.commute append_take_drop_id drop_drop)
  ultimately have "build_leaf_payload rb h = p" by (simp only: build_leaf_payload_def rb)
  then show ?thesis using lr l by simp
qed

text \<open>
  The decoder reads exactly the framed payloads: the trailer is as much part of the frame as the
  length, so a payload that ends in a signature is never read as one that ends in an HMAC.
\<close>

lemma length_trim_start: "length (trim_start s) \<le> length s"
  by (induction s rule: trim_start.induct) (subst trim_start.simps, auto split: option.split intro: order_trans)

lemma length_trim_end: "length (trim_end s) \<le> length s"
  by (induction s rule: trim_end.induct) (subst trim_end.simps, auto split: option.split intro: order_trans)

lemma length_str_trim: "length (str_trim s) \<le> length s"
  unfolding str_trim_def using length_trim_start length_trim_end order_trans by blast

lemma split_leaf_iff:
  assumes "length p < 2 ^ 64"
  shows "split_leaf_payload p = Ok (rb, h) \<longleftrightarrow> p = build_leaf_payload rb h"
proof
  assume "p = build_leaf_payload rb h"
  moreover from this have "length rb + 40 < 2 ^ 64" using assms by (simp add: build_leaf_payload_def)
  ultimately show "split_leaf_payload p = Ok (rb, h)" using split_build_leaf by blast
qed (use assms split_leaf_Ok in blast)

lemma audit_leaf_not_session:
  assumes "length rb + 72 < 2 ^ 64"
  shows "\<not> is_ok (split_leaf_payload (build_audit_leaf_payload rb sig))"
proof
  let ?p = "build_audit_leaf_payload rb sig"
  have lp: "length ?p = length rb + 72" by (simp add: build_audit_leaf_payload_def)
  assume "is_ok (split_leaf_payload ?p)"
  then obtain rb' h where s: "split_leaf_payload ?p = Ok (rb', h)" by (auto simp: is_ok_iff)
  have l: "length ?p < 2 ^ 64" using lp assms by simp
  note w = split_leaf_Ok[OF s l]
  have "be_bytes (u64_len rb') = be_bytes (u64_len rb)"
    using w unfolding build_audit_leaf_payload_def build_leaf_payload_def by simp
  then have "u64_len rb' = u64_len rb" by (rule be_bytes_inj[rotated]) simp
  moreover have "unat (u64_len rb') = length rb'" "unat (u64_len rb) = length rb"
    using w lp assms by (auto intro!: unat_u64_len)
  ultimately show False using w lp by simp
qed

lemma build_audit_inj:
  assumes "build_audit_leaf_payload rb s = build_audit_leaf_payload rb' s'"
  shows "rb = rb' \<and> s = s'"
proof -
  have "length (build_audit_leaf_payload rb s) = length (build_audit_leaf_payload rb' s')" using assms by simp
  then have "length rb = length rb'" by (simp add: build_audit_leaf_payload_def)
  with assms have "rb = rb'" "be_bytes s = be_bytes s'" by (simp_all add: build_audit_leaf_payload_def)
  moreover from this have "s = s'" by (intro be_bytes_inj) simp_all
  ultimately show ?thesis by simp
qed

section \<open>What an audit append accepts\<close>

definition audit_signed :: "libs \<Rightarrow> tlog_lib \<Rightarrow> string \<Rightarrow> append_audit_request \<Rightarrow> bytes \<Rightarrow> bytes \<Rightarrow> bool" where
  "audit_signed L lib expected_fpr body record_bytes sig \<longleftrightarrow>
     (\<exists>pk vk. hex_decode L (str_trim (uq_ed25519_public_key_hex body)) = Ok pk \<and> length pk = 32 \<and>
        sha256_hex L pk = to_ascii_lowercase expected_fpr \<and> tl_vk_from_bytes lib pk = Some vk \<and>
        hex_decode L (str_trim (uq_canonical_bytes_hex body)) = Ok record_bytes \<and> record_bytes \<noteq> [] \<and>
        hex_decode L (str_trim (uq_ed25519_signature_hex body)) = Ok sig \<and> length sig = 64 \<and>
        ed25519_verify L vk record_bytes sig = Ok ())"

lemma audit_checks_iff:
  "audit_checks L lib configured body = Ok x \<longleftrightarrow>
   (\<exists>fpr rb sig k. configured = Some fpr \<and> audit_signed L lib fpr body rb sig \<and> hex_to_32 L (uq_idempotency_key_hex body) = Ok k \<and>
      x = \<lparr>ai_idempotency_key = k, ai_payload = build_audit_leaf_payload rb (of_be_bytes sig),
           ai_occurred_at_epoch_seconds = uq_occurred_at_epoch_seconds body\<rparr>)"
  unfolding audit_checks_def Let_def res_bind_Ok_iff map_err_Ok_iff ok_or_Ok_iff if_Err_Ok audit_signed_def
    constant_time_str_eq_def constant_time_eq_iff as_bytes_inj SIGNATURE_LENGTH_def sha256_hex_def
  by (auto; metis)

lemma service_error_not_Ok [simp]: "service_error_response e \<noteq> Reply n (Inr r)"
  by (cases e) simp_all

lemma audit_leaf_append_cases:
  assumes "audit_leaf_append L lib configured body s = (Reply n (Inr r), s')"
  obtains x out where "audit_checks L lib configured body = Ok x" "fst (store_append (sha256 L) s x) = Ok out"
    "s' = snd (store_append (sha256 L) s x)" "us_leaf_index r = ao_leaf_index out"
proof (cases "audit_checks L lib configured body")
  case (Inr x)
  then show ?thesis using assms that[of x]
    by (auto simp: audit_leaf_append_def Let_def split: prod.splits sum.splits)
qed (use assms in \<open>simp add: audit_leaf_append_def\<close>)

text \<open>C32: a leaf the MCP-audit route or the drift route has written holds bytes signed under the key
  whose fingerprint that route pins, and the leaf is exactly the frame of these bytes and their
  signature, so neither can be exchanged without changing the leaf; and the wave-session decoder
  does not take such a leaf for one of its own.\<close>

theorem audit_leaf_signed_and_separate:
  assumes "mem_inv (sha256 L) s" "length (uq_canonical_bytes_hex body) + 72 < 2 ^ 64"
    and "\<And>t bs. hex_decode L t = Ok bs \<Longrightarrow> length t = 2 * length bs"
    and "(append_mcp_audit L lib cfg body s = (Reply n (Inr r), s') \<and> fpr = ap_mcp_audit_ed25519_key_fingerprint_hex cfg) \<or>
      (append_reconciler_drift L lib cfg body s = (Reply n (Inr r), s') \<and> fpr = ap_reconciler_drift_ed25519_key_fingerprint_hex cfg)"
  shows "\<exists>f rb sig. fpr = Some f \<and> audit_signed L lib f body rb sig \<and>
    ms_payloads s' ! us_leaf_index r = build_audit_leaf_payload rb (of_be_bytes sig) \<and>
    be_bytes (of_be_bytes sig :: 512 word) = sig \<and>
    \<not> is_ok (split_leaf_payload (ms_payloads s' ! us_leaf_index r))"
proof -
  have "audit_leaf_append L lib fpr body s = (Reply n (Inr r), s')"
    using assms(4) by (auto simp: append_mcp_audit_def append_reconciler_drift_def)
  then obtain x out where x: "audit_checks L lib fpr body = Ok x" "fst (store_append (sha256 L) s x) = Ok out"
    "s' = snd (store_append (sha256 L) s x)" "us_leaf_index r = ao_leaf_index out" by (rule audit_leaf_append_cases)
  from x(1) obtain f rb sig where f: "fpr = Some f" "audit_signed L lib f body rb sig"
    "ai_payload x = build_audit_leaf_payload rb (of_be_bytes sig)" unfolding audit_checks_iff by auto
  have leaf: "ms_payloads s' ! us_leaf_index r = build_audit_leaf_payload rb (of_be_bytes sig)"
    using mem_ledger.append_recorded[OF assms(1) x(2)] x(3,4) f(3) by simp
  have sig: "length sig = 64" and rb: "hex_decode L (str_trim (uq_canonical_bytes_hex body)) = Ok rb"
    using f(2) by (auto simp: audit_signed_def)
  have "length rb \<le> length (uq_canonical_bytes_hex body)"
    using assms(3)[OF rb] length_str_trim[of "uq_canonical_bytes_hex body"] by linarith
  then have "\<not> is_ok (split_leaf_payload (build_audit_leaf_payload rb (of_be_bytes sig)))"
    using assms(2) by (intro audit_leaf_not_session) linarith
  moreover have "be_bytes (of_be_bytes sig :: 512 word) = sig" using sig by (simp add: be_bytes_of_be_bytes)
  ultimately show ?thesis using f(1,2) leaf by metis
qed

lemma base16_decode_length: "base16_decode t = Ok bs \<Longrightarrow> length t = 2 * length bs"
  by (induction t arbitrary: bs rule: base16_decode.induct) (auto simp: res_bind_Ok_iff)

definition sample_tlog_lib :: tlog_lib where
  "sample_tlog_lib = \<lparr>tl_hmac_new = (\<lambda>key. Ok (\<lambda>m. of_nat (length key + length m))), tl_vk_from_bytes = (\<lambda>bs. Some (of_be_bytes bs)),
     tl_no_table = ''no such table'', tl_sum_overflow = ''integer overflow'', tl_decode_error = (\<lambda>_. ''invalid'')\<rparr>"

definition sample_app_config :: app_config where
  "sample_app_config = (app_config_new 1 ''aa'' ''bb'' ''k'')
     \<lparr>ap_kernel_hmac_key := [1], ap_mcp_audit_ed25519_key_fingerprint_hex := Some (sha256_hex (sample_libs JNull) (be_bytes (7 :: 256 word)))\<rparr>"

definition sample_audit_request :: append_audit_request where
  "sample_audit_request = \<lparr>uq_canonical_bytes_hex = base16_encode [42], uq_ed25519_public_key_hex = base16_encode (be_bytes (7 :: 256 word)),
     uq_ed25519_signature_hex = base16_encode (be_bytes (7 :: 256 word) @ be_bytes (7 :: 256 word)),
     uq_idempotency_key_hex = base16_encode (be_bytes (0 :: 256 word)), uq_occurred_at_epoch_seconds = 100\<rparr>"

lemma trim_base16: "str_trim (base16_encode bs) = base16_encode bs"
  by (rule str_trim_graphic) (auto simp: list_all_iff dest: base16_chars)

lemma sample_audit_accepted:
  "audit_checks (sample_libs JNull) sample_tlog_lib (ap_mcp_audit_ed25519_key_fingerprint_hex sample_app_config) sample_audit_request =
   Ok \<lparr>ai_idempotency_key = 0, ai_payload = build_audit_leaf_payload [42] (of_be_bytes (be_bytes (7 :: 256 word) @ be_bytes (7 :: 256 word))),
       ai_occurred_at_epoch_seconds = 100\<rparr>"
proof -
  have "to_ascii_lowercase (sha256_hex (sample_libs JNull) (be_bytes (7 :: 256 word))) = sha256_hex (sample_libs JNull) (be_bytes (7 :: 256 word))"
    by code_simp
  then show ?thesis
    unfolding audit_checks_iff
    by (intro exI[of _ "sha256_hex (sample_libs JNull) (be_bytes (7 :: 256 word))"] exI[of _ "[42]"]
        exI[of _ "be_bytes (7 :: 256 word) @ be_bytes (7 :: 256 word)"] exI[of _ 0])
      (simp add: audit_signed_def sample_audit_request_def sample_app_config_def sample_tlog_lib_def hex_to_32_def
        trim_base16 base16_roundtrip sample_libs_def[THEN arg_cong[of _ _ hex_decode]] sample_libs_def[THEN arg_cong[of _ _ ed25519_verify]])
qed

theorem audit_leaf_signed_and_separate_witness:
  "\<not> is_ok (split_leaf_payload (ms_payloads (snd (append_mcp_audit (sample_libs JNull) sample_tlog_lib sample_app_config
     sample_audit_request mem_store_new)) ! 0))"
proof -
  let ?a = "append_mcp_audit (sample_libs JNull) sample_tlog_lib sample_app_config sample_audit_request mem_store_new"
  have "\<exists>r. ?a = (Reply 201 (Inr r), snd ?a) \<and> us_leaf_index r = 0"
    by (simp add: append_mcp_audit_def audit_leaf_append_def sample_audit_accepted store_append_def mem_store_new_def Let_def)
  then obtain r where r: "?a = (Reply 201 (Inr r), snd ?a)" "us_leaf_index r = 0" by blast
  have dec: "hex_decode (sample_libs JNull) = base16_decode" by (simp add: sample_libs_def)
  have len: "length (uq_canonical_bytes_hex sample_audit_request) = 2"
    by (simp add: sample_audit_request_def length_base16_encode)
  show ?thesis
    using audit_leaf_signed_and_separate[OF mem_inv_new _ _ disjI1[OF conjI[OF r(1) refl]]] base16_decode_length r(2)
    unfolding dec len by fastforce
qed

end
