(* ===== verification/WaveSession.thy ===== *)
theory WaveSession
  imports AuditRoutes "HOL-Library.Product_Lexorder"
begin

text \<open>
  The wave-session routes of the transparency log, \<^verbatim>\<open>src/crates/services/transparency-log/src/routes/wave_session.rs\<close>:
  appending a session record, verifying a wave, publishing the signing key, and rebuilding the index
  from the ledger at start.

  Each handler is a function of the immutable configuration, the mutable state and the request.  The
  parameter \<open>fault\<close> gives the error of the sqlite statement for a leaf, if it has one; \<open>now\<close> is the clock
  reading.  The three updates of an append (ledger, index, detail) are separate functions, so that a
  request served between two of them can be stated.
\<close>

section \<open>Checks of an append\<close>

definition verify_kernel_hmac :: "tlog_lib \<Rightarrow> bytes \<Rightarrow> hash32 \<Rightarrow> bytes \<Rightarrow> (service_error, unit) result" where
  "verify_kernel_hmac lib record_bytes supplied_hmac key =
     (if key = [] then Err (SvcBackend ''kernel HMAC key not configured'')
      else res_bind (map_err (\<lambda>e. SvcBackend (''invalid HMAC key length: '' @ e)) (tl_hmac_new lib key)) (\<lambda>mac.
        if mac record_bytes = supplied_hmac then Ok () else Err KernelHmacMismatch))"

definition written_by_matches_stage :: "string \<Rightarrow> wave_stage \<Rightarrow> bool" where
  "written_by_matches_stage written_by stage =
     (let normalized = to_ascii_lowercase (dropWhile (\<lambda>c. c = CHR ''/'') (str_trim written_by)) in
      case stage of
        Planned \<Rightarrow> normalized \<in> {''plan'', ''planner''}
      | Decomposed \<Rightarrow> normalized \<in> {''team'', ''planner'', ''plan'', ''architect''}
      | Tested \<Rightarrow> normalized = ''test''
      | PurpleTeamed \<Rightarrow> normalized = ''purple-team'' \<or> normalized = ''purple_team''
      | Accepted \<Rightarrow> normalized = ''user-acceptance'' \<or> normalized = ''user_acceptance'' \<or> normalized = ''uat''
      | Closed \<Rightarrow> normalized = ''closeout'')"

definition verify_ed25519_signature :: "libs \<Rightarrow> tlog_lib \<Rightarrow> bytes \<Rightarrow> string \<Rightarrow> string \<Rightarrow> string \<Rightarrow>
    (service_error, unit) result" where
  "verify_ed25519_signature L lib record_bytes announced_pk_hex signature_hex expected_fingerprint_hex =
     res_bind (map_err (\<lambda>e. BadRequest (''ed25519 pk hex decode: '' @ e)) (hex_decode L (str_trim announced_pk_hex))) (\<lambda>pk_raw.
     if length pk_raw \<noteq> 32 then Err (BadRequest (''ed25519 public key must be 32 bytes, got '' @ dec_string (length pk_raw)))
     else let announced_fpr = hex_encode L (be_bytes (sha256 L pk_raw)) in
     if \<not> constant_time_str_eq announced_fpr expected_fingerprint_hex then Err Ed25519KeyFingerprintMismatch
     else res_bind (map_err (\<lambda>e. BadRequest (''ed25519 sig hex decode: '' @ e)) (hex_decode L (str_trim signature_hex))) (\<lambda>sig_raw.
     if length sig_raw \<noteq> SIGNATURE_LENGTH
     then Err (BadRequest (''ed25519 signature must be 64 bytes, got '' @ dec_string (length sig_raw)))
     else res_bind (ok_or Ed25519SignatureMismatch (tl_vk_from_bytes lib pk_raw)) (\<lambda>vk.
     map_err (\<lambda>_. Ed25519SignatureMismatch) (ed25519_verify L vk record_bytes sig_raw))))"

record append_wave_session_request =
  wq_ed25519_public_key_hex :: "string option"
  wq_ed25519_signature_hex :: "string option"
  wq_kernel_hmac_hex :: string
  wq_kernel_key_fingerprint_sha256 :: string
  wq_record :: wave_session_record
  wq_signature_type :: "signature_type option"

record append_wave_session_response =
  ws_idempotent_replay :: bool
  ws_leaf_hash_hex :: string
  ws_leaf_index :: nat
  ws_ok :: bool

definition requested_type :: "append_wave_session_request \<Rightarrow> signature_type" where
  "requested_type body = (case wq_signature_type body of None \<Rightarrow> Hmac | Some t \<Rightarrow> t)"

definition check_stage_key :: "app_config \<Rightarrow> string option \<Rightarrow> append_wave_session_request \<Rightarrow> (service_error, unit) result" where
  "check_stage_key cfg api_key_header body =
     (case ap_per_skill_keys cfg of
        None \<Rightarrow> Ok ()
      | Some per_skill \<Rightarrow>
          if requested_type body = Hmac then
            let supplied_key = (case api_key_header of None \<Rightarrow> [] | Some v \<Rightarrow> v) in
            if \<not> per_skill_matches per_skill (wr_stage (wq_record body)) supplied_key then Err StageKeyMismatch else Ok ()
          else Ok ())"

definition check_signature :: "libs \<Rightarrow> tlog_lib \<Rightarrow> app_config \<Rightarrow> append_wave_session_request \<Rightarrow> hash32 \<Rightarrow> bytes \<Rightarrow>
    (service_error, string \<times> 512 word option) result" where
  "check_signature L lib cfg body supplied_hmac record_bytes =
     (case requested_type body of
        Hmac \<Rightarrow> res_bind (verify_kernel_hmac lib record_bytes supplied_hmac (ap_kernel_hmac_key cfg)) (\<lambda>_.
          Ok (ap_kernel_key_fingerprint_hex cfg, None))
      | Ed25519 \<Rightarrow>
          res_bind (ok_or Ed25519NotConfigured (ap_transparency_ed25519_key_fingerprint_hex cfg)) (\<lambda>expected_fpr_hex.
          res_bind (ok_or Ed25519MissingFields (wq_ed25519_public_key_hex body)) (\<lambda>pk_hex.
          res_bind (ok_or Ed25519MissingFields (wq_ed25519_signature_hex body)) (\<lambda>sig_hex.
          res_bind (verify_ed25519_signature L lib record_bytes pk_hex sig_hex expected_fpr_hex) (\<lambda>_.
          res_bind (map_err (\<lambda>e. BadRequest (''ed25519 sig hex decode: '' @ e)) (hex_decode L (str_trim sig_hex))) (\<lambda>sig_bytes.
          Ok (expected_fpr_hex, Some (of_be_bytes sig_bytes))))))))"

definition append_session_checks :: "libs \<Rightarrow> tlog_lib \<Rightarrow> app_config \<Rightarrow> string option \<Rightarrow> append_wave_session_request \<Rightarrow>
    (service_error, wave_session_leaf_side) result" where
  "append_session_checks L lib cfg api_key_header body =
     (let supplied_fpr = to_ascii_lowercase (str_trim (wq_kernel_key_fingerprint_sha256 body));
          expected_fpr = to_ascii_lowercase (ap_kernel_key_fingerprint_hex cfg) in
      if supplied_fpr \<noteq> expected_fpr then Err KernelFingerprintMismatch
      else res_bind (hex_to_32 L (wq_kernel_hmac_hex body)) (\<lambda>supplied_hmac.
      if \<not> written_by_matches_stage (wr_written_by (wq_record body)) (wr_stage (wq_record body)) then Err StageWrittenByMismatch
      else res_bind (check_stage_key cfg api_key_header body) (\<lambda>_.
      res_bind (check_signature L lib cfg body supplied_hmac (canonical_bytes L (wq_record body))) (\<lambda>(key_fingerprint_hex, signature).
      Ok \<lparr>ls_record = wq_record body, ls_kernel_hmac = supplied_hmac, ls_ed25519_signature = signature,
          ls_signature_type = requested_type body, ls_key_fingerprint_hex = key_fingerprint_hex\<rparr>))))"

section \<open>Append\<close>

definition session_append_input :: "libs \<Rightarrow> wave_session_leaf_side \<Rightarrow> append_input" where
  "session_append_input L side =
     \<lparr>ai_idempotency_key = record_idempotency_key L (ls_record side),
      ai_payload = build_leaf_payload (canonical_bytes L (ls_record side)) (ls_kernel_hmac side),
      ai_occurred_at_epoch_seconds = wr_occurred_at_epoch_seconds (ls_record side)\<rparr>"

definition append_session :: "libs \<Rightarrow> tlog_lib \<Rightarrow> 'c lru \<Rightarrow> app_config \<Rightarrow> f64 \<Rightarrow> string option \<Rightarrow>
    string option \<Rightarrow> append_wave_session_request \<Rightarrow> 'c app_state \<Rightarrow> append_wave_session_response http_reply \<times> 'c app_state" where
  "append_session L lib C cfg now fault api_key_header body st =
     (case append_session_checks L lib cfg api_key_header body of
        Inl e \<Rightarrow> (service_error_response e, st)
      | Inr side \<Rightarrow>
          (case store_append (sha256 L) (ap_store st) (session_append_input L side) of
             (Inl e, store') \<Rightarrow> (service_error_response (service_error_from e), st\<lparr>ap_store := store'\<rparr>)
           | (Inr outcome, store') \<Rightarrow>
               let st1 = st\<lparr>ap_store := store'\<rparr>;
                   st2 = record_wave_session_leaf (wr_wave_id (wq_record body)) (ao_leaf_index outcome) st1;
                   st3 = record_wave_session_payload L lib C now fault (ao_leaf_index outcome)
                     (hex_encode L (be_bytes (ao_leaf_hash outcome))) side st2;
                   idempotent_replay = \<not> ao_created outcome;
                   status = (if idempotent_replay then 200 else 201) in
               (Reply status (Inr \<lparr>ws_idempotent_replay = idempotent_replay,
                  ws_leaf_hash_hex = hex_encode L (be_bytes (ao_leaf_hash outcome)),
                  ws_leaf_index = ao_leaf_index outcome, ws_ok = True\<rparr>), st3)))"

section \<open>Verify\<close>

record wave_session_chain_entry =
  ce_ed25519_signature_hex :: "string option"
  ce_key_fingerprint_hex :: string
  ce_kernel_hmac_hex :: string
  ce_leaf_index :: nat
  ce_record :: wave_session_record
  ce_signature_type :: signature_type

record verify_wave_session_response =
  vw_all_required_stages_present :: bool
  vw_chain :: "wave_session_chain_entry list"
  vw_kernel_key_fingerprint_sha256 :: string
  vw_ok :: bool
  vw_transparency_log_ed25519_key_fingerprint_sha256 :: "string option"
  vw_wave_id :: string

definition chain_entry :: "libs \<Rightarrow> nat \<Rightarrow> wave_session_leaf_side \<Rightarrow> wave_session_chain_entry" where
  "chain_entry L leaf_idx side =
     \<lparr>ce_ed25519_signature_hex = map_option (\<lambda>s. hex_encode L (be_bytes s)) (ls_ed25519_signature side),
      ce_key_fingerprint_hex = ls_key_fingerprint_hex side,
      ce_kernel_hmac_hex = hex_encode L (be_bytes (ls_kernel_hmac side)), ce_leaf_index = leaf_idx,
      ce_record = ls_record side, ce_signature_type = ls_signature_type side\<rparr>"

fun verify_leaves :: "libs \<Rightarrow> (nat \<Rightarrow> 's \<Rightarrow> wave_session_leaf_side option \<times> 's) \<Rightarrow> nat list \<Rightarrow> 's \<Rightarrow>
    (service_error, wave_session_chain_entry list) result \<times> 's" where
  "verify_leaves L lookup [] st = (Ok [], st)"
| "verify_leaves L lookup (leaf_idx # leaves) st =
     (case lookup leaf_idx st of
        (None, st') \<Rightarrow> (Err (SvcBackend (''wave-session payload missing for leaf '' @ dec_string leaf_idx)), st')
      | (Some side, st') \<Rightarrow>
          (case verify_leaves L lookup leaves st' of
             (Inl e, st'') \<Rightarrow> (Err e, st'')
           | (Inr entries, st'') \<Rightarrow> (Ok (chain_entry L leaf_idx side # entries), st'')))"

definition chain_order :: "wave_session_chain_entry \<Rightarrow> wave_stage \<times> nat" where
  "chain_order e = (wr_stage (ce_record e), ce_leaf_index e)"

definition verify_session :: "libs \<Rightarrow> tlog_lib \<Rightarrow> 'c lru \<Rightarrow> app_config \<Rightarrow> (nat \<Rightarrow> string option) \<Rightarrow> string \<Rightarrow>
    'c app_state \<Rightarrow> verify_wave_session_response http_reply \<times> 'c app_state" where
  "verify_session L lib C cfg fault wave_id st =
     (let leaves = wave_session_leaves st wave_id in
      if leaves = [] then
        (service_error_response (if unreadable_wave_leaves st wave_id \<noteq> [] then EntryUnreadable else NotFound), st)
      else
        (case verify_leaves L (\<lambda>i. lookup_wave_session_payload L lib C (fault i) i) leaves st of
           (Inl e, st') \<Rightarrow> (service_error_response e, st')
         | (Inr collected, st') \<Rightarrow>
             let entries = sort_key chain_order collected;
                 records = map ce_record entries in
             (Reply 200 (Inr \<lparr>vw_all_required_stages_present = all_required_stages_present records, vw_chain = entries,
                vw_kernel_key_fingerprint_sha256 = ap_kernel_key_fingerprint_hex cfg, vw_ok = True,
                vw_transparency_log_ed25519_key_fingerprint_sha256 = ap_transparency_ed25519_key_fingerprint_hex cfg,
                vw_wave_id = wave_id\<rparr>), st')))"

section \<open>The published key\<close>

record transparency_key_response =
  tk_algorithm :: string
  tk_generated_at_epoch_seconds :: nat
  tk_key_fingerprint_sha256_hex :: string
  tk_per_skill_fingerprints :: "string btree option"
  tk_public_key_hex :: string

definition transparency_key :: "libs \<Rightarrow> app_config \<Rightarrow> (service_error, transparency_key_response) result" where
  "transparency_key L cfg =
     res_bind (ok_or Ed25519NotConfigured (ap_transparency_ed25519_public_key_hex cfg)) (\<lambda>pk_hex.
     res_bind (ok_or Ed25519NotConfigured (ap_transparency_ed25519_key_fingerprint_hex cfg)) (\<lambda>fpr_hex.
     Ok \<lparr>tk_algorithm = ''Ed25519'', tk_generated_at_epoch_seconds = ap_transparency_ed25519_generated_at_epoch_s cfg,
         tk_key_fingerprint_sha256_hex = fpr_hex,
         tk_per_skill_fingerprints = map_option (public_fingerprints L) (ap_per_skill_keys cfg),
         tk_public_key_hex = pk_hex\<rparr>))"

section \<open>Rebuilding the index from the ledger\<close>

definition unreadable_wave_id :: "libs \<Rightarrow> bytes \<Rightarrow> string option" where
  "unreadable_wave_id L record_bytes =
     (case json_from_slice L record_bytes of
        Inr (JObject m) \<Rightarrow>
          (case bt_get m ''wave_id'' of
             Some (JString wid) \<Rightarrow> if wid \<noteq> [] then Some wid else None
           | _ \<Rightarrow> None)
      | _ \<Rightarrow> None)"

definition parse_session_record :: "libs \<Rightarrow> bytes \<Rightarrow> wave_session_record option" where
  "parse_session_record L record_bytes =
     (case json_from_slice L record_bytes of Inl _ \<Rightarrow> None | Inr v \<Rightarrow> de_session_record v)"

definition reconstruct_leaf :: "libs \<Rightarrow> tlog_lib \<Rightarrow> 'c lru \<Rightarrow> app_config \<Rightarrow> f64 \<Rightarrow> (nat \<Rightarrow> string option) \<Rightarrow> (nat \<Rightarrow> string option) \<Rightarrow>
    leaf_payload_record \<Rightarrow> nat \<times> 'c app_state \<Rightarrow> nat \<times> 'c app_state" where
  "reconstruct_leaf L lib C cfg now read_fault write_fault lp = (\<lambda>(recovered, st).
     case split_leaf_payload (lp_payload lp) of
       Inl _ \<Rightarrow> (recovered, st)
     | Inr (record_bytes, hmac) \<Rightarrow>
         (case parse_session_record L record_bytes of
            None \<Rightarrow>
              (recovered, case unreadable_wave_id L record_bytes of
                 None \<Rightarrow> st
               | Some wid \<Rightarrow> record_unreadable_wave_leaf wid (lp_leaf_index lp) st)
          | Some rec \<Rightarrow>
              let st1 = record_wave_session_leaf (wr_wave_id rec) (lp_leaf_index lp) st;
                  leaf_hash_hex = hex_encode L (be_bytes (lp_leaf_hash lp));
                  st2 = register_wave_session_leaf_hash (lp_leaf_index lp) leaf_hash_hex st1;
                  (found, st3) = lookup_wave_session_payload L lib C (read_fault (lp_leaf_index lp)) (lp_leaf_index lp) st2 in
              (recovered + 1,
               if found = None then
                 record_wave_session_payload L lib C now (write_fault (lp_leaf_index lp)) (lp_leaf_index lp) leaf_hash_hex
                   \<lparr>ls_record = rec, ls_kernel_hmac = hmac, ls_ed25519_signature = None, ls_signature_type = Hmac,
                    ls_key_fingerprint_hex = ap_kernel_key_fingerprint_hex cfg\<rparr> st3
               else st3)))"

definition reconstruct_wave_sessions_from_ledger :: "libs \<Rightarrow> tlog_lib \<Rightarrow> 'c lru \<Rightarrow> app_config \<Rightarrow> f64 \<Rightarrow> (nat \<Rightarrow> string option) \<Rightarrow>
    (nat \<Rightarrow> string option) \<Rightarrow> 'c app_state \<Rightarrow> nat \<times> 'c app_state" where
  "reconstruct_wave_sessions_from_ledger L lib C cfg now read_fault write_fault st =
     fold (reconstruct_leaf L lib C cfg now read_fault write_fault) (load_all_payloads (ap_store st)) (0, st)"

section \<open>Runs of the service\<close>

text \<open>
  What happens to the service as far as sessions are concerned: requests of each route that writes
  the ledger, verifications, and restarts.  A restart keeps the ledger; the side table is kept when
  it is a file and starts empty otherwise.  The statements of sqlite succeed.
\<close>

datatype wave_event =
    AppendSession f64 "string option" append_wave_session_request
  | VerifyWave string
  | AppendToken append_request
  | AppendMcpAudit append_audit_request
  | AppendDrift append_audit_request
  | Restart f64 bool

definition reboot :: "libs \<Rightarrow> tlog_lib \<Rightarrow> 'c lru \<Rightarrow> app_config \<Rightarrow> f64 \<Rightarrow> bool \<Rightarrow> 'c app_state \<Rightarrow> 'c app_state" where
  "reboot L lib C cfg now persistent st =
     snd (reconstruct_wave_sessions_from_ledger L lib C cfg now (\<lambda>_. None) (\<lambda>_. None)
       (with_wave_session_detail_store
         (snd (ensure_schema None (if persistent then the (ap_wave_session_detail_store st) else None)))
         (app_state_new C (ap_store st))))"

fun wave_event_step :: "libs \<Rightarrow> tlog_lib \<Rightarrow> 'c lru \<Rightarrow> app_config \<Rightarrow> wave_event \<Rightarrow> 'c app_state \<Rightarrow> 'c app_state" where
  "wave_event_step L lib C cfg (AppendSession now hdr body) st = snd (append_session L lib C cfg now None hdr body st)"
| "wave_event_step L lib C cfg (VerifyWave wid) st = snd (verify_session L lib C cfg (\<lambda>_. None) wid st)"
| "wave_event_step L lib C cfg (AppendToken body) st =
     st\<lparr>ap_store := snd (append_route L (ap_kernel_key_fingerprint_hex cfg) body (ap_store st))\<rparr>"
| "wave_event_step L lib C cfg (AppendMcpAudit body) st = st\<lparr>ap_store := snd (append_mcp_audit L lib cfg body (ap_store st))\<rparr>"
| "wave_event_step L lib C cfg (AppendDrift body) st = st\<lparr>ap_store := snd (append_reconciler_drift L lib cfg body (ap_store st))\<rparr>"
| "wave_event_step L lib C cfg (Restart now persistent) st = reboot L lib C cfg now persistent st"

definition wave_run :: "libs \<Rightarrow> tlog_lib \<Rightarrow> 'c lru \<Rightarrow> app_config \<Rightarrow> wave_event list \<Rightarrow> 'c app_state \<Rightarrow> 'c app_state" where
  "wave_run L lib C cfg evs st = fold (wave_event_step L lib C cfg) evs st"

definition first_boot :: "'c lru \<Rightarrow> 'c app_state" where
  "first_boot C = with_wave_session_detail_store (Some []) (app_state_new C mem_store_new)"

section \<open>What a leaf commits to\<close>

text \<open>
  A payload carries a detail when the decoder of the framing reads its record and its HMAC from it.  The invariant is stated for any relation \<open>Q\<close> between payloads and details: what cache and
  side table hold for a leaf is related to a payload with the hash of that leaf.
\<close>

definition carries :: "libs \<Rightarrow> bytes \<Rightarrow> wave_session_leaf_side \<Rightarrow> bool" where
  "carries L p side \<longleftrightarrow>
     (\<exists>rb. split_leaf_payload p = Ok (rb, ls_kernel_hmac side) \<and> parse_session_record L rb = Some (ls_record side))"

definition committed :: "(bytes \<Rightarrow> wave_session_leaf_side \<Rightarrow> bool) \<Rightarrow> libs \<Rightarrow> mem_store \<Rightarrow> nat \<Rightarrow> wave_session_leaf_side \<Rightarrow> bool" where
  "committed Q L store i side \<longleftrightarrow>
     i < length (ms_leaves store) \<and> (\<exists>p. leaf_hash (sha256 L) p = ml_hash (ms_leaves store ! i) \<and> Q p side)"

definition row_ok :: "(bytes \<Rightarrow> wave_session_leaf_side \<Rightarrow> bool) \<Rightarrow> libs \<Rightarrow> tlog_lib \<Rightarrow> side_row \<Rightarrow> bool" where
  "row_ok Q L lib row \<longleftrightarrow>
     (\<exists>side p. decode_row L lib row = Ok side \<and> Q p side \<and>
        sr_leaf_hash_sha256 row = hex_encode L (be_bytes (leaf_hash (sha256 L) p)))"

definition stored :: "'c app_state \<Rightarrow> nat \<Rightarrow> bool" where
  "stored st i \<longleftrightarrow>
     (\<exists>rows h row. ap_wave_session_detail_store st = Some (Some rows) \<and> ap_wave_session_leaf_hashes st i = Some h \<and>
        row \<in> set rows \<and> sr_leaf_hash_sha256 row = h)"

definition wave_core :: "(bytes \<Rightarrow> wave_session_leaf_side \<Rightarrow> bool) \<Rightarrow> libs \<Rightarrow> tlog_lib \<Rightarrow> 'c lru \<Rightarrow> 'c app_state \<Rightarrow> bool" where
  "wave_core Q L lib C st \<longleftrightarrow>
     mem_inv (sha256 L) (ap_store st) \<and>
     (\<exists>rows. ap_wave_session_detail_store st = Some (Some rows) \<and> list_all (row_ok Q L lib) rows) \<and>
     (\<forall>i h. ap_wave_session_leaf_hashes st i = Some h \<longrightarrow>
        i < length (ms_leaves (ap_store st)) \<and> h = hex_encode L (be_bytes (ml_hash (ms_leaves (ap_store st) ! i)))) \<and>
     (\<forall>i side. fst (lru_get C (ap_wave_session_payloads st) i) = Some side \<longrightarrow> committed Q L (ap_store st) i side \<and> stored st i)"

definition wave_inv :: "(bytes \<Rightarrow> wave_session_leaf_side \<Rightarrow> bool) \<Rightarrow> libs \<Rightarrow> tlog_lib \<Rightarrow> 'c lru \<Rightarrow> 'c app_state \<Rightarrow> bool" where
  "wave_inv Q L lib C st \<longleftrightarrow> wave_core Q L lib C st \<and> (\<forall>w i. i \<in> set (wave_session_leaves st w) \<longrightarrow> stored st i)"

definition prints_sessions :: "libs \<Rightarrow> bool" where
  "prints_sessions L \<longleftrightarrow> (\<forall>r. json_prints L (session_record_json r)) \<and> (\<forall>side. json_prints L (detail_json L side))"

lemma prints_sessionsD:
  "prints_sessions L \<Longrightarrow> json_prints L (session_record_json r)" "prints_sessions L \<Longrightarrow> json_prints L (detail_json L side)"
  by (simp_all add: prints_sessions_def)

lemma parse_canonical:
  assumes "json_prints L (session_record_json r)"
  shows "parse_session_record L (canonical_bytes L r) = Some r"
  using assms
  by (simp add: parse_session_record_def canonical_bytes_def json_prints_def sort_value_wf json_wf_session_record session_record_roundtrip)

lemma carries_built:
  assumes "json_prints L (session_record_json (ls_record side))" "length (canonical_bytes L (ls_record side)) + 40 < 2 ^ 64"
  shows "carries L (build_leaf_payload (canonical_bytes L (ls_record side)) (ls_kernel_hmac side)) side"
  unfolding carries_def using split_build_leaf[OF assms(2)] parse_canonical[OF assms(1)] by blast

lemma committed_mono:
  assumes "committed Q L s i side" "prefix (ms_leaves s) (ms_leaves t)"
  shows "committed Q L t i side"
  using assms by (auto simp: committed_def prefix_def nth_append)

section \<open>The invariant\<close>

lemma core_index [simp]:
  "wave_core Q L lib C (record_wave_session_leaf w i st) = wave_core Q L lib C st"
  "wave_core Q L lib C (record_unreadable_wave_leaf w i st) = wave_core Q L lib C st"
  "stored (record_wave_session_leaf w i st) j = stored st j"
  "stored (record_unreadable_wave_leaf w i st) j = stored st j"
  "stored (st\<lparr>ap_store := s\<rparr>) j = stored st j"
  "ap_store (record_wave_session_leaf w i st) = ap_store st"
  "ap_store (record_unreadable_wave_leaf w i st) = ap_store st"
  by (simp_all add: wave_core_def stored_def record_wave_session_leaf_def record_unreadable_wave_leaf_def)

lemma leaves_index [simp]:
  "set (wave_session_leaves (record_wave_session_leaf w i st) v) = set (wave_session_leaves st v) \<union> (if v = w then {i} else {})"
  "wave_session_leaves (record_unreadable_wave_leaf w i st) v = wave_session_leaves st v"
  "wave_session_leaves (st\<lparr>ap_store := s\<rparr>) v = wave_session_leaves st v"
  by (auto simp: wave_session_leaves_def record_wave_session_leaf_def record_unreadable_wave_leaf_def push_leaf_def Let_def
      split: option.split)

lemma core_store:
  assumes "wave_core Q L lib C st" "mem_inv (sha256 L) s" "prefix (ms_leaves (ap_store st)) (ms_leaves s)"
  shows "wave_core Q L lib C (st\<lparr>ap_store := s\<rparr>)"
proof -
  have l: "length (ms_leaves (ap_store st)) \<le> length (ms_leaves s)" using assms(3) by (rule prefix_length_le)
  have n: "i < length (ms_leaves (ap_store st)) \<Longrightarrow> ms_leaves s ! i = ms_leaves (ap_store st) ! i" for i
    using assms(3) by (auto simp: prefix_def nth_append)
  have c: "committed Q L (ap_store st) i side \<Longrightarrow> committed Q L s i side" for i side
    using committed_mono assms(3) by blast
  show ?thesis using assms(1,2) l n c by (auto simp: wave_core_def) (meson order_less_le_trans)
qed

lemma hash32_be_inj: "be_bytes (v :: hash32) = be_bytes w \<longleftrightarrow> v = w"
  using be_bytes_inj[of v w] by auto

lemma hex_be_inj: "hex_contract L \<Longrightarrow> hex_encode L (be_bytes (v :: hash32)) = hex_encode L (be_bytes w) \<longleftrightarrow> v = w"
  unfolding hex_contract_def by (metis Inr_inject hash32_be_inj)

lemma row_committed:
  assumes "wave_core Q L lib C st" "hex_contract L" "ap_wave_session_detail_store st = Some (Some rows)"
    and "find (\<lambda>row. sr_leaf_hash_sha256 row = h) rows = Some row" "i < length (ms_leaves (ap_store st))"
    and "h = hex_encode L (be_bytes (ml_hash (ms_leaves (ap_store st) ! i)))"
  shows "\<exists>side. decode_row L lib row = Ok side \<and> committed Q L (ap_store st) i side"
proof -
  have "row \<in> set rows" "sr_leaf_hash_sha256 row = h" using assms(4) by (auto simp: find_Some_iff)
  then show ?thesis
    using assms hex_be_inj[OF assms(2)] unfolding wave_core_def row_ok_def committed_def list_all_iff by fastforce
qed

lemma lookup_committed:
  assumes "wave_core Q L lib C st" "hex_contract L" "fst (lookup_wave_session_payload L lib C None i st) = Some side"
  shows "committed Q L (ap_store st) i side"
proof (cases "fst (lru_get C (ap_wave_session_payloads st) i)")
  case None
  from assms(1) obtain rows where rows: "ap_wave_session_detail_store st = Some (Some rows)" by (auto simp: wave_core_def)
  from None assms(3) rows obtain h where h: "ap_wave_session_leaf_hashes st i = Some h"
    "side_lookup L lib None h (Some rows) = Ok (Some side)"
    by (auto simp: lookup_wave_session_payload_def split_beta Let_def split: option.splits sum.splits)
  then obtain row where row: "find (\<lambda>row. sr_leaf_hash_sha256 row = h) rows = Some row" "decode_row L lib row = Ok side"
    by (auto simp: side_lookup_def sql_rows_def res_bind_Ok_iff split: option.splits)
  from h(1) assms(1) have "i < length (ms_leaves (ap_store st))" "h = hex_encode L (be_bytes (ml_hash (ms_leaves (ap_store st) ! i)))"
    unfolding wave_core_def by blast+
  from row_committed[OF assms(1,2) rows row(1) this] row(2) show ?thesis by simp
next
  case (Some s)
  then show ?thesis using assms(1,3)
    by (auto simp: lookup_wave_session_payload_def split_beta Let_def wave_core_def)
qed

lemma lookup_stored:
  assumes "wave_core Q L lib C st" "fst (lookup_wave_session_payload L lib C None i st) = Some side"
  shows "stored st i"
proof (cases "fst (lru_get C (ap_wave_session_payloads st) i)")
  case None
  from assms(1) obtain rows where rows: "ap_wave_session_detail_store st = Some (Some rows)" by (auto simp: wave_core_def)
  from None assms(2) rows obtain h where h: "ap_wave_session_leaf_hashes st i = Some h"
    "side_lookup L lib None h (Some rows) = Ok (Some side)"
    by (auto simp: lookup_wave_session_payload_def split_beta Let_def split: option.splits sum.splits)
  then obtain row where "find (\<lambda>row. sr_leaf_hash_sha256 row = h) rows = Some row"
    by (auto simp: side_lookup_def sql_rows_def res_bind_Ok_iff split: option.splits)
  then have "row \<in> set rows" "sr_leaf_hash_sha256 row = h" by (auto simp: find_Some_iff)
  with rows h(1) show ?thesis unfolding stored_def by blast
next
  case (Some s)
  then show ?thesis using assms(1) by (auto simp: wave_core_def)
qed

lemma stored_holds:
  assumes "wave_core Q L lib C st" "lru_contract C" "hex_contract L" "stored st i"
  shows "holds_detail L lib C st i (committed Q L (ap_store st) i)"
proof -
  from assms(4) obtain rows h row where r: "ap_wave_session_detail_store st = Some (Some rows)" "ap_wave_session_leaf_hashes st i = Some h"
    "row \<in> set rows" "sr_leaf_hash_sha256 row = h" unfolding stored_def by blast
  then obtain row' where f: "find (\<lambda>row. sr_leaf_hash_sha256 row = h) rows = Some row'"
    by (cases "find (\<lambda>row. sr_leaf_hash_sha256 row = h) rows") (auto simp: find_None_iff)
  have h: "i < length (ms_leaves (ap_store st))" "h = hex_encode L (be_bytes (ml_hash (ms_leaves (ap_store st) ! i)))"
    using assms(1) r(2) unfolding wave_core_def by blast+
  from row_committed[OF assms(1,3) r(1) f h] r f assms(1,2) show ?thesis
    unfolding holds_detail_def wave_core_def by blast
qed

lemma lookup_fields [simp]:
  "ap_store (snd (lookup_wave_session_payload L lib C f i st)) = ap_store st"
  "stored (snd (lookup_wave_session_payload L lib C f i st)) j = stored st j"
  "wave_session_leaves (snd (lookup_wave_session_payload L lib C f i st)) w = wave_session_leaves st w"
  by (subst lookup_state, simp add: stored_def wave_session_leaves_def)+

lemma core_lookup:
  assumes "wave_core Q L lib C st" "lru_contract C" "hex_contract L"
  shows "wave_core Q L lib C (snd (lookup_wave_session_payload L lib C None i st))"
proof -
  let ?st' = "snd (lookup_wave_session_payload L lib C None i st)"
  have "committed Q L (ap_store st) j side \<and> stored st j"
    if "fst (lru_get C (ap_wave_session_payloads ?st') j) = Some side" for j side
    using lookup_cache[OF assms(2) that] lookup_committed[OF assms(1,3)] lookup_stored[OF assms(1)] assms(1)
    by (auto simp: wave_core_def)
  moreover have "ap_wave_session_detail_store ?st' = ap_wave_session_detail_store st"
    "ap_wave_session_leaf_hashes ?st' = ap_wave_session_leaf_hashes st" by (subst lookup_state, simp)+
  ultimately show ?thesis using assms(1) by (simp add: wave_core_def)
qed

lemma core_register:
  assumes "wave_core Q L lib C st" "i < length (ms_leaves (ap_store st))" "h = hex_encode L (be_bytes (ml_hash (ms_leaves (ap_store st) ! i)))"
  shows "wave_core Q L lib C (register_wave_session_leaf_hash i h st)"
  using assms
  by (auto simp: wave_core_def register_wave_session_leaf_hash_def or_insert_def stored_def split: option.split) blast

lemma register_fields [simp]:
  "ap_store (register_wave_session_leaf_hash i h st) = ap_store st"
  "wave_session_leaves (register_wave_session_leaf_hash i h st) w = wave_session_leaves st w"
  by (simp_all add: register_wave_session_leaf_hash_def wave_session_leaves_def)

lemma stored_register: "stored st j \<Longrightarrow> stored (register_wave_session_leaf_hash i h st) j"
  unfolding stored_def register_wave_session_leaf_hash_def or_insert_def by (auto split: option.split)

lemma record_payload_fields [simp]:
  "ap_store (record_wave_session_payload L lib C now f i h side st) = ap_store st"
  "wave_session_leaves (record_wave_session_payload L lib C now f i h side st) w = wave_session_leaves st w"
  "ap_wave_session_leaf_hashes (record_wave_session_payload L lib C now f i h side st) = or_insert (ap_wave_session_leaf_hashes st) i h"
  by (simp_all add: record_wave_session_payload_def split_beta Let_def wave_session_leaves_def)

lemma record_payload_cache:
  assumes "lru_contract C"
    and "fst (lru_get C (ap_wave_session_payloads (record_wave_session_payload L lib C now f i h side st)) j) = Some v"
  shows "fst (lru_get C (ap_wave_session_payloads st) j) = Some v \<or> j = i \<and> v = side"
  using assms(2) lru_put_get[OF assms(1), of _ i side j v]
  by (auto simp: record_wave_session_payload_def split_beta Let_def lru_laws(2)[OF assms(1)] split: if_splits)

text \<open>The rows after an insert: those of before, and one under the given key.\<close>

lemma record_payload_rows:
  assumes "ap_wave_session_detail_store st = Some (Some rows)"
  obtains rows' where "ap_wave_session_detail_store (record_wave_session_payload L lib C now None i h side st) = Some (Some rows')"
    "set rows \<subseteq> set rows'" "\<exists>row\<in>set rows'. sr_leaf_hash_sha256 row = h"
    "\<And>row. row \<in> set rows' \<Longrightarrow> row \<in> set rows \<or> sr_leaf_hash_sha256 row = h \<and> sr_detail_json row = json_to_string L (detail_json L side)"
proof -
  have "\<exists>rows'. ap_wave_session_detail_store (record_wave_session_payload L lib C now None i h side st) = Some (Some rows') \<and>
    set rows \<subseteq> set rows' \<and> (\<exists>row\<in>set rows'. sr_leaf_hash_sha256 row = h) \<and>
    (\<forall>row\<in>set rows'. row \<in> set rows \<or> sr_leaf_hash_sha256 row = h \<and> sr_detail_json row = json_to_string L (detail_json L side))"
    using assms by (auto simp: record_wave_session_payload_def split_beta Let_def side_insert_def sql_rows_def)
  then show ?thesis using that by blast
qed

lemma stored_intro:
  "ap_wave_session_detail_store st = Some (Some rows) \<Longrightarrow> ap_wave_session_leaf_hashes st i = Some (sr_leaf_hash_sha256 row) \<Longrightarrow>
   row \<in> set rows \<Longrightarrow> stored st i"
  unfolding stored_def by blast

lemma stored_record:
  assumes "wave_core Q L lib C st" "h = hex_encode L (be_bytes (ml_hash (ms_leaves (ap_store st) ! i)))" "j = i \<or> stored st j"
  shows "stored (record_wave_session_payload L lib C now None i h side st) j"
proof -
  from assms(1) obtain rows where rows: "ap_wave_session_detail_store st = Some (Some rows)" by (auto simp: wave_core_def)
  have "ap_wave_session_leaf_hashes st i = Some g \<Longrightarrow> g = h" for g
    using assms(1) unfolding assms(2) wave_core_def by blast
  then have h: "or_insert (ap_wave_session_leaf_hashes st) i h i = Some h"
    by (cases "ap_wave_session_leaf_hashes st i") (simp_all add: or_insert_def)
  from record_payload_rows[OF rows, of L lib C now i h side] obtain rows' where rows':
    "ap_wave_session_detail_store (record_wave_session_payload L lib C now None i h side st) = Some (Some rows')"
    "set rows \<subseteq> set rows'" "\<exists>row\<in>set rows'. sr_leaf_hash_sha256 row = h" by metis
  show ?thesis
  proof (cases "j = i")
    case True
    with rows'(3) h show ?thesis using stored_intro[OF rows'(1)] by auto
  next
    case False
    then have "stored st j" using assms(3) by simp
    then obtain row where row: "ap_wave_session_leaf_hashes st j = Some (sr_leaf_hash_sha256 row)" "row \<in> set rows"
      using rows unfolding stored_def by auto
    then have "or_insert (ap_wave_session_leaf_hashes st) i h j = Some (sr_leaf_hash_sha256 row)"
      using False by (simp add: or_insert_def split: option.split)
    then show ?thesis using stored_intro[OF rows'(1), of j row] row(2) rows'(2) by auto
  qed
qed

lemma core_record:
  assumes "wave_core Q L lib C st" "lru_contract C" "hex_contract L" "json_prints L (detail_json L side)"
    and "h = hex_encode L (be_bytes (ml_hash (ms_leaves (ap_store st) ! i)))" "committed Q L (ap_store st) i side"
  shows "wave_core Q L lib C (record_wave_session_payload L lib C now None i h side st)"
proof -
  let ?st' = "record_wave_session_payload L lib C now None i h side st"
  from assms(1) obtain rows where rows: "ap_wave_session_detail_store st = Some (Some rows)" "list_all (row_ok Q L lib) rows"
    by (auto simp: wave_core_def)
  from record_payload_rows[OF rows(1), of L lib C now i h side] obtain rows' where rows':
    "ap_wave_session_detail_store ?st' = Some (Some rows')"
    "\<And>row. row \<in> set rows' \<Longrightarrow> row \<in> set rows \<or> sr_leaf_hash_sha256 row = h \<and> sr_detail_json row = json_to_string L (detail_json L side)"
    by blast
  have "row_ok Q L lib row" if "sr_leaf_hash_sha256 row = h" "sr_detail_json row = json_to_string L (detail_json L side)" for row
    using that detail_roundtrip[OF assms(3,4)] assms(5,6) by (fastforce simp: row_ok_def committed_def)
  then have "list_all (row_ok Q L lib) rows'" using rows(2) rows'(2) unfolding list_all_iff by blast
  moreover have "committed Q L (ap_store st) j v \<and> stored ?st' j"
    if "fst (lru_get C (ap_wave_session_payloads ?st') j) = Some v" for j v
    using record_payload_cache[OF assms(2) that] assms(1,6) stored_record[OF assms(1,5), of j] by (auto simp: wave_core_def)
  moreover have "i < length (ms_leaves (ap_store st))" using assms(6) by (simp add: committed_def)
  ultimately show ?thesis using assms(1,5) rows'(1)
    by (auto simp: wave_core_def or_insert_def split: option.splits if_splits)
qed

section \<open>Every event keeps the invariant\<close>

lemma append_checks_record:
  "append_session_checks L lib cfg hdr body = Ok side \<Longrightarrow> ls_record side = wq_record body"
  unfolding append_session_checks_def Let_def if_Err_Ok res_bind_Ok_iff by auto

text \<open>An append either leaves the state alone or records the detail of a leaf that is in the ledger.\<close>

lemma append_session_cases:
  assumes "mem_inv (sha256 L) (ap_store st)"
  obtains (refused) "snd (append_session L lib C cfg now f hdr body st) = st"
      "\<nexists>n r. fst (append_session L lib C cfg now f hdr body st) = Reply n (Inr r)"
    | (accepted) side out n r where "append_session_checks L lib cfg hdr body = Ok side"
      "fst (store_append (sha256 L) (ap_store st) (session_append_input L side)) = Ok out"
      "append_session L lib C cfg now f hdr body st = (Reply n (Inr r),
         record_wave_session_payload L lib C now f (ao_leaf_index out) (hex_encode L (be_bytes (ao_leaf_hash out))) side
           (record_wave_session_leaf (wr_wave_id (wq_record body)) (ao_leaf_index out)
             (st\<lparr>ap_store := snd (store_append (sha256 L) (ap_store st) (session_append_input L side))\<rparr>)))"
      "ws_leaf_index r = ao_leaf_index out"
proof (cases "append_session_checks L lib cfg hdr body")
  case (Inl e)
  then show ?thesis using refused by (simp add: append_session_def)
next
  case (Inr side)
  note checks = this
  show ?thesis using assms
  proof (cases rule: mem_ledger.append_cases[of "sha256 L" "ap_store st" "session_append_input L side"])
    case (conflict i)
    then show ?thesis using refused checks by (simp add: append_session_def)
  next
    case fresh
    then show ?thesis using accepted[OF checks fresh(2)] checks
      by (auto simp: append_session_def split_beta Let_def split: prod.splits)
  next
    case (replay i)
    then show ?thesis using checks accepted[OF checks, of "\<lparr>ao_leaf_index = i, ao_leaf_hash = leaf_hash (sha256 L) (ai_payload (session_append_input L side)), ao_created = False\<rparr>"]
      by (auto simp: append_session_def Let_def)
  qed
qed

abbreviation small_ledger :: "mem_store \<Rightarrow> bool" where
  "small_ledger s \<equiv> list_all (\<lambda>p. length p < 2 ^ 64) (ms_payloads s)"

lemma accepted_committed:
  assumes "mem_inv (sha256 L) s" "fst (store_append (sha256 L) s (session_append_input L side)) = Ok out"
    and "json_prints L (session_record_json (ls_record side))" "small_ledger (snd (store_append (sha256 L) s (session_append_input L side)))"
    and "\<And>p d. p \<in> set (ms_payloads (snd (store_append (sha256 L) s (session_append_input L side)))) \<Longrightarrow> carries L p d \<Longrightarrow> Q p d"
  shows "committed Q L (snd (store_append (sha256 L) s (session_append_input L side))) (ao_leaf_index out) side"
    "ao_leaf_hash out = ml_hash (ms_leaves (snd (store_append (sha256 L) s (session_append_input L side))) ! ao_leaf_index out)"
proof -
  let ?x = "session_append_input L side" and ?s = "snd (store_append (sha256 L) s (session_append_input L side))"
  note rec = mem_ledger.append_recorded[OF assms(1,2)]
  have inv: "mem_inv (sha256 L) ?s" using mem_inv_append assms(1) by blast
  have len: "length (ms_payloads ?s) = length (ms_leaves ?s)" using mem_inv_length[OF inv] .
  show h: "ao_leaf_hash out = ml_hash (ms_leaves ?s ! ao_leaf_index out)"
    using rec mem_inv_hash[OF inv, of "ao_leaf_index out"] len by simp
  have mem: "ai_payload ?x \<in> set (ms_payloads ?s)" using rec by (metis nth_mem)
  then have "length (ai_payload ?x) < 2 ^ 64" using assms(4) by (simp add: list_all_iff)
  then have "length (canonical_bytes L (ls_record side)) + 40 < 2 ^ 64"
    by (simp add: session_append_input_def build_leaf_payload_def)
  from carries_built[OF assms(3) this] show "committed Q L ?s (ao_leaf_index out) side"
    using rec h len assms(5)[OF mem, of side] by (auto simp: committed_def session_append_input_def)
qed

lemma inv_append_session:
  assumes "wave_inv Q L lib C st" "lru_contract C" "hex_contract L" "prints_sessions L"
    and "small_ledger (ap_store (snd (append_session L lib C cfg now None hdr body st)))"
    and "\<And>p d. p \<in> set (ms_payloads (ap_store (snd (append_session L lib C cfg now None hdr body st)))) \<Longrightarrow> carries L p d \<Longrightarrow> Q p d"
  shows "wave_inv Q L lib C (snd (append_session L lib C cfg now None hdr body st))"
proof -
  have mem: "mem_inv (sha256 L) (ap_store st)" using assms(1) by (simp add: wave_inv_def wave_core_def)
  show ?thesis using mem
  proof (cases rule: append_session_cases[of L st lib C cfg now None hdr body])
    case refused
    then show ?thesis using assms(1) by simp
  next
    case (accepted side out n r)
    let ?s = "snd (store_append (sha256 L) (ap_store st) (session_append_input L side))"
    let ?h = "hex_encode L (be_bytes (ao_leaf_hash out))"
    let ?st1 = "record_wave_session_leaf (wr_wave_id (wq_record body)) (ao_leaf_index out) (st\<lparr>ap_store := ?s\<rparr>)"
    have s: "small_ledger ?s" using assms(5) by (simp add: accepted(3))
    have q: "p \<in> set (ms_payloads ?s) \<Longrightarrow> carries L p d \<Longrightarrow> Q p d" for p d using assms(6) by (simp add: accepted(3))
    note c = accepted_committed[where Q = Q, OF mem accepted(2) prints_sessionsD(1)[OF assms(4)] s q]
    have core: "wave_core Q L lib C ?st1"
      using core_store[of Q L lib C st ?s] assms(1) mem_inv_append[OF mem] mem_ledger.append_monotone[OF mem]
      by (simp add: wave_inv_def)
    have h: "?h = hex_encode L (be_bytes (ml_hash (ms_leaves (ap_store ?st1) ! ao_leaf_index out)))" by (simp add: c(2))
    have com: "committed Q L (ap_store ?st1) (ao_leaf_index out) side" using c(1) by simp
    show ?thesis unfolding wave_inv_def accepted(3) snd_conv
      using core_record[OF core assms(2,3) prints_sessionsD(2)[OF assms(4)] h com] stored_record[OF core h] assms(1)
      by (auto simp: wave_inv_def split: if_splits)
  qed
qed

lemma inv_other_store:
  assumes "wave_inv Q L lib C st" "mem_inv (sha256 L) s" "prefix (ms_leaves (ap_store st)) (ms_leaves s)"
  shows "wave_inv Q L lib C (st\<lparr>ap_store := s\<rparr>)"
  using assms core_store by (auto simp: wave_inv_def)

text \<open>The loop of the verify route, for any detail store that keeps its contract.\<close>

context detail_store
begin

lemma verify_leaves_hold:
  "(\<And>i. i \<in> set is \<Longrightarrow> holds s i (P i)) \<Longrightarrow>
   \<exists>sides. fst (verify_leaves L lookup is s) = Ok (map2 (chain_entry L) is sides) \<and> list_all2 P is sides"
proof (induction "is" arbitrary: s)
  case (Cons i "is")
  then obtain side where side: "fst (lookup i s) = Some side" "P i side"
    using lookup_holds[of s i "P i"] by auto
  obtain s' where l: "lookup i s = (Some side, s')" using side(1) by (metis prod.collapse)
  have "\<And>j. j \<in> set is \<Longrightarrow> holds s' j (P j)" using Cons.prems lookup_keeps[of s _ _ i] l by simp
  from Cons.IH[OF this] obtain sides where "fst (verify_leaves L lookup is s') = Ok (map2 (chain_entry L) is sides)" "list_all2 P is sides"
    by blast
  with l side show ?case by (intro exI[of _ "side # sides"]) (auto split: prod.split)
qed simp

end

lemma verify_leaves_state:
  assumes "wave_core Q L lib C st" "lru_contract C" "hex_contract L"
  shows "case verify_leaves L (lookup_wave_session_payload L lib C None) is st of (r, st') \<Rightarrow>
    wave_core Q L lib C st' \<and> ap_store st' = ap_store st \<and>
    (\<forall>w. wave_session_leaves st' w = wave_session_leaves st w) \<and> (\<forall>i. stored st' i = stored st i)"
  using assms(1)
proof (induction "is" arbitrary: st)
  case (Cons i "is")
  obtain r st' where l: "lookup_wave_session_payload L lib C None i st = (r, st')" by fastforce
  have "wave_core Q L lib C st'" "ap_store st' = ap_store st" "\<forall>w. wave_session_leaves st' w = wave_session_leaves st w"
    "\<forall>i. stored st' i = stored st i"
    using core_lookup[OF Cons.prems assms(2,3), of i] lookup_fields[of L lib C None i st] unfolding l by simp_all
  then show ?case using Cons.IH[of st'] l by (cases r) (auto split: prod.splits sum.splits)
qed simp

lemma verify_leaves_ok:
  assumes "wave_core Q L lib C st" "lru_contract C" "hex_contract L" "\<And>i. i \<in> set is \<Longrightarrow> stored st i"
  shows "\<exists>sides st'. verify_leaves L (lookup_wave_session_payload L lib C None) is st = (Ok (map2 (chain_entry L) is sides), st') \<and>
    list_all2 (committed Q L (ap_store st)) is sides \<and> wave_core Q L lib C st' \<and> ap_store st' = ap_store st \<and>
    (\<forall>w. wave_session_leaves st' w = wave_session_leaves st w) \<and> (\<forall>i. stored st' i = stored st i)"
proof -
  have "\<And>i. i \<in> set is \<Longrightarrow> holds_detail L lib C st i (committed Q L (ap_store st) i)"
    using stored_holds[OF assms(1-3)] assms(4) by blast
  from details.verify_leaves_hold[of "is" L lib C st "committed Q L (ap_store st)" L, OF this] obtain sides where
    "fst (verify_leaves L (lookup_wave_session_payload L lib C None) is st) = Ok (map2 (chain_entry L) is sides)"
    "list_all2 (committed Q L (ap_store st)) is sides" by blast
  then show ?thesis using verify_leaves_state[OF assms(1-3), of "is"]
    by (intro exI[of _ sides] exI[of _ "snd (verify_leaves L (lookup_wave_session_payload L lib C None) is st)"])
      (simp add: split_beta prod_eq_iff)
qed

text \<open>The verify route on a state of the invariant.\<close>

lemma verify_session_ok:
  assumes "wave_inv Q L lib C st" "lru_contract C" "hex_contract L" "wave_session_leaves st w \<noteq> []"
  shows "\<exists>sides st'. verify_session L lib C cfg (\<lambda>_. None) w st =
    (let chain = sort_key chain_order (map2 (chain_entry L) (wave_session_leaves st w) sides) in
     (Reply 200 (Inr \<lparr>vw_all_required_stages_present = all_required_stages_present (map ce_record chain), vw_chain = chain,
        vw_kernel_key_fingerprint_sha256 = ap_kernel_key_fingerprint_hex cfg, vw_ok = True,
        vw_transparency_log_ed25519_key_fingerprint_sha256 = ap_transparency_ed25519_key_fingerprint_hex cfg, vw_wave_id = w\<rparr>), st')) \<and>
    list_all2 (committed Q L (ap_store st)) (wave_session_leaves st w) sides \<and> wave_inv Q L lib C st' \<and> ap_store st' = ap_store st \<and>
    (\<forall>w. wave_session_leaves st' w = wave_session_leaves st w)"
proof -
  have "wave_core Q L lib C st" "\<And>i. i \<in> set (wave_session_leaves st w) \<Longrightarrow> stored st i"
    using assms(1) by (auto simp: wave_inv_def)
  from verify_leaves_ok[OF this(1) assms(2,3) this(2)] obtain sides st' where v:
    "verify_leaves L (lookup_wave_session_payload L lib C None) (wave_session_leaves st w) st =
      (Ok (map2 (chain_entry L) (wave_session_leaves st w) sides), st')"
    "list_all2 (committed Q L (ap_store st)) (wave_session_leaves st w) sides" "wave_core Q L lib C st'" "ap_store st' = ap_store st"
    "\<forall>w. wave_session_leaves st' w = wave_session_leaves st w" "\<forall>i. stored st' i = stored st i" by blast
  then show ?thesis using assms(1,4)
    by (intro exI[of _ sides] exI[of _ st']) (simp add: verify_session_def Let_def wave_inv_def)
qed

lemma verify_session_empty:
  "wave_session_leaves st w = [] \<Longrightarrow> snd (verify_session L lib C cfg f w st) = st"
  by (simp add: verify_session_def Let_def)

lemma inv_verify_session:
  assumes "wave_inv Q L lib C st" "lru_contract C" "hex_contract L"
  shows "wave_inv Q L lib C (snd (verify_session L lib C cfg (\<lambda>_. None) w st)) \<and>
    ap_store (snd (verify_session L lib C cfg (\<lambda>_. None) w st)) = ap_store st \<and>
    (\<forall>v. wave_session_leaves (snd (verify_session L lib C cfg (\<lambda>_. None) w st)) v = wave_session_leaves st v)"
proof (cases "wave_session_leaves st w = []")
  case True
  then show ?thesis using assms(1) by (simp add: verify_session_empty)
next
  case False
  from verify_session_ok[OF assms False, of cfg] show ?thesis by (auto simp: Let_def)
qed

section \<open>Restarts\<close>

definition reconstructed :: "libs \<Rightarrow> app_config \<Rightarrow> bytes \<Rightarrow> wave_session_leaf_side option" where
  "reconstructed L cfg p =
     (case split_leaf_payload p of
        Inl _ \<Rightarrow> None
      | Inr (rb, hmac) \<Rightarrow> map_option (\<lambda>rec. \<lparr>ls_record = rec, ls_kernel_hmac = hmac, ls_ed25519_signature = None,
          ls_signature_type = Hmac, ls_key_fingerprint_hex = ap_kernel_key_fingerprint_hex cfg\<rparr>) (parse_session_record L rb))"

lemma reconstructed_carries: "reconstructed L cfg p = Some side \<Longrightarrow> carries L p side"
  by (auto simp: reconstructed_def carries_def split: sum.splits)

lemma carries_reconstructed: "carries L p side \<Longrightarrow> \<exists>side'. reconstructed L cfg p = Some side' \<and> ls_record side' = ls_record side"
  by (auto simp: reconstructed_def carries_def)

lemma load_payloads:
  assumes "mem_inv H s"
  shows "lp \<in> set (load_all_payloads s) \<longleftrightarrow>
    (\<exists>i<length (ms_leaves s). lp = \<lparr>lp_leaf_index = i, lp_leaf_hash = leaf_hash H (ms_payloads s ! i), lp_payload = ms_payloads s ! i\<rparr>)"
proof -
  have "i < length (ms_leaves s) \<Longrightarrow> ml_leaf_index (ms_leaves s ! i) = i" for i
    using assms unfolding mem_inv_def by (metis add.left_neutral length_map nth_map nth_upt)
  then show ?thesis using mem_inv_hash[OF assms] mem_inv_length[OF assms]
    by (auto simp: load_all_payloads_def set_zip image_iff) metis
qed

lemma reconstruct_leaf_skip:
  assumes "reconstructed L cfg (lp_payload lp) = None"
  shows "\<exists>m w i. reconstruct_leaf L lib C cfg now rf wfa lp (n, st) \<in> {(m, st), (m, record_unreadable_wave_leaf w i st)}"
proof (cases "split_leaf_payload (lp_payload lp)")
  case (Inr x)
  then show ?thesis using assms
    by (cases x) (auto simp: reconstruct_leaf_def reconstructed_def split: option.split)
qed (auto simp: reconstruct_leaf_def)

lemma reconstruct_leaf_take:
  assumes "reconstructed L cfg (lp_payload lp) = Some side"
  shows "snd (reconstruct_leaf L lib C cfg now rf wfa lp (n, st)) =
    (let h = hex_encode L (be_bytes (lp_leaf_hash lp));
         l = lookup_wave_session_payload L lib C (rf (lp_leaf_index lp)) (lp_leaf_index lp)
           (register_wave_session_leaf_hash (lp_leaf_index lp) h (record_wave_session_leaf (wr_wave_id (ls_record side)) (lp_leaf_index lp) st)) in
     if fst l = None then record_wave_session_payload L lib C now (wfa (lp_leaf_index lp)) (lp_leaf_index lp) h side (snd l) else snd l)"
proof (cases "split_leaf_payload (lp_payload lp)")
  case (Inr x)
  then show ?thesis using assms
    by (cases x) (auto simp: reconstruct_leaf_def reconstructed_def Let_def split_beta split: option.splits)
qed (use assms in \<open>simp add: reconstructed_def\<close>)

lemma inv_reconstruct_leaf:
  assumes "wave_inv Q L lib C st" "lru_contract C" "hex_contract L" "prints_sessions L"
    and "lp \<in> set (load_all_payloads (ap_store st))"
    and "\<And>side. reconstructed L cfg (lp_payload lp) = Some side \<Longrightarrow> Q (lp_payload lp) side"
  shows "case reconstruct_leaf L lib C cfg now (\<lambda>_. None) (\<lambda>_. None) lp (n, st) of (m, st') \<Rightarrow>
    wave_inv Q L lib C st' \<and> ap_store st' = ap_store st \<and> (\<forall>w. set (wave_session_leaves st w) \<subseteq> set (wave_session_leaves st' w)) \<and>
    (\<forall>side. reconstructed L cfg (lp_payload lp) = Some side \<longrightarrow> lp_leaf_index lp \<in> set (wave_session_leaves st' (wr_wave_id (ls_record side))))"
proof (cases "reconstructed L cfg (lp_payload lp)")
  case None
  from reconstruct_leaf_skip[OF None, of lib C now "\<lambda>_. None" "\<lambda>_. None" n st] show ?thesis
    using assms(1) None by (auto simp: wave_inv_def)
next
  case (Some side)
  let ?i = "lp_leaf_index lp" and ?h = "hex_encode L (be_bytes (lp_leaf_hash lp))"
  let ?st1 = "register_wave_session_leaf_hash ?i ?h (record_wave_session_leaf (wr_wave_id (ls_record side)) ?i st)"
  let ?l = "lookup_wave_session_payload L lib C None ?i ?st1"
  have mem: "mem_inv (sha256 L) (ap_store st)" using assms(1) by (simp add: wave_inv_def wave_core_def)
  from assms(5) have i: "?i < length (ms_leaves (ap_store st))" and hash: "lp_leaf_hash lp = ml_hash (ms_leaves (ap_store st) ! ?i)"
    "leaf_hash (sha256 L) (lp_payload lp) = ml_hash (ms_leaves (ap_store st) ! ?i)"
    using mem_inv_hash[OF mem] by (auto simp: load_payloads[OF mem])
  have core1: "wave_core Q L lib C ?st1" using assms(1) i hash(1) by (intro core_register) (simp_all add: wave_inv_def)
  note core2 = core_lookup[OF core1 assms(2,3), of ?i]
  have com: "committed Q L (ap_store (snd ?l)) ?i side"
    using i hash(2) assms(6)[OF Some] by (auto simp: committed_def)
  have h: "?h = hex_encode L (be_bytes (ml_hash (ms_leaves (ap_store (snd ?l)) ! ?i)))" by (simp add: hash(1))
  let ?st' = "if fst ?l = None then record_wave_session_payload L lib C now None ?i ?h side (snd ?l) else snd ?l"
  have st': "snd (reconstruct_leaf L lib C cfg now (\<lambda>_. None) (\<lambda>_. None) lp (n, st)) = ?st'"
    using reconstruct_leaf_take[OF Some, of lib C now "\<lambda>_. None" "\<lambda>_. None" n st] by (simp add: Let_def)
  have core: "wave_core Q L lib C ?st'" using core2 core_record[OF core2 assms(2,3) prints_sessionsD(2)[OF assms(4)] h com] by simp
  have "stored ?st1 j" if "stored st j" for j using stored_register[of "record_wave_session_leaf _ _ st"] that by simp
  then have "stored ?st' j" if "j = ?i \<or> stored st j" for j
    using that lookup_stored[OF core1] stored_record[OF core2 h, of j] by (cases "fst ?l") auto
  then have "wave_inv Q L lib C ?st'" using core assms(1) by (auto simp: wave_inv_def split: if_splits)
  then show ?thesis using st' Some by (auto simp: split_beta)
qed

lemma inv_reconstruct:
  assumes "lru_contract C" "hex_contract L" "prints_sessions L" "set lps \<subseteq> set (load_all_payloads (ap_store st))"
    and "\<And>lp side. lp \<in> set lps \<Longrightarrow> reconstructed L cfg (lp_payload lp) = Some side \<Longrightarrow> Q (lp_payload lp) side" "wave_inv Q L lib C st"
  shows "case fold (reconstruct_leaf L lib C cfg now (\<lambda>_. None) (\<lambda>_. None)) lps (n, st) of (m, st') \<Rightarrow>
    wave_inv Q L lib C st' \<and> ap_store st' = ap_store st \<and> (\<forall>w. set (wave_session_leaves st w) \<subseteq> set (wave_session_leaves st' w)) \<and>
    (\<forall>lp\<in>set lps. \<forall>side. reconstructed L cfg (lp_payload lp) = Some side \<longrightarrow>
       lp_leaf_index lp \<in> set (wave_session_leaves st' (wr_wave_id (ls_record side))))"
  using assms(4-6)
proof (induction lps arbitrary: n st)
  case (Cons lp lps)
  obtain m st1 where r: "reconstruct_leaf L lib C cfg now (\<lambda>_. None) (\<lambda>_. None) lp (n, st) = (m, st1)" by fastforce
  have 1: "wave_inv Q L lib C st1" "ap_store st1 = ap_store st" "\<And>w. set (wave_session_leaves st w) \<subseteq> set (wave_session_leaves st1 w)"
    "\<And>side. reconstructed L cfg (lp_payload lp) = Some side \<Longrightarrow> lp_leaf_index lp \<in> set (wave_session_leaves st1 (wr_wave_id (ls_record side)))"
    using inv_reconstruct_leaf[OF Cons.prems(3) assms(1-3), of lp cfg now n] Cons.prems(1,2) r by auto
  show ?case using Cons.IH[of st1 m] Cons.prems(1,2) 1 r by (fastforce simp: split_beta)
qed simp

lemma boot_state_inv:
  assumes "mem_inv (sha256 L) s" "lru_contract C" "list_all (row_ok Q L lib) rows"
  shows "wave_inv Q L lib C (with_wave_session_detail_store (Some rows) (app_state_new C s))"
  using assms lru_laws(1)[OF assms(2)]
  by (simp add: wave_inv_def wave_core_def with_wave_session_detail_store_def app_state_new_def wave_session_leaves_def)

text \<open>A restart on any ledger, with the rows the side table has kept.\<close>

lemma inv_reboot:
  assumes "mem_inv (sha256 L) (ap_store st)" "lru_contract C" "hex_contract L" "prints_sessions L"
    and "\<And>p side. p \<in> set (ms_payloads (ap_store st)) \<Longrightarrow> reconstructed L cfg p = Some side \<Longrightarrow> Q p side"
    and "persistent \<Longrightarrow> \<exists>rows. ap_wave_session_detail_store st = Some (Some rows) \<and> list_all (row_ok Q L lib) rows"
  shows "wave_inv Q L lib C (reboot L lib C cfg now persistent st) \<and> ap_store (reboot L lib C cfg now persistent st) = ap_store st \<and>
    (\<forall>i<length (ms_payloads (ap_store st)). \<forall>side. reconstructed L cfg (ms_payloads (ap_store st) ! i) = Some side \<longrightarrow>
       i \<in> set (wave_session_leaves (reboot L lib C cfg now persistent st) (wr_wave_id (ls_record side))))"
proof -
  obtain rows where rows: "snd (ensure_schema None (if persistent then the (ap_wave_session_detail_store st) else None)) = Some rows"
    "list_all (row_ok Q L lib) rows" using assms(6) by (cases persistent) (auto simp: ensure_schema_def)
  let ?st0 = "with_wave_session_detail_store (Some rows) (app_state_new C (ap_store st))"
  have store: "ap_store ?st0 = ap_store st" by (simp add: with_wave_session_detail_store_def app_state_new_def)
  have q: "Q (lp_payload lp) side" if "lp \<in> set (load_all_payloads (ap_store st))" "reconstructed L cfg (lp_payload lp) = Some side" for lp side
    using that assms(5) mem_inv_length[OF assms(1)] by (auto simp: load_payloads[OF assms(1)])
  have r: "reboot L lib C cfg now persistent st =
      snd (fold (reconstruct_leaf L lib C cfg now (\<lambda>_. None) (\<lambda>_. None)) (load_all_payloads (ap_store st)) (0, ?st0))"
    by (simp add: reboot_def rows(1) reconstruct_wave_sessions_from_ledger_def store)
  obtain m st' where f: "fold (reconstruct_leaf L lib C cfg now (\<lambda>_. None) (\<lambda>_. None)) (load_all_payloads (ap_store st)) (0, ?st0) = (m, st')"
    by fastforce
  note i = inv_reconstruct[OF assms(2-4), of "load_all_payloads (ap_store st)" ?st0 cfg Q lib now 0, unfolded store f prod.case,
      OF subset_refl q boot_state_inv[OF assms(1,2) rows(2)]]
  have "i \<in> set (wave_session_leaves st' (wr_wave_id (ls_record side)))"
    if "i < length (ms_payloads (ap_store st))" "reconstructed L cfg (ms_payloads (ap_store st) ! i) = Some side" for i side
  proof -
    let ?lp = "\<lparr>lp_leaf_index = i, lp_leaf_hash = leaf_hash (sha256 L) (ms_payloads (ap_store st) ! i), lp_payload = ms_payloads (ap_store st) ! i\<rparr>"
    have "?lp \<in> set (load_all_payloads (ap_store st))"
      using that(1) mem_inv_length[OF assms(1)] by (auto simp: load_payloads[OF assms(1)])
    then show ?thesis using i that(2) by (metis leaf_payload_record.select_convs(1,3))
  qed
  then show ?thesis unfolding r f snd_conv using i by blast
qed

end
