(* ===== verification/WaveRuns.thy ===== *)
theory WaveRuns
  imports WaveSession "HOL-Library.Countable"
begin

text \<open>
  Runs of the transparency-log service: any sequence of session appends, verifications, token and
  audit appends and restarts (\<open>wave_run\<close>).  The lemmas lift the invariant of \<^verbatim>\<open>WaveSession\<close> to runs; the
  properties say what the verify route answers after any run, and what a restart takes from the
  ledger without checking it.
\<close>

section \<open>The ledger along a run\<close>

lemma verify_leaves_store: "ap_store (snd (verify_leaves L (\<lambda>i. lookup_wave_session_payload L lib C (f i) i) is st)) = ap_store st"
proof (induction "is" arbitrary: st)
  case (Cons i "is")
  have "ap_store st' = ap_store st" if "lookup_wave_session_payload L lib C (f i) i st = (r, st')" for r st'
    using lookup_fields(1)[of L lib C "f i" i st] that by simp
  moreover obtain r st' where l: "lookup_wave_session_payload L lib C (f i) i st = (r, st')" by fastforce
  ultimately have "ap_store st' = ap_store st" by blast
  then show ?case using Cons[of st'] l by (cases r) (auto split: prod.split sum.split)
qed simp

lemma verify_session_store: "ap_store (snd (verify_session L lib C cfg f w st)) = ap_store st"
  using verify_leaves_store[of L lib C f "wave_session_leaves st w" st]
  by (auto simp: verify_session_def Let_def split: prod.split sum.split)

lemma reconstruct_leaf_store: "ap_store (snd (reconstruct_leaf L lib C cfg now rf wfa lp (n, st))) = ap_store st"
proof (cases "reconstructed L cfg (lp_payload lp)")
  case None
  then show ?thesis using reconstruct_leaf_skip[OF None, of lib C now rf wfa n st] by auto
next
  case (Some side)
  then show ?thesis by (simp add: reconstruct_leaf_take Let_def)
qed

lemma reconstruct_store: "ap_store (snd (fold (reconstruct_leaf L lib C cfg now rf wfa) lps x)) = ap_store (snd x)"
proof (induction lps arbitrary: x)
  case (Cons lp lps)
  then show ?case using reconstruct_leaf_store[of L lib C cfg now rf wfa lp "fst x" "snd x"] by simp
qed simp

lemma reboot_store: "ap_store (reboot L lib C cfg now persistent st) = ap_store st"
  by (simp add: reboot_def reconstruct_wave_sessions_from_ledger_def reconstruct_store with_wave_session_detail_store_def app_state_new_def)

definition ledger_grows :: "libs \<Rightarrow> mem_store \<Rightarrow> mem_store \<Rightarrow> bool" where
  "ledger_grows L s t \<longleftrightarrow> mem_inv (sha256 L) t \<and> prefix (ms_leaves s) (ms_leaves t) \<and> prefix (ms_payloads s) (ms_payloads t)"

lemma ledger_grows_append:
  "mem_inv (sha256 L) s \<Longrightarrow> t = s \<or> (\<exists>x. t = snd (store_append (sha256 L) s x)) \<Longrightarrow> ledger_grows L s t"
  using mem_inv_append mem_ledger.append_monotone unfolding ledger_grows_def by blast

lemma append_route_store: "\<exists>x. snd (append_route L fpr body s) \<in> {s, snd (store_append (sha256 L) s x)}"
  by (auto simp: append_route_def Let_def split: sum.split prod.split) (metis snd_conv)+

lemma audit_store: "\<exists>x. snd (audit_leaf_append L lib f body s) \<in> {s, snd (store_append (sha256 L) s x)}"
  by (auto simp: audit_leaf_append_def Let_def split: sum.split prod.split) (metis snd_conv)+

lemma event_ledger:
  assumes "mem_inv (sha256 L) (ap_store st)"
  shows "ledger_grows L (ap_store st) (ap_store (wave_event_step L lib C cfg ev st))"
proof (rule ledger_grows_append[OF assms])
  show "ap_store (wave_event_step L lib C cfg ev st) = ap_store st \<or>
    (\<exists>x. ap_store (wave_event_step L lib C cfg ev st) = snd (store_append (sha256 L) (ap_store st) x))"
  proof (cases ev)
    case (AppendSession now hdr body)
    show ?thesis using assms
      by (cases rule: append_session_cases[of L st lib C cfg now None hdr body]) (auto simp: AppendSession)
  next
    case (AppendToken body)
    then show ?thesis using append_route_store[of L "ap_kernel_key_fingerprint_hex cfg" body "ap_store st"] by auto
  next
    case (AppendMcpAudit body)
    then show ?thesis using audit_store[of L lib _ body "ap_store st"] by (auto simp: append_mcp_audit_def)
  next
    case (AppendDrift body)
    then show ?thesis using audit_store[of L lib _ body "ap_store st"] by (auto simp: append_reconciler_drift_def)
  qed (simp_all add: verify_session_store reboot_store)
qed

lemma wave_run_simps [simp]:
  "wave_run L lib C cfg [] st = st"
  "wave_run L lib C cfg (ev # evs) st = wave_run L lib C cfg evs (wave_event_step L lib C cfg ev st)"
  "wave_run L lib C cfg (evs @ evs') st = wave_run L lib C cfg evs' (wave_run L lib C cfg evs st)"
  by (simp_all add: wave_run_def)

lemma run_ledger:
  "mem_inv (sha256 L) (ap_store st) \<Longrightarrow> ledger_grows L (ap_store st) (ap_store (wave_run L lib C cfg evs st))"
proof (induction evs arbitrary: st)
  case (Cons ev evs)
  then show ?case using event_ledger[OF Cons.prems, of lib C cfg ev]
    by (auto simp: ledger_grows_def intro: prefix_order.trans)
qed (simp add: ledger_grows_def)

lemma small_before: "ledger_grows L s t \<Longrightarrow> small_ledger t \<Longrightarrow> small_ledger s"
  by (auto simp: ledger_grows_def prefix_def)

lemma append_route_recorded:
  assumes "mem_inv (sha256 L) s" "append_route L fpr body s = (Reply n (Inr r), s1)" "tlog_b64url_decode L (aq_token_b64 body) = Ok p"
  shows "mem_inv (sha256 L) s1" "as_leaf_index r < length (ms_payloads s1)" "ms_payloads s1 ! as_leaf_index r = p"
proof -
  from assms(2) obtain x out where x: "append_checks L fpr body = Ok x" "fst (store_append (sha256 L) s x) = Ok out"
    "s1 = snd (store_append (sha256 L) s x)" "as_leaf_index r = ao_leaf_index out"
    by (auto simp: append_route_def Let_def service_error_not_Ok split: sum.splits prod.splits)
  from x(1) assms(3) have "ai_payload x = p" by (auto simp: append_checks_def res_bind_Ok_iff Let_def split: if_splits)
  then show "mem_inv (sha256 L) s1" "as_leaf_index r < length (ms_payloads s1)" "ms_payloads s1 ! as_leaf_index r = p"
    using mem_ledger.append_recorded[OF assms(1) x(2)] mem_inv_append[OF assms(1)] x(3,4) by simp_all
qed

section \<open>The invariant along a run\<close>

definition indexed :: "libs \<Rightarrow> app_config \<Rightarrow> 'c app_state \<Rightarrow> string \<Rightarrow> nat \<Rightarrow> bool" where
  "indexed L cfg st w i \<longleftrightarrow>
     i \<in> set (wave_session_leaves st w) \<and> i < length (ms_payloads (ap_store st)) \<and>
     (\<exists>side. reconstructed L cfg (ms_payloads (ap_store st) ! i) = Some side \<and> wr_wave_id (ls_record side) = w)"

text \<open>What the service needs of its libraries.\<close>

definition log_contracts :: "libs \<Rightarrow> 'c lru \<Rightarrow> bool" where
  "log_contracts L C \<longleftrightarrow> lru_contract C \<and> hex_contract L \<and> prints_sessions L"

lemma log_contractsD: "log_contracts L C \<Longrightarrow> lru_contract C" "log_contracts L C \<Longrightarrow> hex_contract L" "log_contracts L C \<Longrightarrow> prints_sessions L"
  by (simp_all add: log_contracts_def)

text \<open>
  The details the service holds come from payloads of the ledger: \<open>Q\<close> is any relation that every
  payload of the ledger has with the details it carries.
\<close>

lemma inv_event:
  assumes "log_contracts L C" "wave_inv Q L lib C st" "small_ledger (ap_store (wave_event_step L lib C cfg ev st))"
    and "\<And>p d. p \<in> set (ms_payloads (ap_store (wave_event_step L lib C cfg ev st))) \<Longrightarrow> carries L p d \<Longrightarrow> Q p d"
  shows "wave_inv Q L lib C (wave_event_step L lib C cfg ev st)"
proof -
  have core: "wave_core Q L lib C st" using assms(2) by (simp add: wave_inv_def)
  then have mem: "mem_inv (sha256 L) (ap_store st)" by (simp add: wave_core_def)
  have g: "mem_inv (sha256 L) (ap_store (wave_event_step L lib C cfg ev st))"
    "prefix (ms_leaves (ap_store st)) (ms_leaves (ap_store (wave_event_step L lib C cfg ev st)))"
    using event_ledger[OF mem] by (auto simp: ledger_grows_def)
  show ?thesis
  proof (cases ev)
    case (AppendSession now hdr body)
    then show ?thesis using assms(3,4) inv_append_session[where Q = Q, OF assms(2) log_contractsD[OF assms(1)]] by simp
  next
    case (VerifyWave wid)
    then show ?thesis using inv_verify_session[OF assms(2) log_contractsD(1,2)[OF assms(1)]] by simp
  next
    case (Restart now persistent)
    have "\<exists>rows. ap_wave_session_detail_store st = Some (Some rows) \<and> list_all (row_ok Q L lib) rows"
      using core by (simp add: wave_core_def)
    then show ?thesis
      using inv_reboot[OF mem log_contractsD[OF assms(1)], of cfg Q persistent lib now] assms(4) reconstructed_carries Restart
      by (auto simp: reboot_store)
  qed (use g inv_other_store[OF assms(2)] in simp_all)
qed

lemma indexed_event:
  assumes "log_contracts L C" "wave_inv Q L lib C st" "indexed L cfg st w i"
    and "\<And>p d. p \<in> set (ms_payloads (ap_store st)) \<Longrightarrow> carries L p d \<Longrightarrow> Q p d"
  shows "indexed L cfg (wave_event_step L lib C cfg ev st) w i"
proof -
  have core: "wave_core Q L lib C st" using assms(2) by (simp add: wave_inv_def)
  then have mem: "mem_inv (sha256 L) (ap_store st)" by (simp add: wave_core_def)
  obtain side where side: "i < length (ms_payloads (ap_store st))"
    "reconstructed L cfg (ms_payloads (ap_store st) ! i) = Some side" "wr_wave_id (ls_record side) = w"
    using assms(3) by (auto simp: indexed_def)
  have "prefix (ms_payloads (ap_store st)) (ms_payloads (ap_store (wave_event_step L lib C cfg ev st)))"
    using event_ledger[OF mem] by (simp add: ledger_grows_def)
  then have same: "i < length (ms_payloads (ap_store (wave_event_step L lib C cfg ev st)))"
    "ms_payloads (ap_store (wave_event_step L lib C cfg ev st)) ! i = ms_payloads (ap_store st) ! i"
    using side(1) by (auto simp: prefix_def nth_append)
  have "i \<in> set (wave_session_leaves (wave_event_step L lib C cfg ev st) w)"
  proof (cases ev)
    case (AppendSession now hdr body)
    show ?thesis using mem
      by (cases rule: append_session_cases[of L st lib C cfg now None hdr body]) (use assms(3) in \<open>auto simp: AppendSession indexed_def\<close>)
  next
    case (VerifyWave wid)
    then show ?thesis using inv_verify_session[OF assms(2) log_contractsD(1,2)[OF assms(1)]] assms(3) by (auto simp: indexed_def)
  next
    case (Restart now persistent)
    have "\<exists>rows. ap_wave_session_detail_store st = Some (Some rows) \<and> list_all (row_ok Q L lib) rows"
      using core by (simp add: wave_core_def)
    then show ?thesis
      using inv_reboot[OF mem log_contractsD[OF assms(1)], of cfg Q persistent lib now] assms(4) reconstructed_carries side Restart by auto
  qed (use assms(3) in \<open>auto simp: indexed_def\<close>)
  with same side show ?thesis by (auto simp: indexed_def)
qed

lemma payloads_before: "ledger_grows L s t \<Longrightarrow> set (ms_payloads s) \<subseteq> set (ms_payloads t)"
  by (auto simp: ledger_grows_def prefix_def)

lemma run_invariant:
  assumes "log_contracts L C" "wave_inv Q L lib C st" "small_ledger (ap_store (wave_run L lib C cfg evs st))"
    and "\<And>p d. p \<in> set (ms_payloads (ap_store (wave_run L lib C cfg evs st))) \<Longrightarrow> carries L p d \<Longrightarrow> Q p d"
  shows "wave_inv Q L lib C (wave_run L lib C cfg evs st) \<and>
    (\<forall>w i. indexed L cfg st w i \<longrightarrow> indexed L cfg (wave_run L lib C cfg evs st) w i)"
  using assms(2-4)
proof (induction evs arbitrary: st)
  case (Cons ev evs)
  let ?st = "wave_event_step L lib C cfg ev st"
  have mem: "mem_inv (sha256 L) (ap_store st)" using Cons.prems(1) by (simp add: wave_inv_def wave_core_def)
  then have g: "ledger_grows L (ap_store st) (ap_store ?st)" using event_ledger by blast
  then have g': "ledger_grows L (ap_store ?st) (ap_store (wave_run L lib C cfg evs ?st))"
    by (intro run_ledger) (simp add: ledger_grows_def)
  have small: "small_ledger (ap_store ?st)" using small_before[OF g'] Cons.prems(2) by simp
  have q: "Q p d" if "p \<in> set (ms_payloads (ap_store ?st))" "carries L p d" for p d
    using that payloads_before[OF g'] Cons.prems(3) by auto
  have q0: "Q p d" if "p \<in> set (ms_payloads (ap_store st))" "carries L p d" for p d
    using that payloads_before[OF g] q by auto
  show ?case using Cons.IH[OF inv_event[where Q = Q, OF assms(1) Cons.prems(1) small q]] Cons.prems(2,3)
      indexed_event[where Q = Q, OF assms(1) Cons.prems(1) _ q0] by simp
qed simp

text \<open>What the verify route answers for a wave with indexed leaves.\<close>

lemma verify_answers:
  assumes "log_contracts L C" "wave_inv Q L lib C st" "wave_session_leaves st w \<noteq> []"
  shows "\<exists>resp st'. verify_session L lib C cfg (\<lambda>_. None) w st = (Reply 200 (Inr resp), st') \<and>
    sorted (map chain_order (vw_chain resp)) \<and> mset (map ce_leaf_index (vw_chain resp)) = mset (wave_session_leaves st w) \<and>
    vw_all_required_stages_present resp = all_required_stages_present (map ce_record (vw_chain resp)) \<and>
    (\<forall>e\<in>set (vw_chain resp). \<exists>side. e = chain_entry L (ce_leaf_index e) side \<and> committed Q L (ap_store st) (ce_leaf_index e) side)"
proof -
  from verify_session_ok[OF assms(2) log_contractsD(1,2)[OF assms(1)] assms(3), of cfg] obtain sides st' where v:
    "verify_session L lib C cfg (\<lambda>_. None) w st =
      (let chain = sort_key chain_order (map2 (chain_entry L) (wave_session_leaves st w) sides) in
       (Reply 200 (Inr \<lparr>vw_all_required_stages_present = all_required_stages_present (map ce_record chain), vw_chain = chain,
          vw_kernel_key_fingerprint_sha256 = ap_kernel_key_fingerprint_hex cfg, vw_ok = True,
          vw_transparency_log_ed25519_key_fingerprint_sha256 = ap_transparency_ed25519_key_fingerprint_hex cfg, vw_wave_id = w\<rparr>), st'))"
    "list_all2 (committed Q L (ap_store st)) (wave_session_leaves st w) sides" by blast
  have idx: "map ce_leaf_index (map2 (chain_entry L) is sides) = is" if "length is = length sides" for "is"
    using that by (induction "is" sides rule: list_induct2) (simp_all add: chain_entry_def)
  have len: "length (wave_session_leaves st w) = length sides" using v(2) by (rule list_all2_lengthD)
  have "mset (map ce_leaf_index (sort_key chain_order (map2 (chain_entry L) (wave_session_leaves st w) sides))) =
      mset (wave_session_leaves st w)"
    by (simp only: mset_map mset_sort) (simp only: idx[OF len] flip: mset_map)
  moreover have "\<forall>e\<in>set (map2 (chain_entry L) (wave_session_leaves st w) sides).
      \<exists>side. e = chain_entry L (ce_leaf_index e) side \<and> committed Q L (ap_store st) (ce_leaf_index e) side"
    using v(2) by (auto simp: list_all2_iff chain_entry_def set_zip) blast
  ultimately show ?thesis unfolding v(1) Let_def
    by (intro exI conjI, (rule refl | simp)+)
qed

section \<open>Properties\<close>

definition of_ledger :: "libs \<Rightarrow> mem_store \<Rightarrow> bytes \<Rightarrow> wave_session_leaf_side \<Rightarrow> bool" where
  "of_ledger L s p side \<longleftrightarrow> p \<in> set (ms_payloads s) \<and> carries L p side"

lemma committed_of_ledger:
  assumes "mem_inv (sha256 L) s" "inj_on (leaf_hash (sha256 L)) (set (ms_payloads s))" "committed (of_ledger L s) L s i side"
  shows "i < length (ms_payloads s) \<and> carries L (ms_payloads s ! i) side"
proof -
  from assms(3) obtain p where p: "i < length (ms_leaves s)" "leaf_hash (sha256 L) p = ml_hash (ms_leaves s ! i)"
    "p \<in> set (ms_payloads s)" "carries L p side" by (auto simp: committed_def of_ledger_def)
  moreover have "i < length (ms_payloads s)" using p(1) mem_inv_length[OF assms(1)] by simp
  ultimately have "p = ms_payloads s ! i"
    using mem_inv_hash[OF assms(1) p(1)] assms(2) by (metis inj_onD nth_mem)
  with p(4) \<open>i < length (ms_payloads s)\<close> show ?thesis by simp
qed

lemma carries_record:
  assumes "carries L (build_leaf_payload (canonical_bytes L r) h) side" "json_prints L (session_record_json r)"
    and "length (build_leaf_payload (canonical_bytes L r) h) < 2 ^ 64"
  shows "ls_record side = r \<and> ls_kernel_hmac side = h"
proof -
  have "length (canonical_bytes L r) + 40 < 2 ^ 64" using assms(3) by (simp add: build_leaf_payload_def)
  from split_build_leaf[OF this] assms(1) parse_canonical[OF assms(2)] show ?thesis by (auto simp: carries_def)
qed

lemma first_boot_inv: "lru_contract C \<Longrightarrow> wave_inv Q L lib C (first_boot C)"
  unfolding first_boot_def by (intro boot_state_inv) simp_all

lemma run_of_ledger:
  assumes "log_contracts L C" "ledger_grows L (ap_store (wave_run L lib C cfg evs (first_boot C))) t" "small_ledger t"
  shows "wave_inv (of_ledger L t) L lib C (wave_run L lib C cfg evs (first_boot C))"
  using run_invariant[where Q = "of_ledger L t", OF assms(1) first_boot_inv[OF log_contractsD(1)[OF assms(1)]], of lib cfg evs]
    small_before[OF assms(2,3)] payloads_before[OF assms(2)] by (auto simp: of_ledger_def)

lemma run_mem_inv: "mem_inv (sha256 L) (ap_store (wave_run L lib C cfg evs (first_boot C)))"
  using run_ledger[of L "first_boot C" lib C cfg evs]
  by (simp add: ledger_grows_def first_boot_def with_wave_session_detail_store_def app_state_new_def)

lemma append_indexed:
  assumes "log_contracts L C" "mem_inv (sha256 L) (ap_store st)"
    and "append_session L lib C cfg now None hdr body st = (Reply n (Inr r), st1)" "small_ledger (ap_store st1)"
  shows "indexed L cfg st1 (wr_wave_id (wq_record body)) (ws_leaf_index r) \<and>
    (\<exists>h. ms_payloads (ap_store st1) ! ws_leaf_index r = build_leaf_payload (canonical_bytes L (wq_record body)) h)"
proof -
  from assms(2) obtain side out where acc: "append_session_checks L lib cfg hdr body = Ok side"
    "fst (store_append (sha256 L) (ap_store st) (session_append_input L side)) = Ok out"
    "ap_store st1 = snd (store_append (sha256 L) (ap_store st) (session_append_input L side))"
    "ao_leaf_index out \<in> set (wave_session_leaves st1 (wr_wave_id (wq_record body)))" "ws_leaf_index r = ao_leaf_index out"
    by (cases rule: append_session_cases[of L st lib C cfg now None hdr body]) (use assms(3) in auto)
  note rec = append_checks_record[OF acc(1)]
  let ?i = "ao_leaf_index out" and ?p = "build_leaf_payload (canonical_bytes L (wq_record body)) (ls_kernel_hmac side)"
  have p: "?i < length (ms_payloads (ap_store st1))" "ms_payloads (ap_store st1) ! ?i = ?p"
    using mem_ledger.append_recorded[OF assms(2) acc(2)] rec acc(3) by (simp_all add: session_append_input_def)
  have "length ?p < 2 ^ 64" using assms(4) p by (metis list_all_length)
  then have "length (canonical_bytes L (ls_record side)) + 40 < 2 ^ 64" using rec by (simp add: build_leaf_payload_def)
  from carries_built[OF prints_sessionsD(1)[OF log_contractsD(3)[OF assms(1)]] this] have "carries L ?p side" using rec by simp
  from carries_reconstructed[OF this, of cfg] show ?thesis using acc(4,5) p rec by (auto simp: indexed_def)
qed

lemma chain_entry_framed:
  assumes "mem_inv (sha256 L) s" "inj_on (leaf_hash (sha256 L)) (set (ms_payloads s))"
    and "\<exists>side. e = chain_entry L (ce_leaf_index e) side \<and> committed (of_ledger L s) L s (ce_leaf_index e) side"
  shows "\<exists>rb hmac. ce_leaf_index e < length (ms_payloads s) \<and>
    split_leaf_payload (ms_payloads s ! ce_leaf_index e) = Ok (rb, hmac) \<and>
    parse_session_record L rb = Some (ce_record e) \<and> ce_kernel_hmac_hex e = hex_encode L (be_bytes hmac)"
proof -
  from assms(3) obtain side where e: "e = chain_entry L (ce_leaf_index e) side"
    and c: "committed (of_ledger L s) L s (ce_leaf_index e) side" by blast
  have "ce_record e = ls_record side" "ce_kernel_hmac_hex e = hex_encode L (be_bytes (ls_kernel_hmac side))"
    by (subst e, simp add: chain_entry_def)+
  then show ?thesis using committed_of_ledger[OF assms(1,2) c] by (auto simp: carries_def)
qed

text \<open>C9: after any run of the service (session appends of either signature type, token and audit
  appends, verifications, restarts with or without the side table) every wave with indexed leaves
  verifies with status 200: the chain has one entry per indexed leaf, in pipeline order with the
  leaf index as tie-breaker, and each entry is the record and the HMAC that the ledger payload of its
  leaf frames, provided no two payloads of the ledger share a leaf hash.\<close>

theorem wave_chain_committed:
  assumes "log_contracts L C" "st = wave_run L lib C cfg evs (first_boot C)" "small_ledger (ap_store st)"
    and "inj_on (leaf_hash (sha256 L)) (set (ms_payloads (ap_store st)))" "wave_session_leaves st w \<noteq> []"
  shows "\<exists>resp st'. verify_session L lib C cfg (\<lambda>_. None) w st = (Reply 200 (Inr resp), st') \<and>
    sorted (map chain_order (vw_chain resp)) \<and> mset (map ce_leaf_index (vw_chain resp)) = mset (wave_session_leaves st w) \<and>
    vw_all_required_stages_present resp = all_required_stages_present (map ce_record (vw_chain resp)) \<and>
    (\<forall>e\<in>set (vw_chain resp). \<exists>rb hmac. ce_leaf_index e < length (ms_payloads (ap_store st)) \<and>
       split_leaf_payload (ms_payloads (ap_store st) ! ce_leaf_index e) = Ok (rb, hmac) \<and>
       parse_session_record L rb = Some (ce_record e) \<and> ce_kernel_hmac_hex e = hex_encode L (be_bytes hmac))"
proof -
  let ?Q = "of_ledger L (ap_store st)"
  have mem: "mem_inv (sha256 L) (ap_store st)" unfolding assms(2) by (rule run_mem_inv)
  then have "ledger_grows L (ap_store st) (ap_store st)" by (simp add: ledger_grows_def)
  from run_of_ledger[OF assms(1), of lib cfg evs, folded assms(2), OF this assms(3)] have inv: "wave_inv ?Q L lib C st" .
  from verify_answers[OF assms(1) inv assms(5), of cfg] obtain resp st' where v:
    "verify_session L lib C cfg (\<lambda>_. None) w st = (Reply 200 (Inr resp), st')"
    "sorted (map chain_order (vw_chain resp))" "mset (map ce_leaf_index (vw_chain resp)) = mset (wave_session_leaves st w)"
    "vw_all_required_stages_present resp = all_required_stages_present (map ce_record (vw_chain resp))"
    "\<forall>e\<in>set (vw_chain resp). \<exists>side. e = chain_entry L (ce_leaf_index e) side \<and> committed ?Q L (ap_store st) (ce_leaf_index e) side"
    by blast
  show ?thesis
    by (rule exI[of _ resp], rule exI[of _ st']) (use v(1-4) chain_entry_framed[OF mem assms(4)] v(5) in blast)
qed

text \<open>C8: a session record that the log has accepted stays in the verified chain of its wave for ever:
  whatever happened before and whatever requests and restarts follow, verifying the wave succeeds
  and the chain holds the accepted record at the leaf index that the append reported.\<close>

theorem appended_session_stays_verifiable:
  assumes "log_contracts L C" "st = wave_run L lib C cfg evs (first_boot C)"
    and "append_session L lib C cfg now None hdr body st = (Reply n (Inr r), st1)"
    and "st2 = wave_run L lib C cfg evs' st1" "small_ledger (ap_store st2)"
    and "inj_on (leaf_hash (sha256 L)) (set (ms_payloads (ap_store st2)))"
  shows "\<exists>resp st3. verify_session L lib C cfg (\<lambda>_. None) (wr_wave_id (wq_record body)) st2 = (Reply 200 (Inr resp), st3) \<and>
    (\<exists>e\<in>set (vw_chain resp). ce_leaf_index e = ws_leaf_index r \<and> ce_record e = wq_record body)"
proof -
  let ?Q = "of_ledger L (ap_store st2)" and ?w = "wr_wave_id (wq_record body)" and ?i = "ws_leaf_index r"
  have mem0: "mem_inv (sha256 L) (ap_store st)" unfolding assms(2) by (rule run_mem_inv)
  have g1: "ledger_grows L (ap_store st) (ap_store st1)"
    using event_ledger[OF mem0, of lib C cfg "AppendSession now hdr body"] assms(3) by simp
  have g2: "ledger_grows L (ap_store st1) (ap_store st2)"
    unfolding assms(4) using g1 by (intro run_ledger) (simp add: ledger_grows_def)
  have st1: "st1 = wave_run L lib C cfg (evs @ [AppendSession now hdr body]) (first_boot C)" using assms(2,3) by simp
  from run_of_ledger[OF assms(1), of lib cfg "evs @ [AppendSession now hdr body]", folded st1, OF g2 assms(5)]
  have inv1: "wave_inv ?Q L lib C st1" .
  have run2: "wave_inv ?Q L lib C st2" "indexed L cfg st1 ?w i \<Longrightarrow> indexed L cfg st2 ?w i" for i
    using run_invariant[where Q = ?Q, OF assms(1) inv1, of cfg evs', folded assms(4)] assms(5) by (auto simp: of_ledger_def)
  have small1: "small_ledger (ap_store st1)" using small_before[OF g2 assms(5)] .
  from append_indexed[OF assms(1) mem0 assms(3) this] obtain h where ix1: "indexed L cfg st1 ?w ?i"
    and p: "ms_payloads (ap_store st1) ! ?i = build_leaf_payload (canonical_bytes L (wq_record body)) h" by blast
  have i: "?i < length (ms_payloads (ap_store st1))" and ix: "indexed L cfg st2 ?w ?i" using ix1 run2(2) by (auto simp: indexed_def)
  have len: "length (build_leaf_payload (canonical_bytes L (wq_record body)) h) < 2 ^ 64" using small1 p i by (metis list_all_length)
  from ix have ne: "wave_session_leaves st2 ?w \<noteq> []" by (auto simp: indexed_def)
  from verify_answers[OF assms(1) run2(1) ne, of cfg] obtain resp st3 where v:
    "verify_session L lib C cfg (\<lambda>_. None) ?w st2 = (Reply 200 (Inr resp), st3)"
    "mset (map ce_leaf_index (vw_chain resp)) = mset (wave_session_leaves st2 ?w)"
    "\<forall>e\<in>set (vw_chain resp). \<exists>side. e = chain_entry L (ce_leaf_index e) side \<and> committed ?Q L (ap_store st2) (ce_leaf_index e) side"
    by blast
  have "?i \<in> set (map ce_leaf_index (vw_chain resp))" using ix mset_eq_setD[OF v(2)] by (simp add: indexed_def)
  then obtain e where e: "e \<in> set (vw_chain resp)" "ce_leaf_index e = ?i" by auto
  have mem2: "mem_inv (sha256 L) (ap_store st2)" using g2 by (simp add: ledger_grows_def)
  have "ms_payloads (ap_store st2) ! ?i = build_leaf_payload (canonical_bytes L (wq_record body)) h"
    using g2 p i by (auto simp: ledger_grows_def prefix_def nth_append)
  with chain_entry_framed[OF mem2 assms(6) bspec[OF v(3) e(1)]] e(2) obtain rb hmac where
    "split_leaf_payload (build_leaf_payload (canonical_bytes L (wq_record body)) h) = Ok (rb, hmac)" "parse_session_record L rb = Some (ce_record e)"
    by auto
  with carries_record[of L "wq_record body" h "\<lparr>ls_record = ce_record e, ls_kernel_hmac = hmac, ls_ed25519_signature = None,
      ls_signature_type = Hmac, ls_key_fingerprint_hex = []\<rparr>", OF _ prints_sessionsD(1)[OF log_contractsD(3)[OF assms(1)]] len]
  have "ce_record e = wq_record body" by (simp add: carries_def)
  with v(1) e show ?thesis by blast
qed

text \<open>C33: a restart without the side table takes leaves on trust.  A payload that the token route
  accepted and that happens to be framed like a session leaf, for any record and any 32 bytes in the
  place of the HMAC, is served by the verify route as an HMAC-signed session of its wave, under the
  kernel's key fingerprint: neither the HMAC nor the stage key is checked on this path.\<close>

theorem restart_serves_unchecked_leaf:
  assumes "log_contracts L C" "st = wave_run L lib C cfg evs (first_boot C)"
    and "append_route L (ap_kernel_key_fingerprint_hex cfg) body (ap_store st) = (Reply n (Inr r), s1)"
    and "tlog_b64url_decode L (aq_token_b64 body) = Ok (build_leaf_payload (canonical_bytes L rec) hmac)"
    and "small_ledger s1" "inj_on (leaf_hash (sha256 L)) (set (ms_payloads s1))"
  shows "\<exists>resp st3. verify_session L lib C cfg (\<lambda>_. None) (wr_wave_id rec)
      (reboot L lib C cfg now False (st\<lparr>ap_store := s1\<rparr>)) = (Reply 200 (Inr resp), st3) \<and>
    \<lparr>ce_ed25519_signature_hex = None, ce_key_fingerprint_hex = ap_kernel_key_fingerprint_hex cfg,
     ce_kernel_hmac_hex = hex_encode L (be_bytes hmac), ce_leaf_index = as_leaf_index r, ce_record = rec, ce_signature_type = Hmac\<rparr>
      \<in> set (vw_chain resp)"
proof -
  let ?st1 = "st\<lparr>ap_store := s1\<rparr>" and ?p = "build_leaf_payload (canonical_bytes L rec) hmac" and ?i = "as_leaf_index r"
  let ?Q = "\<lambda>p d. p \<in> set (ms_payloads s1) \<and> reconstructed L cfg p = Some d"
  let ?side = "\<lparr>ls_record = rec, ls_kernel_hmac = hmac, ls_ed25519_signature = None, ls_signature_type = Hmac,
    ls_key_fingerprint_hex = ap_kernel_key_fingerprint_hex cfg\<rparr>"
  have mem0: "mem_inv (sha256 L) (ap_store st)" unfolding assms(2) by (rule run_mem_inv)
  note a = append_route_recorded[OF mem0 assms(3,4)]
  have len: "length (canonical_bytes L rec) + 40 < 2 ^ 64"
  proof -
    have "length ?p < 2 ^ 64" using assms(5) a(2,3) by (metis list_all_length)
    then show ?thesis by (simp add: build_leaf_payload_def)
  qed
  have rec: "reconstructed L cfg ?p = Some ?side"
    using split_build_leaf[OF len] parse_canonical[OF prints_sessionsD(1)[OF log_contractsD(3)[OF assms(1)]]]
    by (simp add: reconstructed_def)
  let ?st2 = "reboot L lib C cfg now False ?st1"
  have inv: "wave_inv ?Q L lib C ?st2 \<and> ap_store ?st2 = s1 \<and> ?i \<in> set (wave_session_leaves ?st2 (wr_wave_id rec))"
    using inv_reboot[where Q = ?Q and persistent = False and st = ?st1 and cfg = cfg, OF _ log_contractsD[OF assms(1)], of lib now] a rec by auto
  then have ne: "wave_session_leaves ?st2 (wr_wave_id rec) \<noteq> []" by auto
  from verify_answers[OF assms(1) conjunct1[OF inv] ne, of cfg] obtain resp st3 where v:
    "verify_session L lib C cfg (\<lambda>_. None) (wr_wave_id rec) ?st2 = (Reply 200 (Inr resp), st3)"
    "mset (map ce_leaf_index (vw_chain resp)) = mset (wave_session_leaves ?st2 (wr_wave_id rec))"
    "\<forall>e\<in>set (vw_chain resp). \<exists>d. e = chain_entry L (ce_leaf_index e) d \<and> committed ?Q L (ap_store ?st2) (ce_leaf_index e) d"
    by blast
  have "?i \<in> set (map ce_leaf_index (vw_chain resp))" using inv mset_eq_setD[OF v(2)] by simp
  then obtain e where e: "e \<in> set (vw_chain resp)" "ce_leaf_index e = ?i" by auto
  with v(3) inv obtain d where d: "e = chain_entry L ?i d" "committed ?Q L s1 ?i d" by fastforce
  then obtain p where p: "leaf_hash (sha256 L) p = ml_hash (ms_leaves s1 ! ?i)" "p \<in> set (ms_payloads s1)" "reconstructed L cfg p = Some d"
    by (auto simp: committed_def)
  have "ml_hash (ms_leaves s1 ! ?i) = leaf_hash (sha256 L) ?p" using mem_inv_hash[OF a(1)] a(2,3) mem_inv_length[OF a(1)] by auto
  then have "p = ?p" using p(1,2) assms(6) a(2,3) by (metis inj_onD nth_mem)
  then have "d = ?side" using p(3) rec by simp
  then show ?thesis using v(1) e(1) d(1) by (auto simp: chain_entry_def)
qed

section \<open>An instance\<close>

text \<open>
  A bounded cache in recency order, and a JSON printer that is injective up to the order of keys:
  the text of a value is as long as its number in an enumeration of all values, which starts with a
  chosen one.
\<close>

instance f64 :: countable
  by countable_datatype

instance jnum :: countable
  by countable_datatype

instance json :: countable
  by countable_datatype

definition sample_lru :: "(nat \<times> (nat \<times> wave_session_leaf_side) list) lru" where
  "sample_lru = \<lparr>lru_new = (\<lambda>n. (n - 1, [])),
     lru_get = (\<lambda>(n, kvs) k. (map_of kvs k, n, case map_of kvs k of None \<Rightarrow> kvs | Some v \<Rightarrow> (k, v) # filter (\<lambda>kv. fst kv \<noteq> k) kvs)),
     lru_put = (\<lambda>(n, kvs) k v. (n, take (Suc n) ((k, v) # filter (\<lambda>kv. fst kv \<noteq> k) kvs)))\<rparr>"

definition numbered_libs :: "json \<Rightarrow> libs" where
  "numbered_libs v = (sample_libs v)
     \<lparr>json_to_string := (\<lambda>x. replicate (if sort_value x = v then 0 else Suc (to_nat (sort_value x))) (CHR ''j'')),
      json_from_slice := (\<lambda>bs. Ok (if bs = [] then v else from_nat (length bs - 1)))\<rparr>"

lemma map_of_without: "map_of (filter (\<lambda>kv. fst kv \<noteq> k) kvs) j = (if j = k then None else map_of kvs j)"
  by (induction kvs) auto

lemma map_of_take: "map_of (take n kvs) j \<in> {None, map_of kvs j}"
  by (induction kvs arbitrary: n) (auto simp: take_Cons split: nat.split)

lemma sample_lru_contract: "lru_contract sample_lru"
proof -
  have "fst (lru_get sample_lru (snd (lru_get sample_lru c k)) j) = fst (lru_get sample_lru c j)" for c j k
    by (cases c) (auto simp: sample_lru_def map_of_without split: option.split)
  moreover have "fst (lru_get sample_lru (lru_put sample_lru c k v) j) \<in> {None, fst (lru_get sample_lru c j)}" if "j \<noteq> k" for c j k v
    using that map_of_take[of "fst c" "filter (\<lambda>kv. fst kv \<noteq> k) (snd c)" j]
    by (cases c) (auto simp: sample_lru_def map_of_without)
  ultimately show ?thesis by (auto simp: lru_contract_def sample_lru_def)
qed

lemma numbered_prints: "json_prints (numbered_libs v) x"
  by (simp add: json_prints_def numbered_libs_def as_bytes_def)

lemma numbered_contracts: "log_contracts (numbered_libs v) sample_lru"
  using sample_libs_contracts[of v] sample_lru_contract
  by (simp add: log_contracts_def prints_sessions_def numbered_prints) (simp add: hex_contract_def numbered_libs_def)

definition sample_session_record :: wave_session_record where
  "sample_session_record = \<lparr>wr_evidence = ''log'', wr_gate_surfaces = {}, wr_linear_issue = ''K-1'', wr_occurred_at_epoch_seconds = 100,
     wr_outcome = SoPass, wr_session_id = ''s'', wr_stage = Tested, wr_wave_id = ''w'', wr_written_by = ''test''\<rparr>"

definition session_libs :: libs where
  "session_libs = numbered_libs (session_record_json sample_session_record)"

definition sample_session_request :: append_wave_session_request where
  "sample_session_request = \<lparr>wq_ed25519_public_key_hex = None, wq_ed25519_signature_hex = None,
     wq_kernel_hmac_hex = base16_encode (be_bytes (1 :: hash32)), wq_kernel_key_fingerprint_sha256 = ''bb'',
     wq_record = sample_session_record, wq_signature_type = None\<rparr>"

definition sample_framed_token :: append_request where
  "sample_framed_token = \<lparr>aq_idempotency_key_hex = base16_encode (be_bytes (0 :: hash32)), aq_kernel_key_fingerprint_sha256 = ''bb'',
     aq_occurred_at_epoch_seconds = 100, aq_token_b64 = base16_encode (build_leaf_payload [] 9)\<rparr>"

lemma session_libs_simps:
  "canonical_bytes session_libs sample_session_record = []" "hex_decode session_libs = base16_decode" "b64url_decode session_libs = base16_decode"
  by (simp_all add: canonical_bytes_def session_libs_def numbered_libs_def sort_value_wf json_wf_session_record as_bytes_def sample_libs_def)

lemma sample_hex_to_32: "hex_to_32 session_libs (base16_encode (be_bytes (v :: hash32))) = Ok v"
  by (simp add: hex_to_32_def session_libs_simps trim_base16 base16_roundtrip)

lemma small_leaf: "list_all (\<lambda>p. length p < 2 ^ 64) [build_leaf_payload [] h]"
  by (simp add: build_leaf_payload_def)

lemma sample_session_appended:
  "\<exists>r st1. append_session session_libs sample_tlog_lib sample_lru sample_app_config (Finite 0) None None sample_session_request
     (first_boot sample_lru) = (Reply 201 (Inr r), st1) \<and> ms_payloads (ap_store st1) = [build_leaf_payload [] 1]"
proof -
  have "append_session_checks session_libs sample_tlog_lib sample_app_config None sample_session_request =
    Ok \<lparr>ls_record = sample_session_record, ls_kernel_hmac = 1, ls_ed25519_signature = None, ls_signature_type = Hmac, ls_key_fingerprint_hex = ''bb''\<rparr>"
    by (simp add: append_session_checks_def sample_session_request_def sample_hex_to_32 session_libs_simps check_stage_key_def
        check_signature_def requested_type_def verify_kernel_hmac_def sample_tlog_lib_def sample_app_config_def app_config_new_def
        sample_session_record_def[THEN arg_cong[of _ _ wr_stage]] sample_session_record_def[THEN arg_cong[of _ _ wr_written_by]]) code_simp
  then show ?thesis
    by (simp add: append_session_def first_boot_def with_wave_session_detail_store_def app_state_new_def store_append_def mem_store_new_def
        session_append_input_def session_libs_simps Let_def record_wave_session_leaf_def)
qed

theorem wave_chain_committed_witness:
  "\<exists>resp st'. verify_session session_libs sample_tlog_lib sample_lru sample_app_config (\<lambda>_. None) ''w''
     (wave_run session_libs sample_tlog_lib sample_lru sample_app_config
       [AppendSession (Finite 0) None sample_session_request] (first_boot sample_lru)) = (Reply 200 (Inr resp), st') \<and> vw_chain resp \<noteq> []"
proof -
  let ?st = "wave_run session_libs sample_tlog_lib sample_lru sample_app_config
    [AppendSession (Finite 0) None sample_session_request] (first_boot sample_lru)"
  from sample_session_appended obtain r st1 where
    a: "append_session session_libs sample_tlog_lib sample_lru sample_app_config (Finite 0) None None sample_session_request
     (first_boot sample_lru) = (Reply 201 (Inr r), st1)" "ms_payloads (ap_store st1) = [build_leaf_payload [] 1]" by blast
  have st: "?st = st1" using a(1) by simp
  have c: "log_contracts session_libs sample_lru" by (simp add: session_libs_def numbered_contracts)
  have small: "small_ledger (ap_store st1)" and inj: "inj_on (leaf_hash (sha256 session_libs)) (set (ms_payloads (ap_store st1)))"
    using small_leaf by (simp_all add: a(2))
  have "mem_inv (sha256 session_libs) (ap_store (first_boot sample_lru))"
    using run_mem_inv[of session_libs sample_tlog_lib sample_lru sample_app_config "[]"] by simp
  from append_indexed[OF c this a(1) small] have ne: "wave_session_leaves ?st ''w'' \<noteq> []"
    unfolding st by (auto simp: indexed_def sample_session_request_def sample_session_record_def)
  have "vw_chain resp \<noteq> []" if "mset (map ce_leaf_index (vw_chain resp)) = mset (wave_session_leaves ?st ''w'')" for resp
    using that ne by auto
  then show ?thesis
    using wave_chain_committed[OF c refl small[folded st] inj[folded st] ne] by meson
qed

theorem appended_session_stays_verifiable_witness:
  "\<exists>resp st3. verify_session session_libs sample_tlog_lib sample_lru sample_app_config (\<lambda>_. None) ''w''
     (wave_run session_libs sample_tlog_lib sample_lru sample_app_config
       [AppendSession (Finite 0) None sample_session_request, Restart (Finite 1) False] (first_boot sample_lru)) = (Reply 200 (Inr resp), st3) \<and>
   sample_session_record \<in> ce_record ` set (vw_chain resp)"
proof -
  from sample_session_appended obtain r st1 where
    a: "append_session session_libs sample_tlog_lib sample_lru sample_app_config (Finite 0) None None sample_session_request
     (first_boot sample_lru) = (Reply 201 (Inr r), st1)" "ms_payloads (ap_store st1) = [build_leaf_payload [] 1]" by blast
  have c: "log_contracts session_libs sample_lru" by (simp add: session_libs_def numbered_contracts)
  have small: "small_ledger (ap_store st1)" and inj: "inj_on (leaf_hash (sha256 session_libs)) (set (ms_payloads (ap_store st1)))"
    using small_leaf by (simp_all add: a(2))
  have w: "wq_record sample_session_request = sample_session_record" "wr_wave_id sample_session_record = ''w''"
    by (simp_all add: sample_session_request_def sample_session_record_def)
  have run: "wave_run session_libs sample_tlog_lib sample_lru sample_app_config [] (first_boot sample_lru) = first_boot sample_lru" by simp
  show ?thesis
    using appended_session_stays_verifiable[OF c run[symmetric] a(1), of _ "[Restart (Finite 1) False]", OF refl] small inj a(1)
    unfolding w by (auto simp: reboot_store) force
qed

lemma sample_token_decoded: "tlog_b64url_decode session_libs (aq_token_b64 sample_framed_token) = Ok (build_leaf_payload [] 9)"
proof -
  have "trim_end_matches (CHR ''='') (base16_encode (build_leaf_payload [] 9)) = base16_encode (build_leaf_payload [] 9)"
    by (rule trim_end_matches_id) (use base16_chars in blast)
  then show ?thesis by (simp add: sample_framed_token_def tlog_b64url_decode_def session_libs_simps trim_base16 base16_roundtrip)
qed

lemma sample_token_appended:
  "\<exists>r s1. append_route session_libs ''bb'' sample_framed_token mem_store_new = (Reply 201 (Inr r), s1) \<and> ms_payloads s1 = [build_leaf_payload [] 9]"
proof -
  have "to_ascii_lowercase (str_trim ''bb'') = to_ascii_lowercase ''bb''" by code_simp
  moreover have "length (build_leaf_payload [] 9) \<noteq> 0" by (simp add: build_leaf_payload_def)
  then have "build_leaf_payload [] 9 \<noteq> []" by fastforce
  moreover note sample_token_decoded
  ultimately have "append_checks session_libs ''bb'' sample_framed_token =
      Ok \<lparr>ai_idempotency_key = 0, ai_payload = build_leaf_payload [] 9, ai_occurred_at_epoch_seconds = 100\<rparr>"
    by (simp add: append_checks_def) (simp add: sample_framed_token_def sample_hex_to_32)
  then show ?thesis by (simp add: append_route_def store_append_def mem_store_new_def Let_def)
qed

theorem restart_serves_unchecked_leaf_witness:
  "\<exists>resp st3. verify_session session_libs sample_tlog_lib sample_lru sample_app_config (\<lambda>_. None) ''w''
     (reboot session_libs sample_tlog_lib sample_lru sample_app_config (Finite 1) False
       ((first_boot sample_lru)\<lparr>ap_store := snd (append_route session_libs ''bb'' sample_framed_token mem_store_new)\<rparr>)) = (Reply 200 (Inr resp), st3) \<and>
   sample_session_record \<in> ce_record ` set (vw_chain resp)"
proof -
  from sample_token_appended obtain r s1 where
    a: "append_route session_libs ''bb'' sample_framed_token mem_store_new = (Reply 201 (Inr r), s1)" "ms_payloads s1 = [build_leaf_payload [] 9]"
    by blast
  note d = sample_token_decoded[folded session_libs_simps(1)]
  have c: "log_contracts session_libs sample_lru" by (simp add: session_libs_def numbered_contracts)
  have cfg: "ap_kernel_key_fingerprint_hex sample_app_config = ''bb''" by (simp add: sample_app_config_def app_config_new_def)
  have run: "first_boot sample_lru = wave_run session_libs sample_tlog_lib sample_lru sample_app_config [] (first_boot sample_lru)" by simp
  have st: "ap_store (first_boot sample_lru) = mem_store_new"
    by (simp add: first_boot_def with_wave_session_detail_store_def app_state_new_def)
  have w: "wr_wave_id sample_session_record = ''w''" by (simp add: sample_session_record_def)
  have small: "small_ledger s1" and inj: "inj_on (leaf_hash (sha256 session_libs)) (set (ms_payloads s1))"
    using small_leaf by (simp_all add: a(2))
  from restart_serves_unchecked_leaf[OF c run, unfolded cfg st, OF a(1) d small inj, of "Finite 1"] obtain resp st3 e where
    "verify_session session_libs sample_tlog_lib sample_lru sample_app_config (\<lambda>_. None) (wr_wave_id sample_session_record)
      (reboot session_libs sample_tlog_lib sample_lru sample_app_config (Finite 1) False ((first_boot sample_lru)\<lparr>ap_store := s1\<rparr>)) =
      (Reply 200 (Inr resp), st3)" "e \<in> set (vw_chain resp)" "ce_record e = sample_session_record"
    by (metis wave_session_chain_entry.select_convs(5))
  then show ?thesis unfolding w a(1) snd_conv by (metis imageI)
qed

end
