(* ===== verification/Spec2Isabelle.thy ===== *)
theory Spec2Isabelle
  imports HashTree ProofLoops PyGate PySpawn Reconciler WaveRuns
begin

text \<open>
  \<^bold>\<open>Verification of the unfireable safety kernel.\<close>

  The program (\<^verbatim>\<open>src/crates\<close>, Rust, and \<^verbatim>\<open>src/py-defense\<close>, Python) keeps a kernel process between an agent
  and what the agent may do.  Applications ask the kernel before they act; the kernel asks a policy
  sidecar, signs its decisions and appends them to a transparency log; an operator can order an
  instance to be stopped, and a reaper outside the agent's reach pulls the order, verifies it and
  executes it.  Each theory below models one part, with the names of the source, as executable
  functions on records and datatypes; every handler is the whole handler, with its error branches.

  \<^bold>\<open>Conventions.\<close>  A Rust \<^verbatim>\<open>Result\<close> or a Python exception is a sum type (\<open>Ok\<close>, \<open>Err\<close>); a string is its
  UTF-8 byte sequence; \<^verbatim>\<open>u64\<close> values are 64-bit words where they wrap or saturate and naturals elsewhere; an
  \<^verbatim>\<open>f64\<close> is the type of theory \<^verbatim>\<open>F64\<close>, with IEEE rounding.  Mutable state behind a lock is a record that the
  handler returns updated.  Code that is not in the repository is a parameter: the record \<open>libs\<close> of theory
  \<^verbatim>\<open>Json\<close> has SHA-256, hex, base64, JSON printing and parsing and Ed25519, and other records have the regex
  crate, HMAC, the HTTP clients, the TLS library, the LRU cache and the Python decoders.  What the code
  relies on is stated as a contract (\<open>b64_contract\<close>, \<open>hex_contract\<close>, \<open>ed25519_contract\<close>, \<open>json_contract\<close>, \<open>json_prints\<close>,
  \<open>lru_contract\<close>, \<open>serde_flat\<close>, \<open>py_contract\<close>) that appears as a hypothesis and that a concrete instance satisfies
  (\<open>sample_libs\<close>, \<open>numbered_libs\<close>, \<open>hook_libs\<close>, \<open>gate_py\<close>).  Collision freedom of SHA-256 is assumed only for the inputs at hand.

  \<^bold>\<open>Shared theories.\<close>
  \<^item> \<^verbatim>\<open>Prelude\<close>: results, bytes, integer primitives.  \<^verbatim>\<open>F64\<close>: floating point.  \<^verbatim>\<open>Json\<close>: ordered maps, JSON values,
    canonical form, trimming and splitting of strings, the library record.

  \<^bold>\<open>Transparency log.\<close>
  \<^item> \<^verbatim>\<open>Merkle\<close>, \<^verbatim>\<open>Consistency\<close>, \<^verbatim>\<open>HashTree\<close>, \<^verbatim>\<open>ProofLoops\<close> (\<^verbatim>\<open>domain/src/transparency/merkle.rs\<close>): roots, inclusion and
    consistency proofs, the incremental tree, and the verification loops on machine words.  Proofs of
    the builders verify, verified proofs determine the leaf or the earlier tree, the incremental tree
    serves the same proofs (locale \<open>subtree_source\<close>), and each loop ends within 64 rounds, because it
    halves a 64-bit index.
  \<^item> \<^verbatim>\<open>Ledger\<close> (\<^verbatim>\<open>sth.rs\<close>, \<^verbatim>\<open>adapters/transparency_store\<close>): signed tree heads and the store; the trait contract is the
    locale \<open>transparency_store\<close>, interpreted by the in-memory store.
  \<^item> \<^verbatim>\<open>TLog\<close>, \<^verbatim>\<open>AuditRoutes\<close>, \<^verbatim>\<open>WaveDetail\<close>, \<^verbatim>\<open>WaveSession\<close>, \<^verbatim>\<open>WaveRuns\<close> (\<^verbatim>\<open>services/transparency-log/src\<close>): the routes, the
    framing of leaves, the in-process state with its side table, the wave-session routes and the
    rebuild at start.  Shown: an appended entry stays verifiable; an accepted session stays in the
    verified chain of its wave through any requests and restarts; audit leaves are signed and are
    never read as sessions; what a restart takes from the ledger unchecked.
  \<^item> \<^verbatim>\<open>TlogClient\<close>: the clients of the log and of the revoke queue.

  \<^bold>\<open>Kernel.\<close>
  \<^item> \<^verbatim>\<open>Token\<close>, \<^verbatim>\<open>Claims\<close> (\<^verbatim>\<open>domain/src/safety/token\<close>, \<^verbatim>\<open>claims.rs\<close>): signing and verification; the locale \<open>claim_set\<close> gives the
    round trip for each of the six claim sets.
  \<^item> \<^verbatim>\<open>PolicyClient\<close>, \<^verbatim>\<open>Authorize\<close>, \<^verbatim>\<open>PolicyRoutes\<close>, \<^verbatim>\<open>RevokeRoutes\<close>, \<^verbatim>\<open>KernelService\<close> (\<^verbatim>\<open>services/safety-kernel/src\<close>): the sidecar
    client, the key layer, every route, and the service that composes them.  Shown: when exactly an
    authorisation is issued and that it verifies, that module decisions leave the kernel signed,
    that only the operator key queues a kill, that a restore fences the kills minted before it
    (locale \<open>grant_generation_store\<close>), with the locked sections of concurrent revoke requests as the
    step relation \<open>revoke_step\<close>, and how a restore of another target of the same name defeats a kill.
  \<^item> \<^verbatim>\<open>KernelSettings\<close> (\<^verbatim>\<open>settings.rs\<close>, \<^verbatim>\<open>key_backend.rs\<close>, \<^verbatim>\<open>main.rs\<close>): start-up, and that production fails closed.

  \<^bold>\<open>Reaper\<close> (\<^verbatim>\<open>services/safety-kernel-reaper/src\<close>).
  \<^item> \<^verbatim>\<open>Revoke\<close>, \<^verbatim>\<open>NonceStore\<close> (locale \<open>seen_nonce_store\<close>), \<^verbatim>\<open>Executor\<close> (locale \<open>compute_executor\<close>), \<^verbatim>\<open>Reaper\<close>: the contract of an
    order, the seen-nonce file, the executors, and the poll loop as the step relation \<open>reaper_step\<close>.
    Shown: every call of the executor has a verified token or a failed pull past the deadline as its
    ground, an executed kill whose nonce was recorded is not executed again by the same process, the
    protected instances are never touched, a dark kernel leads to a fail-closed stop, and which
    writes of the nonce file a restart keeps.

  \<^bold>\<open>Applications.\<close>
  \<^item> \<^verbatim>\<open>Breaker\<close>, \<^verbatim>\<open>SdkClient\<close>, \<^verbatim>\<open>Middleware\<close> (\<^verbatim>\<open>adapters/safety_kernel_client\<close>, \<^verbatim>\<open>adapters/safety_kernel_middleware\<close>): circuit breaker,
    client and HTTP middleware (locale \<open>kernel_client\<close>), composed with the kernel.
  \<^item> \<^verbatim>\<open>PyHook\<close>, \<^verbatim>\<open>PySpawn\<close>, \<^verbatim>\<open>PyGate\<close> (\<^verbatim>\<open>src/py-defense/safety_kernel_defense\<close>): the audit hook composed with the kernel, the
    propagation to child processes, the Python gate with its breaker, and the revoke client.  Shown:
    under an armed hook that was registered only authorised events proceed, when exactly the gate
    forwards, which children run the hook and which do not (\<open>python_cli\<close> is CPython's documented
    reading of a command line).
  \<^item> \<^verbatim>\<open>Reconciler\<close> (\<^verbatim>\<open>services/safety-kernel-reconciler\<close>): image drift, and the requests it posts, composed with the
    key layer of the log, which refuses them.  \<^verbatim>\<open>Wave\<close> (\<^verbatim>\<open>domain/src/wave\<close>): the release ceremony as the type-state
    \<open>wave_at\<close>, with and without assignments to the public fields.

  \<^bold>\<open>This theory\<close> composes the parts: the request of an operator through the kernel's service, its queue, the
  reaper and its executor to the stopped instance.

  \<^bold>\<open>Bounds.\<close>  No model needs fuel except the loops of \<^verbatim>\<open>ProofLoops\<close>, whose 64 rounds are proved enough.  Ledger payloads
  are assumed shorter than \<open>2 ^ 64\<close> bytes where the framing writes their length, and trees have fewer than
  \<open>2 ^ 64\<close> leaves.

  \<^bold>\<open>Concurrency and restarts.\<close>  The breakers, the reaper and the revoke routes are taken step by step: the locked
  sections of the revoke handlers interleave freely in \<open>revoke_step\<close>, and the race of the tree-head route reads
  size and root from separate states.  Elsewhere a request is one step: \<open>kernel_run\<close> serves whole requests in
  sequence, \<open>wave_event_step\<close> appends to the ledger, the index and the side table at once and without faults
  of sqlite, and the Python gate takes one request at a time.  A restart of the log (\<open>reboot\<close>) keeps the
  ledger, as the Postgres store behind the same trait does; the in-memory store would start empty.

  \<^bold>\<open>Not modelled.\<close>
  \<^item> The Postgres store (\<^verbatim>\<open>postgres.rs\<close>): SQL behind the same trait contract.  The key generators
    (\<^verbatim>\<open>bin/\<close>), the clock and nonce adapters, TLS listeners, tracing and shutdown signals: input and output.
  \<^item> The settings and the boot sequence of the log service and the environment of the reaper other
    than its protected list; \<^verbatim>\<open>mcp_audit.rs\<close> and \<^verbatim>\<open>episodic_chain.rs\<close>, record types that no service of the repository calls.
  \<^item> Tests, benches, examples and the deployment files; the policy sidecar itself, which is not in
    the repository.
\<close>

section \<open>From the operator's request to the stopped instance\<close>

text \<open>Requests that leave a queued kill alone: they come before it expires, do not acknowledge it and do not
  restore an instance of its name.\<close>

definition spares :: "revoke_compute_claims \<Rightarrow> kernel_call \<Rightarrow> bool" where
  "spares c call \<longleftrightarrow> f64_lt (ke_now (call_env call)) (rc_expires_at c) \<and>
     (case call_request call of
        RqRevoke (ReqAck a) \<Rightarrow> aq_run_id a \<noteq> rc_run_id c
      | RqRevoke (ReqRestore q) \<Rightarrow> it_instance (rq_target q) \<noteq> it_instance (rc_target c)
      | _ \<Rightarrow> True)"

lemma spared_kill_stays:
  assumes "list_all (spares c) calls" "queued (it_instance (rc_target c)) p st" "pe_run_id p = rc_run_id c" "pe_expires_at p = rc_expires_at c"
  shows "queued (it_instance (rc_target c)) p (kernel_run app calls st) \<and>
    gen_current_for_instance (ks_generations (kernel_run app calls st)) (it_instance (rc_target c)) =
      gen_current_for_instance (ks_generations st) (it_instance (rc_target c))"
  using assms(1,2)
proof (induction calls arbitrary: st)
  case (Cons call calls)
  let ?i = "it_instance (rc_target c)" and ?st = "snd (kernel_service app call st)"
  have "queued ?i p ?st \<and> gen_current_for_instance (ks_generations ?st) ?i = gen_current_for_instance (ks_generations st) ?i"
    using service_stores[of app call st]
  proof (elim disjE exE conjE)
    assume "revocation_stores ?st = revocation_stores st"
    then show ?thesis using Cons.prems(2) by (simp add: queued_def)
  next
    fix role r
    assume r: "call_request call = RqRevoke r" "?st = revoke_service (app_libs app) (app_config app) (call_env call, role, r) st"
    have s: "f64_lt (ke_now (call_env call)) (pe_expires_at p)" "\<And>a. r = ReqAck a \<Longrightarrow> aq_run_id a \<noteq> pe_run_id p"
      "\<And>q. r = ReqRestore q \<Longrightarrow> it_instance (rq_target q) \<noteq> ?i"
      using Cons.prems(1) r(1) assms(3,4) by (auto simp: spares_def)
    show ?thesis unfolding r(2)
      using service_keeps_queued[OF Cons.prems(2) s(1,2)] service_keeps_generation[OF s(3)] by blast
  qed
  with Cons.IH[of ?st] Cons.prems(1) show ?case by (simp add: kernel_run_def)
qed (simp add: kernel_run_def)

lemma kernel_service_mint:
  assumes "call_request call = RqRevoke (ReqMint body)" "kernel_service app call st = (AnsSignedRevoke (KJson minted), st0)"
  shows "\<exists>role. mint_revoke (app_libs app) (app_config app) (call_env call) role body st = (KJson minted, st0)"
proof (cases "auth_layer (app_auth app) (request_path (call_request call)) (call_header call)")
  case (AuthCaller role)
  then have "apfst AnsSignedRevoke (mint_revoke (app_libs app) (app_config app) (call_env call) role body st) = (AnsSignedRevoke (KJson minted), st0)"
    using assms by (simp add: kernel_service_def)
  then show ?thesis by (cases "mint_revoke (app_libs app) (app_config app) (call_env call) role body st") auto
qed (use assms in \<open>simp_all add: kernel_service_def\<close>)

text \<open>C1: an accepted emergency stop is delivered and acted on.  The kernel has accepted an operator's kill of
  a target of whose instance name no other target was ever restored, and then serves any requests
  before the kill expires, revoke routes included, other than an acknowledgement of this kill and a
  restore of an instance of this name.  Then a pull by the reaper before the expiry receives the
  kill, with the generation it was minted for; and a reaper that pins the kernel's key, has not
  executed this kill yet and handles the token inside its window calls the executor's stop on
  exactly that target, and reports the kill as executed exactly when that call succeeds, and the
  error of the executor otherwise.\<close>

theorem accepted_kill_stops_instance:
  assumes "L = app_libs app" "b64_contract L" "hex_contract L" "ed25519_contract L" "json_contract L (JObject (revoke_compute_claims_map c))"
    and "kernel_inv st" "c = mint_claims L (app_config app) (call_env call) (ks_generations st) body"
    and "call_request call = RqRevoke (ReqMint body)" "kernel_service app call st = (AnsSignedRevoke (KJson minted), st0)"
    and "\<And>u. it_instance u = it_instance (mq_target body) \<Longrightarrow> u \<noteq> mq_target body \<Longrightarrow> gen_current (ks_generations st) u = 0"
    and "list_all (spares c) calls" "st1 = kernel_run app calls st0"
    and "auth_layer (app_auth app) ''/kernel/v1/revoke/pending'' (call_header pull) = AuthCaller ''reaper''"
    and "call_request pull = RqRevoke (ReqPending (it_instance (mq_target body)))" "f64_lt (ke_now (call_env pull)) (rc_expires_at c)"
    and "list_all graphic (ke_uuid (call_env call))" "str_trim (ke_nonce (call_env call)) \<noteq> []"
    and "f64_is_finite (rc_issued_at c)" "f64_is_finite (rc_expires_at c)"
    and "pk_pinned (rp_verifier r) = verifying_key L (kc_signing_key (app_config app))"
    and "in_window now_s (pk_leeway_seconds (rp_verifier r)) (rc_issued_at c) (rc_expires_at c)"
    and "\<not> is_seen (rst_store rst) (kill_key c)" "exec_stop (tk_ops tk) (rp_executor r) (mq_target body) (rst_calls rst) = (res, done_calls)"
  shows "\<exists>pulled rst'. fst (kernel_service app pull st1) = AnsPending (KJson pulled) \<and> sr_token minted \<in> set (pr_pending pulled) \<and>
    handle_pending_candidate L r tk (sr_token minted) (pr_current_grant_generation pulled) now_s rst =
      (case res of Inr out \<Rightarrow> Executed (rc_run_id c) out | Inl e \<Rightarrow> Rejected (ExecutorError (executor_error_to_string e)), rst') \<and>
    rst_calls rst' = done_calls"
proof -
  let ?cfg = "app_config app" and ?i = "it_instance (mq_target body)"
  have target: "rc_target c = mq_target body" "rc_run_id c = ''revoke_'' @ ke_uuid (call_env call)"
    by (simp_all add: assms(7) mint_claims_def Let_def)
  obtain role where role: "mint_revoke L ?cfg (call_env call) role body st = (KJson minted, st0)"
    using kernel_service_mint[OF assms(8,9)] assms(1) by blast
  then have m: "fst (mint_revoke L ?cfg (call_env call) role body st) = KJson minted" "snd (mint_revoke L ?cfg (call_env call) role body st) = st0"
    by simp_all
  note ok = mint_revoke_alone[OF m(1), unfolded m(2), folded assms(7)]
  let ?p = "\<lparr>pe_run_id = ''revoke_'' @ ke_uuid (call_env call), pe_token = sr_token minted, pe_expires_at = rc_expires_at c\<rparr>"
  obtain l0 where "map_of (ks_pending st0) ?i = Some (l0 @ [?p])" unfolding ok(6) using enqueue_lookup[of ?i] by blast
  then have "queued ?i ?p st0" by (simp add: queued_def)
  with spared_kill_stays[OF assms(11), of ?p st0 app] target
  have kept: "queued ?i ?p st1" "gen_current_for_instance (ks_generations st1) ?i = gen_current_for_instance (ks_generations st) ?i"
    by (simp_all add: assms(12) ok(5))
  have g: "gen_current_for_instance (ks_generations st1) ?i = rc_target_generation c"
    using mem_generations.unique_name_exact[of "ks_generations st" "mq_target body"] assms(6,7,10) kept(2) by (simp add: kernel_inv_def)
  obtain l where l: "map_of (ks_pending st1) ?i = Some l" "?p \<in> set l" using kept(1) by (auto simp: queued_def)
  have "f64_lt (ke_now (call_env pull)) (pe_expires_at ?p)" "''reaper'' = ''reaper'' \<or> ''reaper'' = ''operator''"
    using assms(15) by simp_all
  from pending_delivers[OF l this] obtain pulled where pull:
    "fst (pending_revoke_route (call_env pull) ''reaper'' ?i st1) = KJson pulled"
    "sr_token minted \<in> set (pr_pending pulled)" "pr_current_grant_generation pulled = rc_target_generation c"
    unfolding g pending_revoke.simps by blast
  have answer: "fst (kernel_service app pull st1) = AnsPending (KJson pulled)"
    using pull(1) assms(13,14) by (simp add: kernel_service_def)
  have "kill_checks L r (rst_store rst) (sr_token minted) (rc_target_generation c) now_s = Ok c"
    using minted_kill_token[OF assms(2-5,7,16-21)] assms(22) by (simp add: kill_checks_Ok ok(3))
  then have "\<exists>rst'. handle_pending_candidate L r tk (sr_token minted) (rc_target_generation c) now_s rst =
        (case res of Inr out \<Rightarrow> Executed (rc_run_id c) out | Inl e \<Rightarrow> Rejected (ExecutorError (executor_error_to_string e)), rst') \<and>
      rst_calls rst' = done_calls"
    using peek_signed_kill[OF assms(2,5), of "kc_signing_key ?cfg"] assms(23) target(1)
    by (cases res) (simp_all add: ok(3) handle_pending_candidate_def handle_kill_candidate_def action_defs Let_def)
  then show ?thesis using answer pull(2,3) by simp
qed

definition sample_pull :: kernel_call where
  "sample_pull = \<lparr>call_env = late_env, call_channel = sample_channel, call_header = Some ''r-key'',
     call_request = RqRevoke (ReqPending (it_instance sample_target))\<rparr>"

lemma sample_service_mint:
  "\<exists>minted st0. kernel_service sample_app (sample_call ''o-key'') kernel_state_init = (AnsSignedRevoke (KJson minted), st0)"
proof -
  obtain resp where "fst (mint_revoke kill_libs sample_config sample_env ''operator'' sample_mint kernel_state_init) = KJson resp"
    using sample_mint_ok[of kernel_state_init] by (auto simp: gen_current_def kernel_state_init_def)
  then have m: "mint_revoke kill_libs sample_config sample_env ''operator'' sample_mint kernel_state_init =
      (KJson resp, snd (mint_revoke kill_libs sample_config sample_env ''operator'' sample_mint kernel_state_init))"
    by (simp add: prod_eq_iff)
  have "auth_layer (app_auth sample_app) ''/kernel/v1/revoke/compute'' (Some ''o-key'') = AuthCaller ''operator''"
    by (simp add: auth_layer_def sample_app_def is_public_path_def unwrap_or_empty_def auth_role_def constant_time_eq_iff)
  then have "kernel_service sample_app (sample_call ''o-key'') kernel_state_init =
      apfst AnsSignedRevoke (mint_revoke kill_libs sample_config sample_env ''operator'' sample_mint kernel_state_init)"
    by (simp add: kernel_service_def sample_call_def, simp add: sample_app_def)
  then show ?thesis by (subst (asm) m) simp
qed

theorem accepted_kill_stops_instance_witness:
  "\<exists>minted st0 pulled rst'. kernel_service sample_app (sample_call ''o-key'') kernel_state_init = (AnsSignedRevoke (KJson minted), st0) \<and>
    fst (kernel_service sample_app sample_pull (kernel_run sample_app [sample_pull, sample_pull] st0)) = AnsPending (KJson pulled) \<and>
    handle_pending_candidate kill_libs (sample_reaper MockExecutor) good_tick (sr_token minted) (pr_current_grant_generation pulled)
      (Finite 120) sample_state = (Executed ''revoke_1'' \<lparr>so_instance = ''agent-vm'', so_op_id = ''mock-stop-agent-vm'', so_prev_state = ''RUNNING''\<rparr>, rst')"
proof -
  obtain minted st0 where m: "kernel_service sample_app (sample_call ''o-key'') kernel_state_init = (AnsSignedRevoke (KJson minted), st0)"
    using sample_service_mint by blast
  have app: "kill_libs = app_libs sample_app" "sample_config = app_config sample_app" by (simp_all add: sample_app_def)
  have req: "call_request (sample_call ''o-key'') = RqRevoke (ReqMint sample_mint)" "call_env (sample_call ''o-key'') = sample_env"
    by (simp_all add: sample_call_def)
  have t: "mq_target sample_mint = sample_target" by (simp add: sample_mint_def)
  have c: "sample_kill = mint_claims kill_libs (app_config sample_app) (call_env (sample_call ''o-key'')) (ks_generations kernel_state_init) sample_mint"
    unfolding req(2) app(2)[symmetric] by (rule sample_mint_claims[symmetric]) (simp add: gen_current_def kernel_state_init_def)
  have reaper: "auth_layer (app_auth sample_app) ''/kernel/v1/revoke/pending'' (call_header sample_pull) = AuthCaller ''reaper''"
    by (simp add: auth_layer_def sample_pull_def sample_app_def is_public_path_def unwrap_or_empty_def auth_role_def constant_time_eq_iff)
  have pull: "call_request sample_pull = RqRevoke (ReqPending (it_instance (mq_target sample_mint)))" by (simp add: sample_pull_def t)
  have live: "f64_lt (ke_now (call_env sample_pull)) (rc_expires_at sample_kill)" by (simp add: sample_pull_def late_env_def sample_kill_def)
  have ids: "list_all graphic (ke_uuid (call_env (sample_call ''o-key'')))" "str_trim (ke_nonce (call_env (sample_call ''o-key''))) \<noteq> []"
    by (simp_all add: sample_call_def, simp_all add: sample_env_def graphic_def str_trim_graphic)
  have win: "in_window (Finite 120) (pk_leeway_seconds (rp_verifier (sample_reaper MockExecutor))) (rc_issued_at sample_kill) (rc_expires_at sample_kill)"
    by (simp add: sample_reaper_def from_pubkey_bytes_def sample_kill_def in_window_sample)
  have fresh: "\<not> is_seen (rst_store sample_state) (kill_key sample_kill)" by (simp add: sample_state_def mem_is_seen_def)
  have stop: "exec_stop (tk_ops good_tick) (rp_executor (sample_reaper MockExecutor)) (mq_target sample_mint) (rst_calls sample_state) =
      (Inr \<lparr>so_instance = ''agent-vm'', so_op_id = ''mock-stop-agent-vm'', so_prev_state = ''RUNNING''\<rparr>, [(''stop'', sample_target)])"
    by (simp add: t exec_stop_def sample_reaper_def mock_op_def sample_target_def sample_state_def)
  have key: "pk_pinned (rp_verifier (sample_reaper MockExecutor)) = verifying_key kill_libs (kc_signing_key (app_config sample_app))"
    using sample_kill_libs(6) by (simp add: app(2))
  have hex: "hex_contract kill_libs" by (simp add: kill_libs_def sample_libs_contracts)
  have run: "rc_run_id sample_kill = ''revoke_1''" by (simp add: sample_kill_def)
  have uniq: "gen_current (ks_generations kernel_state_init) u = 0" for u by (simp add: gen_current_def kernel_state_init_def)
  let ?calls = "[sample_pull, sample_pull]"
  have spared: "list_all (spares sample_kill) ?calls"
    by (simp add: spares_def sample_pull_def late_env_def sample_kill_def)
  show ?thesis
    using accepted_kill_stops_instance[OF app(1) sample_kill_libs(1) hex sample_kill_libs(2,3) kernel_inv_init c req(1) m uniq
        spared refl reaper pull live ids sample_kill_libs(4,5) key win fresh stop] m
    unfolding run by auto
qed

end
